(* ===== verification/Doubles.thy ===== *)
theory Doubles
  imports Complex_Main
begin

text \<open>
  JavaScript numbers. A finite double is the rational it stands for; \<open>round_double\<close> rounds an exact result
  to the nearest double with 53 bits of precision, on a tie to the one whose last bit is zero, with the
  subnormal numbers below \<open>2^-1022\<close> and with the infinities above the largest double. The components apply
  it where the sources read a number from text, multiply, divide or subtract. The two zeros are one value.
\<close>

section \<open>Numbers\<close>

datatype jsnum = NaN | PInf | NInf | Fin rat

definition is_finite :: "jsnum \<Rightarrow> bool" where
  "is_finite n = (case n of Fin _ \<Rightarrow> True | _ \<Rightarrow> False)"

definition fin_or_zero :: "jsnum \<Rightarrow> rat" where
  "fin_or_zero n = (case n of Fin q \<Rightarrow> q | _ \<Rightarrow> 0)"

section \<open>Rounding\<close>

function bit_length :: "int \<Rightarrow> int" where
  "bit_length n = (if n \<le> 0 then 0 else 1 + bit_length (n div 2))"
  by auto
termination
  by (relation "measure nat") auto

declare bit_length.simps [simp del]

definition pow2 :: "int \<Rightarrow> rat" where
  "pow2 k = (if 0 \<le> k then 2 ^ nat k else 1 / 2 ^ nat (- k))"

text \<open>The integer nearest to a rational, the even one on a tie.\<close>

definition round_even :: "rat \<Rightarrow> int" where
  "round_even x =
     (let f = \<lfloor>x\<rfloor>; d = x - of_int f
      in if d < 1 / 2 \<or> d = 1 / 2 \<and> even f then f else f + 1)"

text \<open>The exponent of a positive rational: the \<open>e\<close> with \<open>2^e <= a < 2^(e+1)\<close>.\<close>

definition binary_exponent :: "rat \<Rightarrow> int" where
  "binary_exponent a =
     (let (p, q) = quotient_of a; e = bit_length p - bit_length q
      in if pow2 e \<le> a then e else e - 1)"

definition ulp_exponent :: "rat \<Rightarrow> int" where
  "ulp_exponent a = max (binary_exponent a - 52) (- 1074)"

definition round_positive :: "rat \<Rightarrow> rat" where
  "round_positive a = (let k = ulp_exponent a in of_int (round_even (a / pow2 k)) * pow2 k)"

definition round_double :: "rat \<Rightarrow> jsnum" where
  "round_double x =
     (if x = 0 then Fin 0
      else let r = round_positive \<bar>x\<bar>
           in if pow2 1024 \<le> r then (if x < 0 then NInf else PInf) else Fin (if x < 0 then - r else r))"

section \<open>Lemmas on rounding\<close>

lemma pow2_pos [simp]: "0 < pow2 k"
  by (simp add: pow2_def)

lemma pow2_nonzero [simp]: "pow2 k \<noteq> 0"
  using pow2_pos [of k] by linarith

lemma pow2_of_nat [simp]: "pow2 (int n) = 2 ^ n"
  by (simp add: pow2_def)

lemma pow2_0 [simp]: "pow2 0 = 1"
  by (simp add: pow2_def)

lemma pow2_powi: "pow2 k = 2 powi k"
  by (simp add: pow2_def power_int_def field_simps)

lemma pow2_add: "pow2 (j + k) = pow2 j * pow2 k"
  by (simp add: pow2_powi power_int_add)

lemma pow2_diff: "pow2 (j - k) = pow2 j / pow2 k"
  using pow2_add [of "j - k" k] by (simp add: field_simps)

lemma pow2_less_iff [simp]: "pow2 j < pow2 k \<longleftrightarrow> j < k"
proof -
  have up: "pow2 j < pow2 k" if "j < k" for j k
  proof -
    have "1 < pow2 (k - j)" using that by (simp add: pow2_def)
    with pow2_add [of j "k - j"] show ?thesis by simp
  qed
  show ?thesis using up [of j k] up [of k j] by (cases j k rule: linorder_cases) auto
qed

lemma pow2_le_iff [simp]: "pow2 j \<le> pow2 k \<longleftrightarrow> j \<le> k"
  by (simp add: not_less [symmetric])

lemma bit_length_pos: "0 < p \<Longrightarrow> 0 < bit_length p"
proof -
  have "0 \<le> bit_length n" for n by (induction n rule: bit_length.induct) (subst bit_length.simps, simp)
  then show "0 < p \<Longrightarrow> ?thesis" by (subst bit_length.simps) (simp add: add_pos_nonneg)
qed

lemma bit_length_bounds: "0 < p \<Longrightarrow> 2 ^ nat (bit_length p - 1) \<le> p \<and> p < 2 ^ nat (bit_length p)"
proof (induction p rule: bit_length.induct)
  case (1 p)
  have step: "bit_length p = 1 + bit_length (p div 2)" using 1(2) by (simp add: bit_length.simps [of p])
  show ?case
  proof (cases "p = 1")
    case True
    then show ?thesis by (simp add: bit_length.simps)
  next
    case False
    with 1(2) have h: "0 < p div 2" by (simp add: pos_imp_zdiv_pos_iff)
    with 1 have ih: "2 ^ nat (bit_length (p div 2) - 1) \<le> p div 2" "p div 2 < 2 ^ nat (bit_length (p div 2))"
      by auto
    have "nat (bit_length (p div 2)) = Suc (nat (bit_length (p div 2) - 1))"
      "nat (bit_length p) = Suc (nat (bit_length (p div 2)))" "nat (bit_length p - 1) = nat (bit_length (p div 2))"
      using bit_length_pos [OF h] by (simp_all add: step)
    then have e: "(2::int) ^ nat (bit_length (p div 2)) = 2 * 2 ^ nat (bit_length (p div 2) - 1)"
      "(2::int) ^ nat (bit_length p) = 2 * 2 ^ nat (bit_length (p div 2))"
      "(2::int) ^ nat (bit_length p - 1) = 2 ^ nat (bit_length (p div 2))" by simp_all
    show ?thesis unfolding e(2,3) using ih e(1) by linarith
  qed
qed

lemma bit_length_rat:
  assumes "0 < p"
  shows "pow2 (bit_length p - 1) \<le> of_int p" and "of_int p < pow2 (bit_length p)"
proof -
  have "(of_int (2 ^ nat (bit_length p - 1)) :: rat) \<le> of_int p" "(of_int p :: rat) < of_int (2 ^ nat (bit_length p))"
    using bit_length_bounds [OF assms] by (simp_all only: of_int_le_iff of_int_less_iff)
  then show "pow2 (bit_length p - 1) \<le> of_int p" "of_int p < pow2 (bit_length p)"
    using bit_length_pos [OF assms] by (simp_all add: pow2_def)
qed

lemma binary_exponent_bounds:
  assumes "0 < a"
  shows "pow2 (binary_exponent a) \<le> a \<and> a < pow2 (binary_exponent a + 1)"
proof -
  obtain p q where pq: "quotient_of a = (p, q)" by (cases "quotient_of a")
  then have a: "a = of_int p / of_int q" and q: "0 < q" using quotient_of_div quotient_of_denom_pos by auto
  with assms have p: "0 < p" by (simp add: zero_less_divide_iff)
  let ?P = "bit_length p" and ?Q = "bit_length q"
  have "pow2 (?P - 1) / pow2 ?Q \<le> a"
    unfolding a using bit_length_rat [OF p] bit_length_rat [OF q] q p by (intro frac_le) auto
  moreover have "pow2 (?P - 1) / pow2 ?Q = pow2 (?P - ?Q - 1)" by (simp only: pow2_diff [symmetric] algebra_simps)
  ultimately have lo: "pow2 (?P - ?Q - 1) \<le> a" by simp
  have "a < pow2 ?P / pow2 (?Q - 1)"
    unfolding a using bit_length_rat [OF p] bit_length_rat [OF q] q p by (intro frac_less) auto
  moreover have "pow2 ?P / pow2 (?Q - 1) = pow2 (?P - ?Q + 1)" by (simp only: pow2_diff [symmetric] algebra_simps)
  ultimately have hi: "a < pow2 (?P - ?Q + 1)" by simp
  show ?thesis using lo hi by (auto simp: binary_exponent_def pq Let_def)
qed

lemma round_even_int [simp]: "round_even (of_int m) = m"
  by (simp add: round_even_def Let_def)

lemma round_even_near: "\<bar>of_int (round_even x) - x\<bar> \<le> 1 / 2"
proof -
  have "of_int \<lfloor>x\<rfloor> \<le> x" "x < of_int \<lfloor>x\<rfloor> + 1" by linarith+
  then show ?thesis unfolding round_even_def Let_def by (simp add: abs_le_iff)
qed

lemma round_even_ge: "of_int m \<le> x \<Longrightarrow> m \<le> round_even x"
  by (simp add: round_even_def Let_def le_floor_iff [symmetric])

lemma round_even_le: "x \<le> of_int m \<Longrightarrow> round_even x \<le> m"
proof -
  assume x: "x \<le> of_int m"
  show ?thesis
  proof (cases "x = of_int m")
    case False
    with x have "\<lfloor>x\<rfloor> < m" by (simp add: floor_less_iff)
    then show ?thesis by (simp add: round_even_def Let_def)
  qed simp
qed

lemma round_positive_nonneg: "0 \<le> a \<Longrightarrow> 0 \<le> round_positive a"
proof -
  assume "0 \<le> a"
  then have "0 \<le> round_even (a / pow2 (ulp_exponent a))" by (intro round_even_ge) (simp add: less_imp_le)
  then show ?thesis by (simp add: round_positive_def Let_def less_imp_le)
qed

text \<open>A rational on the grid of its binade is a double.\<close>

lemma round_positive_grid:
  assumes "ulp_exponent a \<le> j" and "a = of_int m * pow2 j"
  shows "round_positive a = a"
proof -
  have "a / pow2 (ulp_exponent a) = of_int m * pow2 (j - ulp_exponent a)"
    by (simp add: assms(2) pow2_diff)
  also have "\<dots> = of_int (m * 2 ^ nat (j - ulp_exponent a))" using assms(1) by (simp add: pow2_def)
  finally have "round_even (a / pow2 (ulp_exponent a)) = m * 2 ^ nat (j - ulp_exponent a)"
    by (simp only: round_even_int)
  then have "round_positive a = of_int m * (2 ^ nat (j - ulp_exponent a) * pow2 (ulp_exponent a))"
    by (simp add: round_positive_def Let_def)
  also have "2 ^ nat (j - ulp_exponent a) = pow2 (j - ulp_exponent a)" using assms(1) by (simp add: pow2_def)
  also have "\<dots> * pow2 (ulp_exponent a) = pow2 j" by (simp add: pow2_diff)
  finally show ?thesis using assms(2) by simp
qed

lemma ulp_exponent_le:
  assumes "0 < m" and "m < 2 ^ 53" and "- 1074 \<le> j"
  shows "ulp_exponent (of_int m * pow2 j) \<le> j"
proof -
  let ?a = "of_int m * pow2 j"
  have "(of_int m :: rat) < of_int (2 ^ 53)" using assms(2) by (simp only: of_int_less_iff)
  also have "\<dots> = pow2 53" by (simp add: pow2_def)
  finally have "?a < pow2 53 * pow2 j" by simp
  moreover have "0 < ?a" using assms(1) by simp
  then have "pow2 (binary_exponent ?a) \<le> ?a" using binary_exponent_bounds by blast
  ultimately have "pow2 (binary_exponent ?a) < pow2 (53 + j)" unfolding pow2_add by linarith
  then show ?thesis using assms(3) by (simp add: ulp_exponent_def)
qed

text \<open>Every multiple \<open>m * 2^j\<close> with at most 53 bits, below the overflow threshold, is read as it is.\<close>

lemma round_double_fixed: "round_positive \<bar>x\<bar> = \<bar>x\<bar> \<Longrightarrow> \<bar>x\<bar> < pow2 1024 \<Longrightarrow> round_double x = Fin x"
  by (simp add: round_double_def Let_def)

theorem round_double_exact:
  assumes "\<bar>m\<bar> < 2 ^ 53" and "- 1074 \<le> j" and "\<bar>of_int m * pow2 j\<bar> < pow2 1024"
  shows "round_double (of_int m * pow2 j) = Fin (of_int m * pow2 j)"
proof (cases "m = 0")
  case False
  have e: "\<bar>of_int m * pow2 j\<bar> = of_int \<bar>m\<bar> * pow2 j" by (simp add: abs_mult less_imp_le)
  show ?thesis
  proof (rule round_double_fixed)
    show "round_positive \<bar>of_int m * pow2 j\<bar> = \<bar>of_int m * pow2 j\<bar>"
      unfolding e using False assms
      by (intro round_positive_grid [where j = j and m = "\<bar>m\<bar>", OF ulp_exponent_le]) auto
  qed (rule assms(3))
qed (simp add: round_double_def)

lemma round_double_int: "\<bar>i\<bar> < 2 ^ 53 \<Longrightarrow> round_double (of_int i) = Fin (of_int i)"
proof -
  assume i: "\<bar>i\<bar> < 2 ^ 53"
  then have "(of_int \<bar>i\<bar> :: rat) < of_int (2 ^ 53)" by (simp only: of_int_less_iff)
  also have "\<dots> = pow2 53" by (simp add: pow2_def)
  also have "\<dots> < pow2 1024" by simp
  finally show ?thesis using round_double_exact [of i 0] i by simp
qed

lemma round_double_nat: "n < 2 ^ 53 \<Longrightarrow> round_double (of_nat n) = Fin (of_nat n)"
proof -
  assume "n < 2 ^ 53"
  then have "int n < int (2 ^ 53)" by (simp only: of_nat_less_iff)
  then have "\<bar>int n\<bar> < 2 ^ 53" by simp
  from round_double_int [OF this] show ?thesis by simp
qed

lemma round_double_numeral [simp]: "(numeral n :: int) < 2 ^ 53 \<Longrightarrow> round_double (numeral n) = Fin (numeral n)"
  using round_double_int [of "numeral n"] by simp

lemma round_double_0_1 [simp]: "round_double 0 = Fin 0" "round_double 1 = Fin 1"
  using round_double_int [of 0] round_double_int [of 1] by simp_all

lemma round_double_nonneg: "0 \<le> x \<Longrightarrow> round_double x = PInf \<or> (\<exists>y\<ge>0. round_double x = Fin y)"
  using round_positive_nonneg [of x] by (simp add: round_double_def Let_def)

text \<open>Rounding a quotient of whole numbers below \<open>2^53\<close> does not reach the next whole number.\<close>

lemma round_positive_near: "\<bar>round_positive a - a\<bar> \<le> pow2 (ulp_exponent a) / 2"
proof -
  let ?p = "pow2 (ulp_exponent a)"
  have "\<bar>of_int (round_even (a / ?p)) - a / ?p\<bar> * ?p \<le> 1 / 2 * ?p"
    by (rule mult_right_mono [OF round_even_near]) (simp add: less_imp_le)
  moreover have "\<bar>of_int (round_even (a / ?p)) - a / ?p\<bar> * ?p = \<bar>(of_int (round_even (a / ?p)) - a / ?p) * ?p\<bar>"
    by (simp add: abs_mult less_imp_le)
  moreover have "(of_int (round_even (a / ?p)) - a / ?p) * ?p = round_positive a - a"
    by (simp add: round_positive_def Let_def left_diff_distrib)
  ultimately show ?thesis by simp
qed

lemma round_positive_ge: "of_int m \<le> a \<Longrightarrow> ulp_exponent a \<le> 0 \<Longrightarrow> of_int m \<le> round_positive a"
proof -
  assume m: "of_int m \<le> a" and k: "ulp_exponent a \<le> 0"
  let ?p = "pow2 (ulp_exponent a)" and ?w = "2 ^ nat (- ulp_exponent a) :: int"
  have p: "?p * of_int ?w = 1" using k by (auto simp: pow2_def)
  have "of_int (m * ?w) * ?p \<le> a" using m p by (simp add: mult.assoc mult.commute [of ?p])
  then have "of_int (m * ?w) \<le> a / ?p" by (simp only: pos_le_divide_eq [OF pow2_pos])
  then have "m * ?w \<le> round_even (a / ?p)" by (rule round_even_ge)
  then have "(of_int (m * ?w) :: rat) \<le> of_int (round_even (a / ?p))" by (simp only: of_int_le_iff)
  then have "of_int (m * ?w) * ?p \<le> of_int (round_even (a / ?p)) * ?p" by (simp add: less_imp_le)
  with p show ?thesis by (simp add: round_positive_def Let_def mult.assoc mult.commute [of ?p])
qed

theorem floor_round_quotient:
  fixes m d :: nat
  assumes "m < 2 ^ 53" and "0 < d" and "d < 2 ^ 53"
  shows "\<exists>y. round_double (of_nat m / of_nat d) = Fin y \<and> \<lfloor>y\<rfloor> = int (m div d)"
proof (cases "m = 0")
  case False
  let ?x = "of_nat m / of_nat d :: rat" and ?k = "ulp_exponent (of_nat m / of_nat d)"
  have x: "0 < ?x" using False assms(2) by simp
  have m: "(of_nat m :: rat) < pow2 53"
  proof -
    have "(of_nat m :: rat) < of_nat (2 ^ 53)" using assms(1) by (simp only: of_nat_less_iff)
    then show ?thesis by (simp add: pow2_def)
  qed
  have "(of_nat (1 * m) :: rat) \<le> of_nat (d * m)" using assms(2) by (simp only: of_nat_le_iff mult_le_mono1 Suc_leI One_nat_def)
  then have "?x \<le> of_nat m" using assms(2) by (simp add: field_simps)
  then have be: "pow2 (binary_exponent ?x) \<le> ?x" "?x < pow2 53" using binary_exponent_bounds [OF x] m by auto
  then have "pow2 (binary_exponent ?x) < pow2 53" by (rule le_less_trans)
  then have k0: "?k \<le> 0" by (simp add: ulp_exponent_def)
  have fl: "\<lfloor>?x\<rfloor> = int (m div d)" by (simp add: floor_divide_of_nat_eq)
  have lo: "of_int (int (m div d)) \<le> round_positive ?x"
  proof (rule round_positive_ge [OF _ k0])
    show "of_int (int (m div d)) \<le> ?x" using fl by (metis of_int_floor_le)
  qed
  have ulp: "pow2 ?k / 2 < 1 / of_nat d"
  proof (cases "binary_exponent ?x - 52 \<le> - 1074")
    case True
    then have "pow2 ?k \<le> pow2 (- 53)" by (simp add: ulp_exponent_def)
    also have "\<dots> < 1 / of_nat d"
    proof -
      have "(of_nat d :: rat) < of_nat (2 ^ 53)" using assms(3) by (simp only: of_nat_less_iff)
      then show ?thesis using assms(2) by (simp add: pow2_def field_simps)
    qed
    finally show ?thesis using pow2_pos [of ?k] by linarith
  next
    case False
    then have "?k = binary_exponent ?x + - 52" by (simp add: ulp_exponent_def)
    then have "pow2 ?k = pow2 (binary_exponent ?x) * pow2 (- 52)" by (simp only: pow2_add)
    also have "\<dots> \<le> ?x * pow2 (- 52)" using be(1) by (intro mult_right_mono) (auto simp: less_imp_le)
    also have "\<dots> < pow2 53 * pow2 (- 52) / of_nat d"
      using m assms(2) by (simp add: divide_strict_right_mono)
    also have "pow2 53 * pow2 (- 52) = 2" by (simp add: pow2_def)
    finally show ?thesis by simp
  qed
  have "?x + 1 / of_nat d \<le> of_int (int (m div d) + 1)"
  proof -
    have "m + 1 \<le> d * (m div d + 1)" using assms(2) dividend_less_times_div [of d m] by simp
    then have "(of_nat (m + 1) :: rat) \<le> of_nat (d * (m div d + 1))" by (simp only: of_nat_le_iff)
    then show ?thesis using assms(2) by (simp add: field_simps)
  qed
  with ulp round_positive_near [of ?x] have "round_positive ?x < of_int (int (m div d) + 1)" by linarith
  with lo have "\<lfloor>round_positive ?x\<rfloor> = int (m div d)" by (simp add: floor_eq_iff)
  moreover have "round_positive ?x < pow2 1024"
  proof -
    have "1 / of_nat d \<le> (1 :: rat)" using assms(2) by simp
    then have "round_positive ?x \<le> pow2 53 + 1" using round_positive_near [of ?x] be(2) ulp by linarith
    also have "\<dots> < pow2 54" by (simp add: pow2_def)
    also have "\<dots> < pow2 1024" by simp
    finally show ?thesis .
  qed
  ultimately show ?thesis using x by (simp add: round_double_def)
qed simp

end
