(* ===== verification/Prelude.thy ===== *)
theory Prelude
  imports
    Doubles
    "HOL-Library.AList"
    "HOL-Library.Multiset"
    "HOL-Library.Char_ord"
    "HOL-Library.List_Lexorder"
begin

text \<open>
  The part of JavaScript that the console, the playground and the wiki search use, as HOL
  functions shared by every component.

  \<^item> A JavaScript string is a \<open>string\<close> (a list of characters). The alphabet is the 256
    characters of HOL; the one character the sources use outside Latin-1, the ellipsis
    U+2026, is represented by the code 133. Upper and lower case act on the letters of ASCII.
  \<^item> A JavaScript number is a \<open>jsnum\<close> (theory Doubles): a rational, or one of NaN and the two
    infinities. Numbers read from a text are rounded to doubles, and a number is printed with the
    fewest digits that are read back as the same double.
  \<^item> A dynamically typed value (a parsed JSON body, a step or a workflow object) is a
    \<open>jsval\<close>; \<open>field\<close> reads a property, \<open>truthy\<close> and \<open>jor\<close> are the language's
    truthiness and \<open>||\<close>.
  \<^item> A \<open>Map\<close>, an object used as a dictionary and a \<open>Storage\<close> are association lists in
    insertion order, with \<open>AList.update\<close> and \<open>AList.delete\<close>; \<open>keyed_store\<close> is the
    interface the components rely on.
\<close>

named_theorems js_defs "definitions of the JavaScript library functions"
named_theorems inv_intros "preservation of component invariants"

section \<open>Values\<close>

datatype jsval =
    JUndef
  | JNull
  | JBool bool
  | JNum jsnum
  | JStr string
  | JArr "jsval list"
  | JObj "(string \<times> jsval) list"

type_synonym ('k, 'v) jsmap = "('k \<times> 'v) list"

fun truthy :: "jsval \<Rightarrow> bool" where
  "truthy JUndef = False"
| "truthy JNull = False"
| "truthy (JBool b) = b"
| "truthy (JNum n) = (n \<noteq> NaN \<and> n \<noteq> Fin 0)"
| "truthy (JStr s) = (s \<noteq> [])"
| "truthy (JArr xs) = True"
| "truthy (JObj kvs) = True"

definition jor :: "jsval \<Rightarrow> jsval \<Rightarrow> jsval" where
  "jor a b = (if truthy a then a else b)"

definition field :: "jsval \<Rightarrow> string \<Rightarrow> jsval" where
  "field v k = (case v of JObj kvs \<Rightarrow> (case map_of kvs k of None \<Rightarrow> JUndef | Some w \<Rightarrow> w)
    | _ \<Rightarrow> JUndef)"

definition nullish :: "jsval \<Rightarrow> bool" where
  "nullish v \<longleftrightarrow> v = JUndef \<or> v = JNull"

text \<open>The \<open>||\<close> of two strings, and of an optional string (\<open>None\<close> for null or undefined).\<close>

definition str_or :: "string \<Rightarrow> string \<Rightarrow> string" where
  "str_or a b = (if a = [] then b else a)"

definition opt_str :: "string option \<Rightarrow> string" where
  "opt_str s = (case s of None \<Rightarrow> [] | Some t \<Rightarrow> t)"

section \<open>Strings\<close>

definition ellipsis :: string where
  "ellipsis = [char_of (133 :: nat)]"

definition upper_char :: "char \<Rightarrow> char" where
  "upper_char c = (let n = of_char c :: nat in if 97 \<le> n \<and> n \<le> 122 then char_of (n - 32) else c)"

definition lower_char :: "char \<Rightarrow> char" where
  "lower_char c = (let n = of_char c :: nat in if 65 \<le> n \<and> n \<le> 90 then char_of (n + 32) else c)"

definition to_upper :: "string \<Rightarrow> string" where
  "to_upper s = map upper_char s"

definition to_lower :: "string \<Rightarrow> string" where
  "to_lower s = map lower_char s"

definition is_space :: "char \<Rightarrow> bool" where
  "is_space c \<longleftrightarrow> (of_char c :: nat) \<in> {9, 10, 11, 12, 13, 32, 160}"

definition is_digit :: "char \<Rightarrow> bool" where
  "is_digit c \<longleftrightarrow> (let n = of_char c :: nat in 48 \<le> n \<and> n \<le> 57)"

definition is_alpha :: "char \<Rightarrow> bool" where
  "is_alpha c \<longleftrightarrow> (let n = of_char c :: nat in 65 \<le> n \<and> n \<le> 90 \<or> 97 \<le> n \<and> n \<le> 122)"

definition is_word_char :: "char \<Rightarrow> bool" where
  "is_word_char c \<longleftrightarrow> is_digit c \<or> is_alpha c \<or> c = CHR ''_''"

definition trim :: "string \<Rightarrow> string" where
  "trim s = rev (dropWhile is_space (rev (dropWhile is_space s)))"

definition starts_with :: "string \<Rightarrow> string \<Rightarrow> bool" where
  "starts_with s p \<longleftrightarrow> take (length p) s = p"

definition ends_with :: "string \<Rightarrow> string \<Rightarrow> bool" where
  "ends_with s p \<longleftrightarrow> length p \<le> length s \<and> drop (length s - length p) s = p"

fun index_of :: "string \<Rightarrow> string \<Rightarrow> nat option" where
  "index_of [] p = (if p = [] then Some 0 else None)"
| "index_of (c # s) p = (if starts_with (c # s) p then Some 0 else map_option Suc (index_of s p))"

definition str_includes :: "string \<Rightarrow> string \<Rightarrow> bool" where
  "str_includes s p \<longleftrightarrow> index_of s p \<noteq> None"

definition js_slice :: "nat \<Rightarrow> nat \<Rightarrow> 'a list \<Rightarrow> 'a list" where
  "js_slice i j xs = take (j - i) (drop i xs)"

fun split_on :: "char \<Rightarrow> string \<Rightarrow> string list" where
  "split_on c [] = [[]]"
| "split_on c (x # xs) =
     (if x = c then [] # split_on c xs
      else (case split_on c xs of [] \<Rightarrow> [[x]] | y # ys \<Rightarrow> (x # y) # ys))"

fun join :: "string \<Rightarrow> string list \<Rightarrow> string" where
  "join sep [] = []"
| "join sep [x] = x"
| "join sep (x # y # ys) = x @ sep @ join sep (y # ys)"

text \<open>\<open>split(/\s+/)\<close>\<close>

function split_ws :: "string \<Rightarrow> string list" where
  "split_ws s =
     (let rest = dropWhile (\<lambda>c. \<not> is_space c) s
      in if rest = [] then [s] else takeWhile (\<lambda>c. \<not> is_space c) s # split_ws (dropWhile is_space (tl rest)))"
  by auto
termination
proof (relation "measure length")
  fix s rest :: string
  assume "rest = dropWhile (\<lambda>c. \<not> is_space c) s" "rest \<noteq> []"
  then have "length rest \<le> length s" "length (tl rest) < length rest"
    by (simp_all only: length_dropWhile_le length_tl) simp
  then show "(dropWhile is_space (tl rest), s) \<in> measure length"
    using length_dropWhile_le [of is_space "tl rest"] by simp
qed simp

declare split_ws.simps [simp del]

definition replace_char :: "char \<Rightarrow> string \<Rightarrow> string \<Rightarrow> string" where
  "replace_char c r s = concat (map (\<lambda>x. if x = c then r else [x]) s)"

section \<open>Numbers as text\<close>

definition digit_char :: "nat \<Rightarrow> char" where
  "digit_char d = char_of (48 + d)"

definition digit_val :: "char \<Rightarrow> nat" where
  "digit_val c = of_char c - 48"

fun show_nat :: "nat \<Rightarrow> string" where
  "show_nat n = (if n < 10 then [digit_char n] else show_nat (n div 10) @ [digit_char (n mod 10)])"

declare show_nat.simps [simp del]

definition read_nat :: "string \<Rightarrow> nat" where
  "read_nat s = foldl (\<lambda>n c. 10 * n + digit_val c) 0 s"

text \<open>The same digits, of an integer that is not negative.\<close>

function show_digits :: "int \<Rightarrow> string" where
  "show_digits i = (if i < 10 then [digit_char (nat i)] else show_digits (i div 10) @ [digit_char (nat (i mod 10))])"
  by auto
termination
  by (relation "measure nat") auto

declare show_digits.simps [simp del]

definition show_int :: "int \<Rightarrow> string" where
  "show_int i = (if i < 0 then ''-'' @ show_nat (nat (- i)) else show_nat (nat i))"

text \<open>
  \<open>Number.prototype.toString\<close>: the position \<open>n\<close> of the decimal point of a positive number
  (\<open>10^(n-1) <= a < 10^n\<close>), the shortest digits that are read back as the same double, the nearer ones
  when there are two, and the four layouts of the result. Whole numbers up to \<open>2^53\<close> print all their digits.
\<close>

definition scale10 :: "rat \<Rightarrow> int \<Rightarrow> rat" where
  "scale10 r e = (if 0 \<le> e then r * 10 ^ nat e else r / 10 ^ nat (- e))"

definition point_position :: "rat \<Rightarrow> int" where
  "point_position a =
     (if 1 \<le> a then int (length (show_digits \<lfloor>a\<rfloor>))
      else 1 - int (length (show_digits (\<lceil>1 / a\<rceil> - 1))))"

definition reads_back :: "rat \<Rightarrow> int \<Rightarrow> nat \<Rightarrow> int \<Rightarrow> bool" where
  "reads_back a n k s = (round_double (scale10 (of_int s) (n - int k)) = Fin a)"

fun shortest_digits :: "rat \<Rightarrow> int \<Rightarrow> nat \<Rightarrow> nat \<Rightarrow> nat \<times> int" where
  "shortest_digits a n k 0 = (k, \<lfloor>scale10 a (int k - n)\<rfloor>)"
| "shortest_digits a n k (Suc more) =
     (let u = scale10 a (int k - n); lo = \<lfloor>u\<rfloor>; hi = lo + 1
      in if reads_back a n k lo \<and> (\<not> reads_back a n k hi \<or> u - of_int lo \<le> of_int hi - u) then (k, lo)
         else if reads_back a n k hi then (k, hi)
         else shortest_digits a n (Suc k) more)"

definition layout_digits :: "string \<Rightarrow> int \<Rightarrow> string" where
  "layout_digits ds n =
     (let k = int (length ds)
      in if k \<le> n \<and> n \<le> 21 then ds @ replicate (nat (n - k)) (CHR ''0'')
         else if 0 < n \<and> n \<le> 21 then take (nat n) ds @ ''.'' @ drop (nat n) ds
         else if - 6 < n \<and> n \<le> 0 then ''0.'' @ replicate (nat (- n)) (CHR ''0'') @ ds
         else take 1 ds @ (if k = 1 then [] else ''.'' @ drop 1 ds) @ ''e'' @
              (if 0 < n then ''+'' else ''-'') @ show_nat (nat \<bar>n - 1\<bar>))"

text \<open>A text of digits without the zeros at its end (at least one digit stays).\<close>

definition strip_zeros :: "string \<Rightarrow> string" where
  "strip_zeros ds = hd ds # rev (dropWhile (\<lambda>c. c = CHR ''0'') (rev (tl ds)))"

definition show_positive :: "rat \<Rightarrow> string" where
  "show_positive a =
     (if of_int \<lfloor>a\<rfloor> = a \<and> a \<le> 2 ^ 53 then show_digits \<lfloor>a\<rfloor>
      else let n = point_position a; (k, s) = shortest_digits a n 1 17; ds = show_digits s
           in layout_digits (strip_zeros ds) (n + int (length ds) - int k))"

definition show_rat :: "rat \<Rightarrow> string" where
  "show_rat q =
     (if q < 0 then ''-'' else []) @
     (case round_double \<bar>q\<bar> of Fin a \<Rightarrow> show_positive a | _ \<Rightarrow> ''Infinity'')"

definition show_num :: "jsnum \<Rightarrow> string" where
  "show_num n = (case n of NaN \<Rightarrow> ''NaN'' | PInf \<Rightarrow> ''Infinity'' | NInf \<Rightarrow> ''-Infinity'' | Fin q \<Rightarrow> show_rat q)"

text \<open>\<open>toFixed(k)\<close> of a non-negative number: the nearest decimal, the larger one on a tie.\<close>

definition to_fixed :: "nat \<Rightarrow> rat \<Rightarrow> string" where
  "to_fixed k q =
     (let n = nat \<lfloor>q * 10 ^ k + 1 / 2\<rfloor>; s = show_nat n;
          p = replicate (Suc k - length s) (CHR ''0'') @ s
      in if k = 0 then s else take (length p - k) p @ ''.'' @ drop (length p - k) p)"

fun js_string :: "jsval \<Rightarrow> string" where
  "js_string JUndef = ''undefined''"
| "js_string JNull = ''null''"
| "js_string (JBool b) = (if b then ''true'' else ''false'')"
| "js_string (JNum n) = show_num n"
| "js_string (JStr s) = s"
| "js_string (JArr xs) = join '','' (map (\<lambda>x. if nullish x then [] else js_string x) xs)"
| "js_string (JObj kvs) = ''[object Object]''"

text \<open>
  \<open>parseInt(s, 10)\<close>: leading white space, a sign, then the longest run of digits; \<open>None\<close> is NaN.
\<close>

definition parse_int :: "string \<Rightarrow> int option" where
  "parse_int s =
     (let t = dropWhile is_space s;
          neg = (t \<noteq> [] \<and> hd t = CHR ''-'');
          u = (if t \<noteq> [] \<and> (hd t = CHR ''-'' \<or> hd t = CHR ''+'') then tl t else t);
          ds = takeWhile is_digit u
      in if ds = [] then None
         else Some (if neg then - int (read_nat ds) else int (read_nat ds)))"

text \<open>
  The decimal literal at the start of a text: sign, digits, fraction, exponent, or \<open>Infinity\<close>;
  its value is rounded to a double. With it \<open>parseFloat\<close> (which ignores what follows) and \<open>Number\<close> (which does not). The
  hexadecimal, octal and binary literals of \<open>Number\<close> are not modelled.
\<close>

definition parse_exponent :: "string \<Rightarrow> int \<times> string" where
  "parse_exponent s =
     (case s of
        e # t \<Rightarrow>
          if e = CHR ''e'' \<or> e = CHR ''E'' then
            (let neg = (t \<noteq> [] \<and> hd t = CHR ''-'');
                 u = (if t \<noteq> [] \<and> (hd t = CHR ''-'' \<or> hd t = CHR ''+'') then tl t else t);
                 ds = takeWhile is_digit u
             in if ds = [] then (0, s)
                else (if neg then - int (read_nat ds) else int (read_nat ds), dropWhile is_digit u))
          else (0, s)
      | [] \<Rightarrow> (0, s))"

definition parse_decimal :: "string \<Rightarrow> (jsnum \<times> string) option" where
  "parse_decimal s =
     (let neg = (s \<noteq> [] \<and> hd s = CHR ''-'');
          u = (if s \<noteq> [] \<and> (hd s = CHR ''-'' \<or> hd s = CHR ''+'') then tl s else s)
      in if starts_with u ''Infinity'' then Some (if neg then NInf else PInf, drop 8 u)
         else
           let ds = takeWhile is_digit u; v = dropWhile is_digit u;
               fs = (if v \<noteq> [] \<and> hd v = CHR ''.'' then takeWhile is_digit (tl v) else []);
               w = (if v \<noteq> [] \<and> hd v = CHR ''.'' then dropWhile is_digit (tl v) else v);
               (e, rest) = parse_exponent w;
               m = scale10 (of_nat (read_nat (ds @ fs))) (e - int (length fs))
           in if ds @ fs = [] then None else Some (round_double (if neg then - m else m), rest))"

definition parse_float :: "string \<Rightarrow> jsnum" where
  "parse_float s = (case parse_decimal (dropWhile is_space s) of None \<Rightarrow> NaN | Some (n, _) \<Rightarrow> n)"

definition to_number :: "string \<Rightarrow> jsnum" where
  "to_number s =
     (if trim s = [] then Fin 0
      else case parse_decimal (trim s) of
             None \<Rightarrow> NaN
           | Some (n, rest) \<Rightarrow> if rest = [] then n else NaN)"

section \<open>URI components\<close>

definition hex_digit :: "nat \<Rightarrow> char" where
  "hex_digit n = (if n < 10 then char_of (48 + n) else char_of (55 + n))"

definition hex_val :: "char \<Rightarrow> nat option" where
  "hex_val c =
     (let n = of_char c :: nat
      in if 48 \<le> n \<and> n \<le> 57 then Some (n - 48)
         else if 65 \<le> n \<and> n \<le> 70 then Some (n - 55)
         else if 97 \<le> n \<and> n \<le> 102 then Some (n - 87) else None)"

definition uri_unreserved :: "char \<Rightarrow> bool" where
  "uri_unreserved c \<longleftrightarrow> is_digit c \<or> is_alpha c \<or> c \<in> set ''-_.!~*()'' \<or> (of_char c :: nat) = 39"

definition pct_byte :: "nat \<Rightarrow> string" where
  "pct_byte b = [CHR ''%'', hex_digit (b div 16), hex_digit (b mod 16)]"

text \<open>
  \<open>encodeURIComponent\<close>: unreserved characters stay, every other one is written as its UTF-8
  bytes, one for ASCII and two for the rest of Latin-1.
\<close>

definition encode_char :: "char \<Rightarrow> string" where
  "encode_char c =
     (let n = of_char c :: nat
      in if uri_unreserved c then [c]
         else if n < 128 then pct_byte n
         else pct_byte (192 + n div 64) @ pct_byte (128 + n mod 64))"

definition encode_uri_component :: "string \<Rightarrow> string" where
  "encode_uri_component s = concat (map encode_char s)"

text \<open>
  \<open>decodeURIComponent\<close>; \<open>None\<close> is the \<open>URIError\<close> it throws on a malformed escape (and on an
  escape of a character outside the alphabet of the model).
\<close>

fun read_pct :: "string \<Rightarrow> (nat \<times> string) option" where
  "read_pct (p # a # b # s) =
     (if p = CHR ''%'' then
        (case (hex_val a, hex_val b) of (Some h, Some l) \<Rightarrow> Some (16 * h + l, s) | _ \<Rightarrow> None)
      else None)"
| "read_pct s = None"

lemma read_pct_shorter: "read_pct s = Some (n, t) \<Longrightarrow> length t < length s"
  by (induction s rule: read_pct.induct) (auto split: if_splits option.splits)

function decode_uri_component :: "string \<Rightarrow> string option" where
  "decode_uri_component [] = Some []"
| "decode_uri_component (c # s) =
     (if c \<noteq> CHR ''%'' then map_option (Cons c) (decode_uri_component s)
      else (case read_pct (c # s) of
          None \<Rightarrow> None
        | Some (n, t) \<Rightarrow>
            if n < 128 then map_option (Cons (char_of n)) (decode_uri_component t)
            else if 194 \<le> n \<and> n \<le> 195 then
              (case read_pct t of
                 None \<Rightarrow> None
               | Some (m, u) \<Rightarrow>
                   if 128 \<le> m \<and> m < 192
                   then map_option (Cons (char_of ((n - 192) * 64 + (m - 128)))) (decode_uri_component u)
                   else None)
            else None))"
  by pat_completeness auto
termination
  by (relation "measure length") (auto dest!: read_pct_shorter)

section \<open>Stable sorting\<close>

text \<open>
  \<open>Array.prototype.sort\<close> with a comparator \<open>b.k - a.k\<close>: a stable sort, largest key first.
\<close>

definition sort_desc :: "('a \<Rightarrow> 'k::linordered_idom) \<Rightarrow> 'a list \<Rightarrow> 'a list" where
  "sort_desc key xs = sort_key (\<lambda>x. - key x) xs"

section \<open>Interface: keyed stores\<close>

text \<open>
  What the components rely on in a \<open>Map\<close>, a dictionary object or a \<open>Storage\<close>: a read
  after a write, a read after a removal, and that other keys are not touched.
\<close>

locale keyed_store =
  fixes get :: "'s \<Rightarrow> 'k \<Rightarrow> 'v option"
    and put :: "'k \<Rightarrow> 'v \<Rightarrow> 's \<Rightarrow> 's"
    and del :: "'k \<Rightarrow> 's \<Rightarrow> 's"
  assumes get_put: "get (put k v s) = (get s)(k \<mapsto> v)"
    and get_del: "get (del k s) = (get s)(k := None)"
begin

definition set_or_remove :: "'k \<Rightarrow> 'v option \<Rightarrow> 's \<Rightarrow> 's" where
  "set_or_remove k v s = (case v of None \<Rightarrow> del k s | Some x \<Rightarrow> put k x s)"

lemma get_set_or_remove: "get (set_or_remove k v s) = (get s)(k := v)"
  by (cases v) (simp_all add: set_or_remove_def get_put get_del)

lemma get_set_or_remove_same [simp]: "get (set_or_remove k v s) k = v"
  by (simp add: get_set_or_remove)

lemma get_set_or_remove_other: "j \<noteq> k \<Longrightarrow> get (set_or_remove k v s) j = get s j"
  by (simp add: get_set_or_remove)

end

interpretation amap: keyed_store map_of AList.update AList.delete
  by unfold_locales (simp_all add: update_conv' delete_conv')

section \<open>Interface: event machines\<close>

text \<open>
  What every component driven by events promises: one event keeps its invariant. Then every sequence of
  events does, at each of its prefixes.
\<close>

locale event_machine =
  fixes step :: "'e \<Rightarrow> 's \<Rightarrow> 's"
    and inv :: "'s \<Rightarrow> bool"
  assumes step_keeps: "inv s \<Longrightarrow> inv (step e s)"
begin

lemma run_keeps: "inv s \<Longrightarrow> inv (fold step es s)"
  by (induction es arbitrary: s) (simp_all add: step_keeps)

lemma always: "inv s \<Longrightarrow> (\<And>s. inv s \<Longrightarrow> good s) \<Longrightarrow> good (fold step (take k es) s)"
  using run_keeps by blast

end

section \<open>Lemmas on strings\<close>

lemma opt_str_simps [simp]: "opt_str None = []" "opt_str (Some s) = s"
  by (simp_all add: opt_str_def)

lemma replace_char_simps [simp]:
  "replace_char c r [] = []"
  "replace_char c r (x # xs) = (if x = c then r else [x]) @ replace_char c r xs"
  by (simp_all add: replace_char_def)

lemma replace_char_append [simp]: "replace_char c r (s @ t) = replace_char c r s @ replace_char c r t"
  by (simp add: replace_char_def)

lemma replace_char_id: "c \<notin> set s \<Longrightarrow> replace_char c r s = s"
  by (induction s) auto

lemma to_upper_simps [simp]:
  "to_upper [] = []" "to_upper (c # s) = upper_char c # to_upper s" "length (to_upper s) = length s"
  by (simp_all add: to_upper_def)

lemma to_lower_simps [simp]:
  "to_lower [] = []" "to_lower (c # s) = lower_char c # to_lower s" "length (to_lower s) = length s"
  by (simp_all add: to_lower_def)

lemma upper_char_idem [simp]: "upper_char (upper_char c) = upper_char c"
proof -
  have "(of_char (char_of (of_char c - 32 :: nat) :: char) :: nat) = of_char c - 32"
    by (simp add: less_imp_diff_less)
  then show ?thesis by (auto simp: upper_char_def Let_def)
qed

lemma to_upper_idem [simp]: "to_upper (to_upper s) = to_upper s"
  by (simp add: to_upper_def comp_def)

lemma starts_with_iff: "starts_with s p \<longleftrightarrow> (\<exists>t. s = p @ t)"
  by (auto simp: starts_with_def) (metis append_take_drop_id)

lemma starts_with_Nil [simp]: "starts_with s []"
  by (simp add: starts_with_def)

lemma index_of_Some:
  "index_of s p = Some i \<Longrightarrow> i + length p \<le> length s \<and> take (length p) (drop i s) = p"
proof (induction s p arbitrary: i rule: index_of.induct)
  case (1 p)
  then show ?case by (simp split: if_splits)
next
  case (2 c s p)
  show ?case
  proof (cases "starts_with (c # s) p")
    case True
    moreover from True obtain t where "c # s = p @ t" by (auto simp: starts_with_iff)
    then have "length (c # s) = length p + length t" by (metis length_append)
    ultimately show ?thesis using 2(2) by (auto simp: starts_with_def)
  next
    case False
    with 2 show ?thesis by auto
  qed
qed

lemma index_of_None: "index_of s p = None \<longleftrightarrow> (\<forall>a b. s \<noteq> a @ p @ b)"
proof (induction s p rule: index_of.induct)
  case (1 p)
  then show ?case by auto
next
  case (2 c s p)
  show ?case
  proof (cases "starts_with (c # s) p")
    case True
    then obtain t where "c # s = [] @ p @ t" by (auto simp: starts_with_iff)
    with True show ?thesis by (metis index_of.simps(2) option.distinct(1))
  next
    case False
    have "c # s \<noteq> a @ p @ b" if "\<forall>a b. s \<noteq> a @ p @ b" for a b
      using False that by (cases a) (auto simp: starts_with_iff)
    moreover have "s \<noteq> a @ p @ b" if "\<forall>a b. c # s \<noteq> a @ p @ b" for a b
      using that by (metis append_Cons)
    ultimately show ?thesis using 2 False by auto
  qed
qed

lemma str_includes_iff: "str_includes s p \<longleftrightarrow> (\<exists>a b. s = a @ p @ b)"
  using index_of_None [of s p] by (auto simp: str_includes_def)

lemma str_includes_Nil [simp]: "str_includes s []"
  by (auto simp: str_includes_iff)

lemma split_on_nonempty [simp]: "split_on c s \<noteq> []"
  by (induction s) (auto split: list.splits)

lemma split_on_no_sep: "c \<notin> set s \<Longrightarrow> split_on c s = [s]"
  by (induction s) auto

lemma split_on_append: "c \<notin> set a \<Longrightarrow> split_on c (a @ c # b) = a # split_on c b"
  by (induction a) auto

lemma until_char:
  "c \<notin> set a \<Longrightarrow> takeWhile (\<lambda>x. x \<noteq> c) (a @ t) = a @ takeWhile (\<lambda>x. x \<noteq> c) t"
  "c \<notin> set a \<Longrightarrow> dropWhile (\<lambda>x. x \<noteq> c) (a @ t) = dropWhile (\<lambda>x. x \<noteq> c) t"
  by (induction a) auto

lemma split_on_join:
  "ps \<noteq> [] \<Longrightarrow> \<forall>p\<in>set ps. c \<notin> set p \<Longrightarrow> split_on c (join [c] ps) = ps"
proof (induction ps)
  case (Cons p ps)
  then show ?case by (cases ps) (simp_all add: split_on_no_sep split_on_append)
qed simp

lemma join_split_on: "join [c] (split_on c s) = s"
proof (induction s)
  case Nil
  then show ?case by simp
next
  case (Cons x s)
  obtain y ys where y: "split_on c s = y # ys" by (cases "split_on c s") auto
  with Cons show ?case by (cases ys) auto
qed

lemma split_on_parts: "p \<in> set (split_on c s) \<Longrightarrow> c \<notin> set p"
  by (induction s arbitrary: p) (auto split: if_splits list.splits)

lemma trim_last: "trim s \<noteq> [] \<Longrightarrow> \<not> is_space (last (trim s))"
proof -
  assume "trim s \<noteq> []"
  let ?r = "dropWhile is_space (rev (dropWhile is_space s))"
  from \<open>trim s \<noteq> []\<close> have "?r \<noteq> []" by (simp add: trim_def)
  then have "\<not> is_space (hd ?r)" by (rule hd_dropWhile)
  with \<open>?r \<noteq> []\<close> show ?thesis by (simp add: trim_def last_rev)
qed

section \<open>Lemmas on decimal text\<close>

lemma digit_val_char [simp]: "d < 10 \<Longrightarrow> digit_val (digit_char d) = d"
  by (simp add: digit_val_def digit_char_def)

lemma is_digit_digit_char [simp]: "d < 10 \<Longrightarrow> is_digit (digit_char d)"
  by (simp add: is_digit_def digit_char_def)

lemma read_nat_snoc [simp]: "read_nat (s @ [c]) = 10 * read_nat s + digit_val c"
  by (simp add: read_nat_def)

lemma read_show_nat [simp]: "read_nat (show_nat n) = n"
proof (induction n rule: show_nat.induct)
  case (1 n)
  show ?case
  proof (cases "n < 10")
    case True
    then show ?thesis by (simp add: show_nat.simps [of n] read_nat_def)
  next
    case False
    with 1 show ?thesis by (simp add: show_nat.simps [of n])
  qed
qed

lemma show_digits_nat [simp]: "show_digits (int n) = show_nat n"
proof (induction n rule: show_nat.induct)
  case (1 n)
  have "nat (int n mod 10) = n mod 10" "int n div 10 = int (n div 10)" by (simp_all add: zdiv_int zmod_int nat_mod_distrib)
  with 1 show ?case by (simp add: show_nat.simps [of n] show_digits.simps [of "int n"])
qed

lemma show_rat_nat: "n < 2 ^ 53 \<Longrightarrow> show_rat (of_nat n) = show_nat n"
proof -
  assume n: "n < 2 ^ 53"
  then have "(of_nat n :: rat) < of_nat (2 ^ 53)" by (simp only: of_nat_less_iff)
  then have "(of_nat n :: rat) \<le> 2 ^ 53" by simp
  then show ?thesis by (simp add: show_rat_def show_positive_def round_double_nat [OF n])
qed

lemma show_nat_inject [simp]: "show_nat m = show_nat n \<longleftrightarrow> m = n"
  by (metis read_show_nat)

lemma show_nat_digits: "c \<in> set (show_nat n) \<Longrightarrow> is_digit c"
proof (induction n rule: show_nat.induct)
  case (1 n)
  show ?case
  proof (cases "n < 10")
    case True
    with 1(2) show ?thesis by (simp add: show_nat.simps [of n])
  next
    case False
    with 1 show ?thesis by (auto simp: show_nat.simps [of n])
  qed
qed

lemma show_nat_not_Nil [simp]: "show_nat n \<noteq> []"
  by (subst show_nat.simps) simp

section \<open>Lemmas on URI components\<close>

lemma hex_val_digit: "n < 16 \<Longrightarrow> hex_val (hex_digit n) = Some n"
  by (auto simp: hex_val_def hex_digit_def Let_def)

lemma read_pct_byte [simp]: "b < 256 \<Longrightarrow> read_pct (pct_byte b @ s) = Some (b, s)"
  by (simp add: pct_byte_def hex_val_digit)

lemma pct_not_unreserved: "\<not> uri_unreserved (CHR ''%'')"
  by (simp add: uri_unreserved_def is_digit_def is_alpha_def)

lemma decode_encode_char:
  "decode_uri_component (encode_char c @ s) = map_option (Cons c) (decode_uri_component s)"
proof -
  let ?n = "of_char c :: nat"
  have n: "?n < 256" by simp
  consider "uri_unreserved c" | "\<not> uri_unreserved c" "?n < 128" | "\<not> uri_unreserved c" "128 \<le> ?n"
    by linarith
  then show ?thesis
  proof cases
    case 1
    then have "c \<noteq> CHR ''%''" using pct_not_unreserved by auto
    with 1 show ?thesis by (simp add: encode_char_def Let_def)
  next
    case 2
    have "decode_uri_component (pct_byte ?n @ s) = map_option (Cons (char_of ?n)) (decode_uri_component s)"
      using 2 read_pct_byte [of ?n s] by (simp add: pct_byte_def)
    with 2 show ?thesis by (simp add: encode_char_def Let_def)
  next
    case 3
    let ?a = "192 + ?n div 64" and ?b = "128 + ?n mod 64"
    have a: "194 \<le> ?a" "?a \<le> 195" using 3(2) n by linarith+
    have b: "128 \<le> ?b" "?b < 192" by auto
    have c: "char_of ((?a - 192) * 64 + (?b - 128)) = c"
      by (simp add: mult.commute)
    have "decode_uri_component (pct_byte ?a @ pct_byte ?b @ s) =
        map_option (Cons c) (decode_uri_component s)"
      using read_pct_byte [of ?a "pct_byte ?b @ s"] read_pct_byte [of ?b s] a b c
      by (simp add: pct_byte_def)
    with 3 show ?thesis by (simp add: encode_char_def Let_def)
  qed
qed

theorem decode_encode: "decode_uri_component (encode_uri_component s) = Some s"
  by (induction s) (simp_all add: encode_uri_component_def decode_encode_char)

lemma hex_digit_range: "n < 16 \<Longrightarrow> is_digit (hex_digit n) \<or> is_alpha (hex_digit n)"
  by (auto simp: hex_digit_def is_digit_def is_alpha_def)

lemma encode_char_range:
  "x \<in> set (encode_char c) \<Longrightarrow> x = CHR ''%'' \<or> uri_unreserved x"
proof -
  have "x \<in> set (pct_byte b) \<Longrightarrow> b < 256 \<Longrightarrow> x = CHR ''%'' \<or> uri_unreserved x" for b
    using hex_digit_range [of "b div 16"] hex_digit_range [of "b mod 16"] less_mult_imp_div_less [of b 16 16]
    by (auto simp: pct_byte_def uri_unreserved_def)
  moreover have "(of_char c :: nat) < 256" by simp
  then have "192 + (of_char c :: nat) div 64 < 256" by linarith
  ultimately show "x \<in> set (encode_char c) \<Longrightarrow> ?thesis"
    by (auto simp: encode_char_def Let_def split: if_splits)
qed

lemma encode_range: "x \<in> set (encode_uri_component s) \<Longrightarrow> x = CHR ''%'' \<or> uri_unreserved x"
  by (auto simp: encode_uri_component_def dest: encode_char_range)

lemma encode_no_slash [simp]: "CHR ''/'' \<notin> set (encode_uri_component s)"
  using encode_range [of "CHR ''/''" s] by (auto simp: uri_unreserved_def is_digit_def is_alpha_def)

lemma encode_eq_Nil [simp]: "encode_uri_component s = [] \<longleftrightarrow> s = []"
  by (cases s) (auto simp: encode_uri_component_def encode_char_def pct_byte_def Let_def)

section \<open>Lemmas on sorting\<close>

lemma mset_sort_desc [simp]: "mset (sort_desc key xs) = mset xs"
  by (simp add: sort_desc_def)

lemma set_sort_desc [simp]: "set (sort_desc key xs) = set xs"
  by (simp add: sort_desc_def)

lemma length_sort_desc [simp]: "length (sort_desc key xs) = length xs"
  by (simp add: sort_desc_def)

lemma sorted_sort_desc: "sorted_wrt (\<lambda>a b. key b \<le> key a) (sort_desc key xs)"
proof -
  have "sorted (map (\<lambda>x. - key x) (sort_desc key xs))" by (simp add: sort_desc_def)
  then show ?thesis by (simp add: sorted_wrt_map)
qed

lemma sort_desc_stable: "filter (\<lambda>x. key x = k) (sort_desc key xs) = filter (\<lambda>x. key x = k) xs"
  using sort_key_stable [of "\<lambda>x. - key x" "- k" xs] by (simp add: sort_desc_def)

section \<open>Paths\<close>

text \<open>The path with the given segments.\<close>

definition mk_path :: "string list \<Rightarrow> string" where
  "mk_path segs = concat (map (Cons (CHR ''/'')) segs)"

lemma split_concat: "segs \<noteq> [] \<Longrightarrow> \<forall>s\<in>set segs. CHR ''/'' \<notin> set s \<Longrightarrow>
    split_on (CHR ''/'') (tl (mk_path segs)) = segs"
proof (induction segs)
  case (Cons s segs)
  show ?case
  proof (cases "segs = []")
    case True
    with Cons show ?thesis by (simp add: mk_path_def split_on_no_sep)
  next
    case False
    then have "mk_path segs = CHR ''/'' # tl (mk_path segs)" by (cases segs) (simp_all add: mk_path_def)
    with Cons False split_on_append [of "CHR ''/''" s "tl (mk_path segs)"] show ?thesis
      by (simp add: mk_path_def)
  qed
qed simp

lemma split_mk_path: "segs \<noteq> [] \<Longrightarrow> \<forall>s\<in>set segs. CHR ''/'' \<notin> set s \<Longrightarrow>
    split_on (CHR ''/'') (mk_path segs) = [] # segs"
  using split_concat [of segs] by (cases segs) (simp_all add: mk_path_def)

end
