(* ===== verification/Html_Text.thy ===== *)
theory Html_Text
  imports Prelude
begin

text \<open>
  Text that goes into markup: \<open>escapeHtml\<close> (the copy in \<open>console/src/app.js\<close>, the three
  copies in \<open>console/src/lib/components\<close> and \<open>escapeHTML\<close> of the wiki search),
  \<open>truncate\<close>, and the status pill component.

  \<open>html_decode\<close> is not code of the repository: it is what a browser makes of the five
  character references when it reads a text node or an attribute value, and it is what the
  escaping functions are measured against. The locale \<open>markup_escaper\<close> states what the
  templates rely on and what follows for a value placed in a quoted attribute.
\<close>

section \<open>Escaping\<close>

definition escape_text :: "string \<Rightarrow> string" where
  "escape_text s =
     replace_char (CHR 0x27) ''&#039;''
       (replace_char (CHR 0x22) ''&quot;''
         (replace_char (CHR ''>'') ''&gt;''
           (replace_char (CHR ''<'') ''&lt;''
             (replace_char (CHR ''&'') ''&amp;'' s))))"

text \<open>The console's \<open>escapeHtml\<close>: null and undefined become the empty string.\<close>

definition escapeHtml :: "jsval \<Rightarrow> string" where
  "escapeHtml v = (if nullish v then [] else escape_text (js_string v))"

text \<open>The copies in the components have no such guard.\<close>

definition componentEscapeHtml :: "jsval \<Rightarrow> string" where
  "componentEscapeHtml v = escape_text (js_string v)"

text \<open>The copy in the wiki search takes a string (\<open>None\<close> when the field is absent).\<close>

definition escapeHTML :: "string option \<Rightarrow> string" where
  "escapeHTML str = (case str of None \<Rightarrow> [] | Some s \<Rightarrow> if s = [] then [] else escape_text s)"

definition truncate_text :: "string \<Rightarrow> nat \<Rightarrow> string" where
  "truncate_text str maxLen =
     (if str = [] then []
      else if length str > maxLen then take (maxLen - 1) str @ ellipsis else str)"

section \<open>Status pill\<close>

definition pill_class :: "string \<Rightarrow> string" where
  "pill_class s =
     (if s \<in> {''SUCCESS'', ''HEALTHY'', ''AVAILABLE''} then ''pill-success''
      else if s \<in> {''PENDING'', ''ENQUEUED'', ''RUNNING''} then ''pill-info''
      else if s \<in> {''ERROR'', ''DEAD'', ''UNAVAILABLE'', ''MAX_RECOVERY_ATTEMPTS_EXCEEDED''} then ''pill-error''
      else if s \<in> {''CANCELLED'', ''DISCONNECTED''} then ''pill-warning''
      else if s = ''DELAYED'' then ''pill-purple''
      else ''pill-neutral'')"

definition dq :: string where
  "dq = [CHR 0x22]"

definition renderStatusPill :: "string option \<Rightarrow> string" where
  "renderStatusPill status =
     (let s = to_upper (str_or (opt_str status) ''UNKNOWN'')
      in ''<span class='' @ dq @ ''status-pill '' @ pill_class s @ dq @ ''><span class='' @ dq @ ''dot'' @ dq
         @ ''></span>'' @ componentEscapeHtml (JStr s) @ ''</span>'')"

section \<open>What a browser reads back\<close>

definition char_refs :: "(string \<times> char) list" where
  "char_refs =
     [(''&amp;'', CHR ''&''), (''&lt;'', CHR ''<''), (''&gt;'', CHR ''>''),
      (''&quot;'', CHR 0x22), (''&#039;'', CHR 0x27)]"

fun match_ref :: "(string \<times> char) list \<Rightarrow> string \<Rightarrow> (char \<times> string) option" where
  "match_ref [] s = None"
| "match_ref ((r, c) # rs) s =
     (if starts_with s r then Some (c, drop (length r) s) else match_ref rs s)"

lemma match_ref_shorter:
  "match_ref rs s = Some (c, t) \<Longrightarrow> \<forall>(r, d) \<in> set rs. r \<noteq> [] \<Longrightarrow> s \<noteq> [] \<Longrightarrow> length t < length s"
  by (induction rs s rule: match_ref.induct) (auto split: if_splits)

function html_decode :: "string \<Rightarrow> string" where
  "html_decode [] = []"
| "html_decode (c # s) =
     (case match_ref char_refs (c # s) of
        None \<Rightarrow> c # html_decode s
      | Some (d, t) \<Rightarrow> d # html_decode t)"
  by pat_completeness auto
termination
proof (relation "measure length")
  fix c :: char and s :: string and p d t
  assume "match_ref char_refs (c # s) = Some p" and "(d, t) = p"
  then show "(t, c # s) \<in> measure length"
    using match_ref_shorter [of char_refs "c # s" d t] by (auto simp: char_refs_def)
qed auto

section \<open>Lemmas: escaping acts character by character\<close>

definition escape_char :: "char \<Rightarrow> string" where
  "escape_char c =
     (if c = CHR ''&'' then ''&amp;'' else if c = CHR ''<'' then ''&lt;''
      else if c = CHR ''>'' then ''&gt;'' else if c = CHR 0x22 then ''&quot;''
      else if c = CHR 0x27 then ''&#039;'' else [c])"

lemma escape_text_simps [simp]:
  "escape_text [] = []"
  "escape_text (c # s) = escape_char c @ escape_text s"
  by (simp_all add: escape_text_def escape_char_def)

lemma escape_text_append [simp]: "escape_text (s @ t) = escape_text s @ escape_text t"
  by (induction s) auto

lemma escape_char_not_Nil [simp]: "escape_char c \<noteq> []"
  by (simp add: escape_char_def)

lemma escape_text_eq_Nil [simp]: "escape_text s = [] \<longleftrightarrow> s = []"
  by (cases s) auto

lemma set_escape_char: "set (escape_char c) \<inter> {CHR ''<'', CHR ''>'', CHR 0x22, CHR 0x27} = {}"
  by (auto simp: escape_char_def)

lemma set_escape_text: "set (escape_text s) \<inter> {CHR ''<'', CHR ''>'', CHR 0x22, CHR 0x27} = {}"
proof (induction s)
  case Nil
  then show ?case by simp
next
  case (Cons c s)
  with set_escape_char [of c] show ?case by (simp add: Int_Un_distrib2)
qed

lemma match_ref_escape_char:
  "match_ref char_refs (escape_char c @ s) =
     (if c \<in> {CHR ''&'', CHR ''<'', CHR ''>'', CHR 0x22, CHR 0x27} then Some (c, s) else None)"
  by (simp add: char_refs_def escape_char_def starts_with_def)

lemma html_decode_escape_char: "html_decode (escape_char c @ s) = c # html_decode s"
proof -
  obtain d e where de: "escape_char c @ s = d # e" by (cases "escape_char c @ s") auto
  have "d = c" "e = s" if "c \<notin> {CHR ''&'', CHR ''<'', CHR ''>'', CHR 0x22, CHR 0x27}"
    using de that by (auto simp: escape_char_def)
  with match_ref_escape_char [of c s] show ?thesis
    unfolding de by (auto split: if_splits)
qed

lemma html_decode_escape_text: "html_decode (escape_text s) = s"
  by (induction s) (simp_all add: html_decode_escape_char)

section \<open>Interface: escaping for markup\<close>

locale markup_escaper =
  fixes esc :: "string \<Rightarrow> string" and dec :: "string \<Rightarrow> string"
  assumes dec_esc: "dec (esc s) = s"
    and esc_safe: "set (esc s) \<inter> {CHR ''<'', CHR ''>'', CHR 0x22, CHR 0x27} = {}"
begin

lemma esc_inj: "esc s = esc t \<Longrightarrow> s = t"
  by (metis dec_esc)

text \<open>
  A value escaped into a quoted attribute ends exactly at the quote the template wrote, and
  what the page reads back from the attribute is the value.
\<close>

lemma attribute_value:
  assumes "quote \<in> {CHR 0x22, CHR 0x27}"
  shows "takeWhile (\<lambda>c. c \<noteq> quote) (esc v @ quote # rest) = esc v"
proof -
  have "\<forall>c \<in> set (esc v). c \<noteq> quote" using assms esc_safe [of v] by auto
  then show ?thesis by (simp add: takeWhile_append2)
qed

lemma attribute_roundtrip:
  assumes "quote \<in> {CHR 0x22, CHR 0x27}"
  shows "dec (takeWhile (\<lambda>c. c \<noteq> quote) (esc v @ quote # rest)) = v"
  using attribute_value [OF assms] by (simp add: dec_esc)

text \<open>A text node holds no tag: the next tag is the one the template wrote.\<close>

lemma text_node_roundtrip: "dec (takeWhile (\<lambda>c. c \<noteq> CHR ''<'') (esc v @ CHR ''<'' # rest)) = v"
proof -
  have "\<forall>c \<in> set (esc v). c \<noteq> CHR ''<''" using esc_safe [of v] by auto
  then show ?thesis by (simp add: takeWhile_append2 dec_esc)
qed

end

interpretation html: markup_escaper escape_text html_decode
  by unfold_locales (simp_all add: html_decode_escape_text set_escape_text)

interpretation wiki: markup_escaper "\<lambda>s. escapeHTML (Some s)" html_decode
proof
  fix s
  show "html_decode (escapeHTML (Some s)) = s"
    by (cases s) (simp_all add: escapeHTML_def html_decode_escape_char html_decode_escape_text)
  show "set (escapeHTML (Some s)) \<inter> {CHR ''<'', CHR ''>'', CHR 0x22, CHR 0x27} = {}"
    using set_escape_text [of s] by (simp add: escapeHTML_def)
qed

section \<open>Properties\<close>

text \<open>
  Escaping loses nothing and lets nothing through. Whatever value the console escapes into a
  quoted attribute or a text node, the five replacements leave no angle bracket and no quote
  in it, the attribute ends at the template's own quote, and the page reads back exactly the
  text of the value.
\<close>

theorem escapeHtml_attribute_roundtrip:
  assumes "quote \<in> {CHR 0x22, CHR 0x27}" and "\<not> nullish v"
  shows "html_decode (takeWhile (\<lambda>c. c \<noteq> quote) (escapeHtml v @ quote # rest)) = js_string v
    \<and> set (escapeHtml v) \<inter> {CHR ''<'', CHR ''>'', CHR 0x22, CHR 0x27} = {}"
  using html.attribute_roundtrip [OF assms(1), of "js_string v" rest] assms(2)
    set_escape_text [of "js_string v"]
  by (simp add: escapeHtml_def)

theorem escapeHtml_attribute_roundtrip_witness:
  "html_decode (takeWhile (\<lambda>c. c \<noteq> CHR 0x27) (escapeHtml (JStr ''a<b'') @ CHR 0x27 # ''>x'')) = ''a<b''"
  using escapeHtml_attribute_roundtrip [of "CHR 0x27" "JStr ''a<b''" "''>x''"]
  by (simp add: nullish_def)

text \<open>
  A truncated label never exceeds its limit, keeps the beginning of the text, and is the text
  itself whenever the text fits.
\<close>

theorem truncate_text_spec:
  assumes "1 \<le> maxLen"
  shows "length (truncate_text s maxLen) \<le> maxLen
    \<and> (length s \<le> maxLen \<longrightarrow> truncate_text s maxLen = s)
    \<and> take (maxLen - 1) (truncate_text s maxLen) = take (maxLen - 1) s"
  using assms by (auto simp: truncate_text_def ellipsis_def min_def)

theorem truncate_text_spec_witness:
  "(1::nat) \<le> 4 \<and> length (truncate_text ''abcdef'' 4) \<le> 4
    \<and> take 3 (truncate_text ''abcdef'' 4) = ''abc''"
  using truncate_text_spec [of 4 "''abcdef''"] by simp

text \<open>
  The status pill does not depend on the case the server sends, and the text between its tags,
  read back by the browser, is the upper-case status (\<open>UNKNOWN\<close> for a missing one).
\<close>

theorem renderStatusPill_spec:
  "renderStatusPill status = renderStatusPill (Some (to_upper (opt_str status)))
   \<and> (\<exists>pre. renderStatusPill status = pre @ escape_text (to_upper (str_or (opt_str status) ''UNKNOWN'')) @ ''</span>''
        \<and> html_decode (takeWhile (\<lambda>c. c \<noteq> CHR ''<'') (drop (length pre) (renderStatusPill status)))
            = to_upper (str_or (opt_str status) ''UNKNOWN''))"
proof -
  let ?s = "to_upper (str_or (opt_str status) ''UNKNOWN'')"
  let ?pre = "''<span class='' @ dq @ ''status-pill '' @ pill_class ?s @ dq @ ''><span class='' @ dq @ ''dot'' @ dq @ ''></span>''"
  have eq: "renderStatusPill status = ?pre @ escape_text ?s @ ''</span>''"
    by (simp add: renderStatusPill_def Let_def componentEscapeHtml_def)
  have up: "to_upper (str_or (to_upper (opt_str status)) ''UNKNOWN'') = ?s"
    by (cases "opt_str status") (simp_all add: str_or_def)
  have same: "renderStatusPill (Some (to_upper (opt_str status))) = renderStatusPill status"
    by (simp only: renderStatusPill_def Let_def up opt_str_simps)
  obtain pre where pre: "renderStatusPill status = pre @ escape_text ?s @ ''</span>''"
    using eq by blast
  have "html_decode (takeWhile (\<lambda>c. c \<noteq> CHR ''<'') (escape_text ?s @ ''</span>'')) = ?s"
    using html.text_node_roundtrip [of ?s "''/span>''"] by simp
  then show ?thesis
    using pre same by (intro conjI exI [of _ pre]) simp_all
qed

end
