(* ===== verification/Console_State.thy ===== *)
theory Console_State
  imports Html_Text
begin

text \<open>
  The state of the dashboard (\<open>class DashboardApp\<close> of \<open>console/src/app.js\<close>) together with the
  parts of the browser it owns: the two storages, the running interval timers, the open event
  sources, the content of the modal root and the location hash. Everything the handlers do to
  the outside world that is not state (a toast, an API call, a request to redraw the content
  view) is appended to \<open>effects\<close>, so that the order of what happened can be stated.

  A handler that awaits the server is one step: the reply is an argument of the handler.
  The operations of this theory are the ones every screen uses: credentials, error
  classification, toasts, the confirmation dialog and the modal root.
\<close>

section \<open>Data\<close>

record js_error =
  errName :: string
  errMessage :: string
  errStatus :: "int option"

type_synonym 'a reply = "js_error + 'a"

record application =
  aName :: string
  aStatus :: "string option"
  aLanguage :: "string option"
  aPrivateMode :: bool
  aTimeoutSecs :: "int option"

datatype poll_mode = PollMs int | PollStream

record poll_dot =
  dotActive :: bool
  dotError :: bool
  dotTitle :: string

record audit_filters =
  fOperation :: string
  fSubject :: string
  fTarget :: string
  fStartTime :: string
  fEndTime :: string
  fLimit :: int
  fOffset :: int

record metrics_filters =
  mApplication :: string
  mWorkflowName :: string
  mFamily :: string

record parent_info =
  parentId :: string
  parentName :: string
  parentStatus :: string

record app_settings =
  setPrivateMode :: bool
  gcRowsThreshold :: "int option"
  gcTimeThresholdMs :: "int option"
  globalTimeoutMs :: "int option"
  setExecutorTimeoutSecs :: "int option"

record rollout =
  maxOldApplicationVersions :: "int option"
  maxExecutorsForOldApplicationVersions :: "int option"

text \<open>The calls of \<open>ApiClient\<close> that change something on the server; organization first.\<close>

datatype api_call =
    CancelWorkflow string string string
  | ResumeWorkflow string string string
  | ForkWorkflow string string string nat
  | SendWorkflowMessage string string string jsval "string option"
  | PauseSchedule string string string
  | ResumeSchedule string string string
  | TriggerSchedule string string string
  | CreateAlertingRule string string string int jsval
  | DeleteAlertingRule string string string
  | CreateAPIKey string string "string list" "string list"
  | RevokeAPIKey string string
  | CreateRole string string "string list"
  | DeleteRole string string
  | GrantMemberRole string string string
  | RemoveMember string string
  | UpdateApp string string app_settings
  | SetAutoscalingPolicy string string string "rollout option"
  | DeleteAutoscalingPolicy string string

text \<open>The closures passed as \<open>onConfirm\<close>, with what they capture.\<close>

datatype confirm_action =
    ConfirmCancel string string
  | ConfirmDeleteRule string string
  | ConfirmRevokeKey string
  | ConfirmDeleteRole string
  | ConfirmRemoveMember string
  | ConfirmDeletePolicy string

record confirm_spec =
  cTitle :: string
  cMessage :: string
  cConsequence :: string
  cDetails :: "(string \<times> string) list"
  cConfirmText :: string

datatype modal =
    NoModal
  | ConfirmDialog confirm_spec
  | SignInModal
  | SendMessageModal
  | CreateAlertModal
  | CreateKeyModal
  | KeyCreatedModal string string
  | CreateRoleModal "string list"
  | StepDrawer jsval
  | PayloadModal string string

datatype effect =
    Toast string string
  | Call api_call
  | Render
  | RenderContent
  | RenderDetail

record console =
  apiKey :: "string option"
  clientKey :: "string option"
  currentRoute :: string
  orgName :: string
  organizations :: "string list"
  appName :: string
  apps :: "application list"
  selectedWorkflowId :: "string option"
  selectedStep :: "jsval option"
  uiTheme :: string
  pollInterval :: poll_mode
  pollTimer :: "nat option"
  sseSource :: "nat option"
  mobileNavOpen :: bool
  sidebarFolded :: bool
  pendingConfirmAction :: "confirm_action option"
  parentWorkflowMap :: "(string, parent_info) jsmap"
  workflowAppMap :: "(string, string) jsmap"
  selectedWorkflowApp :: string
  currentWorkflowName :: string
  currentWorkflowStatus :: string
  dagZoom :: rat
  dagPanX :: int
  dagPanY :: int
  isPanningDag :: bool
  panStartX :: int
  panStartY :: int
  auditFilters :: audit_filters
  metricsFilters :: metrics_filters
  rolePermissions :: "string list"
  localStorage :: "(string, string) jsmap"
  sessionStorage :: "(string, string) jsmap"
  liveTimers :: "(nat \<times> int) list"
  openSources :: "(nat \<times> string) list"
  nextHandle :: nat
  pollDot :: poll_dot
  mounted :: bool
  modalRoot :: modal
  locationHash :: string
  effects :: "effect list"

section \<open>Operations\<close>

definition init_audit_filters :: audit_filters where
  "init_audit_filters =
     \<lparr>fOperation = [], fSubject = [], fTarget = [], fStartTime = [], fEndTime = [], fLimit = 100, fOffset = 0\<rparr>"

definition init_metrics_filters :: metrics_filters where
  "init_metrics_filters = \<lparr>mApplication = [], mWorkflowName = [], mFamily = ''all''\<rparr>"

text \<open>The constructor, from what the two storages hold and the system's colour scheme.\<close>

definition new_console :: "(string, string) jsmap \<Rightarrow> (string, string) jsmap \<Rightarrow> bool \<Rightarrow> string \<Rightarrow> console" where
  "new_console local session prefersDark hash =
     (let key = (case map_of session ''relay_api_key'' of
                   None \<Rightarrow> None | Some k \<Rightarrow> if k = [] then None else Some k)
      in \<lparr>apiKey = key, clientKey = key, currentRoute = ''fleet'',
          orgName = str_or (opt_str (map_of local ''relay_selected_org'')) ''default'',
          organizations = [], appName = [], apps = [], selectedWorkflowId = None, selectedStep = None,
          uiTheme = str_or (opt_str (map_of local ''relay-theme'')) (if prefersDark then ''dark'' else ''light''),
          pollInterval = PollMs 0, pollTimer = None, sseSource = None, mobileNavOpen = False,
          sidebarFolded = (map_of local ''relay-sidebar-folded'' = Some ''true''),
          pendingConfirmAction = None, parentWorkflowMap = [], workflowAppMap = [],
          selectedWorkflowApp = [], currentWorkflowName = [], currentWorkflowStatus = [],
          dagZoom = 1, dagPanX = 0, dagPanY = 0, isPanningDag = False, panStartX = 0, panStartY = 0,
          auditFilters = init_audit_filters, metricsFilters = init_metrics_filters,
          rolePermissions = [], localStorage = local, sessionStorage = session,
          liveTimers = [], openSources = [], nextHandle = 0,
          pollDot = \<lparr>dotActive = False, dotError = False, dotTitle = []\<rparr>,
          mounted = False, modalRoot = NoModal, locationHash = hash, effects = []\<rparr>)"

definition emit :: "effect \<Rightarrow> console \<Rightarrow> console" where
  "emit e c = c\<lparr>effects := effects c @ [e]\<rparr>"

definition showToast :: "string \<Rightarrow> string \<Rightarrow> console \<Rightarrow> console" where
  "showToast msg type c = emit (Toast msg type) c"

definition setApiKey :: "string option \<Rightarrow> console \<Rightarrow> console" where
  "setApiKey key c =
     c\<lparr>apiKey := key, clientKey := key,
       sessionStorage := (if opt_str key \<noteq> [] then AList.update ''relay_api_key'' (opt_str key) (sessionStorage c)
                          else AList.delete ''relay_api_key'' (sessionStorage c))\<rparr>"

definition error_text :: "js_error \<Rightarrow> string" where
  "error_text err = str_or (errMessage err) (errName err)"

definition isAuthError :: "js_error \<Rightarrow> bool" where
  "isAuthError err =
     (let msg = error_text err
      in str_includes msg ''401'' \<or> str_includes msg ''Unauthorized''
         \<or> str_includes msg ''Authorization header required'')"

definition isNoExecutorError :: "js_error \<Rightarrow> bool" where
  "isNoExecutorError err =
     (if errStatus err = Some 503 \<and> (let msg = to_lower (errMessage err)
            in str_includes msg ''executor'' \<or> str_includes msg ''unavailable'') then True
      else let msg = to_lower (error_text err)
           in str_includes msg ''no live executor'' \<or> str_includes msg ''no executors available'')"

definition closeModal :: "console \<Rightarrow> console" where
  "closeModal c = (if mounted c then c\<lparr>modalRoot := NoModal\<rparr> else c)"

definition openModal :: "modal \<Rightarrow> console \<Rightarrow> console" where
  "openModal m c = (if mounted c then c\<lparr>modalRoot := m\<rparr> else c)"

definition showConfirm :: "confirm_spec \<Rightarrow> confirm_action \<Rightarrow> console \<Rightarrow> console" where
  "showConfirm spec onConfirm c =
     (if \<not> mounted c then c
      else c\<lparr>pendingConfirmAction := Some onConfirm, modalRoot := ConfirmDialog spec\<rparr>)"

definition openSignInModal :: "console \<Rightarrow> console" where
  "openSignInModal c = openModal SignInModal c"

text \<open>\<open>render\<close> rebuilds the whole page, with an empty modal root, and then the content view.\<close>

definition render :: "console \<Rightarrow> console" where
  "render c = emit RenderContent (emit Render (c\<lparr>mounted := True, modalRoot := NoModal\<rparr>))"

section \<open>Invariant of the credentials\<close>

text \<open>
  The key the dashboard believes in, the key the API client sends and the key the session
  storage keeps for a reload are the same, and none of them is the empty string.
\<close>

definition auth_inv :: "console \<Rightarrow> bool" where
  "auth_inv c \<longleftrightarrow> clientKey c = apiKey c
     \<and> map_of (sessionStorage c) ''relay_api_key'' = apiKey c \<and> apiKey c \<noteq> Some []"

lemma auth_inv_cong:
  "clientKey c = clientKey d \<Longrightarrow> apiKey c = apiKey d \<Longrightarrow> sessionStorage c = sessionStorage d \<Longrightarrow>
   auth_inv c = auth_inv d"
  by (simp add: auth_inv_def)

lemma auth_inv_new:
  "map_of session ''relay_api_key'' \<noteq> Some [] \<Longrightarrow> auth_inv (new_console local session pd h)"
  by (auto simp: auth_inv_def new_console_def Let_def split: option.splits)

lemma auth_inv_setApiKey [inv_intros]: "key \<noteq> Some [] \<Longrightarrow> auth_inv (setApiKey key c)"
  by (cases key) (simp_all add: auth_inv_def setApiKey_def update_conv' delete_conv')

lemma emit_simps [simp]:
  "effects (emit e c) = effects c @ [e]"
  "auth_inv (emit e c) = auth_inv c"
  by (simp_all add: emit_def auth_inv_def)

lemma openModal_auth [simp]: "auth_inv (openModal m c) = auth_inv c" "auth_inv (closeModal c) = auth_inv c"
  by (simp_all add: openModal_def closeModal_def auth_inv_def)

lemma render_simps [simp]:
  "auth_inv (render c) = auth_inv c"
  "modalRoot (render c) = NoModal"
  "mounted (render c)"
  by (simp_all add: render_def emit_def auth_inv_def)

end
