(* ===== verification/Console_Live.thy ===== *)
theory Console_Live
  imports Console_State
begin

text \<open>
  Live telemetry of the dashboard: \<open>setPollInterval\<close>, \<open>startSSE\<close> and \<open>poll\<close> of
  \<open>console/src/app.js\<close>, and \<open>getEventsUrl\<close> of the API client. The interval timers and event
  sources that exist in the browser are \<open>liveTimers\<close> and \<open>openSources\<close>; \<open>live_inv\<close> says
  that they are exactly the ones the dashboard still holds a handle to, so that nothing keeps
  polling or streaming behind its back. Whether \<open>new EventSource(url)\<close> throws is the argument
  \<open>sse_ok\<close>.
\<close>

section \<open>Operations\<close>

definition getEventsUrl :: "string option \<Rightarrow> string \<Rightarrow> string \<Rightarrow> string" where
  "getEventsUrl key org app =
     (let base = (if app \<noteq> [] then ''/v2/orgs/'' @ encode_uri_component org @ ''/apps/'' @
                    encode_uri_component app @ ''/events''
                  else ''/v2/orgs/'' @ encode_uri_component org @ ''/events'')
      in if opt_str key \<noteq> [] then base @ ''?token='' @ encode_uri_component (opt_str key) else base)"

definition clear_timer :: "console \<Rightarrow> console" where
  "clear_timer c = (case pollTimer c of
      None \<Rightarrow> c
    | Some t \<Rightarrow> c\<lparr>liveTimers := filter (\<lambda>(i, _). i \<noteq> t) (liveTimers c), pollTimer := None\<rparr>)"

definition close_source :: "console \<Rightarrow> console" where
  "close_source c = (case sseSource c of
      None \<Rightarrow> c
    | Some h \<Rightarrow> c\<lparr>openSources := filter (\<lambda>(i, _). i \<noteq> h) (openSources c), sseSource := None\<rparr>)"

text \<open>The part of \<open>setPollInterval\<close> after the \<open>stream\<close> branch.\<close>

definition poll_every :: "string \<Rightarrow> console \<Rightarrow> console" where
  "poll_every mode c =
     (let ms = (case parse_int mode of None \<Rightarrow> 0 | Some n \<Rightarrow> n);
          c1 = c\<lparr>pollInterval := PollMs ms\<rparr>;
          c2 = (if ms > 0 then c1\<lparr>liveTimers := (nextHandle c1, ms) # liveTimers c1,
                                  pollTimer := Some (nextHandle c1), nextHandle := Suc (nextHandle c1)\<rparr>
                else c1)
      in if \<not> mounted c then c2
         else if ms > 0 then c2\<lparr>pollDot := \<lparr>dotActive = True, dotError = False,
                dotTitle = ''Live polling active ('' @ show_rat (of_int ms / 1000) @ ''s)''\<rparr>\<rparr>
         else c2\<lparr>pollDot := \<lparr>dotActive = False, dotError = False, dotTitle = ''Live telemetry refresh off''\<rparr>\<rparr>)"

text \<open>
  \<open>startSSE\<close>. When the constructor throws, the \<open>catch\<close> calls \<open>setPollInterval("5000")\<close>,
  which clears both handles and takes the polling branch.
\<close>

definition startSSE :: "bool \<Rightarrow> console \<Rightarrow> console" where
  "startSSE sse_ok c =
     (let c1 = close_source c; url = getEventsUrl (clientKey c1) (orgName c1) (appName c1)
      in if sse_ok then
           c1\<lparr>openSources := (nextHandle c1, url) # openSources c1,
              sseSource := Some (nextHandle c1), nextHandle := Suc (nextHandle c1)\<rparr>
         else poll_every ''5000'' (close_source (clear_timer c1)))"

definition setPollInterval :: "bool \<Rightarrow> string \<Rightarrow> console \<Rightarrow> console" where
  "setPollInterval sse_ok mode c =
     (let c1 = close_source (clear_timer c)
      in if mode = ''stream'' then startSSE sse_ok (c1\<lparr>pollInterval := PollStream\<rparr>)
         else poll_every mode c1)"

text \<open>The handlers of the event source: \<open>onopen\<close> and \<open>onerror\<close>.\<close>

definition sse_onopen :: "console \<Rightarrow> console" where
  "sse_onopen c = (if mounted c then c\<lparr>pollDot := \<lparr>dotActive = True, dotError = False,
     dotTitle = ''Live streaming (SSE) connected''\<rparr>\<rparr> else c)"

definition sse_onerror :: "console \<Rightarrow> console" where
  "sse_onerror c = (if mounted c then c\<lparr>pollDot := \<lparr>dotActive = False, dotError = True,
     dotTitle = ''Streaming disconnected, attempting reconnect...''\<rparr>\<rparr> else c)"

text \<open>\<open>poll\<close>, with the tag name of the focused element.\<close>

definition poll :: "string option \<Rightarrow> console \<Rightarrow> console" where
  "poll activeTag c =
     (if mounted c \<and> modalRoot c \<noteq> NoModal then c
      else if (case activeTag of None \<Rightarrow> False | Some t \<Rightarrow> t \<in> {''INPUT'', ''SELECT'', ''TEXTAREA''}) then c
      else emit RenderContent c)"

text \<open>One debounce cell per event source: a new event replaces the pending refresh.\<close>

datatype debounce_event = SseEvent | Elapse nat

fun debounce :: "nat option \<Rightarrow> debounce_event list \<Rightarrow> nat" where
  "debounce pending [] = 0"
| "debounce pending (SseEvent # es) = debounce (Some 150) es"
| "debounce None (Elapse d # es) = debounce None es"
| "debounce (Some r) (Elapse d # es) =
     (if r \<le> d then Suc (debounce None es) else debounce (Some (r - d)) es)"

section \<open>Invariant\<close>

definition live_inv :: "console \<Rightarrow> bool" where
  "live_inv c \<longleftrightarrow>
     map fst (liveTimers c) = (case pollTimer c of None \<Rightarrow> [] | Some t \<Rightarrow> [t])
     \<and> map fst (openSources c) = (case sseSource c of None \<Rightarrow> [] | Some h \<Rightarrow> [h])
     \<and> (case pollInterval c of
          PollStream \<Rightarrow> pollTimer c = None \<and> sseSource c \<noteq> None
        | PollMs ms \<Rightarrow> sseSource c = None \<and> (pollTimer c \<noteq> None \<longleftrightarrow> ms > 0)
            \<and> (\<forall>(i, p) \<in> set (liveTimers c). p = ms))"

lemma live_inv_cong:
  "liveTimers c = liveTimers d \<Longrightarrow> openSources c = openSources d \<Longrightarrow> pollTimer c = pollTimer d \<Longrightarrow>
   sseSource c = sseSource d \<Longrightarrow> pollInterval c = pollInterval d \<Longrightarrow> live_inv c = live_inv d"
  by (simp add: live_inv_def split: poll_mode.splits)

lemma clear_timer_simps [simp]:
  "pollTimer (clear_timer c) = None"
  "sseSource (clear_timer c) = sseSource c" "openSources (clear_timer c) = openSources c"
  "pollInterval (clear_timer c) = pollInterval c" "nextHandle (clear_timer c) = nextHandle c"
  "clientKey (clear_timer c) = clientKey c" "orgName (clear_timer c) = orgName c"
  "appName (clear_timer c) = appName c" "mounted (clear_timer c) = mounted c"
  by (simp_all add: clear_timer_def split: option.splits)

lemma close_source_simps [simp]:
  "sseSource (close_source c) = None"
  "pollTimer (close_source c) = pollTimer c" "liveTimers (close_source c) = liveTimers c"
  "pollInterval (close_source c) = pollInterval c" "nextHandle (close_source c) = nextHandle c"
  "clientKey (close_source c) = clientKey c" "orgName (close_source c) = orgName c"
  "appName (close_source c) = appName c" "mounted (close_source c) = mounted c"
  by (simp_all add: close_source_def split: option.splits)

lemma filter_own_handle: "map fst xs = [t] \<Longrightarrow> filter (\<lambda>(i, _). i \<noteq> t) xs = []"
  by (cases xs) (auto split: prod.splits)

lemma clear_timer_no_timers:
  "map fst (liveTimers c) = (case pollTimer c of None \<Rightarrow> [] | Some t \<Rightarrow> [t]) \<Longrightarrow> liveTimers (clear_timer c) = []"
  by (auto simp: clear_timer_def filter_own_handle split: option.splits)

lemma close_source_no_sources:
  "map fst (openSources c) = (case sseSource c of None \<Rightarrow> [] | Some h \<Rightarrow> [h]) \<Longrightarrow> openSources (close_source c) = []"
  by (auto simp: close_source_def filter_own_handle split: option.splits)

lemma live_inv_stopped:
  assumes "live_inv c"
  shows "liveTimers (close_source (clear_timer c)) = []" "openSources (close_source (clear_timer c)) = []"
  using assms close_source_no_sources [of "clear_timer c"]
  by (simp_all add: live_inv_def clear_timer_no_timers)

lemma poll_every_live_inv:
  assumes "liveTimers c = []" "openSources c = []" "pollTimer c = None" "sseSource c = None"
  shows "live_inv (poll_every mode c)"
  using assms by (auto simp: live_inv_def poll_every_def Let_def split: option.splits)

lemma startSSE_live_inv:
  assumes "live_inv c" and "pollInterval c = PollStream"
  shows "live_inv (startSSE ok c)"
proof -
  from assms have t: "pollTimer c = None" "liveTimers c = []" by (auto simp: live_inv_def)
  from assms have s: "openSources (close_source c) = []"
    by (intro close_source_no_sources) (simp add: live_inv_def)
  have "clear_timer (close_source c) = close_source c" using t by (simp add: clear_timer_def)
  moreover have "close_source (close_source c) = close_source c"
    by (simp add: close_source_def [of "close_source c"])
  ultimately show ?thesis
    using t s assms(2) poll_every_live_inv [of "close_source c" "''5000''"]
    by (simp add: startSSE_def Let_def) (simp add: live_inv_def)
qed

lemma setPollInterval_live_inv [inv_intros]:
  assumes "live_inv c"
  shows "live_inv (setPollInterval ok mode c)"
proof -
  let ?c = "close_source (clear_timer c)"
  note stopped = live_inv_stopped [OF assms]
  show ?thesis
  proof (cases "mode = ''stream''")
    case False
    with stopped poll_every_live_inv [of ?c mode] show ?thesis
      by (simp add: setPollInterval_def Let_def)
  next
    case True
    let ?d = "?c\<lparr>pollInterval := PollStream\<rparr>"
    have cl: "close_source ?d = ?d" "clear_timer ?d = ?d"
      by (simp_all add: close_source_def clear_timer_def split: option.splits)
    have "live_inv (poll_every ''5000'' ?d)"
      using stopped by (intro poll_every_live_inv) simp_all
    with True cl stopped show ?thesis
      by (simp add: setPollInterval_def startSSE_def Let_def) (simp add: live_inv_def)
  qed
qed

interpretation live: event_machine "\<lambda>(ok, mode). setPollInterval ok mode" live_inv
  by unfold_locales (auto intro: inv_intros)

lemma live_inv_new: "live_inv (new_console local session pd h)"
  by (simp add: live_inv_def new_console_def Let_def)

lemma debounce_pending_irrelevant: "debounce p (SseEvent # es) = debounce q (SseEvent # es)"
  by simp

lemma debounce_burst:
  "\<forall>d \<in> set ds. d < 150 \<Longrightarrow>
   debounce p (concat (map (\<lambda>d. [SseEvent, Elapse d]) ds) @ [SseEvent, Elapse t]) = (if 150 \<le> t then 1 else 0)"
proof (induction ds arbitrary: p)
  case Nil
  then show ?case by simp
next
  case (Cons d ds)
  then have "d < 150" by simp
  moreover obtain es where es: "concat (map (\<lambda>d. [SseEvent, Elapse d]) ds) @ [SseEvent, Elapse t] = SseEvent # es"
    by (cases ds) auto
  ultimately show ?case
    using Cons.IH [of "Some (150 - d)"] Cons.prems by (simp add: es)
qed

section \<open>Properties\<close>

text \<open>
  Whatever sequence of live modes the operator selects, and whichever event source fails to
  open, at most one timer or stream exists, it is the one the dashboard holds, and its kind and
  period are the selected mode.
\<close>

theorem live_handles_exclusive:
  "live_inv (fold (\<lambda>(ok, mode). setPollInterval ok mode) choices (new_console local session pd h))
   \<and> length (liveTimers (fold (\<lambda>(ok, mode). setPollInterval ok mode) choices (new_console local session pd h)))
     + length (openSources (fold (\<lambda>(ok, mode). setPollInterval ok mode) choices (new_console local session pd h))) \<le> 1"
proof -
  have "length (liveTimers c) + length (openSources c) \<le> 1" if "live_inv c" for c
  proof -
    from that have "length (map fst (liveTimers c)) + length (map fst (openSources c)) \<le> 1"
      unfolding live_inv_def by (auto split: option.splits poll_mode.splits)
    then show ?thesis by simp
  qed
  with live.run_keeps [OF live_inv_new] show ?thesis by blast
qed

text \<open>
  A burst of stream events, each less than 150 ms after the one before, causes exactly one
  refresh, 150 ms after the last of them.
\<close>

theorem debounce_refreshes_once:
  assumes "\<forall>d \<in> set gaps. d < 150" and "150 \<le> quiet"
  shows "debounce pending (concat (map (\<lambda>d. [SseEvent, Elapse d]) gaps) @ [SseEvent, Elapse quiet]) = 1"
  using debounce_burst [OF assms(1), of pending quiet] assms(2) by simp

theorem debounce_refreshes_once_witness:
  "debounce None [SseEvent, Elapse 20, SseEvent, Elapse 149, SseEvent, Elapse 200] = 1"
  using debounce_refreshes_once [of "[20, 149]" 200 None] by simp

end
