(* ===== verification/Console_Nav.thy ===== *)
theory Console_Nav
  imports Console_Live
begin

text \<open>
  Where the dashboard is and for whom: start-up, organization and application selection, sign
  in and sign out, hash routing, theme and sidebar, the filters of the audit and metrics
  screens and the viewport of the workflow graph (\<open>console/src/app.js\<close>). The reply of the
  server to the one request a handler makes is an argument of the handler; a \<open>URIError\<close> thrown
  out of \<open>handleRouting\<close> leaves the state as it was at the throw.
\<close>

section \<open>Theme and layout\<close>

definition applyTheme :: "string \<Rightarrow> console \<Rightarrow> console" where
  "applyTheme th c = c\<lparr>uiTheme := th, localStorage := AList.update ''relay-theme'' th (localStorage c)\<rparr>"

definition toggleTheme :: "console \<Rightarrow> console" where
  "toggleTheme c = applyTheme (if uiTheme c = ''dark'' then ''light'' else ''dark'') c"

definition toggleMobileNav :: "console \<Rightarrow> console" where
  "toggleMobileNav c = c\<lparr>mobileNavOpen := \<not> mobileNavOpen c\<rparr>"

definition closeMobileNav :: "console \<Rightarrow> console" where
  "closeMobileNav c = c\<lparr>mobileNavOpen := False\<rparr>"

definition toggleSidebarFold :: "console \<Rightarrow> console" where
  "toggleSidebarFold c =
     c\<lparr>sidebarFolded := \<not> sidebarFolded c,
       localStorage := AList.update ''relay-sidebar-folded''
         (if \<not> sidebarFolded c then ''true'' else ''false'') (localStorage c)\<rparr>"

section \<open>Organizations and applications\<close>

definition loadOrganizations :: "string list reply \<Rightarrow> console \<Rightarrow> console" where
  "loadOrganizations reply c =
     (let pick = (\<lambda>names.
          let c1 = c\<lparr>organizations := names\<rparr>;
              stored = opt_str (map_of (localStorage c) ''relay_selected_org'')
          in if names \<noteq> [] then
               (let org = (if stored \<noteq> [] \<and> stored \<in> set names then stored
                           else if ''default'' \<in> set names then ''default''
                           else hd names)
                in c1\<lparr>orgName := org,
                      localStorage := AList.update ''relay_selected_org'' org (localStorage c1)\<rparr>)
             else if stored \<noteq> [] then c1\<lparr>orgName := stored\<rparr>
             else c1)
      in case reply of
           Inr names \<Rightarrow> pick names
         | Inl err \<Rightarrow> if errStatus err = Some 404 then pick []
                     else c\<lparr>organizations := []\<rparr>)"

definition loadApplications :: "application list reply \<Rightarrow> console \<Rightarrow> console" where
  "loadApplications reply c =
     (case reply of
        Inl err \<Rightarrow> c\<lparr>apps := [], appName := []\<rparr>
      | Inr as \<Rightarrow>
          (let saved = opt_str (map_of (localStorage c) ''relay_selected_app'')
           in if saved \<noteq> [] \<and> saved \<in> aName ` set as then c\<lparr>apps := as, appName := saved\<rparr>
              else c\<lparr>apps := as, appName := []\<rparr>))"

definition org_switched :: "string \<Rightarrow> string" where
  "org_switched org = ''Switched to organization '' @ dq @ org @ dq @ ''. Enter its API key to continue.''"

definition onOrgChange :: "application list reply \<Rightarrow> bool \<Rightarrow> string \<Rightarrow> console \<Rightarrow> console" where
  "onOrgChange reply sse_ok newOrgName c =
     (let nxt = str_or newOrgName ''default''
      in if nxt = orgName c then c
         else
           let c1 = (if opt_str (apiKey c) \<noteq> [] \<and> starts_with (opt_str (apiKey c)) ''dbos_''
                     then showToast (org_switched nxt) ''info'' (setApiKey None c)
                     else c);
               c2 = c1\<lparr>orgName := nxt,
                       localStorage := AList.delete ''relay_selected_app''
                         (AList.update ''relay_selected_org'' nxt (localStorage c1)),
                       appName := []\<rparr>;
               c3 = render (loadApplications reply c2)
           in if pollInterval c3 = PollStream then startSSE sse_ok c3 else c3)"

definition onAppChange :: "bool \<Rightarrow> string \<Rightarrow> console \<Rightarrow> console" where
  "onAppChange sse_ok newAppName c =
     (let c1 = c\<lparr>appName := newAppName,
                 localStorage := (if newAppName \<noteq> [] then AList.update ''relay_selected_app'' newAppName (localStorage c)
                                  else AList.delete ''relay_selected_app'' (localStorage c))\<rparr>;
          c2 = (if pollInterval c1 = PollStream then startSSE sse_ok c1 else c1)
      in emit RenderContent c2)"

section \<open>Credentials\<close>

definition submitSignIn :: "string list reply \<Rightarrow> string \<Rightarrow> console \<Rightarrow> console" where
  "submitSignIn reply token c =
     (let c1 = closeModal (setApiKey (if token = [] then None else Some token) c);
          c2 = (if token \<noteq> [] then showToast ''Saved credential successfully'' ''success'' c1
                else showToast ''Cleared saved credential'' ''info'' c1)
      in render (loadOrganizations reply c2))"

definition signOut :: "string list reply \<Rightarrow> console \<Rightarrow> console" where
  "signOut reply c =
     render (loadOrganizations reply
       (showToast ''Signed out. Using unauthenticated public access'' ''info'' (closeModal (setApiKey None c))))"

section \<open>Routing\<close>

text \<open>\<open>replace(/^#\/?/, "")\<close>\<close>

definition strip_hash :: "string \<Rightarrow> string" where
  "strip_hash h = (if starts_with h ''#/'' then drop 2 h else if starts_with h ''#'' then drop 1 h else h)"

definition handleRouting :: "console \<Rightarrow> console" where
  "handleRouting c =
     (let hash = str_or (strip_hash (locationHash c)) ''fleet'';
          parts = split_on (CHR ''/'') hash;
          route = hd parts
      in if route = ''workflow'' \<and> length parts > 1 \<and> parts ! 1 \<noteq> [] then
           (case decode_uri_component (parts ! 1) of
              None \<Rightarrow> c\<lparr>currentRoute := ''workflow-detail''\<rparr>
            | Some wid \<Rightarrow> render (c\<lparr>currentRoute := ''workflow-detail'', selectedWorkflowId := Some wid\<rparr>))
         else render (c\<lparr>currentRoute := route\<rparr>))"

definition navigate :: "string \<Rightarrow> console \<Rightarrow> console" where
  "navigate route c = c\<lparr>locationHash := ''#/'' @ route\<rparr>"

definition getRouteTitle :: "console \<Rightarrow> string" where
  "getRouteTitle c =
     (let r = currentRoute c;
          scoped = (\<lambda>p d. if appName c \<noteq> [] then p @ '': '' @ appName c else d)
      in if r = ''fleet'' then scoped ''Fleet'' ''Fleet & Applications''
         else if r = ''workflows'' then scoped ''Workflows'' ''Workflows''
         else if r = ''workflow-detail'' then ''Workflow: '' @ opt_str (selectedWorkflowId c)
         else if r = ''queues'' then scoped ''Queues'' ''Queues''
         else if r = ''schedules'' then scoped ''Schedules'' ''Schedules''
         else if r = ''alerting'' then scoped ''Alert Rules'' ''Alerting Rules''
         else if r = ''metrics'' then ''Metrics''
         else if r = ''keys'' then ''API Keys''
         else if r = ''roles'' then ''Roles: '' @ orgName c
         else if r = ''autoscaling'' then scoped ''Autoscaling'' ''Autoscaling''
         else if r = ''settings'' then scoped ''Settings'' ''Settings''
         else if r = ''audit'' then ''Audit Log: '' @ orgName c
         else ''Relay Console'')"

section \<open>Start-up\<close>

record url_params =
  pTheme :: "string option"
  pSidebar :: "string option"
  pApp :: "string option"
  pOrg :: "string option"

definition init :: "url_params \<Rightarrow> string list reply \<Rightarrow> application list reply \<Rightarrow> console \<Rightarrow> console" where
  "init ps orgsReply appsReply c =
     (let c1 = (if pTheme ps \<in> {Some ''light'', Some ''dark''} then c\<lparr>uiTheme := opt_str (pTheme ps)\<rparr> else c);
          c2 = (if pSidebar ps = Some ''folded'' then c1\<lparr>sidebarFolded := True\<rparr>
                else if pSidebar ps = Some ''expanded'' then c1\<lparr>sidebarFolded := False\<rparr> else c1);
          app = opt_str (pApp ps);
          c3 = (if app \<noteq> [] then c2\<lparr>appName := app, localStorage := AList.update ''relay_selected_app'' app (localStorage c2)\<rparr>
                else c2);
          org = opt_str (pOrg ps);
          c4 = (if org \<noteq> [] then c3\<lparr>orgName := org, localStorage := AList.update ''relay_selected_org'' org (localStorage c3)\<rparr>
                else c3);
          c5 = loadApplications appsReply (loadOrganizations orgsReply (applyTheme (uiTheme c4) c4));
          c6 = (if app \<noteq> [] \<and> app \<in> aName ` set (apps c5) then c5\<lparr>appName := app\<rparr> else c5)
      in handleRouting c6)"

section \<open>Filters\<close>

definition applyAuditFilters :: "string \<Rightarrow> string \<Rightarrow> string \<Rightarrow> string \<Rightarrow> string \<Rightarrow> console \<Rightarrow> console" where
  "applyAuditFilters op subj targ st en c =
     emit RenderContent (c\<lparr>auditFilters := (auditFilters c)\<lparr>fOperation := trim op, fSubject := trim subj,
        fTarget := trim targ, fStartTime := trim st, fEndTime := trim en, fOffset := 0\<rparr>\<rparr>)"

definition clearAuditFilters :: "console \<Rightarrow> console" where
  "clearAuditFilters c = emit RenderContent (c\<lparr>auditFilters := init_audit_filters\<rparr>)"

definition auditPrevPage :: "console \<Rightarrow> console" where
  "auditPrevPage c =
     emit RenderContent (c\<lparr>auditFilters := (auditFilters c)\<lparr>fOffset :=
        max 0 (fOffset (auditFilters c) - fLimit (auditFilters c))\<rparr>\<rparr>)"

definition auditNextPage :: "console \<Rightarrow> console" where
  "auditNextPage c =
     emit RenderContent (c\<lparr>auditFilters := (auditFilters c)\<lparr>fOffset :=
        fOffset (auditFilters c) + fLimit (auditFilters c)\<rparr>\<rparr>)"

definition applyMetricsFilters :: "string \<Rightarrow> string \<Rightarrow> string option \<Rightarrow> console \<Rightarrow> console" where
  "applyMetricsFilters app wfn fam c =
     emit RenderContent (c\<lparr>metricsFilters := \<lparr>mApplication = trim app, mWorkflowName = trim wfn,
        mFamily = (case fam of None \<Rightarrow> ''all'' | Some f \<Rightarrow> f)\<rparr>\<rparr>)"

definition clearMetricsFilters :: "console \<Rightarrow> console" where
  "clearMetricsFilters c = emit RenderContent (c\<lparr>metricsFilters := init_metrics_filters\<rparr>)"

section \<open>Graph viewport\<close>

definition initDagViewport :: "console \<Rightarrow> console" where
  "initDagViewport c = c\<lparr>dagZoom := 1, dagPanX := 0, dagPanY := 0, isPanningDag := False,
     panStartX := 0, panStartY := 0\<rparr>"

definition dag_mousedown :: "bool \<Rightarrow> int \<Rightarrow> int \<Rightarrow> console \<Rightarrow> console" where
  "dag_mousedown onControl x y c =
     (if onControl then c
      else c\<lparr>isPanningDag := True, panStartX := x - dagPanX c, panStartY := y - dagPanY c\<rparr>)"

definition dag_mousemove :: "int \<Rightarrow> int \<Rightarrow> console \<Rightarrow> console" where
  "dag_mousemove x y c =
     (if \<not> isPanningDag c then c else c\<lparr>dagPanX := x - panStartX c, dagPanY := y - panStartY c\<rparr>)"

definition dag_mouseup :: "console \<Rightarrow> console" where
  "dag_mouseup c = c\<lparr>isPanningDag := False\<rparr>"

definition zoomDag :: "rat \<Rightarrow> console \<Rightarrow> console" where
  "zoomDag delta c = c\<lparr>dagZoom := min (5 / 2) (max (3 / 10) (dagZoom c + delta))\<rparr>"

definition dag_wheel :: "int \<Rightarrow> console \<Rightarrow> console" where
  "dag_wheel deltaY c = zoomDag (if deltaY < 0 then 8 / 100 else - (8 / 100)) c"

definition resetDagZoom :: "console \<Rightarrow> console" where
  "resetDagZoom c = c\<lparr>dagZoom := 1, dagPanX := 0, dagPanY := 0\<rparr>"

section \<open>Lemmas\<close>

lemma loadApplications_frame [simp]:
  "orgName (loadApplications r c) = orgName c"
  "localStorage (loadApplications r c) = localStorage c"
  "clientKey (loadApplications r c) = clientKey c" "apiKey (loadApplications r c) = apiKey c"
  "sessionStorage (loadApplications r c) = sessionStorage c"
  "pollInterval (loadApplications r c) = pollInterval c" "pollTimer (loadApplications r c) = pollTimer c"
  "sseSource (loadApplications r c) = sseSource c" "liveTimers (loadApplications r c) = liveTimers c"
  "openSources (loadApplications r c) = openSources c"
  by (simp_all add: loadApplications_def Let_def split: sum.splits)

lemma loadApplications_inv [simp]:
  "auth_inv (loadApplications r c) = auth_inv c" "live_inv (loadApplications r c) = live_inv c"
  by (rule auth_inv_cong live_inv_cong; simp)+

lemma loadOrganizations_frame [simp]:
  "clientKey (loadOrganizations r c) = clientKey c" "apiKey (loadOrganizations r c) = apiKey c"
  "sessionStorage (loadOrganizations r c) = sessionStorage c"
  "appName (loadOrganizations r c) = appName c"
  "pollInterval (loadOrganizations r c) = pollInterval c" "pollTimer (loadOrganizations r c) = pollTimer c"
  "sseSource (loadOrganizations r c) = sseSource c" "liveTimers (loadOrganizations r c) = liveTimers c"
  "openSources (loadOrganizations r c) = openSources c"
  by (simp_all add: loadOrganizations_def Let_def split: sum.splits)

lemma loadOrganizations_inv [simp]:
  "auth_inv (loadOrganizations r c) = auth_inv c" "live_inv (loadOrganizations r c) = live_inv c"
  by (rule auth_inv_cong live_inv_cong; simp)+

lemma emit_frame [simp]:
  "clientKey (emit e c) = clientKey c" "apiKey (emit e c) = apiKey c"
  "sessionStorage (emit e c) = sessionStorage c" "localStorage (emit e c) = localStorage c"
  "orgName (emit e c) = orgName c" "appName (emit e c) = appName c" "apps (emit e c) = apps c"
  "pollInterval (emit e c) = pollInterval c" "openSources (emit e c) = openSources c"
  "currentRoute (emit e c) = currentRoute c" "selectedWorkflowId (emit e c) = selectedWorkflowId c"
  "locationHash (emit e c) = locationHash c" "auditFilters (emit e c) = auditFilters c"
  "live_inv (emit e c) = live_inv c" "modalRoot (emit e c) = modalRoot c" "mounted (emit e c) = mounted c"
  "pendingConfirmAction (emit e c) = pendingConfirmAction c" "workflowAppMap (emit e c) = workflowAppMap c"
  "selectedWorkflowApp (emit e c) = selectedWorkflowApp c"
  by (simp_all add: emit_def) (rule live_inv_cong; simp)

lemma showToast_frame [simp]: "auth_inv (showToast m t c) = auth_inv c" "live_inv (showToast m t c) = live_inv c"
  by (simp_all add: showToast_def)

lemma render_frame [simp]:
  "orgName (render c) = orgName c" "appName (render c) = appName c" "apps (render c) = apps c"
  "localStorage (render c) = localStorage c" "clientKey (render c) = clientKey c"
  "apiKey (render c) = apiKey c" "sessionStorage (render c) = sessionStorage c"
  "pollInterval (render c) = pollInterval c" "openSources (render c) = openSources c"
  "currentRoute (render c) = currentRoute c" "selectedWorkflowId (render c) = selectedWorkflowId c"
  "locationHash (render c) = locationHash c" "live_inv (render c) = live_inv c"
  by (simp_all add: render_def) (rule live_inv_cong; simp)

lemma setApiKey_frame [simp]:
  "live_inv (setApiKey k c) = live_inv c" "clientKey (setApiKey k c) = k" "apiKey (setApiKey k c) = k"
  "pollInterval (setApiKey k c) = pollInterval c" "openSources (setApiKey k c) = openSources c"
  by (rule live_inv_cong; simp add: setApiKey_def) (simp_all add: setApiKey_def)

lemma closeModal_frame [simp]:
  "clientKey (closeModal c) = clientKey c" "openSources (closeModal c) = openSources c"
  "pollInterval (closeModal c) = pollInterval c" "live_inv (closeModal c) = live_inv c"
  by (simp_all add: closeModal_def) (rule impI, rule live_inv_cong; simp)

lemma startSSE_frame [simp]:
  "clientKey (startSSE ok c) = clientKey c" "apiKey (startSSE ok c) = apiKey c"
  "sessionStorage (startSSE ok c) = sessionStorage c"
  "orgName (startSSE ok c) = orgName c" "localStorage (startSSE ok c) = localStorage c"
  by (simp_all add: startSSE_def poll_every_def close_source_def clear_timer_def Let_def split: option.splits)

lemma setPollInterval_frame [simp]:
  "clientKey (setPollInterval ok m c) = clientKey c" "apiKey (setPollInterval ok m c) = apiKey c"
  "sessionStorage (setPollInterval ok m c) = sessionStorage c"
  by (simp_all add: setPollInterval_def poll_every_def close_source_def clear_timer_def Let_def split: option.splits)

lemma live_auth_inv [simp]:
  "auth_inv (startSSE ok c) = auth_inv c" "auth_inv (setPollInterval ok m c) = auth_inv c"
  by (rule auth_inv_cong; simp)+

lemma onOrgChange_live_inv [inv_intros]: "live_inv c \<Longrightarrow> live_inv (onOrgChange r ok org c)"
proof -
  have upd: "live_inv (d\<lparr>orgName := x, localStorage := y, appName := z\<rparr>) = live_inv d" for d x y z
    by (rule live_inv_cong; simp)
  assume "live_inv c"
  then show ?thesis
    by (auto simp: onOrgChange_def Let_def upd intro!: startSSE_live_inv)
qed

lemma onAppChange_live_inv [inv_intros]: "live_inv c \<Longrightarrow> live_inv (onAppChange ok app c)"
proof -
  have upd: "live_inv (d\<lparr>appName := x, localStorage := y\<rparr>) = live_inv d" for d x y
    by (rule live_inv_cong; simp)
  assume "live_inv c"
  then show ?thesis
    by (auto simp: onAppChange_def Let_def upd intro!: startSSE_live_inv)
qed

lemma onOrgChange_auth_inv [inv_intros]: "auth_inv c \<Longrightarrow> auth_inv (onOrgChange r ok org c)"
proof -
  have upd: "auth_inv (d\<lparr>orgName := x, localStorage := y, appName := z\<rparr>) = auth_inv d" for d x y z
    by (rule auth_inv_cong; simp)
  assume "auth_inv c"
  then show ?thesis by (auto simp: onOrgChange_def Let_def upd intro: auth_inv_setApiKey)
qed

lemma onAppChange_auth_inv [inv_intros]: "auth_inv c \<Longrightarrow> auth_inv (onAppChange ok app c)"
  by (subst auth_inv_cong [of _ c]) (simp_all add: onAppChange_def Let_def)

lemma signIn_invs [inv_intros]:
  "live_inv c \<Longrightarrow> live_inv (submitSignIn r token c)" "auth_inv (submitSignIn r token c)"
  "live_inv c \<Longrightarrow> live_inv (signOut r c)" "auth_inv (signOut r c)"
  by (simp_all add: submitSignIn_def signOut_def Let_def auth_inv_setApiKey)

lemma split_route: "CHR ''/'' \<notin> set r \<Longrightarrow> split_on (CHR ''/'') (r @ CHR ''/'' # s) = r # split_on (CHR ''/'') s"
  by (rule split_on_append)

lemma onOrgChange_switch:
  assumes "str_or org ''default'' \<noteq> orgName c"
  shows "orgName (onOrgChange r ok org c) = str_or org ''default''"
    and "clientKey (onOrgChange r ok org c) =
      (if opt_str (apiKey c) \<noteq> [] \<and> starts_with (opt_str (apiKey c)) ''dbos_'' then None else clientKey c)"
  using assms by (simp_all add: onOrgChange_def Let_def showToast_def)

lemma handleRouting_workflow:
  assumes "locationHash c = ''#/workflow/'' @ encode_uri_component wid" and "wid \<noteq> []"
  shows "handleRouting c = render (c\<lparr>currentRoute := ''workflow-detail'', selectedWorkflowId := Some wid\<rparr>)"
proof -
  have h: "strip_hash (locationHash c) = ''workflow'' @ CHR ''/'' # encode_uri_component wid"
    using assms by (simp add: strip_hash_def starts_with_def)
  have "split_on (CHR ''/'') (strip_hash (locationHash c)) = [''workflow'', encode_uri_component wid]"
    unfolding h by (subst split_on_append) (simp_all add: split_on_no_sep)
  with assms(2) show ?thesis
    unfolding handleRouting_def Let_def by (simp add: h str_or_def decode_encode)
qed

section \<open>Properties\<close>



text \<open>
  The organization directory, however, moves the dashboard to another organization without the
  switch above: when the stored organization is not in the list the server returns, the first
  one (or \<open>default\<close>) is selected and the API key of the old one is kept and sent to it.
\<close>

theorem loadOrganizations_keeps_key:
  "\<exists>c names. auth_inv c \<and> clientKey c = Some ''dbos_k1'' \<and> orgName c = ''acme''
     \<and> orgName (loadOrganizations (Inr names) c) = ''beta''
     \<and> clientKey (loadOrganizations (Inr names) c) = Some ''dbos_k1''"
proof -
  let ?c = "setApiKey (Some ''dbos_k1'') (new_console [(''relay_selected_org'', ''acme'')] [] False [])"
  have "auth_inv ?c" by (rule auth_inv_setApiKey) simp
  moreover have "orgName ?c = ''acme''"
    by (simp add: setApiKey_def new_console_def Let_def str_or_def)
  moreover have "orgName (loadOrganizations (Inr [''beta'']) ?c) = ''beta''"
    by (simp add: loadOrganizations_def setApiKey_def new_console_def Let_def)
  ultimately show ?thesis by (intro exI [of _ ?c] exI [of _ "[''beta'']"]) simp
qed

text \<open>
  The organization and application in force are always ones the server reported: after the
  directory answers with a non-empty list the selected organization is a member of it and is
  the one stored for the next visit; after the applications are listed the selected
  application is one of them or none.
\<close>

theorem selection_is_listed:
  assumes "names \<noteq> []"
  shows "orgName (loadOrganizations (Inr names) c) \<in> set names
    \<and> map_of (localStorage (loadOrganizations (Inr names) c)) ''relay_selected_org''
        = Some (orgName (loadOrganizations (Inr names) c))
    \<and> (appName (loadApplications r c) = [] \<or> appName (loadApplications r c) \<in> aName ` set (apps (loadApplications r c)))"
  using assms
  by (auto simp: loadOrganizations_def loadApplications_def Let_def update_conv' split: sum.splits)

theorem selection_is_listed_witness:
  "orgName (loadOrganizations (Inr [''a'', ''b'']) (new_console [] [] False [])) \<in> {''a'', ''b''}"
  using selection_is_listed [of "[''a'', ''b'']"] by simp

text \<open>
  Navigating to a workflow and routing on the resulting hash selects exactly that workflow,
  whatever characters its identifier has, and draws the detail screen.
\<close>

theorem navigate_workflow_roundtrip:
  assumes "wid \<noteq> []"
  shows "selectedWorkflowId (handleRouting (navigate (''workflow/'' @ encode_uri_component wid) c)) = Some wid
    \<and> currentRoute (handleRouting (navigate (''workflow/'' @ encode_uri_component wid) c)) = ''workflow-detail''"
  using handleRouting_workflow [of "navigate (''workflow/'' @ encode_uri_component wid) c" wid] assms
  by (simp add: navigate_def)

theorem navigate_workflow_roundtrip_witness:
  "selectedWorkflowId (handleRouting (navigate (''workflow/'' @ encode_uri_component ''a/b c'')
     (new_console [] [] False []))) = Some ''a/b c''"
  using navigate_workflow_roundtrip [of "''a/b c''"] by simp

text \<open>
  Signing out while streaming does not stop the stream: the event source that was opened with
  the credential in its URL stays open.
\<close>

theorem signOut_keeps_stream:
  "openSources (signOut r c) = openSources c \<and> clientKey (signOut r c) = None"
  by (simp add: signOut_def showToast_def)

text \<open>
  Paging through the audit log. The offset is never negative, a step forward followed by a step
  back returns to the page, and applying new filters starts again at the first page.
\<close>

theorem audit_paging:
  assumes "0 \<le> fOffset (auditFilters c)" and "0 \<le> fLimit (auditFilters c)"
  shows "auditFilters (auditPrevPage (auditNextPage c)) = auditFilters c
    \<and> 0 \<le> fOffset (auditFilters (auditPrevPage c)) \<and> fOffset (auditFilters (auditPrevPage c)) \<le> fOffset (auditFilters c)
    \<and> fOffset (auditFilters (applyAuditFilters op s t st en c)) = 0"
  using assms by (auto simp: auditPrevPage_def auditNextPage_def applyAuditFilters_def)

theorem audit_paging_witness:
  "fOffset (auditFilters (auditPrevPage (auditNextPage (new_console [] [] False [])))) = 0"
  using audit_paging [of "new_console [] [] False []"]
  by (simp add: new_console_def init_audit_filters_def Let_def)

text \<open>
  The zoom factor of the graph stays between 0.3 and 2.5 under any sequence of zoom buttons and
  wheel turns, and dragging moves the graph by exactly the distance the pointer moved.
\<close>

theorem dag_viewport_bounds:
  "3 / 10 \<le> dagZoom (zoomDag d c) \<and> dagZoom (zoomDag d c) \<le> 5 / 2
   \<and> 3 / 10 \<le> dagZoom (dag_wheel w c) \<and> dagZoom (dag_wheel w c) \<le> 5 / 2
   \<and> dagPanX (dag_mousemove x' y' (dag_mousedown False x y c)) = dagPanX c + (x' - x)
   \<and> dagPanY (dag_mousemove x' y' (dag_mousedown False x y c)) = dagPanY c + (y' - y)"
  by (auto simp: zoomDag_def dag_wheel_def dag_mousemove_def dag_mousedown_def min_def max_def)

end
