(* ===== verification/Console_Actions.thy ===== *)
theory Console_Actions
  imports Console_Nav
begin

text \<open>
  The handlers of the dashboard that change something on the server (\<open>console/src/app.js\<close>):
  workflow, schedule, alert rule, API key, role, member, settings and autoscaling operations.
  A handler validates its form fields (given as the texts the inputs hold), makes one API call
  and reports the reply with a toast. Destructive operations only open the confirmation dialog;
  the call is made by \<open>executePendingConfirm\<close>, when the operator confirms.

  \<open>console_step\<close> is the dashboard as a transition system over the operations an operator can
  perform, and \<open>confirm_inv\<close> relates the dialog on the screen to the call behind its button.
\<close>

section \<open>Workflows and schedules\<close>

definition target_app :: "string \<Rightarrow> string \<Rightarrow> console \<Rightarrow> string" where
  "target_app app wid c =
     str_or app (str_or (selectedWorkflowApp c) (str_or (opt_str (map_of (workflowAppMap c) wid)) (appName c)))"

text \<open>The \<open>try\<close>/\<open>catch\<close> of a handler around its one awaited call.\<close>

definition call_api :: "api_call \<Rightarrow> 'a reply \<Rightarrow> ('a \<Rightarrow> console \<Rightarrow> console) \<Rightarrow> string \<Rightarrow> console \<Rightarrow> console" where
  "call_api k reply onOk failed c =
     (let c1 = emit (Call k) c
      in case reply of
           Inr v \<Rightarrow> onOk v c1
         | Inl err \<Rightarrow> showToast (failed @ errMessage err) ''error'' c1)"

definition cancel_spec :: "string \<Rightarrow> string \<Rightarrow> confirm_spec" where
  "cancel_spec app wid =
     \<lparr>cTitle = ''Cancel Workflow Execution'',
      cMessage = ''Are you sure you want to cancel workflow '' @ wid @ ''?'',
      cConsequence = ''Execution will halt immediately. In-flight and pending steps will be cancelled and cannot be resumed without explicit operator intervention.'',
      cDetails = [(''Workflow ID'', wid), (''Application'', str_or app ''default''), (''Transition'', ''-> CANCELLED'')],
      cConfirmText = ''Cancel Workflow''\<rparr>"

definition cancelWorkflow :: "string \<Rightarrow> string \<Rightarrow> console \<Rightarrow> console" where
  "cancelWorkflow wid app c =
     (let t = target_app app wid c in showConfirm (cancel_spec t wid) (ConfirmCancel t wid) c)"

definition resumeWorkflow :: "unit reply \<Rightarrow> string \<Rightarrow> string \<Rightarrow> console \<Rightarrow> console" where
  "resumeWorkflow reply wid app c =
     call_api (ResumeWorkflow (orgName c) (target_app app wid c) wid) reply
       (\<lambda>_ d. emit RenderDetail (showToast (''Resumed workflow '' @ wid) ''success'' d))
       ''Failed to resume: '' c"

text \<open>
  A reply that names a new workflow: the dashboard remembers which application it belongs to and
  navigates to it. A reply without the field prints \<open>undefined\<close>, as the template string does.
\<close>

definition undef_str :: "string option \<Rightarrow> string" where
  "undef_str s = (case s of None \<Rightarrow> ''undefined'' | Some t \<Rightarrow> t)"

definition goto_new_workflow :: "string option \<Rightarrow> string \<Rightarrow> console \<Rightarrow> console" where
  "goto_new_workflow wid app c =
     (let c1 = (if opt_str wid \<noteq> [] \<and> app \<noteq> []
                then c\<lparr>selectedWorkflowApp := app, workflowAppMap := AList.update (opt_str wid) app (workflowAppMap c)\<rparr>
                else c)
      in navigate (''workflow/'' @ encode_uri_component (undef_str wid)) c1)"

definition restartWorkflow :: "string option reply \<Rightarrow> string \<Rightarrow> string \<Rightarrow> console \<Rightarrow> console" where
  "restartWorkflow reply wid app c =
     (let t = target_app app wid c
      in call_api (ForkWorkflow (orgName c) t wid 0) reply
           (\<lambda>new d. goto_new_workflow new t (showToast (''Restarted workflow! New ID: '' @ undef_str new) ''success'' d))
           ''Failed to restart: '' c)"

definition pauseSchedule :: "unit reply \<Rightarrow> string \<Rightarrow> string \<Rightarrow> console \<Rightarrow> console" where
  "pauseSchedule reply sname app c =
     call_api (PauseSchedule (orgName c) (str_or app (appName c)) sname) reply
       (\<lambda>_ d. emit RenderContent (showToast (''Schedule '' @ dq @ sname @ dq @ '' paused'') ''success'' d))
       ''Failed to pause schedule: '' c"

definition resumeSchedule :: "unit reply \<Rightarrow> string \<Rightarrow> string \<Rightarrow> console \<Rightarrow> console" where
  "resumeSchedule reply sname app c =
     call_api (ResumeSchedule (orgName c) (str_or app (appName c)) sname) reply
       (\<lambda>_ d. emit RenderContent (showToast (''Schedule '' @ dq @ sname @ dq @ '' resumed'') ''success'' d))
       ''Failed to resume schedule: '' c"

definition triggerSchedule :: "string option reply \<Rightarrow> string \<Rightarrow> string \<Rightarrow> console \<Rightarrow> console" where
  "triggerSchedule reply sname app c =
     (let t = str_or app (appName c)
      in call_api (TriggerSchedule (orgName c) t sname) reply
           (\<lambda>new d. goto_new_workflow new t
              (showToast (''Triggered schedule '' @ dq @ sname @ dq @ ''. New Workflow: '' @ undef_str new) ''success'' d))
           ''Failed to trigger schedule: '' c)"

definition submitSendMessage :: "(string \<Rightarrow> jsval option) \<Rightarrow> unit reply \<Rightarrow> string \<Rightarrow> string \<Rightarrow> console \<Rightarrow> console" where
  "submitSendMessage json_parse reply topic raw c =
     (if trim raw = [] then showToast ''Payload is required'' ''error'' c
      else case json_parse (trim raw) of
             None \<Rightarrow> showToast ''Payload must be valid JSON'' ''error'' c
           | Some payload \<Rightarrow>
               (let wid = (case selectedWorkflowId c of None \<Rightarrow> ''null'' | Some w \<Rightarrow> w); t = target_app [] wid c
                in call_api (SendWorkflowMessage (orgName c) t wid payload
                      (if trim topic = [] then None else Some (trim topic))) reply
                     (\<lambda>_ d. showToast (''Message sent to workflow '' @ wid) ''success'' (closeModal d))
                     ''Failed to send: '' c))"

section \<open>Alert rules\<close>

definition first_app :: "string \<Rightarrow> console \<Rightarrow> string" where
  "first_app dflt c = str_or (appName c) (case apps c of [] \<Rightarrow> dflt | a # _ \<Rightarrow> aName a)"

definition submitCreateAlert ::
  "(string \<Rightarrow> jsval option) \<Rightarrow> unit reply \<Rightarrow> string option \<Rightarrow> string \<Rightarrow> string \<Rightarrow> string \<Rightarrow> console \<Rightarrow> console" where
  "submitCreateAlert json_parse reply appSelect ruleType interval meta c =
     (let t = (case appSelect of Some a \<Rightarrow> a | None \<Rightarrow> first_app [] c);
          secs = (case parse_int interval of None \<Rightarrow> 0 | Some n \<Rightarrow> n)
      in case json_parse meta of
           None \<Rightarrow> showToast ''Invalid JSON in rule metadata'' ''error'' c
         | Some m \<Rightarrow>
             call_api (CreateAlertingRule (orgName c) t ruleType secs m) reply
               (\<lambda>_ d. emit RenderContent (showToast ''Alert rule created successfully'' ''success'' (closeModal d)))
               ''Failed to create rule: '' c)"

definition delete_rule_spec :: "string \<Rightarrow> string \<Rightarrow> confirm_spec" where
  "delete_rule_spec app rid =
     \<lparr>cTitle = ''Delete Alert Rule'',
      cMessage = ''Are you sure you want to delete alert rule '' @ dq @ rid @ dq @ ''?'',
      cConsequence = ''Alert notifications defined by this rule will immediately stop firing. This action cannot be undone.'',
      cDetails = [(''Rule ID'', rid), (''Application'', app), (''Action'', ''Permanent deletion'')],
      cConfirmText = ''Delete Rule''\<rparr>"

definition deleteAlertRule :: "string \<Rightarrow> string \<Rightarrow> console \<Rightarrow> console" where
  "deleteAlertRule rid app c =
     (let t = str_or app (first_app ''default'' c) in showConfirm (delete_rule_spec t rid) (ConfirmDeleteRule t rid) c)"

section \<open>API keys, roles, members\<close>

definition submitCreateKey :: "string reply \<Rightarrow> string \<Rightarrow> string \<Rightarrow> console \<Rightarrow> console" where
  "submitCreateKey reply rawName appScope c =
     (let kname = trim rawName
      in if kname = [] then showToast ''Key name is required'' ''error'' c
         else call_api (CreateAPIKey (orgName c) kname [''*''] (if appScope \<noteq> [] then [appScope] else [])) reply
                (\<lambda>token d. openModal (KeyCreatedModal kname token) d)
                ''Failed to create key: '' c)"

definition revoke_spec :: "string \<Rightarrow> string \<Rightarrow> confirm_spec" where
  "revoke_spec org kname =
     \<lparr>cTitle = ''Revoke API Key'',
      cMessage = ''Are you sure you want to revoke API key '' @ dq @ kname @ dq @ ''?'',
      cConsequence = ''Any application, executor, or service authenticating with this key will immediately receive 401 Unauthorized errors.'',
      cDetails = [(''Key Name'', kname), (''Organization'', org), (''Effect'', ''Immediate revocation'')],
      cConfirmText = ''Revoke Key''\<rparr>"

definition revokeKey :: "string \<Rightarrow> console \<Rightarrow> console" where
  "revokeKey kname c = showConfirm (revoke_spec (orgName c) kname) (ConfirmRevokeKey kname) c"

definition submitCreateRole :: "unit reply \<Rightarrow> string option \<Rightarrow> string list \<Rightarrow> console \<Rightarrow> console" where
  "submitCreateRole reply nameEl permissions c =
     (let rname = (case nameEl of None \<Rightarrow> [] | Some v \<Rightarrow> trim v)
      in if length rname < 3 \<or> length rname > 30
         then showToast ''Role name must be between 3 and 30 characters'' ''error'' c
         else call_api (CreateRole (orgName c) rname permissions) reply
                (\<lambda>_ d. emit RenderContent (showToast (''Role '' @ dq @ rname @ dq @ '' created'') ''success'' (closeModal d)))
                ''Failed to create role: '' c)"

definition delete_role_spec :: "string \<Rightarrow> string \<Rightarrow> confirm_spec" where
  "delete_role_spec org rname =
     \<lparr>cTitle = ''Delete Role'',
      cMessage = ''Are you sure you want to delete role '' @ dq @ rname @ dq @ ''?'',
      cConsequence = ''Members holding this role lose its permissions immediately.'',
      cDetails = [(''Role'', rname), (''Organization'', org)],
      cConfirmText = ''Delete Role''\<rparr>"

definition deleteRole :: "string \<Rightarrow> console \<Rightarrow> console" where
  "deleteRole rname c = showConfirm (delete_role_spec (orgName c) rname) (ConfirmDeleteRole rname) c"

definition grantMemberRole :: "unit reply \<Rightarrow> string \<Rightarrow> string option \<Rightarrow> console \<Rightarrow> console" where
  "grantMemberRole reply username select c =
     (let rname = opt_str select
      in if rname = [] then showToast ''Select a role to grant'' ''error'' c
         else call_api (GrantMemberRole (orgName c) username rname) reply
                (\<lambda>_ d. emit RenderContent (showToast (''Granted '' @ dq @ rname @ dq @ '' to '' @ username) ''success'' d))
                ''Failed to grant role: '' c)"

definition remove_member_spec :: "string \<Rightarrow> string \<Rightarrow> confirm_spec" where
  "remove_member_spec org username =
     \<lparr>cTitle = ''Remove Member'',
      cMessage = ''Are you sure you want to remove '' @ username @ '' from this organization?'',
      cConsequence = ''The user loses all access to this organization immediately.'',
      cDetails = [(''User'', username), (''Organization'', org)],
      cConfirmText = ''Remove Member''\<rparr>"

definition removeMember :: "string \<Rightarrow> console \<Rightarrow> console" where
  "removeMember username c =
     showConfirm (remove_member_spec (orgName c) username) (ConfirmRemoveMember username) c"

section \<open>Application settings and autoscaling\<close>

datatype form_num = Blank | Invalid | Value rat

definition readNum :: "string \<Rightarrow> rat \<Rightarrow> form_num" where
  "readNum raw mn =
     (if trim raw = [] then Blank
      else case to_number (trim raw) of Fin n \<Rightarrow> if n \<ge> mn then Value n else Invalid | _ \<Rightarrow> Invalid)"

definition floor_of :: "rat \<Rightarrow> form_num \<Rightarrow> int option" where
  "floor_of k v = (case v of Value n \<Rightarrow> Some \<lfloor>n * k\<rfloor> | _ \<Rightarrow> None)"

fun first_invalid :: "(string \<times> form_num \<times> string) list \<Rightarrow> (string \<times> string) option" where
  "first_invalid [] = None"
| "first_invalid ((label, v, mn) # rest) = (if v = Invalid then Some (label, mn) else first_invalid rest)"

definition submitAppSettings ::
  "unit reply \<Rightarrow> string \<Rightarrow> string \<Rightarrow> string \<Rightarrow> string \<Rightarrow> bool \<Rightarrow> console \<Rightarrow> console" where
  "submitAppSettings reply rowsRaw hoursRaw globalRaw execRaw priv c =
     (let gcRows = readNum rowsRaw 0; gcHours = readNum hoursRaw 0;
          globalHours = readNum globalRaw 0; execTimeout = readNum execRaw 1
      in case first_invalid [(''retention rows'', gcRows, ''0''), (''retention hours'', gcHours, ''0''),
                             (''global timeout'', globalHours, ''0''), (''executor timeout'', execTimeout, ''1'')] of
           Some (label, mn) \<Rightarrow>
             showToast (''Invalid '' @ label @ '': enter a number at least '' @ mn @ '' or blank'') ''error'' c
         | None \<Rightarrow>
             call_api (UpdateApp (orgName c) (appName c)
                 \<lparr>setPrivateMode = priv, gcRowsThreshold = floor_of 1 gcRows,
                  gcTimeThresholdMs = floor_of 3600000 gcHours, globalTimeoutMs = floor_of 3600000 globalHours,
                  setExecutorTimeoutSecs = floor_of 1 execTimeout\<rparr>) reply
               (\<lambda>_ d. emit RenderContent (showToast ''Application settings saved'' ''success'' d))
               ''Failed to save settings: '' c)"

definition readOpt :: "string \<Rightarrow> form_num" where
  "readOpt raw =
     (if trim raw = [] then Blank
      else case to_number (trim raw) of
             Fin n \<Rightarrow> if \<lfloor>n\<rfloor> < 0 then Invalid else Value (of_int \<lfloor>n\<rfloor>)
           | _ \<Rightarrow> Invalid)"

definition submitAutoscalingPolicy :: "unit reply \<Rightarrow> string \<Rightarrow> string \<Rightarrow> string \<Rightarrow> console \<Rightarrow> console" where
  "submitAutoscalingPolicy reply queue oldRaw execRaw c =
     (if queue = [] then showToast ''Select a policy queue first'' ''error'' c
      else
        let maxOld = readOpt oldRaw; maxExec = readOpt execRaw
        in if maxOld = Invalid \<or> maxExec = Invalid
           then showToast ''Rollout caps must be non-negative numbers or blank'' ''error'' c
           else call_api (SetAutoscalingPolicy (orgName c) (appName c) queue
                  (if maxOld \<noteq> Blank \<or> maxExec \<noteq> Blank
                   then Some \<lparr>maxOldApplicationVersions = floor_of 1 maxOld,
                              maxExecutorsForOldApplicationVersions = floor_of 1 maxExec\<rparr>
                   else None)) reply
                (\<lambda>_ d. emit RenderContent (showToast ''Autoscaling policy saved'' ''success'' d))
                ''Failed to save policy: '' c)"

definition delete_policy_spec :: "string \<Rightarrow> confirm_spec" where
  "delete_policy_spec app =
     \<lparr>cTitle = ''Delete Autoscaling Policy'',
      cMessage = ''Turn off autoscaling for '' @ dq @ app @ dq @ ''?'',
      cConsequence = ''Scalers polling the recommendation endpoints will receive 404 responses until a new policy is attached.'',
      cDetails = [(''Application'', app), (''Action'', ''Delete policy'')],
      cConfirmText = ''Delete Policy''\<rparr>"

definition deleteAutoscalingPolicy :: "console \<Rightarrow> console" where
  "deleteAutoscalingPolicy c = showConfirm (delete_policy_spec (appName c)) (ConfirmDeletePolicy (appName c)) c"

section \<open>Confirmation\<close>

text \<open>The closures behind the dialog; the organization is read when they run.\<close>

fun confirmed_call :: "string \<Rightarrow> confirm_action \<Rightarrow> api_call" where
  "confirmed_call org (ConfirmCancel app wid) = CancelWorkflow org app wid"
| "confirmed_call org (ConfirmDeleteRule app rid) = DeleteAlertingRule org app rid"
| "confirmed_call org (ConfirmRevokeKey kname) = RevokeAPIKey org kname"
| "confirmed_call org (ConfirmDeleteRole rname) = DeleteRole org rname"
| "confirmed_call org (ConfirmRemoveMember u) = RemoveMember org u"
| "confirmed_call org (ConfirmDeletePolicy app) = DeleteAutoscalingPolicy org app"

fun confirmed_toasts :: "confirm_action \<Rightarrow> string \<times> string" where
  "confirmed_toasts (ConfirmCancel app wid) = (''Workflow '' @ wid @ '' cancelled'', ''Failed to cancel: '')"
| "confirmed_toasts (ConfirmDeleteRule app rid) = (''Alert rule deleted'', ''Failed to delete rule: '')"
| "confirmed_toasts (ConfirmRevokeKey kname) = (''API key '' @ dq @ kname @ dq @ '' revoked'', ''Failed to revoke key: '')"
| "confirmed_toasts (ConfirmDeleteRole rname) = (''Role '' @ dq @ rname @ dq @ '' deleted'', ''Failed to delete role: '')"
| "confirmed_toasts (ConfirmRemoveMember u) = (u @ '' removed'', ''Failed to remove member: '')"
| "confirmed_toasts (ConfirmDeletePolicy app) = (''Autoscaling policy deleted'', ''Failed to delete policy: '')"

definition run_confirmed :: "unit reply \<Rightarrow> confirm_action \<Rightarrow> console \<Rightarrow> console" where
  "run_confirmed reply a c =
     call_api (confirmed_call (orgName c) a) reply
       (\<lambda>_ d. emit (case a of ConfirmCancel _ _ \<Rightarrow> RenderDetail | _ \<Rightarrow> RenderContent)
          (showToast (fst (confirmed_toasts a)) ''success'' d))
       (snd (confirmed_toasts a)) c"

definition executePendingConfirm :: "unit reply \<Rightarrow> console \<Rightarrow> console" where
  "executePendingConfirm reply c =
     (let act = pendingConfirmAction c; c1 = closeModal (c\<lparr>pendingConfirmAction := None\<rparr>)
      in case act of None \<Rightarrow> c1 | Some a \<Rightarrow> run_confirmed reply a c1)"

section \<open>The dashboard as a transition system\<close>

fun destructive :: "api_call \<Rightarrow> bool" where
  "destructive (CancelWorkflow _ _ _) = True"
| "destructive (DeleteAlertingRule _ _ _) = True"
| "destructive (RevokeAPIKey _ _) = True"
| "destructive (DeleteRole _ _) = True"
| "destructive (RemoveMember _ _) = True"
| "destructive (DeleteAutoscalingPolicy _ _) = True"
| "destructive _ = False"

fun action_spec :: "string \<Rightarrow> confirm_action \<Rightarrow> confirm_spec" where
  "action_spec org (ConfirmCancel app wid) = cancel_spec app wid"
| "action_spec org (ConfirmDeleteRule app rid) = delete_rule_spec app rid"
| "action_spec org (ConfirmRevokeKey kname) = revoke_spec org kname"
| "action_spec org (ConfirmDeleteRole rname) = delete_role_spec org rname"
| "action_spec org (ConfirmRemoveMember u) = remove_member_spec org u"
| "action_spec org (ConfirmDeletePolicy app) = delete_policy_spec app"

inductive console_step :: "console \<Rightarrow> console \<Rightarrow> bool" where
  set_poll: "console_step c (setPollInterval ok mode c)"
| tick: "console_step c (poll tag c)"
| org: "console_step c (onOrgChange r1 ok org c)"
| app: "console_step c (onAppChange ok app c)"
| sign_in: "console_step c (submitSignIn r2 token c)"
| sign_out: "console_step c (signOut r2 c)"
| hash: "console_step c (handleRouting c)"
| nav: "console_step c (navigate route c)"
| theme_toggle: "console_step c (toggleTheme c)"
| sidebar: "console_step c (toggleSidebarFold c)"
| cancel: "console_step c (cancelWorkflow wid app c)"
| resume: "console_step c (resumeWorkflow r wid app c)"
| restart: "console_step c (restartWorkflow r3 wid app c)"
| pause_sched: "console_step c (pauseSchedule r sname app c)"
| resume_sched: "console_step c (resumeSchedule r sname app c)"
| trigger_sched: "console_step c (triggerSchedule r3 sname app c)"
| send: "console_step c (submitSendMessage jp r topic raw c)"
| create_alert: "console_step c (submitCreateAlert jp r sel rt iv meta c)"
| delete_alert: "console_step c (deleteAlertRule rid app c)"
| create_key: "console_step c (submitCreateKey r4 raw scope c)"
| revoke: "console_step c (revokeKey kname c)"
| create_role: "console_step c (submitCreateRole r el perms c)"
| delete_role: "console_step c (deleteRole rname c)"
| grant: "console_step c (grantMemberRole r u select c)"
| remove: "console_step c (removeMember u c)"
| settings: "console_step c (submitAppSettings r a1 a2 a3 a4 priv c)"
| policy: "console_step c (submitAutoscalingPolicy r queue b1 b2 c)"
| delete_policy: "console_step c (deleteAutoscalingPolicy c)"
| close: "console_step c (closeModal c)"
| sign_in_modal: "console_step c (openSignInModal c)"
| confirm: "modalRoot c = ConfirmDialog spec \<Longrightarrow> console_step c (executePendingConfirm r c)"

inductive reachable_from :: "console \<Rightarrow> console \<Rightarrow> bool" for c0 where
  start: "reachable_from c0 c0"
| step: "reachable_from c0 c \<Longrightarrow> console_step c c' \<Longrightarrow> reachable_from c0 c'"

definition confirm_inv :: "console \<Rightarrow> bool" where
  "confirm_inv c \<longleftrightarrow> (\<forall>spec. modalRoot c = ConfirmDialog spec \<longrightarrow>
     mounted c \<and> (\<exists>a. pendingConfirmAction c = Some a \<and> spec = action_spec (orgName c) a))"

section \<open>What one step can do\<close>

text \<open>Calls made between two states, from the effects appended.\<close>

definition new_calls :: "console \<Rightarrow> console \<Rightarrow> api_call list" where
  "new_calls c d = concat (map (\<lambda>e. case e of Call k \<Rightarrow> [k] | _ \<Rightarrow> []) (drop (length (effects c)) (effects d)))"

definition quiet :: "console \<Rightarrow> console \<Rightarrow> bool" where
  "quiet c d \<longleftrightarrow> (\<exists>es. effects d = effects c @ es \<and> (\<forall>k. Call k \<in> set es \<longrightarrow> \<not> destructive k))"

definition modal_ok :: "console \<Rightarrow> console \<Rightarrow> bool" where
  "modal_ok c d \<longleftrightarrow>
     modalRoot d = modalRoot c \<and> mounted d = mounted c \<and> pendingConfirmAction d = pendingConfirmAction c \<and> orgName d = orgName c
     \<or> (\<forall>spec. modalRoot d \<noteq> ConfirmDialog spec)"

text \<open>The fields the credential and live-telemetry invariants speak about.\<close>

definition core_same :: "console \<Rightarrow> console \<Rightarrow> bool" where
  "core_same c d \<longleftrightarrow> clientKey d = clientKey c \<and> apiKey d = apiKey c \<and> sessionStorage d = sessionStorage c
     \<and> liveTimers d = liveTimers c \<and> openSources d = openSources c \<and> pollTimer d = pollTimer c
     \<and> sseSource d = sseSource c \<and> pollInterval d = pollInterval c"

lemma core_same_inv: "core_same c d \<Longrightarrow> auth_inv c \<Longrightarrow> live_inv c \<Longrightarrow> auth_inv d \<and> live_inv d"
  using auth_inv_cong [of c d] live_inv_cong [of c d] by (auto simp: core_same_def)

lemma quiet_refl [simp, intro]: "quiet c c"
  by (auto simp: quiet_def)

lemma quiet_same: "effects d = effects c \<Longrightarrow> quiet c d"
  by (auto simp: quiet_def)

lemma quiet_emit [intro]:
  "quiet c d \<Longrightarrow> (\<And>k. e = Call k \<Longrightarrow> \<not> destructive k) \<Longrightarrow> quiet c (emit e d)"
  unfolding quiet_def by (elim exE conjE) (auto intro!: exI [of _ "_ @ [e]"])

lemma quiet_trans: "quiet c d \<Longrightarrow> quiet d e \<Longrightarrow> quiet c e"
  by (force simp: quiet_def)

lemma quiet_toast [intro]: "quiet c d \<Longrightarrow> quiet c (showToast m t d)"
  by (auto simp: showToast_def)

lemma quiet_render [intro]: "quiet c d \<Longrightarrow> quiet c (render d)"
proof -
  assume "quiet c d"
  then have "quiet c (d\<lparr>mounted := True, modalRoot := NoModal\<rparr>)" by (simp add: quiet_def)
  then show ?thesis by (auto simp: render_def)
qed

lemma effects_modal [simp]:
  "effects (closeModal c) = effects c" "effects (openModal m c) = effects c"
  "effects (setApiKey k c) = effects c" "effects (navigate r c) = effects c"
  "effects (goto_new_workflow w a c) = effects c" "effects (showConfirm s ca c) = effects c"
  by (simp_all add: closeModal_def openModal_def setApiKey_def navigate_def goto_new_workflow_def
      showConfirm_def Let_def)

lemma effects_load [simp]:
  "effects (loadApplications r1 c) = effects c" "effects (loadOrganizations r2 c) = effects c"
  by (simp_all add: loadApplications_def loadOrganizations_def Let_def split: sum.split)

lemma effects_stop [simp]:
  "effects (poll_every m c) = effects c" "effects (close_source c) = effects c" "effects (clear_timer c) = effects c"
  by (simp_all add: poll_every_def close_source_def clear_timer_def Let_def split: option.split)

lemma effects_live [simp]:
  "effects (startSSE ok c) = effects c" "effects (setPollInterval ok m c) = effects c"
  by (simp_all add: startSSE_def setPollInterval_def Let_def)

lemma quiet_closeModal [intro]: "quiet c d \<Longrightarrow> quiet c (closeModal d)"
  by (simp add: quiet_def)

lemma quiet_call_api:
  assumes "\<not> destructive k" and "\<And>v d. quiet d (onOk v d)"
  shows "quiet c (call_api k reply onOk failed c)"
proof -
  have "quiet c (emit (Call k) c)" using assms(1) by blast
  then show ?thesis
    using assms(2) by (cases reply) (auto simp: call_api_def intro: quiet_trans)
qed

lemma modal_ok_refl [simp, intro]: "modal_ok c c"
  by (simp add: modal_ok_def)

lemma core_same_refl [simp, intro]: "core_same c c"
  by (simp add: core_same_def)

lemma modal_ok_trans: "modal_ok c d \<Longrightarrow> modal_ok d e \<Longrightarrow> modal_ok c e"
  by (auto simp: modal_ok_def)

lemma core_same_trans: "core_same c d \<Longrightarrow> core_same d e \<Longrightarrow> core_same c e"
  by (simp add: core_same_def)

lemma emit_ok [intro]:
  "modal_ok c d \<Longrightarrow> modal_ok c (emit e d)" "core_same c d \<Longrightarrow> core_same c (emit e d)"
  by (auto simp: modal_ok_def core_same_def emit_def)

lemma toast_ok [intro]:
  "modal_ok c d \<Longrightarrow> modal_ok c (showToast m t d)" "core_same c d \<Longrightarrow> core_same c (showToast m t d)"
  by (auto simp: showToast_def)

lemma modal_root_ok [intro]:
  "modal_ok c d \<Longrightarrow> modal_ok c (closeModal d)" "core_same c d \<Longrightarrow> core_same c (closeModal d)"
  "modal_ok c d \<Longrightarrow> modal_ok c (openModal (KeyCreatedModal a b) d)" "core_same c d \<Longrightarrow> core_same c (openModal m d)"
  "modal_ok c d \<Longrightarrow> modal_ok c (openModal SignInModal d)"
  by (auto simp: modal_ok_def core_same_def closeModal_def openModal_def)

lemma goto_ok [intro]:
  "modal_ok c d \<Longrightarrow> modal_ok c (goto_new_workflow w a d)" "core_same c d \<Longrightarrow> core_same c (goto_new_workflow w a d)"
  by (auto simp: modal_ok_def core_same_def goto_new_workflow_def navigate_def Let_def)

lemma quiet_more [intro]:
  "quiet c d \<Longrightarrow> quiet c (goto_new_workflow w a d)" "quiet c d \<Longrightarrow> quiet c (openModal m d)"
  by (simp_all add: quiet_def)

text \<open>A step that makes no destructive call, opens no confirmation and leaves the core fields alone.\<close>

definition benign :: "console \<Rightarrow> console \<Rightarrow> bool" where
  "benign c d \<longleftrightarrow> quiet c d \<and> modal_ok c d \<and> core_same c d"

lemma benign_refl [simp, intro]: "benign c c"
  by (simp add: benign_def)

lemma benign_emit: "benign c d \<Longrightarrow> (\<And>k. e = Call k \<Longrightarrow> \<not> destructive k) \<Longrightarrow> benign c (emit e d)"
  by (auto simp: benign_def)

lemma benign_toast: "benign c d \<Longrightarrow> benign c (showToast m t d)"
  by (auto simp: benign_def)

lemma benign_close: "benign c d \<Longrightarrow> benign c (closeModal d)"
  by (auto simp: benign_def)

lemma benign_key_modal: "benign c d \<Longrightarrow> benign c (openModal (KeyCreatedModal a b) d)"
  by (auto simp: benign_def)

lemma benign_goto: "benign c d \<Longrightarrow> benign c (goto_new_workflow w a d)"
  by (auto simp: benign_def)

lemmas benign_intros = benign_refl benign_emit benign_toast benign_close benign_key_modal benign_goto

lemma benign_call_api:
  assumes "\<not> destructive k" and "\<And>v d. benign d (onOk v d)"
  shows "benign c (call_api k reply onOk failed c)"
proof -
  have e: "modal_ok c (emit (Call k) c)" "core_same c (emit (Call k) c)" by blast+
  from assms(2) have ok: "quiet d (onOk v d)" "modal_ok d (onOk v d)" "core_same d (onOk v d)" for v d
    by (simp_all add: benign_def)
  have "modal_ok c (call_api k reply onOk failed c)" "core_same c (call_api k reply onOk failed c)"
    using e ok by (cases reply; auto simp: call_api_def intro: modal_ok_trans core_same_trans)+
  with quiet_call_api [of k onOk c reply failed] assms(1) ok show ?thesis by (simp add: benign_def)
qed

lemma benign_workflow_handlers:
  "benign c (resumeWorkflow r wid app c)" "benign c (restartWorkflow r3 wid app c)"
  "benign c (pauseSchedule r sname app c)" "benign c (resumeSchedule r sname app c)"
  "benign c (triggerSchedule r3 sname app c)"
  unfolding resumeWorkflow_def restartWorkflow_def pauseSchedule_def resumeSchedule_def triggerSchedule_def Let_def
  by (rule benign_call_api, simp, (intro benign_intros; simp))+

lemma benign_submitSendMessage: "benign c (submitSendMessage jp r topic raw c)"
  unfolding submitSendMessage_def Let_def
  by (auto split: option.splits simp del: append.simps intro!: benign_call_api benign_intros)

lemma benign_submitCreateAlert: "benign c (submitCreateAlert jp r sel rt iv meta c)"
  unfolding submitCreateAlert_def Let_def
  by (auto split: option.splits intro!: benign_call_api benign_intros)

lemma benign_submitCreateKey: "benign c (submitCreateKey r4 raw scope c)"
  unfolding submitCreateKey_def Let_def by (auto intro!: benign_call_api benign_intros)

lemma benign_submitCreateRole: "benign c (submitCreateRole r el perms c)"
  unfolding submitCreateRole_def Let_def
  by (auto simp del: append.simps intro!: benign_call_api benign_intros)

lemma benign_grantMemberRole: "benign c (grantMemberRole r u select c)"
  unfolding grantMemberRole_def Let_def
  by (auto simp del: append.simps intro!: benign_call_api benign_intros)

lemma benign_submitAppSettings: "benign c (submitAppSettings r a1 a2 a3 a4 priv c)"
  unfolding submitAppSettings_def Let_def
  by (auto simp del: append.simps first_invalid.simps split: option.splits intro!: benign_call_api benign_intros)

lemma benign_submitAutoscalingPolicy: "benign c (submitAutoscalingPolicy r queue b1 b2 c)"
  unfolding submitAutoscalingPolicy_def Let_def by (auto intro!: benign_call_api benign_intros)

lemmas benign_handlers = benign_workflow_handlers benign_submitSendMessage benign_submitCreateAlert
  benign_submitCreateKey benign_submitCreateRole benign_grantMemberRole benign_submitAppSettings
  benign_submitAutoscalingPolicy

lemma benign_poll: "benign c (poll tag c)"
  by (auto simp: poll_def benign_def)

lemma benign_modal: "benign c (closeModal c)" "benign c (openSignInModal c)"
  by (auto simp: benign_def openSignInModal_def quiet_same)

lemma benign_layout: "benign c (navigate route c)" "benign c (toggleTheme c)" "benign c (toggleSidebarFold c)"
  by (simp_all add: benign_def quiet_same modal_ok_def core_same_def navigate_def toggleTheme_def
      applyTheme_def toggleSidebarFold_def)

lemma benign_render: "core_same c d \<Longrightarrow> effects d = effects c \<Longrightarrow> benign c (render d)"
  by (auto simp: benign_def modal_ok_def core_same_def render_def emit_def quiet_def)

lemma benign_handleRouting: "benign c (handleRouting c)"
  by (auto simp: handleRouting_def Let_def intro!: benign_render split: option.splits)
    (auto simp: core_same_def benign_def modal_ok_def quiet_same)

lemma stop_modal_frame [simp]:
  "modalRoot (poll_every m c) = modalRoot c" "pendingConfirmAction (poll_every m c) = pendingConfirmAction c"
  "modalRoot (close_source c) = modalRoot c" "pendingConfirmAction (close_source c) = pendingConfirmAction c"
  "modalRoot (clear_timer c) = modalRoot c" "pendingConfirmAction (clear_timer c) = pendingConfirmAction c"
  "orgName (poll_every m c) = orgName c" "mounted (poll_every m c) = mounted c"
  by (simp_all add: poll_every_def close_source_def clear_timer_def Let_def split: option.split)

lemma live_modal_frame [simp]:
  "modalRoot (startSSE ok c) = modalRoot c" "pendingConfirmAction (startSSE ok c) = pendingConfirmAction c"
  "modalRoot (setPollInterval ok m c) = modalRoot c"
  "pendingConfirmAction (setPollInterval ok m c) = pendingConfirmAction c"
  "orgName (setPollInterval ok m c) = orgName c"
  "mounted (startSSE ok c) = mounted c" "mounted (setPollInterval ok m c) = mounted c"
  by (simp_all add: startSSE_def setPollInterval_def Let_def)

lemma quiet_switches:
  "quiet c (setPollInterval ok m c)" "quiet c (onOrgChange r1 ok org c)" "quiet c (onAppChange ok app c)"
  "quiet c (submitSignIn r2 token c)" "quiet c (signOut r2 c)"
proof -
  show "quiet c (setPollInterval ok m c)" by (simp add: quiet_same)
  have upd: "quiet c d \<Longrightarrow> quiet c (d\<lparr>orgName := x, localStorage := y, appName := z\<rparr>)" for d x y z
    by (simp add: quiet_def)
  have more: "quiet c d \<Longrightarrow> quiet c (loadApplications r1 d)" "quiet c d \<Longrightarrow> quiet c (loadOrganizations r2 d)"
    "quiet c d \<Longrightarrow> quiet c (startSSE ok d)" "quiet c d \<Longrightarrow> quiet c (setApiKey k d)" for d k
    by (simp_all add: quiet_def)
  show "quiet c (onOrgChange r1 ok org c)"
    by (auto simp: onOrgChange_def Let_def intro!: more upd)
  show "quiet c (onAppChange ok app c)"
    unfolding onAppChange_def Let_def by (intro quiet_emit; simp add: quiet_same)
  show "quiet c (submitSignIn r2 token c)" "quiet c (signOut r2 c)"
    by (auto simp: submitSignIn_def signOut_def Let_def intro!: more quiet_render quiet_toast quiet_closeModal)
qed

lemma modal_switches:
  "modal_ok c (setPollInterval ok m c)" "modal_ok c (onOrgChange r1 ok org c)" "modal_ok c (onAppChange ok app c)"
  "modal_ok c (submitSignIn r2 token c)" "modal_ok c (signOut r2 c)"
  by (simp_all add: modal_ok_def onOrgChange_def onAppChange_def submitSignIn_def signOut_def Let_def)

lemma confirm_inv_modal_ok: "modal_ok c d \<Longrightarrow> confirm_inv c \<Longrightarrow> confirm_inv d"
  by (auto simp: modal_ok_def confirm_inv_def)

lemma confirm_inv_showConfirm:
  "confirm_inv c \<Longrightarrow> confirm_inv (showConfirm (action_spec (orgName c) a) a c)"
  by (auto simp: confirm_inv_def showConfirm_def)

lemma showConfirm_frame: "quiet c (showConfirm s a c)" "core_same c (showConfirm s a c)"
  by (simp_all add: quiet_same core_same_def showConfirm_def)

lemma openers_showConfirm:
  "\<exists>a. cancelWorkflow wid app c = showConfirm (action_spec (orgName c) a) a c"
  "\<exists>a. deleteAlertRule rid app c = showConfirm (action_spec (orgName c) a) a c"
  "\<exists>a. revokeKey kname c = showConfirm (action_spec (orgName c) a) a c"
  "\<exists>a. deleteRole rname c = showConfirm (action_spec (orgName c) a) a c"
  "\<exists>a. removeMember u c = showConfirm (action_spec (orgName c) a) a c"
  "\<exists>a. deleteAutoscalingPolicy c = showConfirm (action_spec (orgName c) a) a c"
  unfolding cancelWorkflow_def deleteAlertRule_def revokeKey_def deleteRole_def removeMember_def
    deleteAutoscalingPolicy_def Let_def
  by (metis action_spec.simps)+

text \<open>The three shapes a step can have.\<close>

lemma console_step_cases:
  assumes "console_step c c'"
  obtains (benign) "benign c c'"
  | (switch) "quiet c c'" "modal_ok c c'" "auth_inv c \<longrightarrow> auth_inv c'" "live_inv c \<longrightarrow> live_inv c'"
  | (opens) a where "c' = showConfirm (action_spec (orgName c) a) a c"
  | (confirms) spec r where "modalRoot c = ConfirmDialog spec" "c' = executePendingConfirm r c"
  using assms
proof cases
  case (cancel wid app)
  then show ?thesis using openers_showConfirm(1) [of wid app c] opens by auto
next
  case (delete_alert rid app)
  then show ?thesis using openers_showConfirm(2) [of rid app c] opens by auto
next
  case (revoke kname)
  then show ?thesis using openers_showConfirm(3) [of kname c] opens by auto
next
  case (delete_role rname)
  then show ?thesis using openers_showConfirm(4) [of rname c] opens by auto
next
  case (remove u)
  then show ?thesis using openers_showConfirm(5) [of u c] opens by auto
next
  case delete_policy
  then show ?thesis using openers_showConfirm(6) [of c] opens by auto
qed (auto simp: benign_handlers benign_poll benign_modal benign_layout benign_handleRouting
      quiet_switches modal_switches intro: benign confirms switch inv_intros)

lemma run_confirmed_effects:
  "\<exists>es. effects (run_confirmed r a c) = effects c @ Call (confirmed_call (orgName c) a) # es \<and> (\<forall>k. Call k \<notin> set es)"
  by (cases r) (auto simp: run_confirmed_def call_api_def showToast_def emit_def split: confirm_action.splits)

lemma run_confirmed_frame:
  "core_same c (run_confirmed r a c)" "modalRoot (run_confirmed r a c) = modalRoot c"
  "pendingConfirmAction (run_confirmed r a c) = pendingConfirmAction c"
  by (cases r; simp add: run_confirmed_def call_api_def showToast_def emit_def core_same_def)+

lemma executePendingConfirm_inv:
  "core_same c (executePendingConfirm r c)" "pendingConfirmAction (executePendingConfirm r c) = None"
  "mounted c \<Longrightarrow> modalRoot (executePendingConfirm r c) = NoModal"
  using run_confirmed_frame [where c = "closeModal (c\<lparr>pendingConfirmAction := None\<rparr>)" and r = r]
  by (auto simp: executePendingConfirm_def Let_def core_same_def closeModal_def split: option.splits)

lemma executePendingConfirm_effects:
  assumes "pendingConfirmAction c = Some a"
  shows "\<exists>es. effects (executePendingConfirm r c) = effects c @ Call (confirmed_call (orgName c) a) # es
    \<and> (\<forall>k. Call k \<notin> set es)"
proof -
  let ?d = "closeModal (c\<lparr>pendingConfirmAction := None\<rparr>)"
  have "effects ?d = effects c" "orgName ?d = orgName c" by (simp_all add: closeModal_def)
  with run_confirmed_effects [of r a ?d] assms show ?thesis
    by (simp add: executePendingConfirm_def Let_def)
qed

definition console_inv :: "console \<Rightarrow> bool" where
  "console_inv c \<longleftrightarrow> auth_inv c \<and> live_inv c \<and> confirm_inv c"

lemma console_step_inv:
  assumes "console_step c c'" and "console_inv c"
  shows "console_inv c'"
  using assms(1)
proof (cases rule: console_step_cases)
  case benign
  then show ?thesis
    using assms(2) core_same_inv confirm_inv_modal_ok unfolding benign_def console_inv_def by blast
next
  case switch
  then show ?thesis using assms(2) confirm_inv_modal_ok unfolding console_inv_def by blast
next
  case (opens a)
  then show ?thesis
    using assms(2) confirm_inv_showConfirm [of c a] core_same_inv showConfirm_frame(2)
    unfolding console_inv_def by blast
next
  case (confirms spec r)
  then have "mounted c" using assms(2) by (simp add: console_inv_def confirm_inv_def)
  with confirms executePendingConfirm_inv(3) [of c r] have "confirm_inv c'"
    by (simp add: confirm_inv_def)
  with confirms executePendingConfirm_inv(1) [of c r] core_same_inv assms(2) show ?thesis
    unfolding console_inv_def by blast
qed

lemma console_inv_reachable: "reachable_from c0 c \<Longrightarrow> console_inv c0 \<Longrightarrow> console_inv c"
  by (induction rule: reachable_from.induct) (auto intro: console_step_inv)

lemma console_inv_new: "map_of session ''relay_api_key'' \<noteq> Some [] \<Longrightarrow> console_inv (new_console local session pd h)"
  by (simp add: console_inv_def auth_inv_new live_inv_new) (simp add: confirm_inv_def new_console_def Let_def)

lemma destructive_confirmed_call: "destructive (confirmed_call org a)"
  by (cases a) simp_all

lemma new_calls_quiet: "quiet c d \<Longrightarrow> k \<in> set (new_calls c d) \<Longrightarrow> \<not> destructive k"
  by (fastforce simp: quiet_def new_calls_def split: effect.splits)

lemma new_calls_append:
  "effects d = effects c @ Call k # es \<Longrightarrow> \<forall>j. Call j \<notin> set es \<Longrightarrow> new_calls c d = [k]"
proof -
  have "\<forall>j. Call j \<notin> set es \<Longrightarrow> concat (map (\<lambda>e. case e of Call k \<Rightarrow> [k] | _ \<Rightarrow> []) es) = []" for es
    by (induction es) (auto split: effect.splits)
  then show "effects d = effects c @ Call k # es \<Longrightarrow> \<forall>j. Call j \<notin> set es \<Longrightarrow> ?thesis"
    by (simp add: new_calls_def)
qed

section \<open>Properties\<close>





text \<open>
  Confirming twice does nothing more: the pending action is consumed by the first
  confirmation, so no second call is made.
\<close>

theorem confirm_once:
  "new_calls (executePendingConfirm r c) (executePendingConfirm r' (executePendingConfirm r c)) = []"
  using executePendingConfirm_inv(2) [of r c]
  by (simp add: executePendingConfirm_def [of r'] new_calls_def Let_def closeModal_def)

lemma new_calls_toast [simp]: "new_calls c (showToast m t c) = []"
  by (simp add: new_calls_def showToast_def)

lemma new_calls_call_api:
  assumes "\<And>v d. \<exists>es. effects (onOk v d) = effects d @ es \<and> (\<forall>j. Call j \<notin> set es)"
  shows "new_calls c (call_api k reply onOk failed c) = [k]"
proof (cases reply)
  case (Inl err)
  then show ?thesis
    by (intro new_calls_append [of _ _ k "[Toast (failed @ errMessage err) ''error'']"])
      (simp_all add: call_api_def showToast_def emit_def)
next
  case (Inr v)
  with assms [of v "emit (Call k) c"] show ?thesis
    by (auto simp: call_api_def intro: new_calls_append)
qed

lemma new_calls_saved [simp]:
  "new_calls c (call_api k reply (\<lambda>_ d. emit RenderContent (showToast m t d)) failed c) = [k]"
  by (rule new_calls_call_api) (simp add: showToast_def)

definition sent_settings :: "bool \<Rightarrow> string \<Rightarrow> string \<Rightarrow> string \<Rightarrow> string \<Rightarrow> app_settings" where
  "sent_settings priv rowsRaw hoursRaw globalRaw execRaw =
     \<lparr>setPrivateMode = priv, gcRowsThreshold = floor_of 1 (readNum rowsRaw 0),
      gcTimeThresholdMs = floor_of 3600000 (readNum hoursRaw 0),
      globalTimeoutMs = floor_of 3600000 (readNum globalRaw 0),
      setExecutorTimeoutSecs = floor_of 1 (readNum execRaw 1)\<rparr>"

lemma floor_of_readNum_bound:
  assumes "floor_of k (readNum raw (of_int mn)) = Some n" and "1 \<le> k" and "0 \<le> mn"
  shows "mn \<le> n"
proof -
  from assms(1) obtain x where x: "of_int mn \<le> x" "n = \<lfloor>x * k\<rfloor>"
    by (auto simp: floor_of_def readNum_def split: if_splits jsnum.splits form_num.splits)
  have "of_int mn * 1 \<le> x * k" using x(1) assms(2,3) by (intro mult_mono) auto
  then show ?thesis using x(2) by (simp add: le_floor_iff)
qed

lemma submitted_settings:
  "new_calls c (submitAppSettings reply rowsRaw hoursRaw globalRaw execRaw priv c) =
     (if Invalid \<in> {readNum rowsRaw 0, readNum hoursRaw 0, readNum globalRaw 0, readNum execRaw 1} then []
      else [UpdateApp (orgName c) (appName c) (sent_settings priv rowsRaw hoursRaw globalRaw execRaw)])"
  unfolding submitAppSettings_def sent_settings_def Let_def
  by (auto simp del: append.simps)

text \<open>
  Saving the application settings. The form is sent exactly when no field is invalid, as one
  update of the selected application; a blank field is left out of it, so that the server keeps
  its value; and every number sent respects its minimum (0, or 1 for the executor timeout).
\<close>

theorem submitAppSettings_spec:
  "new_calls c (submitAppSettings reply rowsRaw hoursRaw globalRaw execRaw priv c) =
     (if Invalid \<in> {readNum rowsRaw 0, readNum hoursRaw 0, readNum globalRaw 0, readNum execRaw 1} then []
      else [UpdateApp (orgName c) (appName c) (sent_settings priv rowsRaw hoursRaw globalRaw execRaw)])
   \<and> (trim rowsRaw = [] \<longrightarrow> gcRowsThreshold (sent_settings priv rowsRaw hoursRaw globalRaw execRaw) = None)
   \<and> (\<forall>n. gcTimeThresholdMs (sent_settings priv rowsRaw hoursRaw globalRaw execRaw) = Some n \<longrightarrow> 0 \<le> n)
   \<and> (\<forall>n. setExecutorTimeoutSecs (sent_settings priv rowsRaw hoursRaw globalRaw execRaw) = Some n \<longrightarrow> 1 \<le> n)"
proof (intro conjI impI allI)
  show "new_calls c (submitAppSettings reply rowsRaw hoursRaw globalRaw execRaw priv c) =
     (if Invalid \<in> {readNum rowsRaw 0, readNum hoursRaw 0, readNum globalRaw 0, readNum execRaw 1} then []
      else [UpdateApp (orgName c) (appName c) (sent_settings priv rowsRaw hoursRaw globalRaw execRaw)])"
    by (rule submitted_settings)
  show "gcRowsThreshold (sent_settings priv rowsRaw hoursRaw globalRaw execRaw) = None" if "trim rowsRaw = []"
    using that by (simp add: sent_settings_def floor_of_def readNum_def)
  show "0 \<le> n" if "gcTimeThresholdMs (sent_settings priv rowsRaw hoursRaw globalRaw execRaw) = Some n" for n
    using floor_of_readNum_bound [of 3600000 hoursRaw 0 n] that by (simp add: sent_settings_def)
  show "1 \<le> n" if "setExecutorTimeoutSecs (sent_settings priv rowsRaw hoursRaw globalRaw execRaw) = Some n" for n
    using floor_of_readNum_bound [of 1 execRaw 1 n] that by (simp add: sent_settings_def)
qed

theorem submitAppSettings_spec_witness:
  "new_calls (new_console [] [] False []) (submitAppSettings (Inr ()) [] [] [] ''0'' True (new_console [] [] False [])) = []"
proof -
  have "readNum ''0'' 1 = Invalid" by code_simp
  then show ?thesis
    using submitAppSettings_spec [of "new_console [] [] False []" "Inr ()" "[]" "[]" "[]" "''0''" True] by simp
qed

end
