(* ===== verification/Console_Dispatch.thy ===== *)
theory Console_Dispatch
  imports Console_Actions
begin

text \<open>
  The document-level event handlers at the end of \<open>console/src/app.js\<close>: delegated clicks, changes,
  inputs and keys. An element is its list of attributes, an event target is the list of elements
  from the element clicked up to the document, and \<open>closest\<close> is the first of them that has one of
  the attributes of a selector. The click handler is a function to the command it runs, so that
  what a button on a screen does can be read off the attributes its template writes.
\<close>

section \<open>Elements\<close>

type_synonym element = "(string \<times> string) list"

definition has_attr :: "string list \<Rightarrow> element \<Rightarrow> bool" where
  "has_attr names e \<longleftrightarrow> (\<exists>a \<in> set names. map_of e a \<noteq> None)"

definition closest :: "string list \<Rightarrow> element list \<Rightarrow> element option" where
  "closest names path = find (has_attr names) path"

definition data :: "element \<Rightarrow> string \<Rightarrow> string" where
  "data e a = opt_str (map_of e a)"

definition strip_quotes :: "string \<Rightarrow> string" where
  "strip_quotes s = replace_char (CHR 0x27) [] s"

section \<open>Clicks\<close>

datatype click_command =
    DoNothing
  | DoSelectStep string
  | DoCopy string
  | DoNavigate string string
  | DoAppChange string
  | DoRefresh
  | DoToggleTheme
  | DoCloseModal
  | DoCloseMobileNav
  | DoToggleMobileNav
  | DoToggleSidebarFold
  | DoExecutePendingConfirm
  | DoOpenSignIn
  | DoSignOut
  | DoSubmitModalSignIn
  | DoSubmitSignIn
  | DoViewChild string
  | DoExpandPayload string string
  | DoZoom rat
  | DoResetZoom
  | DoJsonMode string string
  | DoReadEvent
  | DoOpenSendMessage
  | DoSubmitSendMessage
  | DoCancelWf string string
  | DoResumeWf string string
  | DoRestartWf string string
  | DoWfTab string
  | DoPauseSchedule string string
  | DoResumeSchedule string string
  | DoTriggerSchedule string string
  | DoOpenCreateAlert
  | DoSubmitCreateAlert
  | DoDeleteRule string string
  | DoOpenCreateKey
  | DoSubmitCreateKey
  | DoOpenCreateRole
  | DoSubmitCreateRole
  | DoDeleteRole string
  | DoGrantRole string
  | DoRemoveMember string
  | DoSubmitAppSettings
  | DoSubmitAutoscalingPolicy
  | DoDeleteAutoscalingPolicy
  | DoApplyAuditFilters
  | DoClearAuditFilters
  | DoApplyMetricsFilters
  | DoClearMetricsFilters
  | DoAuditPrev
  | DoAuditNext
  | DoRevokeKey string
  | DoCopyAndClose string

definition click_selector :: "string list" where
  "click_selector =
     [''data-navigate'', ''data-app-change'', ''data-action'', ''data-cancel-wf'', ''data-resume-wf'',
      ''data-restart-wf'', ''data-wf-tab'', ''data-pause-schedule'', ''data-resume-schedule'',
      ''data-trigger-schedule'', ''data-delete-rule'', ''data-revoke-key'', ''data-copy-and-close'',
      ''data-json-mode'']"

text \<open>The branch taken when no element on the path matches the selector.\<close>

definition unmatched_click :: "element list \<Rightarrow> click_command list" where
  "unmatched_click path =
     (case path of
        e # _ \<Rightarrow> if map_of e ''data-action'' = Some ''closeModalOverlay'' then [DoCloseModal] else []
      | [] \<Rightarrow> [])
     @ (case closest [''data-step-json''] path of None \<Rightarrow> [] | Some n \<Rightarrow> [DoSelectStep (data n ''data-step-json'')])
     @ (case closest [''data-copy''] path of None \<Rightarrow> [] | Some b \<Rightarrow> [DoCopy (data b ''data-copy'')])"

text \<open>The commands bound to \<open>data-action\<close>, in the order of the chain.\<close>

definition action_commands :: "(string \<times> click_command) list" where
  "action_commands =
     [(''refresh'', DoRefresh), (''toggleTheme'', DoToggleTheme), (''closeModal'', DoCloseModal),
      (''closeMobileNav'', DoCloseMobileNav), (''toggleMobileNav'', DoToggleMobileNav),
      (''toggleSidebarFold'', DoToggleSidebarFold), (''executePendingConfirm'', DoExecutePendingConfirm),
      (''openSignIn'', DoOpenSignIn), (''signOut'', DoSignOut), (''submitModalSignIn'', DoSubmitModalSignIn),
      (''submitSignIn'', DoSubmitSignIn)]"

definition late_action_commands :: "(string \<times> click_command) list" where
  "late_action_commands =
     [(''submitAppSettings'', DoSubmitAppSettings), (''submitAutoscalingPolicy'', DoSubmitAutoscalingPolicy),
      (''deleteAutoscalingPolicy'', DoDeleteAutoscalingPolicy), (''applyAuditFilters'', DoApplyAuditFilters),
      (''clearAuditFilters'', DoClearAuditFilters), (''applyMetricsFilters'', DoApplyMetricsFilters),
      (''clearMetricsFilters'', DoClearMetricsFilters), (''refreshMetrics'', DoRefresh),
      (''auditPrevPage'', DoAuditPrev), (''auditNextPage'', DoAuditNext)]"

text \<open>
  A chain of \<open>else if (target.dataset.x) f(target.dataset.x.replace(/'/g, ''))\<close>: the first attribute
  with a non-empty value decides.
\<close>

fun first_data :: "(string \<times> (string \<Rightarrow> click_command)) list \<Rightarrow> element \<Rightarrow> click_command option" where
  "first_data [] t = None"
| "first_data ((a, f) # rest) t = (if data t a \<noteq> [] then Some (f (data t a)) else first_data rest t)"

definition wf_app_of :: "element \<Rightarrow> element list \<Rightarrow> string" where
  "wf_app_of t ancestors =
     str_or (data t ''data-wf-app'')
       (case closest [''data-wf-app''] ancestors of None \<Rightarrow> [] | Some e \<Rightarrow> data e ''data-wf-app'')"

definition wf_chain :: "element \<Rightarrow> (string \<times> (string \<Rightarrow> click_command)) list" where
  "wf_chain t =
     [(''data-cancel-wf'', \<lambda>v. DoCancelWf (strip_quotes v) (data t ''data-target-app'')),
      (''data-resume-wf'', \<lambda>v. DoResumeWf (strip_quotes v) (data t ''data-target-app'')),
      (''data-restart-wf'', \<lambda>v. DoRestartWf (strip_quotes v) (data t ''data-target-app'')),
      (''data-wf-tab'', \<lambda>v. DoWfTab (strip_quotes v)),
      (''data-pause-schedule'', \<lambda>v. DoPauseSchedule (strip_quotes v) (data t ''data-schedule-app'')),
      (''data-resume-schedule'', \<lambda>v. DoResumeSchedule (strip_quotes v) (data t ''data-schedule-app'')),
      (''data-trigger-schedule'', \<lambda>v. DoTriggerSchedule (strip_quotes v) (data t ''data-schedule-app''))]"

definition role_chain :: "(string \<times> (string \<Rightarrow> click_command)) list" where
  "role_chain =
     [(''data-delete-role'', \<lambda>v. DoDeleteRole (strip_quotes v)),
      (''data-grant-role'', \<lambda>v. DoGrantRole (strip_quotes v)),
      (''data-remove-member'', \<lambda>v. DoRemoveMember (strip_quotes v))]"

definition matched_click :: "element \<Rightarrow> element list \<Rightarrow> click_command" where
  "matched_click t ancestors =
     (let act = data t ''data-action''
      in if data t ''data-navigate'' \<noteq> [] then DoNavigate (strip_quotes (data t ''data-navigate'')) (wf_app_of t ancestors)
         else if data t ''data-app-change'' \<noteq> [] then DoAppChange (strip_quotes (data t ''data-app-change''))
         else case map_of action_commands act of Some k \<Rightarrow> k | None \<Rightarrow>
         if act = ''viewChildWorkflow'' then DoViewChild (data t ''data-child-wf-id'')
         else if act = ''expandPayload'' then DoExpandPayload (data t ''data-payload-title'') (data t ''data-payload-raw'')
         else if act = ''dagZoomIn'' then DoZoom (15 / 100)
         else if act = ''dagZoomOut'' then DoZoom (- (15 / 100))
         else if act = ''dagReset'' then DoResetZoom
         else if data t ''data-json-mode'' \<noteq> [] then DoJsonMode (data t ''data-json-mode'') (data t ''data-target-id'')
         else if act = ''readWorkflowEvent'' then DoReadEvent
         else if act = ''openSendMessage'' then DoOpenSendMessage
         else if act = ''submitSendMessage'' then DoSubmitSendMessage
         else case first_data (wf_chain t) t of Some k \<Rightarrow> k | None \<Rightarrow>
         if act = ''openCreateAlert'' then DoOpenCreateAlert
         else if act = ''submitCreateAlert'' then DoSubmitCreateAlert
         else if data t ''data-delete-rule'' \<noteq> []
           then DoDeleteRule (strip_quotes (data t ''data-delete-rule'')) (data t ''data-rule-app'')
         else if act = ''openCreateKey'' then DoOpenCreateKey
         else if act = ''submitCreateKey'' then DoSubmitCreateKey
         else if act = ''openCreateRole'' then DoOpenCreateRole
         else if act = ''submitCreateRole'' then DoSubmitCreateRole
         else case first_data role_chain t of Some k \<Rightarrow> k | None \<Rightarrow>
         case map_of late_action_commands act of Some k \<Rightarrow> k | None \<Rightarrow>
         if data t ''data-revoke-key'' \<noteq> [] then DoRevokeKey (strip_quotes (data t ''data-revoke-key''))
         else if data t ''data-copy-and-close'' \<noteq> [] then DoCopyAndClose (data t ''data-copy-and-close'')
         else DoNothing)"

definition on_click :: "element list \<Rightarrow> click_command list" where
  "on_click path =
     (case closest click_selector path of
        None \<Rightarrow> unmatched_click path
      | Some t \<Rightarrow> [matched_click t path])"

text \<open>The navigation branch, which also records the application of the workflow.\<close>

definition run_navigate :: "string \<Rightarrow> string \<Rightarrow> console \<Rightarrow> console" where
  "run_navigate navPath wfApp c =
     (if wfApp = [] then navigate navPath c
      else
        let c1 = c\<lparr>selectedWorkflowApp := wfApp\<rparr>; parts = split_on (CHR ''/'') navPath
        in if hd parts = ''workflow'' \<and> length parts > 1 \<and> parts ! 1 \<noteq> [] then
             (case decode_uri_component (parts ! 1) of
                None \<Rightarrow> c1
              | Some wid \<Rightarrow> navigate navPath (c1\<lparr>workflowAppMap := AList.update wid wfApp (workflowAppMap c1)\<rparr>))
           else navigate navPath c1)"

text \<open>\<open>viewChildWorkflow\<close>: remember the parent for the breadcrumbs, then open the child.\<close>

definition run_view_child :: "string \<Rightarrow> console \<Rightarrow> console" where
  "run_view_child childId c =
     (let c1 = (case selectedWorkflowId c of
                  None \<Rightarrow> c
                | Some pid \<Rightarrow> if pid = [] then c
                    else c\<lparr>parentWorkflowMap := AList.update childId
                        \<lparr>parentId = pid, parentName = str_or (currentWorkflowName c) pid,
                         parentStatus = str_or (currentWorkflowStatus c) ''SUCCESS''\<rparr> (parentWorkflowMap c)\<rparr>)
      in navigate (''workflow/'' @ encode_uri_component childId) (closeModal c1))"

section \<open>Changes, inputs and keys\<close>

datatype change_command = ChApp string | ChOrg string | ChWfStatus string | ChPoll string

definition on_change :: "element list \<Rightarrow> string \<Rightarrow> change_command option" where
  "on_change path val =
     (case closest [''data-change''] path of
        None \<Rightarrow> None
      | Some t \<Rightarrow>
          (let ch = data t ''data-change''
           in if ch = ''app'' then Some (ChApp val) else if ch = ''org'' then Some (ChOrg val)
              else if ch = ''wfStatus'' then Some (ChWfStatus val)
              else if ch = ''pollInterval'' then Some (ChPoll val) else None))"

datatype key_command =
    KNone | KCloseMobileNav | KCloseModal | KFocusSearch | KRefresh | KActivate | KFocusFirst | KFocusLast

record key_event =
  key :: string
  ctrlKey :: bool
  metaKey :: bool
  shiftKey :: bool

record focus_state =
  activeTag :: "string option"
  activeClickable :: bool
  searchInput :: bool
  dialogFocusables :: "nat option"
  activeIndex :: "nat option"

definition in_field :: "focus_state \<Rightarrow> bool" where
  "in_field f \<longleftrightarrow> activeTag f \<in> {Some ''INPUT'', Some ''TEXTAREA'', Some ''SELECT''}"

text \<open>
  The focus trap: \<open>dialogFocusables\<close> is the number of focusable elements of the open dialog
  (\<open>None\<close> without a dialog) and \<open>activeIndex\<close> the index of the focused one among them.
\<close>

definition trap_tab :: "bool \<Rightarrow> focus_state \<Rightarrow> key_command" where
  "trap_tab shift f =
     (case dialogFocusables f of
        None \<Rightarrow> KNone
      | Some n \<Rightarrow>
          if n = 0 then KNone
          else if shift then (if activeIndex f = Some 0 then KFocusLast else KNone)
          else (if activeIndex f = Some (n - 1) then KFocusFirst else KNone))"

definition on_keydown :: "key_event \<Rightarrow> focus_state \<Rightarrow> console \<Rightarrow> key_command" where
  "on_keydown e f c =
     (let modalOpen = (mounted c \<and> modalRoot c \<noteq> NoModal)
      in if key e = ''Escape'' \<and> mobileNavOpen c then KCloseMobileNav
         else if key e = ''Escape'' \<and> modalOpen then KCloseModal
         else if key e = ''/'' \<and> \<not> ctrlKey e \<and> \<not> metaKey e \<and> in_field f then KNone
         else if key e = ''/'' \<and> \<not> ctrlKey e \<and> \<not> metaKey e \<and> searchInput f then KFocusSearch
         else if key e \<in> {''r'', ''R''} \<and> \<not> ctrlKey e \<and> \<not> metaKey e then
           (if in_field f \<or> modalOpen then KNone else KRefresh)
         else if key e \<in> {''Enter'', '' ''} then
           (if activeTag f = None \<or> in_field f \<or> activeTag f = Some ''BUTTON'' then KNone
            else if activeClickable f then KActivate else KNone)
         else if key e = ''Tab'' then trap_tab (shiftKey e) f
         else KNone)"

section \<open>Lemmas\<close>

lemma closest_first: "has_attr names e \<Longrightarrow> closest names (e # path) = Some e"
  by (simp add: closest_def)

lemma closest_none: "\<forall>e \<in> set path. \<not> has_attr names e \<Longrightarrow> closest names path = None"
  by (auto simp: closest_def find_None_iff)

lemma strip_quotes_id: "CHR 0x27 \<notin> set s \<Longrightarrow> strip_quotes s = s"
  by (simp add: strip_quotes_def replace_char_id)

text \<open>An element of a screen that carries no attribute of the handler.\<close>

definition inert :: "element \<Rightarrow> bool" where
  "inert e \<longleftrightarrow> \<not> has_attr (''data-step-json'' # ''data-copy'' # click_selector) e"

lemma inert_single: "inert [(b, v)] \<longleftrightarrow> b \<notin> set (''data-step-json'' # ''data-copy'' # click_selector)"
  unfolding inert_def has_attr_def by (metis map_of_Cons_code(2) map_of_Cons_code(1) option.distinct(1))

lemma inert_path:
  assumes "\<forall>e \<in> set path. inert e"
  shows "closest click_selector path = None" "closest [''data-step-json''] path = None"
    "closest [''data-copy''] path = None"
proof -
  have "\<forall>e \<in> set path. \<not> has_attr names e"
    if "set names \<subseteq> set (''data-step-json'' # ''data-copy'' # click_selector)" for names
    using that assms unfolding inert_def has_attr_def by blast
  then have "closest names path = None"
    if "set names \<subseteq> set (''data-step-json'' # ''data-copy'' # click_selector)" for names
    using that closest_none by blast
  then show "closest click_selector path = None" "closest [''data-step-json''] path = None"
    "closest [''data-copy''] path = None"
    by auto
qed

section \<open>Properties\<close>

text \<open>
  The buttons that the workflow, schedule, alert and key screens render reach their handlers with
  the identifier and application the row is about, wherever the button stands on the page, for
  every identifier without an apostrophe.
\<close>

theorem row_buttons_dispatch:
  assumes "x \<noteq> []" and "CHR 0x27 \<notin> set x"
  shows "on_click ([(''data-cancel-wf'', x), (''data-target-app'', a)] # path) = [DoCancelWf x a]
    \<and> on_click ([(''data-resume-wf'', x), (''data-target-app'', a)] # path) = [DoResumeWf x a]
    \<and> on_click ([(''data-restart-wf'', x), (''data-target-app'', a)] # path) = [DoRestartWf x a]
    \<and> on_click ([(''data-pause-schedule'', x), (''data-schedule-app'', a)] # path) = [DoPauseSchedule x a]
    \<and> on_click ([(''data-trigger-schedule'', x), (''data-schedule-app'', a)] # path) = [DoTriggerSchedule x a]
    \<and> on_click ([(''data-delete-rule'', x), (''data-rule-app'', a)] # path) = [DoDeleteRule x a]
    \<and> on_click ([(''data-revoke-key'', x)] # path) = [DoRevokeKey x]"
  using assms
  by (simp add: on_click_def closest_def has_attr_def click_selector_def matched_click_def data_def
      action_commands_def late_action_commands_def wf_chain_def role_chain_def strip_quotes_id)

theorem row_buttons_dispatch_witness:
  "on_click [[(''data-cancel-wf'', ''wf-1''), (''data-target-app'', ''shop'')]] = [DoCancelWf ''wf-1'' ''shop'']"
  using row_buttons_dispatch [of "''wf-1''" "''shop''" "[]"] by simp

text \<open>
  C25: The three buttons of the roles screen are dead. Their attributes are not in the selector the
  click handler looks for, so a click on \<open>Delete\<close>, \<open>Apply\<close> or \<open>Remove\<close> on a page whose other
  elements carry no handler attribute runs nothing, whatever role or member it names.
\<close>

theorem role_buttons_dead:
  assumes "\<forall>e \<in> set path. inert e"
  shows "on_click ([(''data-delete-role'', r)] # path) = []
    \<and> on_click ([(''data-grant-role'', u)] # path) = []
    \<and> on_click ([(''data-remove-member'', u)] # path) = []"
proof -
  have "on_click ([(b, v)] # path) = []" if "b \<in> {''data-delete-role'', ''data-grant-role'', ''data-remove-member''}" for b v
  proof -
    have "inert [(b, v)]" using that unfolding inert_single click_selector_def by (elim insertE emptyE) simp_all
    then have path: "\<forall>e \<in> set ([(b, v)] # path). inert e" using assms by simp
    have "b \<noteq> ''data-action''" using that by (elim insertE emptyE) simp_all
    then show ?thesis
      using inert_path [OF path] by (simp add: on_click_def unmatched_click_def)
  qed
  then show ?thesis by blast
qed

theorem role_buttons_dead_witness:
  "on_click [[(''data-delete-role'', ''deploy-operator'')], [(''class'', ''data-table'')]] = []"
  using role_buttons_dead [of "[[(''class'', ''data-table'')]]" "''deploy-operator''" "[]"]
  by (simp add: inert_def has_attr_def click_selector_def)

text \<open>
  Two more controls do nothing: the \<open>Show all applications\<close> button, whose attribute is the
  empty string, and a click on the backdrop of a dialog, which matches the selector itself and so
  never reaches the branch that closes the dialog.
\<close>

theorem empty_controls_do_nothing:
  "on_click ([(''data-app-change'', [])] # path) = [DoNothing]
   \<and> on_click ([(''data-action'', ''closeModalOverlay'')] # path) = [DoNothing]"
  by (simp add: on_click_def closest_def has_attr_def click_selector_def matched_click_def data_def
      action_commands_def late_action_commands_def wf_chain_def role_chain_def)

text \<open>The index of the focused element after a Tab: where the trap puts it, or the browser's next one.\<close>

definition focus_after :: "bool \<Rightarrow> focus_state \<Rightarrow> nat \<Rightarrow> nat \<Rightarrow> int" where
  "focus_after shift f n i =
     (case trap_tab shift f of
        KFocusFirst \<Rightarrow> 0
      | KFocusLast \<Rightarrow> int n - 1
      | _ \<Rightarrow> if shift then int i - 1 else int i + 1)"

text \<open>
  The focus trap keeps the focus in the dialog. From any focused element of the dialog, Tab and
  Shift-Tab move to the neighbouring element or wrap around, never past the ends.
\<close>

theorem focus_stays_in_dialog:
  assumes "dialogFocusables f = Some n" and "activeIndex f = Some i" and "i < n"
  shows "0 \<le> focus_after shift f n i \<and> focus_after shift f n i < int n"
  using assms by (auto simp: focus_after_def trap_tab_def)

theorem focus_stays_in_dialog_witness:
  "focus_after False \<lparr>activeTag = Some ''BUTTON'', activeClickable = False, searchInput = False,
     dialogFocusables = Some 3, activeIndex = Some 2\<rparr> 3 2 = 0"
  using focus_stays_in_dialog [of "\<lparr>activeTag = Some ''BUTTON'', activeClickable = False, searchInput = False,
     dialogFocusables = Some 3, activeIndex = Some 2\<rparr>" 3 2 False]
  by (simp add: focus_after_def trap_tab_def)

text \<open>
  An identifier with an apostrophe is not the identifier the handler receives: the click handler
  deletes the apostrophe, so cancelling such a workflow names another one.
\<close>

theorem apostrophe_is_dropped:
  "on_click ([(''data-cancel-wf'', ''o'' @ [CHR 0x27] @ ''brien''), (''data-target-app'', a)] # path)
     = [DoCancelWf ''obrien'' a]"
  by (simp add: on_click_def closest_def has_attr_def click_selector_def matched_click_def data_def
      action_commands_def late_action_commands_def wf_chain_def role_chain_def strip_quotes_def)

end
