(* ===== verification/Formatters.thy ===== *)
theory Formatters
  imports Html_Text
begin

text \<open>
  The formatting helpers at the end of \<open>console/src/app.js\<close>. Numbers are doubles: a
  difference, a product and a quotient are rounded, a floor and a remainder are exact. \<open>getTime\<close> is \<open>new Date(s).getTime()\<close>, \<open>NaN\<close> on a
  string that is no date; \<open>now\<close> is \<open>Date.now()\<close>; \<open>locale\<close> is \<open>toLocaleString\<close>, whose result depends on
  the browser's locale.
\<close>

section \<open>Arithmetic on numbers\<close>

definition js_number :: "jsval \<Rightarrow> jsnum" where
  "js_number v =
     (case v of JNum n \<Rightarrow> n | JStr s \<Rightarrow> to_number s | JBool b \<Rightarrow> Fin (if b then 1 else 0) | JNull \<Rightarrow> Fin 0 | _ \<Rightarrow> NaN)"

fun js_sub :: "jsnum \<Rightarrow> jsnum \<Rightarrow> jsnum" where
  "js_sub (Fin a) (Fin b) = round_double (a - b)"
| "js_sub NaN _ = NaN"
| "js_sub _ NaN = NaN"
| "js_sub PInf PInf = NaN"
| "js_sub NInf NInf = NaN"
| "js_sub PInf _ = PInf"
| "js_sub NInf _ = NInf"
| "js_sub _ PInf = NInf"
| "js_sub _ NInf = PInf"

definition max0 :: "jsnum \<Rightarrow> jsnum" where
  "max0 n = (case n of NaN \<Rightarrow> NaN | PInf \<Rightarrow> PInf | NInf \<Rightarrow> Fin 0 | Fin a \<Rightarrow> Fin (max 0 a))"

definition num_less :: "jsnum \<Rightarrow> rat \<Rightarrow> bool" where
  "num_less n b = (case n of NaN \<Rightarrow> False | PInf \<Rightarrow> False | NInf \<Rightarrow> True | Fin a \<Rightarrow> a < b)"

definition num_pos :: "jsnum \<Rightarrow> bool" where
  "num_pos n = (case n of NaN \<Rightarrow> False | PInf \<Rightarrow> True | NInf \<Rightarrow> False | Fin a \<Rightarrow> 0 < a)"

text \<open>\<open>n.toFixed(k)\<close> of a number that is not negative\<close>

definition num_fixed :: "nat \<Rightarrow> jsnum \<Rightarrow> string" where
  "num_fixed k n = (case n of Fin a \<Rightarrow> to_fixed k a | _ \<Rightarrow> show_num n)"

text \<open>a product with a constant, or a quotient: the exact result, rounded\<close>

definition num_scale :: "rat \<Rightarrow> jsnum \<Rightarrow> jsnum" where
  "num_scale c n = (case n of Fin a \<Rightarrow> round_double (a * c) | _ \<Rightarrow> n)"

definition num_floor :: "jsnum \<Rightarrow> jsnum" where
  "num_floor n = (case n of Fin a \<Rightarrow> Fin (of_int \<lfloor>a\<rfloor>) | _ \<Rightarrow> n)"

text \<open>\<open>n % m\<close> for a non-negative number and a positive constant\<close>

definition num_mod :: "jsnum \<Rightarrow> rat \<Rightarrow> jsnum" where
  "num_mod n m = (case n of Fin a \<Rightarrow> Fin (a - m * of_int \<lfloor>a / m\<rfloor>) | _ \<Rightarrow> NaN)"

text \<open>\<open>Math.round\<close>: the nearest integer, the larger one on a tie\<close>

definition num_round :: "jsnum \<Rightarrow> jsnum" where
  "num_round n = (case n of Fin a \<Rightarrow> Fin (of_int \<lfloor>a + 1 / 2\<rfloor>) | _ \<Rightarrow> n)"

section \<open>Metric values\<close>

definition formatMetricValue :: "jsval \<Rightarrow> string" where
  "formatMetricValue v =
     (case v of
        JNum (Fin a) \<Rightarrow>
          if of_int \<lfloor>a\<rfloor> = a then show_rat a
          else show_num (num_scale (1 / 1000) (num_round (num_scale 1000 (Fin a))))
      | _ \<Rightarrow> ''n/a'')"

definition bar_percent :: "rat \<Rightarrow> rat \<Rightarrow> rat" where
  "bar_percent value mx = (if mx > 0 then min 100 (value / mx * 100) else 0)"

definition metricBar :: "jsnum \<Rightarrow> jsnum \<Rightarrow> string \<Rightarrow> string" where
  "metricBar value mx color =
     (let pct = (case (mx, value) of
             (Fin m, Fin v) \<Rightarrow> bar_percent v m | _ \<Rightarrow> 0);
          label = formatMetricValue (JNum value) @ '' of '' @ formatMetricValue (JNum mx)
      in ''<div class='' @ dq @ ''metric-bar'' @ dq @ '' role='' @ dq @ ''img'' @ dq @ '' aria-label='' @ dq @ escapeHtml (JStr label) @ dq @
         ''><div class='' @ dq @ ''metric-bar-fill'' @ dq @ '' style='' @ dq @ ''width:'' @ to_fixed 1 pct @ ''%;'' @
         (if color \<noteq> [] then ''background:'' @ color @ '';'' else []) @ dq @ ''></div></div>'')"

section \<open>Times\<close>

definition formatTimestamp :: "(string \<Rightarrow> string) \<Rightarrow> string option \<Rightarrow> string" where
  "formatTimestamp locale isoStr = (if opt_str isoStr = [] then ''-'' else locale (opt_str isoStr))"

definition duration_text :: "jsnum \<Rightarrow> string" where
  "duration_text ms =
     (if num_less ms 1000 then show_num ms @ ''ms''
      else if num_less ms 60000 then num_fixed 1 (num_scale (1 / 1000) ms) @ ''s''
      else show_num (num_floor (num_scale (1 / 60000) ms)) @ ''m '' @
           show_num (num_floor (num_scale (1 / 1000) (num_mod ms 60000))) @ ''s'')"

definition terminal_status :: "string \<Rightarrow> bool" where
  "terminal_status s \<longleftrightarrow> to_upper s \<in> {''SUCCESS'', ''ERROR'', ''CANCELLED''}"

definition calculateDuration ::
    "(string \<Rightarrow> jsnum) \<Rightarrow> jsnum \<Rightarrow> string option \<Rightarrow> string option \<Rightarrow> string option \<Rightarrow> jsval \<Rightarrow> string" where
  "calculateDuration getTime now startStr endStr status durationMs =
     (if \<not> nullish durationMs \<and> num_pos (js_number durationMs) then duration_text (js_number durationMs)
      else if opt_str startStr = [] then ''-''
      else let start = getTime (opt_str startStr);
               isTerminal = terminal_status (opt_str status);
               isRunning = (\<not> isTerminal \<and> opt_str endStr = []);
               end' = (if opt_str endStr \<noteq> [] then getTime (opt_str endStr) else if isTerminal then start else now)
           in duration_text (max0 (js_sub end' start)) @ (if isRunning then '' (running)'' else []))"

definition formatRelativeTime :: "(string \<Rightarrow> jsnum) \<Rightarrow> jsnum \<Rightarrow> string option \<Rightarrow> string" where
  "formatRelativeTime getTime now isoStr =
     (if opt_str isoStr = [] then ''-''
      else let diff = num_floor (num_scale (1 / 1000) (js_sub now (getTime (opt_str isoStr))))
           in if num_less diff 5 then ''just now''
              else if num_less diff 60 then show_num diff @ ''s ago''
              else if num_less diff 3600 then show_num (num_floor (num_scale (1 / 60) diff)) @ ''m ago''
              else if num_less diff 86400 then show_num (num_floor (num_scale (1 / 3600) diff)) @ ''h ago''
              else show_num (num_floor (num_scale (1 / 86400) diff)) @ ''d ago'')"

section \<open>Properties\<close>

lemma show_num_floor: "\<lfloor>y\<rfloor> = int n \<Longrightarrow> n < 2 ^ 53 \<Longrightarrow> show_num (num_floor (Fin y)) = show_nat n"
  using show_rat_nat [of n] by (simp add: show_num_def num_floor_def)

lemma bar_percent_range: "0 \<le> v \<Longrightarrow> 0 \<le> bar_percent v m \<and> bar_percent v m \<le> 100"
  by (simp add: bar_percent_def)

lemma bar_percent_full: "0 < m \<Longrightarrow> (bar_percent v m = 100) = (m \<le> v)"
  by (auto simp: bar_percent_def min_def field_simps)

lemma bar_percent_mono: "u \<le> v \<Longrightarrow> bar_percent u m \<le> bar_percent v m"
  by (auto simp: bar_percent_def min_def field_simps)

text \<open>
  the duration column. A duration of whole milliseconds of a minute or more is printed as minutes
  and seconds whose seconds are below sixty and which together make the whole seconds of the duration;
  from one second to a minute it is printed with one decimal, below that in milliseconds.
\<close>

lemma minutes_and_seconds:
  assumes "ms < 2 ^ 53"
  shows "show_num (num_floor (num_scale (1 / 60000) (Fin (of_nat ms)))) = show_nat (ms div 60000)"
    and "show_num (num_floor (num_scale (1 / 1000) (num_mod (Fin (of_nat ms)) 60000))) = show_nat (ms mod 60000 div 1000)"
proof -
  have b: "ms div 60000 < 2 ^ 53" using assms div_le_dividend [of ms 60000] by linarith
  obtain y where "round_double (of_nat ms / of_nat 60000) = Fin y" "\<lfloor>y\<rfloor> = int (ms div 60000)"
    using floor_round_quotient [OF assms, of 60000] by auto
  then show "show_num (num_floor (num_scale (1 / 60000) (Fin (of_nat ms)))) = show_nat (ms div 60000)"
    using show_num_floor [OF _ b] by (simp add: num_scale_def)
  have "\<lfloor>(of_nat ms :: rat) / 60000\<rfloor> = int (ms div 60000)" using floor_divide_of_nat_eq [of ms 60000] by simp
  moreover have "of_nat ms = (of_nat (60000 * (ms div 60000) + ms mod 60000) :: rat)" by simp
  ultimately have m: "num_mod (Fin (of_nat ms)) 60000 = Fin (of_nat (ms mod 60000))"
    unfolding num_mod_def jsnum.case by (simp only: of_nat_add of_nat_mult of_int_of_nat_eq) simp
  have "ms mod 60000 < 60000" by simp
  then have r: "ms mod 60000 < 2 ^ 53" and s: "ms mod 60000 div 1000 < 2 ^ 53"
    using div_le_dividend [of "ms mod 60000" 1000] by simp_all
  obtain z where "round_double (of_nat (ms mod 60000) / of_nat 1000) = Fin z" "\<lfloor>z\<rfloor> = int (ms mod 60000 div 1000)"
    using floor_round_quotient [OF r, of 1000] by auto
  then show "show_num (num_floor (num_scale (1 / 1000) (num_mod (Fin (of_nat ms)) 60000))) = show_nat (ms mod 60000 div 1000)"
    unfolding m using show_num_floor [OF _ s] by (simp add: num_scale_def)
qed

theorem calculateDuration_units:
  assumes "0 < ms" and "ms < 2 ^ 53"
  shows "calculateDuration getTime now s e stat (JNum (Fin (of_nat ms))) =
    (if ms < 1000 then show_nat ms @ ''ms''
     else if ms < 60000 then num_fixed 1 (round_double (of_nat ms / 1000)) @ ''s''
     else show_nat (ms div 60000) @ ''m '' @ show_nat (ms mod 60000 div 1000) @ ''s'') \<and>
    ms mod 60000 div 1000 < 60 \<and> 60 * (ms div 60000) + ms mod 60000 div 1000 = ms div 1000"
proof -
  have n: "num_scale (1 / 1000) (Fin (of_nat ms)) = round_double (of_nat ms / 1000)" by (simp add: num_scale_def)
  have "duration_text (Fin (of_nat ms)) =
    (if ms < 1000 then show_nat ms @ ''ms'' else if ms < 60000 then num_fixed 1 (round_double (of_nat ms / 1000)) @ ''s''
     else show_nat (ms div 60000) @ ''m '' @ show_nat (ms mod 60000 div 1000) @ ''s'')"
    unfolding duration_text_def minutes_and_seconds [OF assms(2)] n
    using show_rat_nat [OF assms(2)] by (simp add: num_less_def show_num_def)
  moreover have "ms mod 60000 div 1000 < 60" by (simp add: div_less_iff_less_mult)
  moreover have "ms div 60000 = ms div 1000 div 60" "ms mod 60000 div 1000 = ms div 1000 mod 60"
    using div_mult2_eq [of ms 1000 60] mod_mult2_eq [of ms 1000 60] by simp_all
  then have "60 * (ms div 60000) + ms mod 60000 div 1000 = ms div 1000" by (simp only: mult_div_mod_eq)
  ultimately show ?thesis using assms(1)
    by (simp add: calculateDuration_def nullish_def js_number_def num_pos_def)
qed

theorem calculateDuration_units_witness:
  "calculateDuration (\<lambda>_. NaN) NaN None None None (JNum (Fin (of_nat 125000))) = ''2m 5s''"
proof -
  have "show_nat 2 = ''2''" "show_nat 5 = ''5''" by code_simp+
  then show ?thesis using calculateDuration_units [of 125000 "\<lambda>_. NaN" NaN None None None] by simp
qed

text \<open>Both time helpers expect an exception on a string that is no date; there is none.\<close>

lemma formatRelativeTime_invalid: "s \<noteq> [] \<Longrightarrow> getTime s = NaN \<Longrightarrow> formatRelativeTime getTime (Fin now) (Some s) = ''NaNd ago''"
  by (simp add: formatRelativeTime_def num_floor_def num_scale_def num_less_def show_num_def)

end
