(* ===== verification/Workflow_Dag.thy ===== *)
theory Workflow_Dag
  imports Formatters
begin

text \<open>
  The step graph of a workflow, \<open>console/src/lib/components/WorkflowDAG.js\<close>: the status and duration of
  a step, and the layout of the steps, of the card around them and of the cards of child workflows. The
  SVG text is a template over the layout; the model keeps what the template is filled with, each element
  with its position, in the order the function emits it. Step ids are numbers or numerals, as the API
  sends them (any other id sorts as zero).
\<close>

section \<open>Steps\<close>

record dag_step =
  dsStepId :: jsval
  dsFunctionId :: jsval
  dsFunction_id :: jsval
  dsStepName :: "string option"
  dsName :: "string option"
  dsFunctionName :: "string option"
  dsStep_name :: "string option"
  dsStatus :: "string option"
  dsError :: jsval
  dsStartedAt :: "string option"
  dsCompletedAt :: "string option"
  dsDurationMs :: jsval
  dsDuration_ms :: jsval
  dsChildWorkflowId :: "string option"
  dsChild_workflow_id :: "string option"
  dsOutput :: jsval

record status_meta =
  statusClass :: string
  statusText :: string
  statusColor :: string

definition getStepStatusMeta :: "dag_step \<Rightarrow> status_meta" where
  "getStepStatusMeta step =
     (let st = to_upper (opt_str (dsStatus step)); done = opt_str (dsCompletedAt step) \<noteq> [] in
      if truthy (dsError step) \<or> st = ''ERROR''
      then \<lparr>statusClass = ''step-error'', statusText = ''ERROR'', statusColor = ''var(--error)''\<rparr>
      else if st = ''SUCCESS'' \<or> st = ''COMPLETED'' \<or> done
      then \<lparr>statusClass = ''step-success'', statusText = ''COMPLETED'', statusColor = ''var(--success)''\<rparr>
      else if st = ''RUNNING'' \<or> \<not> done \<and> opt_str (dsStartedAt step) \<noteq> []
      then \<lparr>statusClass = ''step-running'', statusText = ''RUNNING'', statusColor = ''var(--info)''\<rparr>
      else \<lparr>statusClass = ''step-pending'', statusText = ''PENDING'', statusColor = ''var(--faint)''\<rparr>)"

definition ms_text :: "jsnum \<Rightarrow> string" where
  "ms_text ms = (if num_less ms 1000 then show_num ms @ ''ms'' else num_fixed 2 (num_scale (1 / 1000) ms) @ ''s'')"

definition getStepDurationText :: "(string \<Rightarrow> jsnum) \<Rightarrow> dag_step \<Rightarrow> string" where
  "getStepDurationText getTime step =
     (let ms = js_number (if \<not> nullish (dsDurationMs step) then dsDurationMs step else dsDuration_ms step)
      in if (\<not> nullish (dsDurationMs step) \<or> \<not> nullish (dsDuration_ms step)) \<and> num_pos ms then ms_text ms
         else if opt_str (dsStartedAt step) \<noteq> [] \<and> opt_str (dsCompletedAt step) \<noteq> []
         then ms_text (max0 (js_sub (getTime (opt_str (dsCompletedAt step))) (getTime (opt_str (dsStartedAt step)))))
         else [])"

definition getWorkflowStatusColor :: "string option \<Rightarrow> string" where
  "getWorkflowStatusColor status =
     (let s = to_upper (opt_str status)
      in if s = ''SUCCESS'' then ''var(--success)'' else if s = ''ERROR'' then ''var(--error)''
         else if s = ''PENDING'' \<or> s = ''ENQUEUED'' then ''var(--info)'' else ''var(--faint)'')"

definition getOutcomeClass :: "string option \<Rightarrow> string" where
  "getOutcomeClass status =
     (let s = to_upper (opt_str status)
      in if s = ''SUCCESS'' then ''edge-success'' else if s = ''ERROR'' then ''edge-error''
         else if s = ''PENDING'' \<or> s = ''ENQUEUED'' then ''edge-running'' else ''edge-default'')"

definition getMarkerSuffix :: "string option \<Rightarrow> string" where
  "getMarkerSuffix status =
     (let s = to_upper (opt_str status)
      in if s = ''SUCCESS'' then ''success'' else if s = ''ERROR'' then ''error''
         else if s = ''PENDING'' \<or> s = ''ENQUEUED'' then ''running'' else ''default'')"

section \<open>Nodes\<close>

record dag_node =
  ndStep :: dag_step
  ndX :: int
  ndY :: int
  ndMeta :: status_meta
  ndId :: string
  ndAria :: string
  ndName :: string
  ndDuration :: string

definition step_title :: "dag_step \<Rightarrow> string" where
  "step_title step = str_or (opt_str (dsStepName step)) (str_or (opt_str (dsName step))
     (str_or (opt_str (dsFunctionName step)) (str_or (opt_str (dsStep_name step)) ''step'')))"

definition step_label :: "dag_step \<Rightarrow> string" where
  "step_label step =
     (if \<not> nullish (dsStepId step) then js_string (dsStepId step)
      else if \<not> nullish (dsFunctionId step) then js_string (dsFunctionId step)
      else if \<not> nullish (dsFunction_id step) then js_string (dsFunction_id step) else ''0'')"

definition renderStepNodeSvg :: "(string \<Rightarrow> jsnum) \<Rightarrow> dag_step \<Rightarrow> int \<Rightarrow> int \<Rightarrow> dag_node" where
  "renderStepNodeSvg getTime step x y =
     \<lparr>ndStep = step, ndX = x, ndY = y, ndMeta = getStepStatusMeta step, ndId = step_label step,
      ndAria = ''Step '' @ step_label step @ '': '' @ escape_text (step_title step) @ '' ('' @
        statusText (getStepStatusMeta step) @ '')'',
      ndName = truncate_text (escape_text (step_title step)) 20, ndDuration = getStepDurationText getTime step\<rparr>"

section \<open>Layout\<close>

definition nodeWidth :: int where "nodeWidth = 180"
definition nodeHeight :: int where "nodeHeight = 62"
definition gapX :: int where "gapX = 30"

record wf_info =
  wiName :: "string option"
  wiId :: "string option"
  wiStatus :: "string option"

record dag_child =
  dcStepId :: jsval
  dcChildWorkflowId :: string
  dcWorkflow :: wf_info
  dcSteps :: "dag_step list"

text \<open>An edge between two nodes of a row: its end points, with the control points half way.\<close>

record dag_edge =
  egFrom :: "int \<times> int"
  egTo :: "int \<times> int"
  egMid :: rat

record dag_card =
  cdX :: int
  cdY :: int
  cdWidth :: int
  cdHeight :: int
  cdTitle :: string
  cdColor :: string
  cdMeta :: string

record family_edge =
  feFrom :: "int \<times> int"
  feTo :: "int \<times> int"
  feClass :: string
  feMarker :: string

record dag_layout =
  dlNodes :: "dag_node list"
  dlEdges :: "dag_edge list"
  dlFamilyEdges :: "family_edge list"
  dlCards :: "dag_card list"
  dlEmptyTexts :: "(int \<times> int) list"
  dlMaxX :: int
  dlMaxY :: int

definition step_order :: "dag_step \<Rightarrow> rat" where
  "step_order s = fin_or_zero (js_number (jor (dsStepId s) (JNum (Fin 0))))"

definition sort_steps :: "dag_step list \<Rightarrow> dag_step list" where
  "sort_steps = sort_key step_order"

definition row_x :: "int \<Rightarrow> nat \<Rightarrow> int" where
  "row_x x0 i = x0 + int i * (nodeWidth + gapX)"

definition row_nodes :: "(string \<Rightarrow> jsnum) \<Rightarrow> int \<Rightarrow> int \<Rightarrow> dag_step list \<Rightarrow> dag_node list" where
  "row_nodes getTime x0 y steps = map (\<lambda>i. renderStepNodeSvg getTime (steps ! i) (row_x x0 i) y) [0..<length steps]"

definition row_edge :: "int \<Rightarrow> int \<Rightarrow> nat \<Rightarrow> dag_edge" where
  "row_edge x0 y i =
     (let sx = row_x x0 i + nodeWidth; sy = y + nodeHeight div 2; ex = row_x x0 (Suc i)
      in \<lparr>egFrom = (sx, sy), egTo = (ex, sy), egMid = of_int (sx + ex) / 2\<rparr>)"

definition row_edges :: "int \<Rightarrow> int \<Rightarrow> nat \<Rightarrow> dag_edge list" where
  "row_edges x0 y n = map (row_edge x0 y) [0..<n - 1]"

text \<open>\<open>parentStepCoords\<close>: the x coordinate of a step under its id, the text of its id and its child's id.\<close>

definition add_coords :: "int \<Rightarrow> dag_step \<times> nat \<Rightarrow> (jsval, int) jsmap \<Rightarrow> (jsval, int) jsmap" where
  "add_coords x0 si m =
     (let s = fst si; x = row_x x0 (snd si);
          m1 = AList.update (JStr (js_string (dsStepId s))) x (AList.update (dsStepId s) x m)
      in if opt_str (dsChildWorkflowId s) \<noteq> [] then AList.update (JStr (opt_str (dsChildWorkflowId s))) x m1 else m1)"

definition parent_coords :: "int \<Rightarrow> dag_step list \<Rightarrow> (jsval, int) jsmap" where
  "parent_coords x0 steps = fold (add_coords x0) (zip steps [0..<length steps]) []"

definition start_x :: "bool \<Rightarrow> int" where "start_x hasChildren = (if hasChildren then 44 else 32)"
definition start_y :: "bool \<Rightarrow> int" where "start_y hasChildren = (if hasChildren then 74 else 36)"

definition root_layout :: "(string \<Rightarrow> jsnum) \<Rightarrow> bool \<Rightarrow> dag_step list \<Rightarrow> dag_layout" where
  "root_layout getTime hasChildren steps =
     (let x0 = start_x hasChildren; y = start_y hasChildren
      in \<lparr>dlNodes = row_nodes getTime x0 y steps, dlEdges = row_edges x0 y (length steps), dlFamilyEdges = [],
          dlCards = [], dlEmptyTexts = [],
          dlMaxX = foldl max x0 (map (\<lambda>i. row_x x0 i + nodeWidth) [0..<length steps]),
          dlMaxY = y + nodeHeight\<rparr>)"

definition root_card :: "wf_info \<Rightarrow> nat \<Rightarrow> dag_layout \<Rightarrow> dag_layout" where
  "root_card wfi n l =
     (let w = max (dlMaxX l + start_x True - 20) 560; h = nodeHeight + 80
      in l\<lparr>dlCards := dlCards l @ [\<lparr>cdX = 16, cdY = 20, cdWidth = w, cdHeight = h,
             cdTitle = ''Root Workflow: '' @ escape_text (str_or (opt_str (wiName wfi)) (str_or (opt_str (wiId wfi)) ''unnamed'')),
             cdColor = getWorkflowStatusColor (wiStatus wfi), cdMeta = show_nat n @ '' steps''\<rparr>],
           dlMaxY := max (dlMaxY l) (20 + h)\<rparr>)"

definition child_title :: "dag_child \<Rightarrow> string" where
  "child_title c = ''Child Workflow: '' @ str_or (opt_str (wiName (dcWorkflow c))) (str_or (dcChildWorkflowId c) ''unnamed'')"

text \<open>\<open>Math.ceil(titleText.length * 7.5 + 130)\<close> and the width of the row of steps\<close>

definition child_width :: "dag_child \<Rightarrow> int" where
  "child_width c =
     max (max 380 (130 + (15 * int (length (child_title c)) + 1) div 2))
         (48 + max 1 (int (length (dcSteps c))) * (nodeWidth + gapX) - gapX)"

definition child_height :: "dag_child \<Rightarrow> int" where
  "child_height c = (if dcSteps c \<noteq> [] then nodeHeight + 84 else 96)"

definition lookup_parent :: "(jsval, int) jsmap \<Rightarrow> dag_child \<Rightarrow> int option" where
  "lookup_parent coords c =
     (case map_of coords (dcStepId c) of
        Some x \<Rightarrow> Some x
      | None \<Rightarrow> (case map_of coords (JStr (js_string (dcStepId c))) of
                  Some x \<Rightarrow> Some x
                | None \<Rightarrow> map_of coords (JStr (dcChildWorkflowId c))))"

definition child_x :: "(jsval, int) jsmap \<Rightarrow> int \<Rightarrow> dag_child \<Rightarrow> int" where
  "child_x coords cur c = (case lookup_parent coords c of None \<Rightarrow> cur | Some px \<Rightarrow> max cur (px - 20))"

definition add_child :: "(string \<Rightarrow> jsnum) \<Rightarrow> (jsval, int) jsmap \<Rightarrow> int \<Rightarrow> dag_child \<Rightarrow> int \<times> dag_layout \<Rightarrow> int \<times> dag_layout" where
  "add_child getTime coords childY c acc =
     (let cur = fst acc; l = snd acc; x = child_x coords cur c; w = child_width c; h = child_height c;
          steps = sort_steps (dcSteps c);
          titleChars = max 16 (2 * (w - 116) div 15);
          card = \<lparr>cdX = x, cdY = childY, cdWidth = w, cdHeight = h,
                  cdTitle = escape_text (truncate_text (child_title c) (nat titleChars)),
                  cdColor = getWorkflowStatusColor (wiStatus (dcWorkflow c)), cdMeta = ''Inspect''\<rparr>;
          fam = (case lookup_parent coords c of
                   None \<Rightarrow> []
                 | Some px \<Rightarrow> [\<lparr>feFrom = (px + nodeWidth div 2, start_y True + nodeHeight), feTo = (x + 40, childY),
                       feClass = getOutcomeClass (wiStatus (dcWorkflow c)), feMarker = getMarkerSuffix (wiStatus (dcWorkflow c))\<rparr>])
      in (x + w + 40,
          l\<lparr>dlMaxX := max (dlMaxX l) (x + w), dlMaxY := max (dlMaxY l) (childY + h),
            dlCards := dlCards l @ [card], dlFamilyEdges := dlFamilyEdges l @ fam,
            dlEmptyTexts := dlEmptyTexts l @ (if steps = [] then [(x + 24, childY + 65)] else []),
            dlEdges := dlEdges l @ row_edges (x + 24) (childY + 54) (length steps),
            dlNodes := dlNodes l @ row_nodes getTime (x + 24) (childY + 54) steps\<rparr>))"

text \<open>The result: the empty message, or a layout with the size of its view box.\<close>

datatype dag_view = EmptyDAG | Dag dag_layout int int

definition renderWorkflowDAG :: "(string \<Rightarrow> jsnum) \<Rightarrow> wf_info \<Rightarrow> dag_step list \<Rightarrow> dag_child list \<Rightarrow> dag_view" where
  "renderWorkflowDAG getTime wfi rootSteps children =
     (if rootSteps = [] \<and> children = [] then EmptyDAG
      else let hasChildren = (children \<noteq> []);
               steps = sort_steps rootSteps;
               l0 = root_layout getTime hasChildren steps;
               l1 = (if hasChildren then root_card wfi (length steps) l0 else l0);
               coords = parent_coords (start_x hasChildren) steps;
               l2 = snd (fold (add_child getTime coords (dlMaxY l1 + 60)) children (24, l1))
           in Dag l2 (max (dlMaxX l2 + 60) 780) (max (dlMaxY l2 + 60) 180))"

section \<open>Geometry\<close>

text \<open>Of two elements, the later one lies to the right of or below the earlier one.\<close>

definition node_apart :: "dag_node \<Rightarrow> dag_node \<Rightarrow> bool" where
  "node_apart a b \<longleftrightarrow> ndX a + nodeWidth \<le> ndX b \<or> ndY a + nodeHeight \<le> ndY b"

definition card_apart :: "dag_card \<Rightarrow> dag_card \<Rightarrow> bool" where
  "card_apart a b \<longleftrightarrow> cdX a + cdWidth a \<le> cdX b \<or> cdY a + cdHeight a \<le> cdY b"

definition nodes_within :: "int \<Rightarrow> int \<Rightarrow> dag_layout \<Rightarrow> bool" where
  "nodes_within w h l \<longleftrightarrow> (\<forall>n\<in>set (dlNodes l). 0 \<le> ndX n \<and> 0 \<le> ndY n \<and> ndX n + nodeWidth \<le> w \<and> ndY n + nodeHeight \<le> h)"

definition cards_within :: "int \<Rightarrow> int \<Rightarrow> dag_layout \<Rightarrow> bool" where
  "cards_within w h l \<longleftrightarrow> (\<forall>c\<in>set (dlCards l). 0 \<le> cdX c \<and> 0 \<le> cdY c \<and> cdX c + cdWidth c \<le> w \<and> cdY c + cdHeight c \<le> h)"

lemmas dag_consts = nodeWidth_def nodeHeight_def gapX_def start_x_def start_y_def

definition child_inv :: "int \<Rightarrow> int \<times> dag_layout \<Rightarrow> bool" where
  "child_inv childY acc \<longleftrightarrow>
     24 \<le> fst acc \<and> sorted_wrt node_apart (dlNodes (snd acc)) \<and> sorted_wrt card_apart (dlCards (snd acc)) \<and>
     nodes_within (dlMaxX (snd acc)) (dlMaxY (snd acc)) (snd acc) \<and>
     cards_within (max (dlMaxX (snd acc) + 60) 780) (dlMaxY (snd acc)) (snd acc) \<and>
     (\<forall>n\<in>set (dlNodes (snd acc)). ndX n + nodeWidth \<le> fst acc \<or> ndY n + nodeHeight \<le> childY) \<and>
     (\<forall>c\<in>set (dlCards (snd acc)). cdX c + cdWidth c \<le> fst acc \<or> cdY c + cdHeight c \<le> childY)"

lemma row_nodes_in:
  "n \<in> set (row_nodes g x0 y steps) \<Longrightarrow> \<exists>i<length steps. ndX n = x0 + int i * 210 \<and> ndY n = y"
  by (auto simp: row_nodes_def renderStepNodeSvg_def row_x_def dag_consts)

lemma row_nodes_bounds:
  assumes "n \<in> set (row_nodes g x0 y steps)"
  shows "x0 \<le> ndX n \<and> ndX n + nodeWidth \<le> x0 + int (length steps) * 210 - 30 \<and> ndY n = y"
proof -
  obtain i where i: "i < length steps" "ndX n = x0 + int i * 210" "ndY n = y" using row_nodes_in [OF assms] by blast
  then have "int i + 1 \<le> int (length steps)" by simp
  then show ?thesis using i by (simp add: dag_consts)
qed

lemma row_nodes_apart: "sorted_wrt node_apart (row_nodes g x0 y steps)"
  unfolding row_nodes_def sorted_wrt_map
  by (rule sorted_wrt_mono_rel [OF _ sorted_wrt_upt]) (auto simp: node_apart_def renderStepNodeSvg_def row_x_def dag_consts)

lemma child_x_ge: "cur \<le> child_x coords cur c"
  by (simp add: child_x_def split: option.split)

lemma child_row_fits: "24 + int (length (dcSteps c)) * 210 - 30 \<le> child_width c - 24 \<or> dcSteps c = []"
  by (auto simp: child_width_def dag_consts le_max_iff_disj)

lemma child_width_pos: "380 \<le> child_width c"
  by (simp add: child_width_def)

lemma length_sort_steps [simp]: "length (sort_steps ss) = length ss" "sort_steps ss = [] \<longleftrightarrow> ss = []"
  unfolding sort_steps_def by (simp_all add: length_0_conv [symmetric] del: length_0_conv)

lemma child_node_bounds:
  assumes "n \<in> set (row_nodes g (x + 24) (y + 54) (sort_steps (dcSteps c)))"
  shows "x + 24 \<le> ndX n \<and> ndX n + nodeWidth \<le> x + child_width c - 24 \<and> ndY n = y + 54 \<and> ndY n + nodeHeight \<le> y + child_height c"
proof -
  have ne: "dcSteps c \<noteq> []" using assms by (auto simp: row_nodes_def)
  have "x + 24 \<le> ndX n \<and> ndX n + nodeWidth \<le> x + 24 + int (length (dcSteps c)) * 210 - 30 \<and> ndY n = y + 54"
    using row_nodes_bounds [OF assms] by simp
  with child_row_fits [of c] ne show ?thesis by (auto simp: child_height_def dag_consts)
qed

lemma add_child_proj:
  "fst (add_child g coords y c (cur, l)) = child_x coords cur c + child_width c + 40"
  "dlNodes (snd (add_child g coords y c (cur, l))) =
     dlNodes l @ row_nodes g (child_x coords cur c + 24) (y + 54) (sort_steps (dcSteps c))"
  "dlMaxX (snd (add_child g coords y c (cur, l))) = max (dlMaxX l) (child_x coords cur c + child_width c)"
  "dlMaxY (snd (add_child g coords y c (cur, l))) = max (dlMaxY l) (y + child_height c)"
  by (simp_all add: add_child_def Let_def)

lemma add_child_card:
  "\<exists>cd. dlCards (snd (add_child g coords y c (cur, l))) = dlCards l @ [cd] \<and> cdX cd = child_x coords cur c \<and> cdY cd = y \<and>
     cdWidth cd = child_width c \<and> cdHeight cd = child_height c"
  by (simp add: add_child_def Let_def)

lemma add_child_inv:
  assumes inv: "child_inv childY acc" and y: "0 \<le> childY"
  shows "child_inv childY (add_child g coords childY c acc)"
proof -
  obtain cur l where acc: "acc = (cur, l)" by (cases acc)
  define x where "x = child_x coords cur c"
  let ?new = "row_nodes g (x + 24) (childY + 54) (sort_steps (dcSteps c))" and ?acc = "add_child g coords childY c (cur, l)"
  have x: "cur \<le> x" "24 \<le> cur" using inv by (simp_all add: x_def child_x_ge acc child_inv_def)
  note nb = child_node_bounds [of _ g x childY c] and w = child_width_pos [of c]
  obtain cd where cd: "dlCards (snd ?acc) = dlCards l @ [cd]" "cdX cd = x" "cdY cd = childY" "cdWidth cd = child_width c" "cdHeight cd = child_height c"
    using add_child_card [of g coords childY c cur l] by (auto simp: x_def)
  have h: "96 \<le> child_height c" by (simp add: child_height_def dag_consts)
  note p = add_child_proj [of g coords childY c cur l, folded x_def]
  have old: "\<forall>n\<in>set (dlNodes l). ndX n + nodeWidth \<le> cur \<or> ndY n + nodeHeight \<le> childY"
      "\<forall>d\<in>set (dlCards l). cdX d + cdWidth d \<le> cur \<or> cdY d + cdHeight d \<le> childY"
    using inv by (simp_all add: acc child_inv_def)
  have "sorted_wrt node_apart (dlNodes (snd ?acc))"
  proof -
    have "node_apart a b" if "a \<in> set (dlNodes l)" "b \<in> set ?new" for a b
      using old(1) that(1) nb [OF that(2)] x unfolding node_apart_def by fastforce
    then show ?thesis using inv row_nodes_apart by (simp add: p acc child_inv_def sorted_wrt_append)
  qed
  moreover have "sorted_wrt card_apart (dlCards (snd ?acc))"
    using inv old(2) x by (auto simp: cd sorted_wrt_append acc child_inv_def card_apart_def)
  moreover have "nodes_within (dlMaxX (snd ?acc)) (dlMaxY (snd ?acc)) (snd ?acc)"
    using inv nb x y by (fastforce simp: nodes_within_def p acc child_inv_def)
  moreover have "cards_within (max (dlMaxX (snd ?acc) + 60) 780) (dlMaxY (snd ?acc)) (snd ?acc)"
    using inv x y by (fastforce simp: cards_within_def cd p acc child_inv_def)
  moreover have "\<forall>n\<in>set (dlNodes (snd ?acc)). ndX n + nodeWidth \<le> fst ?acc \<or> ndY n + nodeHeight \<le> childY"
    using old(1) nb x w by (fastforce simp: p)
  moreover have "\<forall>d\<in>set (dlCards (snd ?acc)). cdX d + cdWidth d \<le> fst ?acc \<or> cdY d + cdHeight d \<le> childY"
    using old(2) x w by (fastforce simp: p cd)
  moreover have "24 \<le> fst ?acc" using x w by (simp add: p)
  ultimately show ?thesis unfolding child_inv_def acc by blast
qed

lemma fold_child_inv: "child_inv y acc \<Longrightarrow> 0 \<le> y \<Longrightarrow> child_inv y (fold (add_child g coords y) cs acc)"
  by (induction cs arbitrary: acc) (simp_all add: add_child_inv)

lemma foldl_max_start: "(a :: int) \<le> foldl max a xs"
proof (induction xs arbitrary: a)
  case (Cons z xs)
  have "max a z \<le> foldl max (max a z) xs" by (rule Cons)
  then show ?case by simp
qed simp

lemma foldl_max_elem: "x \<in> set xs \<Longrightarrow> (x :: int) \<le> foldl max a xs"
proof (induction xs arbitrary: a)
  case (Cons z xs)
  then show ?case using foldl_max_start [of "max a z" xs] by auto
qed simp

lemma root_layout_inv:
  assumes "l1 = (if b then root_card wfi n (root_layout g b ss) else root_layout g b ss)"
  shows "child_inv (dlMaxY l1 + 60) (24, l1)" "36 \<le> dlMaxY l1"
proof -
  let ?l0 = "root_layout g b ss"
  have l0: "dlNodes ?l0 = row_nodes g (start_x b) (start_y b) ss" "dlCards ?l0 = []" "dlMaxY ?l0 = start_y b + nodeHeight"
    by (simp_all add: root_layout_def Let_def)
  have mx: "ndX m + nodeWidth \<le> dlMaxX ?l0" if m: "m \<in> set (dlNodes ?l0)" for m
  proof -
    obtain i where "i < length ss" "ndX m = start_x b + int i * 210" using row_nodes_in [of m g "start_x b" "start_y b" ss] m unfolding l0 by blast
    then have "ndX m + nodeWidth \<in> set (map (\<lambda>i. row_x (start_x b) i + nodeWidth) [0..<length ss])"
      by (auto simp: row_x_def dag_consts)
    then show ?thesis unfolding root_layout_def Let_def by (simp add: foldl_max_elem)
  qed
  have x0: "start_x b \<le> dlMaxX ?l0" unfolding root_layout_def Let_def by (simp add: foldl_max_start)
  have nb: "32 \<le> ndX m \<and> ndY m = start_y b" if "m \<in> set (dlNodes ?l0)" for m
    using row_nodes_bounds [of m g "start_x b" "start_y b" ss] that by (auto simp: l0 dag_consts split: if_splits)
  have l1: "dlNodes l1 = dlNodes ?l0" "dlMaxX l1 = dlMaxX ?l0" "dlMaxY ?l0 \<le> dlMaxY l1" "b \<Longrightarrow> 162 \<le> dlMaxY l1"
    using assms by (auto simp: root_card_def Let_def dag_consts)
  have cards: "\<forall>c\<in>set (dlCards l1). b \<and> cdX c = 16 \<and> cdY c = 20 \<and> cdWidth c = max (dlMaxX ?l0 + 24) 560 \<and> cdHeight c = 142"
      "sorted_wrt card_apart (dlCards l1)"
    using assms l0 by (auto simp: root_card_def Let_def dag_consts)
  have "36 + 62 \<le> dlMaxY ?l0" by (simp add: l0 dag_consts)
  with l1(3) show "36 \<le> dlMaxY l1" by linarith
  show "child_inv (dlMaxY l1 + 60) (24, l1)"
  proof -
    have n: "0 \<le> ndX m \<and> 0 \<le> ndY m \<and> ndX m + nodeWidth \<le> dlMaxX l1 \<and> ndY m + nodeHeight \<le> dlMaxY l1" if "m \<in> set (dlNodes l1)" for m
      using mx [of m] nb [of m] that l1(1-3) by (auto simp: l0(3) dag_consts)
    then have "nodes_within (dlMaxX l1) (dlMaxY l1) l1" by (simp add: nodes_within_def)
    moreover have "cards_within (max (dlMaxX l1 + 60) 780) (dlMaxY l1) l1" using cards(1) l1(2,4) by (auto simp: cards_within_def)
    moreover have "sorted_wrt node_apart (dlNodes l1)" unfolding l1(1) l0(1) by (rule row_nodes_apart)
    moreover have "\<forall>m\<in>set (dlNodes l1). ndY m + nodeHeight \<le> dlMaxY l1 + 60" using n by fastforce
    moreover have "\<forall>c\<in>set (dlCards l1). cdY c + cdHeight c \<le> dlMaxY l1 + 60" using cards(1) l1(4) by fastforce
    ultimately show ?thesis using cards(2) by (simp add: child_inv_def)
  qed
qed

text \<open>
  C28: the drawing. For every workflow and every family of child workflows, no two step nodes overlap and
  no two cards overlap (a later one lies right of or below an earlier one), and every node and every
  card lies inside the view box the function computes.
\<close>

theorem dag_layout_disjoint:
  assumes "renderWorkflowDAG getTime wfi rootSteps children = Dag l w h"
  shows "sorted_wrt node_apart (dlNodes l) \<and> sorted_wrt card_apart (dlCards l) \<and> nodes_within w h l \<and> cards_within w h l"
proof -
  let ?b = "children \<noteq> []" and ?ss = "sort_steps rootSteps"
  define l1 where "l1 = (if ?b then root_card wfi (length ?ss) (root_layout getTime ?b ?ss) else root_layout getTime ?b ?ss)"
  define acc where "acc = fold (add_child getTime (parent_coords (start_x ?b) ?ss) (dlMaxY l1 + 60)) children (24, l1)"
  have l: "l = snd acc" "w = max (dlMaxX l + 60) 780" "h = max (dlMaxY l + 60) 180"
    using assms by (auto simp: renderWorkflowDAG_def Let_def acc_def l1_def split: if_splits)
  have "child_inv (dlMaxY l1 + 60) acc"
    unfolding acc_def using root_layout_inv [OF l1_def] by (intro fold_child_inv) simp_all
  then show ?thesis unfolding l(2,3) using l(1)
    by (fastforce simp: child_inv_def nodes_within_def cards_within_def)
qed

definition demo_step :: "nat \<Rightarrow> string \<Rightarrow> dag_step" where
  "demo_step i nm = \<lparr>dsStepId = JNum (Fin (of_nat i)), dsFunctionId = JUndef, dsFunction_id = JUndef, dsStepName = Some nm,
     dsName = None, dsFunctionName = None, dsStep_name = None, dsStatus = Some ''SUCCESS'', dsError = JUndef,
     dsStartedAt = None, dsCompletedAt = None, dsDurationMs = JNum (Fin 310), dsDuration_ms = JUndef, dsChildWorkflowId = None,
     dsChild_workflow_id = None, dsOutput = JUndef\<rparr>"

theorem dag_layout_disjoint_witness:
  "\<exists>l w h. renderWorkflowDAG (\<lambda>_. NaN) \<lparr>wiName = Some ''w'', wiId = None, wiStatus = None\<rparr> [demo_step 2 ''b'', demo_step 1 ''a'']
       [\<lparr>dcStepId = JNum (Fin 1), dcChildWorkflowId = ''c1'', dcWorkflow = \<lparr>wiName = None, wiId = None, wiStatus = None\<rparr>,
         dcSteps = [demo_step 1 ''x'']\<rparr>] = Dag l w h \<and>
     sorted_wrt node_apart (dlNodes l) \<and> sorted_wrt card_apart (dlCards l) \<and> nodes_within w h l \<and> cards_within w h l"
proof -
  obtain l w h where "renderWorkflowDAG (\<lambda>_. NaN) \<lparr>wiName = Some ''w'', wiId = None, wiStatus = None\<rparr> [demo_step 2 ''b'', demo_step 1 ''a'']
       [\<lparr>dcStepId = JNum (Fin 1), dcChildWorkflowId = ''c1'', dcWorkflow = \<lparr>wiName = None, wiId = None, wiStatus = None\<rparr>,
         dcSteps = [demo_step 1 ''x'']\<rparr>] = Dag l w h"
    by (simp add: renderWorkflowDAG_def Let_def)
  with dag_layout_disjoint [OF this] show ?thesis by blast
qed

section \<open>Completeness and order\<close>

lemma row_nodes_steps: "map ndStep (row_nodes g x0 y steps) = steps"
proof -
  have "map ndStep (row_nodes g x0 y steps) = map (\<lambda>i. steps ! i) [0..<length steps]"
    by (simp add: row_nodes_def renderStepNodeSvg_def comp_def)
  then show ?thesis by (simp add: map_nth)
qed

lemma fold_child_steps:
  "map ndStep (dlNodes (snd (fold (add_child g coords y) cs acc))) =
     map ndStep (dlNodes (snd acc)) @ concat (map (\<lambda>c. sort_steps (dcSteps c)) cs)"
proof (induction cs arbitrary: acc)
  case (Cons c cs)
  then show ?case by (cases acc) (simp add: add_child_proj row_nodes_steps)
qed simp

text \<open>
  the graph shows the workflow. The nodes are the steps of the workflow in the order of their ids,
  followed by the steps of each child in the order of theirs; no step is left out or drawn twice. The
  graph is empty exactly when there is neither a step nor a child.
\<close>

theorem dag_shows_every_step:
  "case renderWorkflowDAG getTime wfi rootSteps children of
     EmptyDAG \<Rightarrow> rootSteps = [] \<and> children = []
   | Dag l w h \<Rightarrow>
       map ndStep (dlNodes l) = sort_steps rootSteps @ concat (map (\<lambda>c. sort_steps (dcSteps c)) children) \<and>
       mset (map ndStep (dlNodes l)) = mset rootSteps + mset (concat (map dcSteps children)) \<and>
       sorted (map step_order (sort_steps rootSteps))"
proof -
  let ?b = "children \<noteq> []" and ?ss = "sort_steps rootSteps"
  have ms: "mset (concat (map (\<lambda>c. sort_steps (dcSteps c)) cs)) = mset (concat (map dcSteps cs))" for cs
    by (induction cs) (simp_all add: sort_steps_def)
  have root: "map ndStep (dlNodes (if ?b then root_card wfi n (root_layout getTime ?b ?ss) else root_layout getTime ?b ?ss)) = ?ss" for n
    by (simp add: root_card_def root_layout_def Let_def row_nodes_steps)
  show ?thesis
  proof (cases "rootSteps = [] \<and> children = []")
    case True
    then show ?thesis by (simp add: renderWorkflowDAG_def)
  next
    case False
    then obtain l w h where d: "renderWorkflowDAG getTime wfi rootSteps children = Dag l w h"
        and e: "map ndStep (dlNodes l) = ?ss @ concat (map (\<lambda>c. sort_steps (dcSteps c)) children)"
      using root by (simp add: renderWorkflowDAG_def Let_def fold_child_steps)
    have "mset (map ndStep (dlNodes l)) = mset rootSteps + mset (concat (map dcSteps children))"
      unfolding e mset_append ms by (simp add: sort_steps_def)
    then show ?thesis unfolding d using e by (simp add: sort_steps_def)
  qed
qed

text \<open>
  The label is escaped before it is cut to twenty characters, so a cut can fall inside a character
  reference: this name of twenty characters is shown cut, with a bare ampersand at its end.
\<close>

lemma label_cut_in_reference:
  "truncate_text (escape_text ''settle-orders-of-A&B'') 20 = ''settle-orders-of-A&'' @ ellipsis"
  by (simp add: truncate_text_def escape_text_def)

end
