(* ===== verification/Json_Viewer.thy ===== *)
theory Json_Viewer
  imports Html_Text
begin

text \<open>
  The payload viewer, \<open>console/src/lib/components/JsonViewer.js\<close>. The regular expression of
  \<open>syntaxHighlight\<close> is written out as a tokenizer: at each position the longest match its greedy,
  deterministic alternatives allow, with the character before it for the word boundary. \<open>parse\<close> and
  \<open>pretty\<close> stand for \<open>JSON.parse\<close> (\<open>None\<close> when it throws) and \<open>JSON.stringify(_, null, 2)\<close>.
\<close>

section \<open>The tokenizer\<close>

definition is_alnum :: "char \<Rightarrow> bool" where
  "is_alnum c \<longleftrightarrow> is_alpha c \<or> is_digit c"

text \<open>\<open>(\\u[a-zA-Z0-9]{4}|\\[^u]|[^\\"])*"\<close> after the opening quote: the match and the rest\<close>

fun string_body :: "string \<Rightarrow> (string \<times> string) option" where
  "string_body [] = None"
| "string_body (c # s) =
     (if c = CHR 0x22 then Some ([c], s)
      else if c = CHR 0x5C then
        (case s of
           [] \<Rightarrow> None
         | d # t \<Rightarrow>
             if d = CHR ''u'' then
               (case t of
                  h1 # h2 # h3 # h4 # r \<Rightarrow>
                    if is_alnum h1 \<and> is_alnum h2 \<and> is_alnum h3 \<and> is_alnum h4
                    then map_option (\<lambda>(m, z). (c # d # h1 # h2 # h3 # h4 # m, z)) (string_body r) else None
                | _ \<Rightarrow> None)
             else map_option (\<lambda>(m, z). (c # d # m, z)) (string_body t))
      else map_option (\<lambda>(m, z). (c # m, z)) (string_body s))"

definition match_string :: "string \<Rightarrow> (string \<times> string) option" where
  "match_string s =
     (case s of
        [] \<Rightarrow> None
      | c # t \<Rightarrow>
          if c \<noteq> CHR 0x22 then None
          else case string_body t of
                 None \<Rightarrow> None
               | Some (m, r) \<Rightarrow>
                   (let sp = takeWhile is_space r; q = dropWhile is_space r
                    in if q \<noteq> [] \<and> hd q = CHR '':'' then Some (c # m @ sp @ '':'', tl q) else Some (c # m, r)))"

definition at_boundary :: "string \<Rightarrow> bool" where
  "at_boundary s \<longleftrightarrow> s = [] \<or> \<not> is_word_char (hd s)"

definition match_word :: "string \<Rightarrow> char option \<Rightarrow> string \<Rightarrow> (string \<times> string) option" where
  "match_word w prev s =
     (if starts_with s w \<and> (case prev of None \<Rightarrow> True | Some p \<Rightarrow> \<not> is_word_char p) \<and> at_boundary (drop (length w) s)
      then Some (w, drop (length w) s) else None)"

text \<open>\<open>(?:[eE][+\\-]?\d+)?\<close>\<close>

definition match_exp :: "string \<Rightarrow> string \<times> string" where
  "match_exp s =
     (case s of
        e # t \<Rightarrow>
          if e = CHR ''e'' \<or> e = CHR ''E'' then
            (let sg = (case t of g # _ \<Rightarrow> if g \<in> {CHR ''+'', CHR 0x5C, CHR ''-''} then [g] else [] | [] \<Rightarrow> []);
                 u = drop (length sg) t; ds = takeWhile is_digit u
             in if ds = [] then ([], s) else (e # sg @ ds, dropWhile is_digit u))
          else ([], s)
      | [] \<Rightarrow> ([], s))"

definition match_number :: "string \<Rightarrow> (string \<times> string) option" where
  "match_number s =
     (let sg = (if s \<noteq> [] \<and> hd s = CHR ''-'' then ''-'' else []); u = drop (length sg) s;
          ds = takeWhile is_digit u; v = dropWhile is_digit u;
          fr = (if v \<noteq> [] \<and> hd v = CHR ''.'' then CHR ''.'' # takeWhile is_digit (tl v) else []);
          w = drop (length fr) v; (ex, r) = match_exp w
      in if ds = [] then None else Some (sg @ ds @ fr @ ex, r))"

definition match_token :: "char option \<Rightarrow> string \<Rightarrow> (string \<times> string) option" where
  "match_token prev s =
     (case match_string s of
        Some r \<Rightarrow> Some r
      | None \<Rightarrow> (case match_word ''true'' prev s of
          Some r \<Rightarrow> Some r
        | None \<Rightarrow> (case match_word ''false'' prev s of
            Some r \<Rightarrow> Some r
          | None \<Rightarrow> (case match_word ''null'' prev s of Some r \<Rightarrow> Some r | None \<Rightarrow> match_number s))))"

definition token_class :: "string \<Rightarrow> string" where
  "token_class m =
     (if m \<noteq> [] \<and> hd m = CHR 0x22 then (if last m = CHR '':'' then ''json-key'' else ''json-string'')
      else if str_includes m ''true'' \<or> str_includes m ''false'' then ''json-boolean''
      else if str_includes m ''null'' then ''json-null'' else ''json-number'')"

subsection \<open>A match is a non-empty prefix\<close>

lemma string_body_prefix: "string_body s = Some (m, r) \<Longrightarrow> s = m @ r"
proof (induction s arbitrary: m r rule: string_body.induct)
  case (2 c s)
  show ?case
  proof (cases "c = CHR 0x22 \<or> c \<noteq> CHR 0x5C")
    case True
    then show ?thesis using 2 by (auto split: if_splits)
  next
    case False
    then show ?thesis using 2 by (auto split: if_splits list.splits)
  qed
qed simp

lemma match_string_prefix: "match_string s = Some (m, r) \<Longrightarrow> s = m @ r \<and> m \<noteq> []"
proof -
  have sp: "takeWhile is_space z @ CHR '':'' # tl (dropWhile is_space z) = z"
    if "dropWhile is_space z \<noteq> []" "hd (dropWhile is_space z) = CHR '':''" for z
    using that by (metis list.collapse takeWhile_dropWhile_id)
  show "match_string s = Some (m, r) \<Longrightarrow> s = m @ r \<and> m \<noteq> []"
    by (auto simp: match_string_def Let_def split: list.splits if_splits option.splits dest!: string_body_prefix)
      (rule sp [symmetric], auto)
qed

lemma match_word_prefix: "match_word w prev s = Some (m, r) \<Longrightarrow> w \<noteq> [] \<Longrightarrow> s = m @ r \<and> m \<noteq> []"
  by (auto simp: match_word_def starts_with_iff split: if_splits)

lemma match_exp_prefix: "match_exp s = (m, r) \<Longrightarrow> s = m @ r"
  by (auto simp: match_exp_def Let_def split: list.splits if_splits)

lemma match_number_prefix:
  assumes "match_number s = Some (m, r)"
  shows "s = m @ r \<and> m \<noteq> []"
proof -
  define sg where "sg = (if s \<noteq> [] \<and> hd s = CHR ''-'' then ''-'' else [])"
  define u where "u = drop (length sg) s"
  define v where "v = dropWhile is_digit u"
  define fr where "fr = (if v \<noteq> [] \<and> hd v = CHR ''.'' then CHR ''.'' # takeWhile is_digit (tl v) else [])"
  obtain ex z where ex: "match_exp (drop (length fr) v) = (ex, z)" by (cases "match_exp (drop (length fr) v)")
  have m: "takeWhile is_digit u \<noteq> []" "m = sg @ takeWhile is_digit u @ fr @ ex" "r = z"
    using assms ex unfolding match_number_def Let_def sg_def [symmetric] u_def [symmetric] v_def [symmetric] fr_def [symmetric]
    by (auto split: if_splits)
  have "s = sg @ u" by (cases s) (auto simp: sg_def u_def)
  moreover have "u = takeWhile is_digit u @ v" by (simp add: v_def)
  moreover have "v = fr @ drop (length fr) v"
  proof (cases "fr = []")
    case False
    then obtain v' where v': "v = CHR ''.'' # v'" "fr = CHR ''.'' # takeWhile is_digit v'"
      by (cases v) (auto simp: fr_def split: if_splits)
    have "drop (length (takeWhile is_digit v')) v' = dropWhile is_digit v'" by (rule dropWhile_eq_drop [symmetric])
    then show ?thesis by (simp add: v')
  qed simp
  ultimately show ?thesis using m match_exp_prefix [OF ex] by (metis append.assoc append_is_Nil_conv)
qed

lemma match_token_prefix: "match_token prev s = Some (m, r) \<Longrightarrow> s = m @ r \<and> m \<noteq> []"
  by (auto simp: match_token_def split: option.splits
      dest: match_string_prefix match_word_prefix match_number_prefix)

section \<open>Highlighting\<close>

text \<open>The global \<open>replace\<close>: matched tokens with their class, single characters between them.\<close>

function highlight_tokens :: "char option \<Rightarrow> string \<Rightarrow> (string option \<times> string) list" where
  "highlight_tokens prev [] = []"
| "highlight_tokens prev (c # s) =
     (case match_token prev (c # s) of
        Some (m, r) \<Rightarrow> (Some (token_class m), m) # highlight_tokens (Some (last m)) r
      | None \<Rightarrow> (None, [c]) # highlight_tokens (Some c) s)"
  by pat_completeness auto
termination
  by (relation "measure (length \<circ> snd)") (auto dest!: match_token_prefix simp: Cons_eq_append_conv)

definition render_token :: "string option \<times> string \<Rightarrow> string" where
  "render_token t = (case fst t of None \<Rightarrow> snd t | Some cls \<Rightarrow> ''<span class='' @ dq @ cls @ dq @ ''>'' @ snd t @ ''</span>'')"

definition syntaxHighlight :: "string \<Rightarrow> string" where
  "syntaxHighlight json = concat (map render_token (highlight_tokens None (escape_text json)))"

section \<open>The viewer\<close>

record json_view =
  jvTitle :: string
  jvRawAttr :: string
  jvDecoded :: string
  jvRaw :: string

text \<open>\<open>None\<close> is the \<open>No data\<close> message; the random element id and the fixed markup are left out.\<close>

definition renderJsonViewer :: "(string \<Rightarrow> jsval option) \<Rightarrow> (jsval \<Rightarrow> string) \<Rightarrow> jsval \<Rightarrow> string \<Rightarrow> json_view option" where
  "renderJsonViewer parse pretty data title =
     (if nullish data \<or> data = JStr [] then None
      else let (raw, formatted) =
             (case data of
                JStr s \<Rightarrow> (s, (case parse s of
                   Some v \<Rightarrow> syntaxHighlight (pretty v)
                 | None \<Rightarrow> ''<span class='' @ dq @ ''json-string'' @ dq @ ''>'' @ escape_text s @ ''</span>''))
              | _ \<Rightarrow> (pretty data, syntaxHighlight (pretty data)))
           in Some \<lparr>jvTitle = escape_text title, jvRawAttr = escape_text raw, jvDecoded = formatted, jvRaw = escape_text raw\<rparr>)"

section \<open>Properties\<close>

lemma highlight_text: "concat (map snd (highlight_tokens prev s)) = s"
proof (induction prev s rule: highlight_tokens.induct)
  case (2 prev c s)
  show ?case
  proof (cases "match_token prev (c # s)")
    case None
    then show ?thesis using 2 by simp
  next
    case (Some p)
    then obtain m r where p: "p = (m, r)" "m @ r = c # s" using match_token_prefix [of prev "c # s"] by (cases p) auto
    then show ?thesis using 2(1,2) Some by simp
  qed
qed simp

lemma no_quote_no_string: "CHR 0x22 \<notin> set s \<Longrightarrow> match_string s = None"
  by (cases s) (auto simp: match_string_def)

lemma match_token_set: "match_token prev s = Some (m, r) \<Longrightarrow> set m \<subseteq> set s \<and> set r \<subseteq> set s"
  using match_token_prefix [of prev s m r] by auto

lemma token_class_plain: "CHR 0x22 \<notin> set m \<Longrightarrow> token_class m \<in> {''json-boolean'', ''json-null'', ''json-number''}"
  by (auto simp: token_class_def dest: hd_in_set)

lemma highlight_classes:
  "CHR 0x22 \<notin> set s \<Longrightarrow> (cls, m) \<in> set (highlight_tokens prev s) \<Longrightarrow>
     cls \<in> {None, Some ''json-boolean'', Some ''json-null'', Some ''json-number''}"
proof (induction prev s rule: highlight_tokens.induct)
  case (2 prev c s)
  show ?case
  proof (cases "match_token prev (c # s)")
    case None
    then show ?thesis using 2 by auto
  next
    case (Some p)
    then obtain t r where p: "p = (t, r)" and st: "set t \<subseteq> set (c # s)" "set r \<subseteq> set (c # s)"
      using match_token_set by (cases p) blast
    have q: "CHR 0x22 \<notin> set t" "CHR 0x22 \<notin> set r" using st 2(3) by auto
    show ?thesis using 2(1,2) 2(4) Some p q(2) token_class_plain [OF q(1)] by auto
  qed
qed simp


text \<open>A string that is already JSON text reads back unchanged from the \<open>Copy\<close> and \<open>Expand\<close> attributes.\<close>

lemma viewer_raw_attribute:
  "renderJsonViewer parse pretty (JStr s) title = Some v \<Longrightarrow> html_decode (jvRawAttr v) = s \<and> jvRaw v = jvRawAttr v"
  by (auto simp: renderJsonViewer_def split: if_splits) (simp add: html_decode_escape_text)

text \<open>
  The digits of the reference for an apostrophe are taken for a number: the span cuts the reference
  in two, and the browser shows its text instead of the apostrophe.
\<close>

lemma apostrophe_reference_broken:
  "syntaxHighlight [CHR 0x27] = ''&#<span class='' @ dq @ ''json-number'' @ dq @ ''>039</span>;''"
  by code_simp

end
