(* ===== verification/Console_Screens.thy ===== *)
theory Console_Screens
  imports Console_Nav Workflow_Dag Json_Viewer
begin

text \<open>
  The workflow screens of \<open>console/src/app.js\<close>: the fleet overview, the workflow list with its two
  filters, and the workflow detail with its step graph, its tabs and its step drawer. A screen is a
  function from the state and the server's replies to the view it draws (and to the state, where it
  records something): the figures, the rows with the markup of their cells, the buttons offered. What
  an exception does is part of it: a call inside \<open>allSettled\<close> that fails counts as an empty list, any other
  failure is the error card. A date that cannot be read sorts as the epoch.
\<close>

section \<open>Shared\<close>

text \<open>What the formatters take from the browser: the time of a date string, the clock, the locale.\<close>

record browser_env =
  envTime :: "string \<Rightarrow> jsnum"
  envNow :: jsnum
  envLocale :: "string \<Rightarrow> string"

record workflow =
  wfId :: string
  wfName :: "string option"
  wfStatus :: "string option"
  wfQueue :: "string option"
  wfVersion :: "string option"
  wfCreatedAt :: "string option"
  wfCompletedAt :: "string option"
  wfDurationMs :: jsval
  wfDuration_ms :: jsval
  wfInput :: jsval
  wfOutput :: jsval
  wfError :: jsval

record executor =
  exId :: string
  exStatus :: "string option"
  exHostname :: "string option"
  exVersion :: "string option"
  exLanguage :: "string option"
  exUpdatedAt :: "string option"

datatype error_card = ErrorCard string string

definition renderErrorState :: "string \<Rightarrow> string \<Rightarrow> error_card" where
  "renderErrorState title msg = ErrorCard (escapeHtml (JStr title)) (escapeHtml (JStr msg))"

definition esc :: "string \<Rightarrow> string" where
  "esc s = escapeHtml (JStr s)"

definition span_of :: "string \<Rightarrow> string \<Rightarrow> string" where
  "span_of cls content = ''<span class='' @ dq @ cls @ dq @ ''>'' @ content @ ''</span>''"

definition tag_of :: "string \<Rightarrow> string \<Rightarrow> string" where
  "tag_of t content = ''<'' @ t @ ''>'' @ content @ ''</'' @ t @ ''>''"

definition wf_duration :: "browser_env \<Rightarrow> workflow \<Rightarrow> string" where
  "wf_duration env w =
     calculateDuration (envTime env) (envNow env) (wfCreatedAt w) (wfCompletedAt w) (wfStatus w) (jor (wfDurationMs w) (wfDuration_ms w))"

definition created_key :: "browser_env \<Rightarrow> workflow \<Rightarrow> rat" where
  "created_key env w = (case wfCreatedAt w of None \<Rightarrow> 0 | Some s \<Rightarrow> fin_or_zero (envTime env s))"

text \<open>A clickable row: where it navigates, the application it belongs to, its cells.\<close>

record wf_row =
  rowNavigate :: string
  rowApp :: string
  rowCells :: "string list"

text \<open>\<open>Promise.allSettled\<close>: a failed call counts as no entries.\<close>

definition settled :: "'a list reply \<Rightarrow> 'a list" where
  "settled r = (case r of Inl _ \<Rightarrow> [] | Inr xs \<Rightarrow> xs)"

definition record_apps :: "(string \<times> workflow) list \<Rightarrow> console \<Rightarrow> console" where
  "record_apps ws c = c\<lparr>workflowAppMap := foldl (\<lambda>m p. AList.update (wfId (snd p)) (fst p) m) (workflowAppMap c) ws\<rparr>"

section \<open>Fleet\<close>

record fleet_replies =
  frApps :: "application list reply"
  frExecutors :: "string \<Rightarrow> executor list reply"
  frWorkflows :: "string \<Rightarrow> workflow list reply"
  frQueues :: "string \<Rightarrow> unit list reply"
  frSchedules :: "string \<Rightarrow> unit list reply"

definition fleet_scope :: "console \<Rightarrow> application list" where
  "fleet_scope c =
     (let q = (if appName c \<noteq> [] then filter (\<lambda>a. aName a = appName c) (apps c) else apps c)
      in if q \<noteq> [] then q else apps c)"

definition has_status :: "string \<Rightarrow> string option \<Rightarrow> bool" where
  "has_status s st \<longleftrightarrow> st = Some s"

definition healthy_count :: "executor list \<Rightarrow> nat" where
  "healthy_count es = length (filter (\<lambda>e. has_status ''HEALTHY'' (exStatus e)) es)"

definition fleet_executors :: "fleet_replies \<Rightarrow> application list \<Rightarrow> (string \<times> executor) list" where
  "fleet_executors fr as = concat (map (\<lambda>a. map (\<lambda>e. (aName a, e)) (settled (frExecutors fr (aName a)))) as)"

definition fleet_workflows :: "fleet_replies \<Rightarrow> application list \<Rightarrow> (string \<times> workflow) list" where
  "fleet_workflows fr as = concat (map (\<lambda>a. map (\<lambda>w. (aName a, w)) (settled (frWorkflows fr (aName a)))) as)"

record app_metrics =
  amHealthy :: nat
  amWorkflows :: nat
  amQueues :: nat
  amSchedules :: nat

definition app_metrics_of :: "fleet_replies \<Rightarrow> string \<Rightarrow> app_metrics" where
  "app_metrics_of fr a =
     \<lparr>amHealthy = healthy_count (settled (frExecutors fr a)), amWorkflows = length (settled (frWorkflows fr a)),
      amQueues = length (settled (frQueues fr a)), amSchedules = length (settled (frSchedules fr a))\<rparr>"

record fleet_kpis =
  fkApplications :: nat
  fkAvailable :: nat
  fkActive :: nat
  fkDisconnected :: nat
  fkWorkflows :: nat
  fkInFlight :: nat
  fkFailed :: nat
  fkQueues :: nat
  fkSchedules :: nat

definition fleet_kpis_of :: "fleet_replies \<Rightarrow> console \<Rightarrow> fleet_kpis" where
  "fleet_kpis_of fr c =
     (let as = fleet_scope c; es = map snd (fleet_executors fr as); ws = map snd (fleet_workflows fr as)
      in \<lparr>fkApplications = length (apps c), fkAvailable = length (filter (\<lambda>a. has_status ''AVAILABLE'' (aStatus a)) (apps c)),
          fkActive = healthy_count es,
          fkDisconnected = length (filter (\<lambda>e. has_status ''DISCONNECTED'' (exStatus e)) es),
          fkWorkflows = length ws,
          fkInFlight = length (filter (\<lambda>w. has_status ''PENDING'' (wfStatus w) \<or> has_status ''ENQUEUED'' (wfStatus w)) ws),
          fkFailed = length (filter (\<lambda>w. has_status ''ERROR'' (wfStatus w)) ws),
          fkQueues = sum_list (map (\<lambda>a. length (settled (frQueues fr (aName a)))) as),
          fkSchedules = sum_list (map (\<lambda>a. length (settled (frSchedules fr (aName a)))) as)\<rparr>)"

definition recent_workflows :: "browser_env \<Rightarrow> (string \<times> workflow) list \<Rightarrow> (string \<times> workflow) list" where
  "recent_workflows env ws = take 8 (sort_desc (\<lambda>p. created_key env (snd p)) ws)"

text \<open>The row of a recent workflow. Its target is escaped for the attribute but not percent-encoded.\<close>

definition fleet_wf_row :: "browser_env \<Rightarrow> bool \<Rightarrow> string \<times> workflow \<Rightarrow> wf_row" where
  "fleet_wf_row env filtered p =
     (let w = snd p
      in \<lparr>rowNavigate = ''workflow/'' @ wfId w, rowApp = fst p,
          rowCells = [renderStatusPill (wfStatus w)] @ (if filtered then [] else [span_of ''badge badge-info'' (esc (fst p))]) @
            [tag_of ''code'' (esc (truncate_text (wfId w) 22)), tag_of ''strong'' (esc (str_or (opt_str (wfName w)) ''unnamed'')),
             esc (str_or (opt_str (wfQueue w)) ''default''),
             ''<span class='' @ dq @ ''relative-time'' @ dq @ '' title='' @ dq @ formatTimestamp (envLocale env) (wfCreatedAt w) @ dq @ ''>'' @
               formatRelativeTime (envTime env) (envNow env) (wfCreatedAt w) @ ''</span>'',
             wf_duration env w]\<rparr>)"

definition executor_cells :: "browser_env \<Rightarrow> bool \<Rightarrow> string \<times> executor \<Rightarrow> string list" where
  "executor_cells env filtered p =
     (let e = snd p
      in [tag_of ''code'' (esc (exId e))] @ (if filtered then [] else [span_of ''badge badge-info'' (esc (fst p))]) @
         [renderStatusPill (exStatus e), esc (str_or (opt_str (exHostname e)) ''localhost''),
          span_of ''badge'' (esc (str_or (opt_str (exVersion e)) ''v1.0.0'')), esc (str_or (opt_str (exLanguage e)) ''unknown''),
          formatTimestamp (envLocale env) (exUpdatedAt e)])"

definition app_cells :: "fleet_replies \<Rightarrow> console \<Rightarrow> application \<Rightarrow> string list" where
  "app_cells fr c a =
     (let m = (if aName a \<in> aName ` set (fleet_scope c) then app_metrics_of fr (aName a)
               else \<lparr>amHealthy = 0, amWorkflows = 0, amQueues = 0, amSchedules = 0\<rparr>)
      in [esc (aName a), renderStatusPill (aStatus a), span_of ''badge badge-neutral'' (esc (str_or (opt_str (aLanguage a)) ''dbos'')),
          span_of (if amHealthy m > 0 then ''badge badge-success'' else ''badge badge-neutral'') (show_nat (amHealthy m) @ '' live''),
          (if amHealthy m > 0 then ''Executor Hub'' else ''No Executors''),
          show_nat (amWorkflows m) @ '' recorded'', show_nat (amQueues m) @ ''q / '' @ show_nat (amSchedules m) @ ''s''])"

text \<open>The card of the selected application: language, timeout, network mode, data access.\<close>

definition app_detail_cells :: "console \<Rightarrow> nat \<Rightarrow> string list" where
  "app_detail_cells c active =
     (let sel = find (\<lambda>a. aName a = appName c) (apps c);
          secs = (case sel of None \<Rightarrow> 60 | Some a \<Rightarrow> (case aTimeoutSecs a of None \<Rightarrow> 60 | Some t \<Rightarrow> if t = 0 then 60 else t));
          priv = (case sel of None \<Rightarrow> False | Some a \<Rightarrow> aPrivateMode a)
      in [esc (appName c), esc (case sel of None \<Rightarrow> ''-'' | Some a \<Rightarrow> str_or (opt_str (aLanguage a)) ''dbos''),
          show_int secs @ '' seconds'', (if priv then ''Private network'' else ''Public access''), show_nat active @ '' live'',
          (if active > 0 then ''Executor Hub ('' @ show_nat active @ '' active)'' else ''No Live Executors'')])"

record fleet_view =
  fvBanner :: "string option"
  fvKpis :: fleet_kpis
  fvAppRows :: "string list list"
  fvAppDetail :: "string list"
  fvRecent :: "wf_row list"
  fvExecutors :: "string list list"

text \<open>
  The screen loads the applications first (a failure there is caught by \<open>loadApplications\<close>), then one
  batch of calls per application in scope; the map from workflows to applications is filled as it goes.
\<close>

definition renderFleetScreen :: "browser_env \<Rightarrow> fleet_replies \<Rightarrow> console \<Rightarrow> fleet_view \<times> console" where
  "renderFleetScreen env fr c0 =
     (let c = loadApplications (frApps fr) c0; filtered = (appName c \<noteq> []); as = fleet_scope c;
          ws = fleet_workflows fr as; k = fleet_kpis_of fr c
      in (\<lparr>fvBanner = (if filtered then Some (esc (appName c)) else None), fvKpis = k,
           fvAppRows = (if filtered then [] else map (app_cells fr c) (apps c)),
           fvAppDetail = (if filtered then app_detail_cells c (fkActive k) else []),
           fvRecent = map (fleet_wf_row env filtered) (recent_workflows env ws),
           fvExecutors = map (executor_cells env filtered) (fleet_executors fr as)\<rparr>,
          record_apps ws c))"

section \<open>Workflow list\<close>

definition list_workflows :: "browser_env \<Rightarrow> (string \<Rightarrow> workflow list reply) \<Rightarrow> console \<Rightarrow> (string \<times> workflow) list reply" where
  "list_workflows env reply c =
     (if appName c = [] then
        Inr (sort_desc (\<lambda>p. created_key env (snd p))
          (concat (map (\<lambda>a. map (\<lambda>w. (aName a, w)) (settled (reply (aName a)))) (apps c))))
      else case reply (appName c) of Inl err \<Rightarrow> Inl err | Inr ws \<Rightarrow> Inr (map (\<lambda>w. (appName c, w)) ws))"

definition list_wf_row :: "browser_env \<Rightarrow> string \<times> workflow \<Rightarrow> wf_row" where
  "list_wf_row env p =
     (let w = snd p
      in \<lparr>rowNavigate = ''workflow/'' @ encode_uri_component (wfId w), rowApp = fst p,
          rowCells = [tag_of ''code'' (esc (wfId w)), span_of ''badge badge-info'' (esc (str_or (fst p) ''default'')),
             renderStatusPill (wfStatus w), tag_of ''strong'' (esc (str_or (opt_str (wfName w)) ''unnamed'')),
             esc (str_or (opt_str (wfQueue w)) ''default''), esc (str_or (opt_str (wfVersion w)) ''-''),
             formatTimestamp (envLocale env) (wfCreatedAt w), wf_duration env w]\<rparr>)"

definition renderWorkflowsScreen :: "browser_env \<Rightarrow> (string \<Rightarrow> workflow list reply) \<Rightarrow> console \<Rightarrow> (error_card + wf_row list) \<times> console" where
  "renderWorkflowsScreen env reply c =
     (case list_workflows env reply c of
        Inl err \<Rightarrow> (Inl (renderErrorState (''Workflows ('' @ esc (str_or (appName c) ''All Applications'') @ '')'') (errMessage err)), c)
      | Inr ws \<Rightarrow> (Inr (map (list_wf_row env) ws), record_apps (filter (\<lambda>p. fst p \<noteq> []) ws) c))"

text \<open>The two filters write the \<open>display\<close> of every row of the table: the text of a row and whether it is shown.\<close>

type_synonym table_rows = "(string \<times> bool) list"

definition filterWorkflowsTable :: "string \<Rightarrow> table_rows \<Rightarrow> table_rows" where
  "filterWorkflowsTable query rows = map (\<lambda>r. (fst r, str_includes (to_lower (fst r)) (to_lower query))) rows"

definition filterWorkflowsStatus :: "string \<Rightarrow> table_rows \<Rightarrow> table_rows" where
  "filterWorkflowsStatus status rows = map (\<lambda>r. (fst r, status = [] \<or> str_includes (to_upper (fst r)) status)) rows"

section \<open>Workflow detail\<close>

record detail_replies =
  drWorkflowOf :: "string \<Rightarrow> string \<Rightarrow> workflow reply"
  drStepsOf :: "string \<Rightarrow> string \<Rightarrow> dag_step list reply"

definition is_ok :: "'a reply \<Rightarrow> bool" where
  "is_ok r = (case r of Inl _ \<Rightarrow> False | Inr _ \<Rightarrow> True)"

definition known_app :: "console \<Rightarrow> string" where
  "known_app c = str_or (selectedWorkflowApp c)
     (str_or (opt_str (map_of (workflowAppMap c) (opt_str (selectedWorkflowId c)))) (appName c))"

text \<open>The search through the applications when none is known: the first that has the workflow.\<close>

definition resolve_app :: "detail_replies \<Rightarrow> console \<Rightarrow> string \<times> console" where
  "resolve_app dr c =
     (let wid = opt_str (selectedWorkflowId c); t = known_app c
      in if t \<noteq> [] then (t, c)
         else case find (\<lambda>a. is_ok (drWorkflowOf dr (aName a) wid)) (apps c) of
                Some a \<Rightarrow> (aName a, c\<lparr>workflowAppMap := AList.update wid (aName a) (workflowAppMap c)\<rparr>)
              | None \<Rightarrow> (str_or (appName c) (case apps c of a # _ \<Rightarrow> aName a | [] \<Rightarrow> ''default''), c))"

definition child_id :: "dag_step \<Rightarrow> string" where
  "child_id s = str_or (opt_str (dsChildWorkflowId s)) (opt_str (dsChild_workflow_id s))"

definition child_step_id :: "dag_step \<Rightarrow> jsval" where
  "child_step_id s = jor (dsStepId s) (JStr (js_string (jor (dsFunction_id s) (dsFunctionId s))))"

definition wf_title :: "workflow \<Rightarrow> string \<Rightarrow> string" where
  "wf_title w dflt = str_or (opt_str (wfName w)) dflt"

text \<open>A child whose workflow or steps cannot be read stays in the family with an unknown status.\<close>

definition load_child :: "detail_replies \<Rightarrow> string \<Rightarrow> dag_step \<Rightarrow> dag_child" where
  "load_child dr app s =
     (let cid = child_id s
      in case (drWorkflowOf dr app cid, drStepsOf dr app cid) of
           (Inr w, Inr steps) \<Rightarrow>
             \<lparr>dcStepId = child_step_id s, dcChildWorkflowId = cid,
              dcWorkflow = \<lparr>wiName = Some (wf_title w cid), wiId = Some (str_or (wfId w) cid), wiStatus = wfStatus w\<rparr>, dcSteps = steps\<rparr>
         | _ \<Rightarrow>
             \<lparr>dcStepId = child_step_id s, dcChildWorkflowId = cid,
              dcWorkflow = \<lparr>wiName = Some ''Child Workflow'', wiId = Some cid, wiStatus = Some ''UNKNOWN''\<rparr>, dcSteps = []\<rparr>)"

definition load_children :: "detail_replies \<Rightarrow> string \<Rightarrow> dag_step list \<Rightarrow> dag_child list" where
  "load_children dr app steps = map (load_child dr app) (filter (\<lambda>s. child_id s \<noteq> []) steps)"

datatype detail_button = BtnCancel string string | BtnResume string string | BtnRestart string string | BtnSend

definition detail_buttons :: "string option \<Rightarrow> string \<Rightarrow> string \<Rightarrow> detail_button list" where
  "detail_buttons st wid app =
     (if has_status ''PENDING'' st \<or> has_status ''ENQUEUED'' st then [BtnCancel wid app] else []) @
     (if has_status ''CANCELLED'' st then [BtnResume wid app] else []) @
     (if has_status ''ERROR'' st then [BtnRestart wid app] else []) @ [BtnSend]"

definition status_dot :: "string option \<Rightarrow> string" where
  "status_dot st =
     (if has_status ''SUCCESS'' st then ''dot-success'' else if has_status ''ERROR'' st then ''dot-error''
      else if has_status ''PENDING'' st \<or> has_status ''ENQUEUED'' st then ''dot-running'' else ''dot-pending'')"

definition parent_dot :: "parent_info option \<Rightarrow> string" where
  "parent_dot p =
     (case p of None \<Rightarrow> ''dot-pending''
      | Some i \<Rightarrow> if parentStatus i = ''SUCCESS'' then ''dot-success'' else if parentStatus i = ''ERROR'' then ''dot-error'' else ''dot-running'')"

record detail_view =
  dvApp :: string
  dvParent :: "(string \<times> string \<times> string) option"
  dvDot :: string
  dvWorkflowId :: string
  dvName :: string
  dvPill :: string
  dvButtons :: "detail_button list"
  dvQueue :: string
  dvCreated :: string
  dvDuration :: string
  dvStepCount :: nat
  dvChildCount :: nat
  dvDag :: dag_view
  dvInput :: "json_view option"
  dvOutput :: "json_view option"

text \<open>The viewers of the input and of the error or output; \<open>js\<close> holds \<open>JSON.parse\<close> and the pretty printer.\<close>

type_synonym json_lib = "(string \<Rightarrow> jsval option) \<times> (jsval \<Rightarrow> string)"

definition view_json :: "json_lib \<Rightarrow> jsval \<Rightarrow> string \<Rightarrow> json_view option" where
  "view_json js v title = renderJsonViewer (fst js) (snd js) v title"

definition io_views :: "json_lib \<Rightarrow> workflow \<Rightarrow> json_view option \<times> json_view option" where
  "io_views js w = (view_json js (wfInput w) ''Input'',
     if truthy (wfError w) then view_json js (wfError w) ''Error'' else view_json js (wfOutput w) ''Output'')"

definition detail_view_of :: "browser_env \<Rightarrow> json_lib \<Rightarrow> detail_replies \<Rightarrow> string \<Rightarrow> workflow \<Rightarrow> dag_step list \<Rightarrow> console \<Rightarrow> detail_view" where
  "detail_view_of env js dr app w steps c =
     (let sel = opt_str (selectedWorkflowId c); wid = str_or (wfId w) sel; nm = wf_title w wid; kids = load_children dr app steps;
          parent = map_of (parentWorkflowMap c) sel
      in \<lparr>dvApp = esc app,
          dvParent = map_option (\<lambda>i. (''workflow/'' @ encode_uri_component (parentId i), parent_dot parent,
            esc (truncate_text (str_or (parentName i) (parentId i)) 20))) parent,
          dvDot = status_dot (wfStatus w), dvWorkflowId = esc wid, dvName = esc nm, dvPill = renderStatusPill (wfStatus w),
          dvButtons = detail_buttons (wfStatus w) wid app, dvQueue = esc (str_or (opt_str (wfQueue w)) ''default''),
          dvCreated = formatTimestamp (envLocale env) (wfCreatedAt w), dvDuration = wf_duration env w,
          dvStepCount = length steps, dvChildCount = length kids,
          dvDag = renderWorkflowDAG (envTime env) \<lparr>wiName = Some nm, wiId = Some wid, wiStatus = wfStatus w\<rparr> steps kids,
          dvInput = fst (io_views js w), dvOutput = snd (io_views js w)\<rparr>)"

definition renderWorkflowDetailScreen ::
    "browser_env \<Rightarrow> json_lib \<Rightarrow> detail_replies \<Rightarrow> console \<Rightarrow> (error_card + detail_view) \<times> console" where
  "renderWorkflowDetailScreen env js dr c0 =
     (let (app, c1) = resolve_app dr c0; c = c1\<lparr>selectedWorkflowApp := app\<rparr>; sel = opt_str (selectedWorkflowId c);
          failed = (\<lambda>err. (Inl (renderErrorState (''Workflow Details ('' @ esc (str_or sel ''Unknown'') @ '')'') (errMessage err)), c))
      in case drWorkflowOf dr app sel of
           Inl err \<Rightarrow> failed err
         | Inr w \<Rightarrow>
             (case drStepsOf dr app sel of
                Inl err \<Rightarrow> failed err
              | Inr steps \<Rightarrow>
                  (let wid = str_or (wfId w) sel
                   in (Inr (detail_view_of env js dr app w steps c),
                       initDagViewport (c\<lparr>currentWorkflowName := wf_title w wid, currentWorkflowStatus := opt_str (wfStatus w)\<rparr>)))))"

subsection \<open>Tabs\<close>

record notification =
  ntTopic :: "string option"
  ntMessage :: jsval
  ntConsumed :: bool
  ntCreatedAt :: "string option"

datatype tab_view =
    IoTab "json_view option" "json_view option"
  | EventsTable "(string \<times> json_view option) list"
  | EventsNeedExecutor
  | EventsFailed string
  | NotificationsTable "string list list"
  | TabUnchanged
  | TabRejected

record tab_replies =
  trWorkflow :: "workflow reply"
  trEvents :: "(string \<times> jsval) list reply"
  trNotifications :: "notification list reply"

definition switchWfTab :: "browser_env \<Rightarrow> json_lib \<Rightarrow> tab_replies \<Rightarrow> string \<Rightarrow> tab_view" where
  "switchWfTab env js tr tab =
     (if tab = ''io'' then
        (case trWorkflow tr of Inl _ \<Rightarrow> TabRejected | Inr w \<Rightarrow> IoTab (fst (io_views js w)) (snd (io_views js w)))
      else if tab = ''events'' then
        (case trEvents tr of
           Inr evs \<Rightarrow> EventsTable (map (\<lambda>(k, v). (esc k, view_json js v [])) evs)
         | Inl err \<Rightarrow> if isNoExecutorError err \<or> errStatus err = Some 503 then EventsNeedExecutor else EventsFailed (esc (errMessage err)))
      else if tab = ''notifications'' then
        (case trNotifications tr of
           Inl _ \<Rightarrow> TabRejected
         | Inr ns \<Rightarrow> NotificationsTable (map (\<lambda>n. [tag_of ''code'' (esc (str_or (opt_str (ntTopic n)) ''-'')), escapeHtml (ntMessage n),
             (if ntConsumed n then ''Yes'' else ''No''), formatTimestamp (envLocale env) (ntCreatedAt n)]) ns))
      else TabUnchanged)"

datatype event_read = EventShown "json_view option" | EventReadError string | EventKeyMissing

definition readWorkflowEvent :: "json_lib \<Rightarrow> (string \<Rightarrow> (string \<times> jsval) reply) \<Rightarrow> string \<Rightarrow> console \<Rightarrow> event_read \<times> console" where
  "readWorkflowEvent js reply input c =
     (let key = trim input
      in if key = [] then (EventKeyMissing, showToast ''Enter an event key to read'' ''error'' c)
         else case reply key of
                Inr (k, v) \<Rightarrow> (EventShown (view_json js v (''Event: '' @ k)), c)
              | Inl err \<Rightarrow> (EventReadError (esc (errMessage err)), showToast (''Failed to read event: '' @ errMessage err) ''error'' c))"

subsection \<open>Drawer and modals\<close>

record drawer_view =
  dwTitle :: string
  dwPill :: string
  dwStarted :: string
  dwCompleted :: string
  dwChild :: "string option"
  dwOutput :: "json_view option"
  dwError :: "json_view option"

definition drawer_status :: "dag_step \<Rightarrow> string" where
  "drawer_status s =
     (let st = to_upper (opt_str (dsStatus s))
      in if truthy (dsError s) \<or> st = ''ERROR'' then ''ERROR''
         else if st = ''SUCCESS'' \<or> st = ''COMPLETED'' \<or> opt_str (dsCompletedAt s) \<noteq> [] then ''SUCCESS''
         else if st \<noteq> [] then st else ''PENDING'')"

definition renderStepDrawer :: "browser_env \<Rightarrow> json_lib \<Rightarrow> dag_step \<Rightarrow> drawer_view" where
  "renderStepDrawer env js s =
     \<lparr>dwTitle = ''Step #'' @ step_label s @ '': '' @ esc (step_title s), dwPill = renderStatusPill (Some (drawer_status s)),
      dwStarted = formatTimestamp (envLocale env) (dsStartedAt s), dwCompleted = formatTimestamp (envLocale env) (dsCompletedAt s),
      dwChild = (if opt_str (dsChildWorkflowId s) \<noteq> [] then Some (esc (opt_str (dsChildWorkflowId s))) else None),
      dwOutput = view_json js (dsOutput s) ''Step Output'',
      dwError = (if truthy (dsError s) then view_json js (dsError s) ''Error Details'' else None)\<rparr>"

record payload_view =
  pvTitle :: string
  pvCopy :: string
  pvText :: string

definition openExpandPayloadModal :: "json_lib \<Rightarrow> string \<Rightarrow> string \<Rightarrow> payload_view" where
  "openExpandPayloadModal js title raw =
     \<lparr>pvTitle = esc (str_or title ''Payload Details''), pvCopy = esc raw,
      pvText = esc (case fst js raw of Some v \<Rightarrow> snd js v | None \<Rightarrow> raw)\<rparr>"

definition openSendMessageModal :: "console \<Rightarrow> (string \<times> string) \<times> console" where
  "openSendMessageModal c =
     ((esc (opt_str (selectedWorkflowId c)), esc (str_or (known_app c) ''this application'')), openModal SendMessageModal c)"

section \<open>Properties of the fleet overview\<close>

lemma loadApplications_listed:
  "appName (loadApplications r c) = [] \<or> appName (loadApplications r c) \<in> aName ` set (apps (loadApplications r c))"
  by (auto simp: loadApplications_def Let_def split: sum.split)

lemma fleet_scope_loaded:
  assumes "c = loadApplications r c0"
  shows "fleet_scope c = (if appName c = [] then apps c else filter (\<lambda>a. aName a = appName c) (apps c))"
proof (cases "appName c = []")
  case False
  then have "appName c \<in> aName ` set (apps c)" using loadApplications_listed [of r c0] assms by simp
  then have "filter (\<lambda>a. aName a = appName c) (apps c) \<noteq> []" by (auto simp: filter_empty_conv)
  then show ?thesis using False by (simp add: fleet_scope_def)
qed (simp add: fleet_scope_def)

lemma healthy_count_append [simp]: "healthy_count [] = 0" "healthy_count (es @ fs) = healthy_count es + healthy_count fs"
  by (simp_all add: healthy_count_def)

lemma kpi_sums:
  "healthy_count (map snd (fleet_executors fr as)) = sum_list (map (\<lambda>a. amHealthy (app_metrics_of fr (aName a))) as)"
  "length (fleet_workflows fr as) = sum_list (map (\<lambda>a. amWorkflows (app_metrics_of fr (aName a))) as)"
  by (induction as) (simp_all add: fleet_executors_def fleet_workflows_def app_metrics_of_def comp_def)

lemma recent_subset: "set (recent_workflows env ws) \<subseteq> set ws"
  unfolding recent_workflows_def by (metis set_sort_desc set_take_subset)

lemma fleet_apps:
  "fst ` set (fleet_workflows fr as) \<subseteq> aName ` set as" "fst ` set (fleet_executors fr as) \<subseteq> aName ` set as"
  by (auto simp: fleet_workflows_def fleet_executors_def)

lemma fleet_row_proj: "rowApp (fleet_wf_row env b p) = fst p" "rowNavigate (fleet_wf_row env b p) = ''workflow/'' @ wfId (snd p)"
  by (simp_all add: fleet_wf_row_def Let_def)

text \<open>
  the fleet overview shows what its scope says. With an application selected every recent workflow
  belongs to it (otherwise to a listed application); the headline counts of live executors, workflows,
  queues and schedules are the sums of the figures of the applications in scope; and at most eight
  recent workflows are listed, the newest first.
\<close>

theorem fleet_overview_consistent:
  "let (v, c') = renderFleetScreen env fr c0; c = loadApplications (frApps fr) c0;
       scope = (if appName c = [] then apps c else filter (\<lambda>a. aName a = appName c) (apps c));
       m = (\<lambda>a. app_metrics_of fr (aName a))
   in rowApp ` set (fvRecent v) \<subseteq> (if appName c = [] then aName ` set (apps c) else {appName c}) \<and>
      fkActive (fvKpis v) = sum_list (map (\<lambda>a. amHealthy (m a)) scope) \<and>
      fkWorkflows (fvKpis v) = sum_list (map (\<lambda>a. amWorkflows (m a)) scope) \<and>
      fkQueues (fvKpis v) = sum_list (map (\<lambda>a. amQueues (m a)) scope) \<and>
      fkSchedules (fvKpis v) = sum_list (map (\<lambda>a. amSchedules (m a)) scope) \<and>
      length (fvRecent v) \<le> 8 \<and>
      sorted_wrt (\<lambda>a b. created_key env (snd b) \<le> created_key env (snd a)) (recent_workflows env (fleet_workflows fr scope))"
proof -
  define c where "c = loadApplications (frApps fr) c0"
  define scope where "scope = (if appName c = [] then apps c else filter (\<lambda>a. aName a = appName c) (apps c))"
  have sc: "fleet_scope c = scope" unfolding scope_def by (rule fleet_scope_loaded [OF c_def])
  have "aName ` set scope \<subseteq> (if appName c = [] then aName ` set (apps c) else {appName c})" by (auto simp: scope_def)
  then have rows: "fst ` set (recent_workflows env (fleet_workflows fr scope)) \<subseteq> (if appName c = [] then aName ` set (apps c) else {appName c})"
    using recent_subset [of env "fleet_workflows fr scope"] fleet_apps(1) [of fr scope] by blast
  have srt: "sorted_wrt (\<lambda>a b. created_key env (snd b) \<le> created_key env (snd a)) (recent_workflows env ws)" for ws
    unfolding recent_workflows_def by (intro sorted_wrt_take sorted_sort_desc)
  show ?thesis
    unfolding renderFleetScreen_def Let_def c_def [symmetric] sc scope_def [symmetric]
    using rows srt by (simp add: fleet_row_proj image_image fleet_kpis_of_def sc Let_def kpi_sums app_metrics_of_def recent_workflows_def)
qed

section \<open>Properties of the workflow screens\<close>

lemma find_is_first: "find P xs = Some x \<Longrightarrow> P x \<and> x \<in> set xs"
  by (auto simp: find_Some_iff)

text \<open>
  a workflow opened by its address alone is found. With no application known for it, the detail
  screen asks the listed applications in turn; if one of them has the workflow, the screen shows it from
  such an application and remembers which, provided the steps can be read too.
\<close>

theorem detail_finds_workflow:
  assumes "known_app c = []" "selectedWorkflowId c = Some wid" "a \<in> set (apps c)" "is_ok (drWorkflowOf dr (aName a) wid)"
    and "\<forall>a\<in>set (apps c). is_ok (drWorkflowOf dr (aName a) wid) \<longrightarrow> is_ok (drStepsOf dr (aName a) wid)"
  shows "\<exists>v c'. renderWorkflowDetailScreen env js dr c = (Inr v, c') \<and> is_ok (drWorkflowOf dr (selectedWorkflowApp c') wid) \<and>
           selectedWorkflowApp c' \<in> aName ` set (apps c) \<and> map_of (workflowAppMap c') wid = Some (selectedWorkflowApp c')"
proof -
  obtain b where f: "find (\<lambda>a. is_ok (drWorkflowOf dr (aName a) wid)) (apps c) = Some b"
    using assms(3,4) by (cases "find (\<lambda>a. is_ok (drWorkflowOf dr (aName a) wid)) (apps c)") (auto simp: find_None_iff)
  have b: "is_ok (drWorkflowOf dr (aName b) wid)" "b \<in> set (apps c)" using find_is_first [OF f] by simp_all
  then obtain w steps where w: "drWorkflowOf dr (aName b) wid = Inr w" and s: "drStepsOf dr (aName b) wid = Inr steps"
    using assms(5) by (fastforce simp: is_ok_def split: sum.splits)
  show ?thesis using b w s f assms(1,2)
    by (simp add: renderWorkflowDetailScreen_def resolve_app_def Let_def update_conv' initDagViewport_def)
qed

definition blank_env :: browser_env where
  "blank_env = \<lparr>envTime = (\<lambda>_. NaN), envNow = NaN, envLocale = (\<lambda>s. s)\<rparr>"

theorem detail_finds_workflow_witness:
  "\<exists>v c'. renderWorkflowDetailScreen blank_env (\<lambda>_. None, \<lambda>_. [])
       \<lparr>drWorkflowOf = (\<lambda>app wid. if app = ''b'' then Inr \<lparr>wfId = wid, wfName = None, wfStatus = None, wfQueue = None, wfVersion = None,
            wfCreatedAt = None, wfCompletedAt = None, wfDurationMs = JUndef, wfDuration_ms = JUndef, wfInput = JUndef, wfOutput = JUndef,
            wfError = JUndef\<rparr> else Inl \<lparr>errName = ''Error'', errMessage = ''HTTP 404'', errStatus = Some 404\<rparr>),
         drStepsOf = (\<lambda>app wid. Inr [])\<rparr>
       ((new_console [] [] False [])\<lparr>selectedWorkflowId := Some ''w1'',
          apps := [\<lparr>aName = ''a'', aStatus = None, aLanguage = None, aPrivateMode = False, aTimeoutSecs = None\<rparr>,
                   \<lparr>aName = ''b'', aStatus = None, aLanguage = None, aPrivateMode = False, aTimeoutSecs = None\<rparr>]\<rparr>) = (Inr v, c') \<and>
     selectedWorkflowApp c' \<in> {''a'', ''b''} \<and> map_of (workflowAppMap c') ''w1'' = Some (selectedWorkflowApp c')"
proof -
  let ?a = "\<lparr>aName = ''a'', aStatus = None, aLanguage = None, aPrivateMode = False, aTimeoutSecs = None\<rparr>"
  let ?b = "\<lparr>aName = ''b'', aStatus = None, aLanguage = None, aPrivateMode = False, aTimeoutSecs = None\<rparr>"
  let ?c = "(new_console [] [] False [])\<lparr>selectedWorkflowId := Some ''w1'', apps := [?a, ?b]\<rparr>"
  let ?dr = "\<lparr>drWorkflowOf = (\<lambda>app wid. if app = ''b'' then Inr \<lparr>wfId = wid, wfName = None, wfStatus = None, wfQueue = None, wfVersion = None,
            wfCreatedAt = None, wfCompletedAt = None, wfDurationMs = JUndef, wfDuration_ms = JUndef, wfInput = JUndef, wfOutput = JUndef,
            wfError = JUndef\<rparr> else Inl \<lparr>errName = ''Error'', errMessage = ''HTTP 404'', errStatus = Some 404\<rparr>),
         drStepsOf = (\<lambda>app wid. Inr [])\<rparr>"
  have "known_app ?c = []" by (simp add: known_app_def new_console_def str_or_def)
  from detail_finds_workflow [OF this, of "''w1''" ?b ?dr blank_env "(\<lambda>_. None, \<lambda>_. [])"] show ?thesis by (auto simp: is_ok_def)
qed

text \<open>The application of the previous workflow wins over the recorded one: going back in the history keeps it.\<close>

lemma detail_app_sticky: "selectedWorkflowApp c \<noteq> [] \<Longrightarrow> fst (resolve_app dr c) = selectedWorkflowApp c"
  by (simp add: resolve_app_def known_app_def str_or_def)

text \<open>
  The two filters of the list overwrite each other: whichever ran last decides alone which rows are
  shown. The status filter also matches the status word anywhere else in the row.
\<close>

lemma filters_do_not_combine:
  "filterWorkflowsTable query (filterWorkflowsStatus status rows) = filterWorkflowsTable query rows"
  "filterWorkflowsStatus status (filterWorkflowsTable query rows) = filterWorkflowsStatus status rows"
  by (simp_all add: filterWorkflowsTable_def filterWorkflowsStatus_def)

text \<open>A step that has started and not ended is drawn as running and described as pending.\<close>

lemma drawer_status_differs:
  "opt_str (dsStatus s) = [] \<Longrightarrow> \<not> truthy (dsError s) \<Longrightarrow> opt_str (dsCompletedAt s) = [] \<Longrightarrow> opt_str (dsStartedAt s) \<noteq> [] \<Longrightarrow>
     statusText (getStepStatusMeta s) = ''RUNNING'' \<and> drawer_status s = ''PENDING''"
  by (simp add: getStepStatusMeta_def drawer_status_def Let_def)

text \<open>A row of the fleet overview navigates to its identifier as it is, which the router then decodes.\<close>

lemma fleet_row_misroutes:
  "selectedWorkflowId (handleRouting (navigate (rowNavigate (fleet_wf_row env b (app, w\<lparr>wfId := ''a%20b''\<rparr>))) c)) = Some ''a b''"
proof -
  have d: "decode_uri_component ''a%20b'' = Some ''a b''" by code_simp
  have s: "split_on (CHR ''/'') ''workflow/a%20b'' = [''workflow'', ''a%20b'']" by code_simp
  show ?thesis
    by (simp add: fleet_row_proj navigate_def handleRouting_def strip_hash_def starts_with_def str_or_def s [simplified] d [simplified] render_def emit_def)
qed

end
