(* ===== verification/Console_Admin.thy ===== *)
theory Console_Admin
  imports Console_Screens
begin

text \<open>
  The other screens of \<open>console/src/app.js\<close>: queues, schedules, alert rules, API keys, roles, settings,
  autoscaling and the audit log, the modals they open, the sidebar and the header. As in
  \<open>Console_Screens\<close>, a screen is a function of the state and the replies; \<open>screen\<close> says which of the
  outcomes of a screen is drawn.
\<close>

section \<open>Outcomes\<close>

datatype 'a screen =
    AuthRequired string
  | NoExecutor string string
  | LoadFailed error_card
  | NoAppSelected
  | Shown 'a

definition renderAuthRequired :: "string \<Rightarrow> 'a screen" where
  "renderAuthRequired action = AuthRequired (esc action)"

definition renderNoExecutorState :: "string \<Rightarrow> console \<Rightarrow> 'a screen" where
  "renderNoExecutorState entity c =
     NoExecutor (if entity = ''queues'' then ''Queues'' else ''Scheduled Jobs'') (esc (str_or (appName c) ''this application''))"

definition load_failed :: "string \<Rightarrow> js_error \<Rightarrow> 'a screen" where
  "load_failed title err = LoadFailed (renderErrorState title (errMessage err))"

definition scoped_title :: "string \<Rightarrow> console \<Rightarrow> string" where
  "scoped_title what c = what @ '' ('' @ esc (str_or (appName c) ''All Applications'') @ '')''"

text \<open>
  The loading the list screens share: every application with failures dropped when none is selected,
  the selected application alone, with its failure, otherwise.
\<close>

definition across_apps :: "(string \<Rightarrow> 'a list reply) \<Rightarrow> console \<Rightarrow> (string \<times> 'a) list reply" where
  "across_apps reply c =
     (if appName c = [] then Inr (concat (map (\<lambda>a. map (Pair (aName a)) (settled (reply (aName a)))) (apps c)))
      else case reply (appName c) of Inl err \<Rightarrow> Inl err | Inr xs \<Rightarrow> Inr (map (Pair (appName c)) xs))"

definition app_badge :: "string \<Rightarrow> string" where
  "app_badge app = span_of ''badge badge-info'' (esc (str_or app ''default''))"

definition note_of :: "console \<Rightarrow> string" where
  "note_of c = (if appName c \<noteq> [] then esc (appName c) else ''Across all applications'')"

section \<open>Queues and schedules\<close>

record queue =
  quName :: string
  quConcurrency :: jsval
  quWorkerConcurrency :: jsval
  quRateLimitMax :: jsval
  quRateLimitPeriodSecs :: jsval
  quPriorityEnabled :: bool
  quPartitionQueue :: bool

definition queue_cells :: "string \<times> queue \<Rightarrow> string list" where
  "queue_cells p =
     (let q' = snd p
      in [tag_of ''strong'' (esc (quName q')), app_badge (fst p),
          (if quConcurrency q' \<noteq> JNull then js_string (quConcurrency q') else ''Unlimited''),
          (if quWorkerConcurrency q' \<noteq> JNull then js_string (quWorkerConcurrency q') else ''-''),
          (if truthy (quRateLimitMax q') then js_string (quRateLimitMax q') @ '' / '' @ js_string (quRateLimitPeriodSecs q') @ ''s'' else ''None''),
          (if quPriorityEnabled q' then ''Yes'' else ''No''), (if quPartitionQueue q' then ''Yes'' else ''No'')])"

definition renderQueuesScreen :: "(string \<Rightarrow> queue list reply) \<Rightarrow> console \<Rightarrow> (string \<times> string list list) screen" where
  "renderQueuesScreen reply c =
     (case across_apps reply c of
        Inr qs \<Rightarrow> Shown (note_of c, map queue_cells qs)
      | Inl err \<Rightarrow> if isNoExecutorError err then renderNoExecutorState ''queues'' c else load_failed (scoped_title ''Queues'' c) err)"

record schedule =
  shName :: string
  shWorkflow :: string
  shCron :: string
  shStatus :: "string option"
  shLastFired :: "string option"

datatype schedule_button = BtnPauseSchedule string string | BtnResumeSchedule string string | BtnTriggerSchedule string string

definition schedule_buttons :: "string \<times> schedule \<Rightarrow> schedule_button list" where
  "schedule_buttons p =
     [(if has_status ''ACTIVE'' (shStatus (snd p)) then BtnPauseSchedule (shName (snd p)) (fst p) else BtnResumeSchedule (shName (snd p)) (fst p)),
      BtnTriggerSchedule (shName (snd p)) (fst p)]"

definition schedule_row :: "browser_env \<Rightarrow> string \<times> schedule \<Rightarrow> string list \<times> schedule_button list" where
  "schedule_row env p =
     (let s = snd p
      in ([tag_of ''strong'' (esc (shName s)), app_badge (fst p), esc (shWorkflow s), tag_of ''code'' (esc (shCron s)),
           renderStatusPill (shStatus s), formatTimestamp (envLocale env) (shLastFired s)], schedule_buttons p))"

definition renderSchedulesScreen ::
    "browser_env \<Rightarrow> (string \<Rightarrow> schedule list reply) \<Rightarrow> console \<Rightarrow> (string \<times> (string list \<times> schedule_button list) list) screen" where
  "renderSchedulesScreen env reply c =
     (case across_apps reply c of
        Inr ss \<Rightarrow> Shown (note_of c, map (schedule_row env) ss)
      | Inl err \<Rightarrow> if isNoExecutorError err then renderNoExecutorState ''schedules'' c else load_failed (scoped_title ''Scheduled Jobs'' c) err)"

section \<open>Alert rules and API keys\<close>

record alert_rule =
  arId :: string
  arRuleType :: string
  arMinIntervalSecs :: jsval
  arMetadata :: jsval
  arLastFired :: "string option"

text \<open>The cells of a rule and the rule and application its delete button names; \<open>stringify\<close> is \<open>JSON.stringify\<close>.\<close>

definition alert_row :: "browser_env \<Rightarrow> (jsval \<Rightarrow> string) \<Rightarrow> string \<times> alert_rule \<Rightarrow> string list \<times> string \<times> string" where
  "alert_row env stringify p =
     (let r = snd p
      in ([tag_of ''code'' (esc (arId r)), app_badge (fst p), tag_of ''strong'' (esc (arRuleType r)),
           js_string (jor (arMinIntervalSecs r) (JNum (Fin 0))) @ ''s'', tag_of ''code'' (esc (stringify (jor (arMetadata r) (JObj [])))),
           formatTimestamp (envLocale env) (arLastFired r)], arId r, fst p))"

definition renderAlertingScreen ::
    "browser_env \<Rightarrow> (jsval \<Rightarrow> string) \<Rightarrow> (string \<Rightarrow> alert_rule list reply) \<Rightarrow> console \<Rightarrow> (string \<times> (string list \<times> string \<times> string) list) screen" where
  "renderAlertingScreen env stringify reply c =
     (case across_apps reply c of
        Inr rs \<Rightarrow> Shown (note_of c, map (alert_row env stringify) rs)
      | Inl err \<Rightarrow> if isAuthError err then renderAuthRequired ''load alert rules'' else load_failed (scoped_title ''Alert Rules'' c) err)"

text \<open>The options of the application selector, with the selected one marked.\<close>

definition app_options :: "console \<Rightarrow> (string \<times> bool) list" where
  "app_options c = map (\<lambda>a. (esc (aName a), aName a = appName c)) (apps c)"

definition openCreateAlertModal :: "console \<Rightarrow> (string \<times> bool) list \<times> console" where
  "openCreateAlertModal c = (app_options c, openModal CreateAlertModal c)"

record api_token =
  tkName :: string
  tkPermissions :: "string list option"
  tkAppIds :: "string list option"
  tkCreatedAt :: "string option"

definition key_row :: "browser_env \<Rightarrow> api_token \<Rightarrow> string list \<times> string" where
  "key_row env k =
     ([tag_of ''strong'' (esc (tkName k)),
       tag_of ''code'' (esc (case tkPermissions k of None \<Rightarrow> [] | Some ps \<Rightarrow> join '', '' ps)),
       (case tkAppIds k of Some (a # as) \<Rightarrow> esc (join '', '' (a # as)) | _ \<Rightarrow> ''All Applications''),
       formatTimestamp (envLocale env) (tkCreatedAt k)], tkName k)"

definition renderKeysScreen :: "browser_env \<Rightarrow> api_token list reply \<Rightarrow> console \<Rightarrow> (string \<times> (string list \<times> string) list) screen" where
  "renderKeysScreen env reply c =
     (case reply of
        Inr ks \<Rightarrow> Shown (show_nat (length ks) @ (if length ks = 1 then '' key'' else '' keys'') @ '' in '' @ esc (orgName c), map (key_row env) ks)
      | Inl err \<Rightarrow> if isAuthError err then renderAuthRequired ''load API keys'' else load_failed ''API Keys'' err)"

definition openCreateKeyModal :: "console \<Rightarrow> (string \<times> string) list \<times> console" where
  "openCreateKeyModal c =
     (([], ''All Applications'') # map (\<lambda>a. (esc (aName a), esc (aName a))) (apps c), openModal CreateKeyModal c)"

definition renderKeyCreatedModal :: "string \<Rightarrow> string \<Rightarrow> console \<Rightarrow> console" where
  "renderKeyCreatedModal name token c = openModal (KeyCreatedModal (esc name) (esc token)) c"

section \<open>Roles\<close>

record role =
  roName :: string
  roGlobal :: bool
  roPermissions :: "string list"

text \<open>A role's cells, and the role its delete button names when it has one.\<close>

definition role_row :: "role \<Rightarrow> string list \<times> string option" where
  "role_row r =
     ([tag_of ''strong'' (esc (roName r)), (if roGlobal r then span_of ''badge badge-neutral'' ''built-in'' else span_of ''badge badge-info'' ''custom''), tag_of ''code'' (esc (join '', '' (roPermissions r)))],
      if roGlobal r then None else Some (roName r))"

text \<open>A member: the name, the current role, the options of its selector with the current one marked.\<close>

definition member_row :: "role list \<Rightarrow> string \<times> role option \<Rightarrow> string \<times> string option \<times> (string \<times> bool) list" where
  "member_row roles m =
     (esc (fst m), map_option (\<lambda>r. esc (roName r)) (snd m),
      map (\<lambda>r. (esc (roName r), case snd m of None \<Rightarrow> False | Some r' \<Rightarrow> roName r' = roName r)) roles)"

record roles_view =
  rvRoles :: "(string list \<times> string option) list"
  rvMembers :: "(string \<times> string option \<times> (string \<times> bool) list) list"

definition renderRolesScreen ::
    "role list reply \<Rightarrow> (string \<times> role option) list reply \<Rightarrow> string list reply \<Rightarrow> console \<Rightarrow> roles_view screen \<times> console" where
  "renderRolesScreen roles members permissions c =
     (let failed = (\<lambda>err. (if isAuthError err then renderAuthRequired ''load roles'' else load_failed (''Roles ('' @ esc (orgName c) @ '')'') err, c))
      in case roles of
           Inl err \<Rightarrow> failed err
         | Inr rs \<Rightarrow>
             (case members of
                Inl err \<Rightarrow> failed err
              | Inr ms \<Rightarrow> (Shown \<lparr>rvRoles = map role_row rs, rvMembers = map (member_row rs) ms\<rparr>, c\<lparr>rolePermissions := settled permissions\<rparr>)))"

definition fallback_catalog :: "string list" where
  "fallback_catalog = [''application.read'', ''application.write'', ''websocket.connect'', ''metric.read'',
     ''organization.read'', ''organization.write'', ''token.read'', ''token.write'']"

definition openCreateRoleModal :: "console \<Rightarrow> console" where
  "openCreateRoleModal c = openModal (CreateRoleModal (if rolePermissions c \<noteq> [] then rolePermissions c else fallback_catalog)) c"

section \<open>Settings and autoscaling\<close>

record app_config =
  acGcRows :: jsval
  acGcTimeMs :: jsval
  acGlobalTimeoutMs :: jsval
  acExecutorTimeoutSecs :: jsval
  acPrivateMode :: bool

definition or_blank :: "jsval \<Rightarrow> string" where
  "or_blank v = (if nullish v then [] else js_string v)"

definition ms_to_hours :: "jsval \<Rightarrow> string" where
  "ms_to_hours v = (if nullish v then [] else show_num (num_scale (1 / 3600000) (js_number v)))"

record settings_view =
  svGcRows :: string
  svGcHours :: string
  svGlobalHours :: string
  svExecTimeout :: string
  svPrivate :: bool

definition renderSettingsScreen :: "app_config reply \<Rightarrow> console \<Rightarrow> settings_view screen" where
  "renderSettingsScreen reply c =
     (if appName c = [] then NoAppSelected
      else case reply of
        Inr a \<Rightarrow> Shown \<lparr>svGcRows = or_blank (acGcRows a), svGcHours = ms_to_hours (acGcTimeMs a), svGlobalHours = ms_to_hours (acGlobalTimeoutMs a),
           svExecTimeout = or_blank (acExecutorTimeoutSecs a), svPrivate = acPrivateMode a\<rparr>
      | Inl err \<Rightarrow> if isAuthError err then renderAuthRequired ''load application settings'' else load_failed (''Settings ('' @ esc (appName c) @ '')'') err)"

record policy =
  poQueue :: string
  poMaxOld :: jsval
  poMaxExec :: jsval

record recommendation =
  rcVersion :: string
  rcLatest :: bool
  rcDesired :: int
  rcDepth :: nat
  rcQueue :: string
  rcObserved :: string

definition queue_ok :: "queue \<Rightarrow> bool" where
  "queue_ok x \<longleftrightarrow> \<not> quPartitionQueue x \<and> num_pos (js_number (quWorkerConcurrency x))"

text \<open>An option of the queue selector: its value, whether it is selected, whether it is disabled, its text.\<close>

record queue_option =
  qoValue :: string
  qoSelected :: bool
  qoDisabled :: bool
  qoText :: string

definition queue_option_of :: "policy option \<Rightarrow> queue \<Rightarrow> queue_option" where
  "queue_option_of pol x =
     \<lparr>qoValue = quName x, qoSelected = (case pol of None \<Rightarrow> False | Some p \<Rightarrow> poQueue p = quName x), qoDisabled = (\<not> queue_ok x),
      qoText = esc (quName x) @ (if queue_ok x then '' (concurrency '' @ js_string (quWorkerConcurrency x) @ '')'' else '' (ineligible)'')\<rparr>"

datatype recs_view = RecsUnavailable string | AttachPolicy | NoVersions | Recs "string list list"

record autoscaling_view =
  avCanDelete :: bool
  avOptions :: "queue_option list"
  avMaxOld :: string
  avMaxExec :: string
  avNote :: string
  avRecs :: recs_view

definition rec_cells :: "browser_env \<Rightarrow> recommendation \<Rightarrow> string list" where
  "rec_cells env r = [tag_of ''code'' (esc (rcVersion r)), (if rcLatest r then span_of ''badge badge-info'' ''latest'' else ''-''),
     tag_of ''strong'' (show_int (rcDesired r)), show_nat (rcDepth r), esc (rcQueue r), formatTimestamp (envLocale env) (Some (rcObserved r))]"

definition autoscaling_view_of :: "browser_env \<Rightarrow> queue list reply \<Rightarrow> policy option \<Rightarrow> recommendation list reply \<Rightarrow> autoscaling_view" where
  "autoscaling_view_of env queues pol recs =
     \<lparr>avCanDelete = (pol \<noteq> None), avOptions = map (queue_option_of pol) (settled queues),
      avMaxOld = (case pol of None \<Rightarrow> [] | Some p \<Rightarrow> or_blank (poMaxOld p)), avMaxExec = (case pol of None \<Rightarrow> [] | Some p \<Rightarrow> or_blank (poMaxExec p)),
      avNote = (case queues of
          Inl err \<Rightarrow> ''Queues unavailable: '' @ esc (errMessage err)
        | Inr qs \<Rightarrow> if filter queue_ok qs = [] then ''No eligible queues: a policy queue must exist, be unpartitioned, and have worker concurrency set.'' else []),
      avRecs = (case recs of
          Inl err \<Rightarrow> if pol \<noteq> None then RecsUnavailable (''Recommendations unavailable: '' @ esc (errMessage err)) else AttachPolicy
        | Inr [] \<Rightarrow> if pol \<noteq> None then NoVersions else AttachPolicy
        | Inr rs \<Rightarrow> Recs (map (rec_cells env) rs))\<rparr>"

definition renderAutoscalingScreen ::
    "browser_env \<Rightarrow> queue list reply \<Rightarrow> policy option reply \<Rightarrow> recommendation list reply \<Rightarrow> console \<Rightarrow> autoscaling_view screen" where
  "renderAutoscalingScreen env queues polRes recs c =
     (let ttl = ''Autoscaling ('' @ esc (appName c) @ '')''
      in if appName c = [] then NoAppSelected
         else case polRes of
                Inr pol \<Rightarrow> Shown (autoscaling_view_of env queues pol recs)
              | Inl err \<Rightarrow>
                  if errStatus err = Some 404 then Shown (autoscaling_view_of env queues None recs)
                  else if isAuthError err then renderAuthRequired ''load autoscaling policy''
                  else if isNoExecutorError err
                  then LoadFailed (renderErrorState ttl (''No healthy executor connected: '' @ errMessage err))
                  else load_failed ttl err)"

section \<open>Audit log\<close>

record audit_entry =
  aeEmitTime :: "string option"
  aeOperation :: string
  aeStatus :: string
  aeSubject :: "(string \<times> string) option"
  aeTarget :: "(string \<times> string) option"
  aeSourceIp :: "string option"

text \<open>The query of the screen; \<open>iso\<close> is \<open>new Date(s).toISOString()\<close>.\<close>

record audit_request =
  aqStart :: string
  aqEnd :: string
  aqOperation :: string
  aqSubject :: string
  aqTarget :: string
  aqLimit :: int
  aqOffset :: int

definition audit_request_of :: "(string \<Rightarrow> string) \<Rightarrow> audit_filters \<Rightarrow> audit_request" where
  "audit_request_of iso' f =
     \<lparr>aqStart = (if fStartTime f \<noteq> [] then iso' (fStartTime f) else []), aqEnd = (if fEndTime f \<noteq> [] then iso' (fEndTime f) else []),
      aqOperation = fOperation f, aqSubject = fSubject f, aqTarget = fTarget f, aqLimit = fLimit f, aqOffset = fOffset f\<rparr>"

definition type_note :: "string \<Rightarrow> string" where
  "type_note ty = '' <span class='' @ dq @ ''text-secondary'' @ dq @ '' style='' @ dq @ ''font-size:11px;'' @ dq @ ''>('' @ esc ty @ '')</span>''"

definition audit_cells :: "browser_env \<Rightarrow> audit_entry \<Rightarrow> string list" where
  "audit_cells env e =
     [formatTimestamp (envLocale env) (aeEmitTime e), tag_of ''code'' (esc (aeOperation e)),
      (if aeStatus e = ''success'' then span_of ''badge badge-success'' ''success'' else span_of ''badge badge-danger'' ''failure''),
      (case aeSubject e of None \<Rightarrow> type_note [] | Some (ty, disp) \<Rightarrow> esc disp @ type_note ty),
      (case aeTarget e of None \<Rightarrow> ''-'' | Some (ty, tid) \<Rightarrow> tag_of ''code'' (esc tid) @ type_note ty),
      tag_of ''code'' (esc (opt_str (aeSourceIp e)))]"

record audit_view =
  auRows :: "string list list"
  auPrevDisabled :: bool
  auNextDisabled :: bool

text \<open>\<open>/oauth|no-auth/i\<close>\<close>

definition mentions_oauth :: "string \<Rightarrow> bool" where
  "mentions_oauth msg \<longleftrightarrow> str_includes (to_lower msg) ''oauth'' \<or> str_includes (to_lower msg) ''no-auth''"

definition renderAuditScreen :: "browser_env \<Rightarrow> (audit_request \<Rightarrow> audit_entry list reply) \<Rightarrow> (string \<Rightarrow> string) \<Rightarrow> console \<Rightarrow> audit_view screen" where
  "renderAuditScreen env reply iso' c =
     (let f = auditFilters c
      in case reply (audit_request_of iso' f) of
           Inr es \<Rightarrow> Shown \<lparr>auRows = map (audit_cells env) es, auPrevDisabled = (fOffset f = 0), auNextDisabled = (int (length es) < fLimit f)\<rparr>
         | Inl err \<Rightarrow>
             if isAuthError err \<or> errStatus err = Some 404 \<and> mentions_oauth (errMessage err) then renderAuthRequired ''load audit log''
             else load_failed (''Audit Log ('' @ esc (orgName c) @ '')'') err)"

section \<open>Sidebar and header\<close>

text \<open>The groups of the navigation: the route, the label and the title of each entry.\<close>

definition nav_groups :: "(string \<times> (string \<times> string \<times> string) list) list" where
  "nav_groups =
     [(''Operate'', [(''fleet'', ''Fleet'', ''Fleet & Applications''), (''workflows'', ''Workflows'', ''Workflows''),
        (''queues'', ''Queues'', ''Queues''), (''schedules'', ''Schedules'', ''Schedules''), (''autoscaling'', ''Autoscaling'', ''Autoscaling'')]),
      (''Observe'', [(''metrics'', ''Metrics'', ''Metrics''), (''alerting'', ''Alerts'', ''Alert Rules'')]),
      (''Administer'', [(''keys'', ''API Keys'', ''API Keys''), (''roles'', ''Roles'', ''Roles''), (''audit'', ''Audit'', ''Audit Log''),
        (''settings'', ''Settings'', ''Settings'')])]"

definition nav_active :: "console \<Rightarrow> string \<Rightarrow> bool" where
  "nav_active c rt \<longleftrightarrow> currentRoute c = rt \<or> currentRoute c = ''workflow-detail'' \<and> rt = ''workflows''"

record nav_item =
  niHref :: string
  niLabel :: string
  niTitle :: string
  niActive :: bool

record sidebar_view =
  sbMobileOpen :: bool
  sbFolded :: bool
  sbGroups :: "(string \<times> nav_item list) list"
  sbThemeTitle :: string
  sbFoldTitle :: string

definition renderSidebar :: "console \<Rightarrow> sidebar_view" where
  "renderSidebar c =
     \<lparr>sbMobileOpen = mobileNavOpen c, sbFolded = sidebarFolded c,
      sbGroups = map (\<lambda>(g, items). (g, map (\<lambda>(rt, lb, ttl).
        \<lparr>niHref = ''#/'' @ rt, niLabel = lb, niTitle = ttl, niActive = nav_active c rt\<rparr>) items)) nav_groups,
      sbThemeTitle = (if uiTheme c = ''dark'' then ''Switch to light theme'' else ''Switch to dark theme''),
      sbFoldTitle = (if sidebarFolded c then ''Expand sidebar'' else ''Fold sidebar'')\<rparr>"

definition getRouteDescription :: "console \<Rightarrow> string" where
  "getRouteDescription c =
     (case map_of
        [(''fleet'', ''Fleet health, application inventory, and recent execution.''),
         (''workflows'', ''Search and inspect workflow executions across the active application scope.''),
         (''workflow-detail'', ''Execution lineage, steps, and payloads.''),
         (''queues'', ''Queue configuration and worker concurrency reported by live executors.''),
         (''schedules'', ''Cron schedules and manual triggers.''),
         (''alerting'', ''Rules that watch workflow health and notify operators.''),
         (''metrics'', ''Rates, queue depth, latency, and executor distribution.''),
         (''keys'', ''Organization API keys and their scope.''), (''roles'', ''Role definitions and permissions.''),
         (''autoscaling'', ''Executor recommendations for external scalers.''),
         (''settings'', ''Per-application runtime and retention settings.''),
         (''audit'', ''A chronological record of control-plane operations.'')] (currentRoute c) of
        Some d \<Rightarrow> d | None \<Rightarrow> ''Relay control plane.'')"

record header_view =
  hvTitle :: string
  hvSubtitle :: string
  hvOrgs :: "(string \<times> bool) list"
  hvApps :: "(string \<times> bool) list option"
  hvDotActive :: bool
  hvPoll :: "(string \<times> bool) list"
  hvSignedIn :: bool

definition poll_options :: "poll_mode \<Rightarrow> (string \<times> bool) list" where
  "poll_options m = [(''0'', m = PollMs 0), (''stream'', m = PollStream), (''2000'', m = PollMs 2000), (''5000'', m = PollMs 5000),
     (''15000'', m = PollMs 15000)]"

definition renderTopHeader :: "console \<Rightarrow> header_view" where
  "renderTopHeader c =
     \<lparr>hvTitle = esc (getRouteTitle c), hvSubtitle = esc (getRouteDescription c),
      hvOrgs = (if organizations c \<noteq> [] then map (\<lambda>x. (esc x, x = orgName c)) (organizations c) else [(esc (orgName c), True)]),
      hvApps = (if currentRoute c = ''audit'' \<or> currentRoute c = ''keys'' then None else Some (([], appName c = []) # app_options c)),
      hvDotActive = (case pollInterval c of PollStream \<Rightarrow> True | PollMs n \<Rightarrow> 0 < n), hvPoll = poll_options (pollInterval c),
      hvSignedIn = (opt_str (apiKey c) \<noteq> [])\<rparr>"

text \<open>Which screen the content view draws for a route.\<close>

datatype content = CFleet | CWorkflows | CDetail | CQueues | CSchedules | CAlerting | CMetrics | CKeys | CRoles | CAutoscaling
  | CSettings | CAudit | CSelect

definition renderContentView :: "console \<Rightarrow> content" where
  "renderContentView c =
     (case map_of [(''fleet'', CFleet), (''workflows'', CWorkflows), (''workflow-detail'', CDetail), (''queues'', CQueues),
        (''schedules'', CSchedules), (''alerting'', CAlerting), (''metrics'', CMetrics), (''keys'', CKeys), (''roles'', CRoles),
        (''autoscaling'', CAutoscaling), (''settings'', CSettings), (''audit'', CAudit)] (currentRoute c) of
        Some s \<Rightarrow> s | None \<Rightarrow> CSelect)"

section \<open>Properties\<close>

lemma across_apps_tagged:
  "across_apps reply c = Inr xs \<Longrightarrow> (app, x) \<in> set xs \<Longrightarrow> x \<in> set (settled (reply app)) \<and> (appName c = [] \<longrightarrow> app \<in> aName ` set (apps c)) \<and> (appName c \<noteq> [] \<longrightarrow> app = appName c)"
  by (auto simp: across_apps_def settled_def split: if_splits sum.splits)

lemma across_apps_complete:
  "appName c = [] \<Longrightarrow> a \<in> set (apps c) \<Longrightarrow> x \<in> set (settled (reply (aName a))) \<Longrightarrow> \<exists>xs. across_apps reply c = Inr xs \<and> (aName a, x) \<in> set xs"
  by (auto simp: across_apps_def)

text \<open>
  C33: the list screens. Without a selected application the queue screen always shows a table, whatever
  some applications answer: exactly the queues of the applications that answered, each with its own
  application. With one selected it shows that application's queues, and a failure is told apart: a
  missing executor gives the hint to connect one, anything else the error card.
\<close>

theorem queues_screen_spec:
  "case renderQueuesScreen reply c of
     Shown (note, rows) \<Rightarrow>
       \<exists>qs. rows = map queue_cells qs \<and>
         set qs = (if appName c = [] then {(aName a, x) | a x. a \<in> set (apps c) \<and> x \<in> set (settled (reply (aName a)))}
                   else {appName c} \<times> set (settled (reply (appName c))))
   | NoExecutor ttl app \<Rightarrow> \<exists>err. appName c \<noteq> [] \<and> reply (appName c) = Inl err \<and> isNoExecutorError err
   | LoadFailed ec \<Rightarrow> \<exists>err. appName c \<noteq> [] \<and> reply (appName c) = Inl err \<and> \<not> isNoExecutorError err
   | _ \<Rightarrow> False"
proof (cases "appName c = []")
  case True
  then show ?thesis by (force simp: renderQueuesScreen_def across_apps_def)
next
  case False
  show ?thesis
  proof (cases "reply (appName c)")
    case (Inl err)
    with False show ?thesis by (simp add: renderQueuesScreen_def across_apps_def renderNoExecutorState_def load_failed_def)
  next
    case (Inr qs)
    have "set (map (Pair (appName c)) qs) = {appName c} \<times> set qs" by auto
    with False Inr show ?thesis
      by (auto simp: renderQueuesScreen_def across_apps_def settled_def simp del: map_map intro!: exI [of _ "map (Pair (appName c)) qs"])
  qed
qed

text \<open>
  built-in roles have no delete button and custom roles have one that names them; the catalogue of
  permissions is auxiliary: when it cannot be loaded the roles are shown all the same, and the dialog for a
  new role then offers the eight built-in permissions.
\<close>

theorem roles_screen_spec:
  "case renderRolesScreen (Inr rs) (Inr ms) perms c of
     (v, c') \<Rightarrow>
       (\<exists>rows members. v = Shown \<lparr>rvRoles = rows, rvMembers = members\<rparr> \<and> map snd rows = map (\<lambda>r. if roGlobal r then None else Some (roName r)) rs \<and>
          length members = length ms) \<and>
       (mounted c \<longrightarrow> settled perms = [] \<longrightarrow> modalRoot (openCreateRoleModal c') = CreateRoleModal fallback_catalog)"
  by (simp add: renderRolesScreen_def role_row_def comp_def openCreateRoleModal_def openModal_def)

theorem roles_screen_spec_witness:
  "snd (renderRolesScreen (Inr [\<lparr>roName = ''admin'', roGlobal = True, roPermissions = []\<rparr>]) (Inr [])
      (Inl \<lparr>errName = ''Error'', errMessage = ''HTTP 500'', errStatus = Some 500\<rparr>) (render (new_console [] [] False []))) =
     (render (new_console [] [] False []))\<lparr>rolePermissions := []\<rparr> \<and>
   modalRoot (openCreateRoleModal ((render (new_console [] [] False []))\<lparr>rolePermissions := []\<rparr>)) = CreateRoleModal fallback_catalog"
  using roles_screen_spec [where rs = "[\<lparr>roName = ''admin'', roGlobal = True, roPermissions = []\<rparr>]" and ms = "[]"
      and perms = "Inl \<lparr>errName = ''Error'', errMessage = ''HTTP 500'', errStatus = Some 500\<rparr>" and c = "render (new_console [] [] False [])"]
  by (simp add: renderRolesScreen_def settled_def)

text \<open>The title of an error card is escaped by the caller and again by the card.\<close>

lemma error_title_escaped_twice:
  "scoped_title ''Queues'' c = ''Queues ('' @ esc (str_or (appName c) ''All Applications'') @ '')''"
  "renderErrorState (scoped_title ''Queues'' (c\<lparr>appName := ''a&b''\<rparr>)) m = ErrorCard ''Queues (a&amp;amp;b)'' (esc m)"
  by (simp_all add: scoped_title_def renderErrorState_def esc_def escapeHtml_def nullish_def str_or_def escape_char_def)

end
