(* ===== verification/Screen_Loads.thy ===== *)
theory Screen_Loads
  imports Console_Actions Console_Admin
begin

text \<open>
  The content area of the page while screens load. Drawing a screen is asynchronous: \<open>renderContentView\<close> takes the
  content element, asks the server, and writes into that element when the answer comes. \<open>render\<close> rebuilds the
  page and with it the element, so that an answer for the old one is written where nobody sees it; the
  other operations keep the element. Here the effects the dashboard's operations emit are performed on such
  a page, interleaved with the answers in any order.
\<close>

section \<open>The page\<close>

text \<open>What a screen's requests are made from.\<close>

type_synonym scope = "string \<times> string \<times> string option \<times> audit_filters \<times> metrics_filters"

definition scope_of :: "console \<Rightarrow> scope" where
  "scope_of c = (orgName c, appName c, selectedWorkflowId c, auditFilters c, metricsFilters c)"

record load =
  ldElem :: nat
  ldContent :: content
  ldScope :: scope

datatype shown = Spinner | Drawn content scope

record page =
  pgConsole :: console
  pgElem :: nat
  pgLoads :: "load list"
  pgShown :: shown

definition start_load :: "content \<Rightarrow> page \<Rightarrow> page" where
  "start_load s p = p\<lparr>pgLoads := pgLoads p @ [\<lparr>ldElem = pgElem p, ldContent = s, ldScope = scope_of (pgConsole p)\<rparr>]\<rparr>"

text \<open>\<open>renderContentView(silent)\<close>: an unknown route is drawn at once.\<close>

definition draw_content :: "bool \<Rightarrow> page \<Rightarrow> page" where
  "draw_content silent p =
     (let s = renderContentView (pgConsole p); p1 = (if silent then p else p\<lparr>pgShown := Spinner\<rparr>)
      in if s = CSelect then p1\<lparr>pgShown := Drawn CSelect (scope_of (pgConsole p))\<rparr> else start_load s p1)"

fun perform :: "effect \<Rightarrow> page \<Rightarrow> page" where
  "perform Render p = p\<lparr>pgElem := Suc (pgElem p), pgShown := Spinner\<rparr>"
| "perform RenderContent p = draw_content False p"
| "perform RenderDetail p = start_load CDetail (p\<lparr>pgShown := Spinner\<rparr>)"
| "perform _ p = p"

text \<open>The answer for the \<open>i\<close>th load under way.\<close>

definition arrive :: "nat \<Rightarrow> page \<Rightarrow> page" where
  "arrive i p =
     (if length (pgLoads p) \<le> i then p
      else let l = pgLoads p ! i; rest = take i (pgLoads p) @ drop (Suc i) (pgLoads p)
           in p\<lparr>pgLoads := rest, pgShown := (if ldElem l = pgElem p then Drawn (ldContent l) (ldScope l) else pgShown p)\<rparr>)"

datatype page_event =
    EHash string
  | EApp bool string
  | EOrg "application list reply" bool string
  | EAudit string string string string string
  | EAuditClear
  | EAuditPrev
  | EAuditNext
  | EMetrics string string "string option"
  | EMetricsClear
  | ERefresh
  | EResume "unit reply" string string
  | EPoll "string option"
  | EArrive nat

fun operate :: "page_event \<Rightarrow> console \<Rightarrow> console" where
  "operate (EHash h) c = handleRouting (c\<lparr>locationHash := h\<rparr>)"
| "operate (EApp ok app) c = onAppChange ok app c"
| "operate (EOrg r ok org) c = onOrgChange r ok org c"
| "operate (EAudit op su ta st en) c = applyAuditFilters op su ta st en c"
| "operate EAuditClear c = clearAuditFilters c"
| "operate EAuditPrev c = auditPrevPage c"
| "operate EAuditNext c = auditNextPage c"
| "operate (EMetrics app wfn fam) c = applyMetricsFilters app wfn fam c"
| "operate EMetricsClear c = clearMetricsFilters c"
| "operate ERefresh c = emit RenderContent c"
| "operate (EResume r wid app) c = resumeWorkflow r wid app c"
| "operate (EPoll tag) c = poll tag c"
| "operate (EArrive i) c = c"

definition new_effects :: "console \<Rightarrow> console \<Rightarrow> effect list" where
  "new_effects c d = drop (length (effects c)) (effects d)"

definition page_step :: "page_event \<Rightarrow> page \<Rightarrow> page" where
  "page_step ev p =
     (let c = pgConsole p; d = operate ev c; p1 = p\<lparr>pgConsole := d\<rparr>
      in case ev of
           EArrive i \<Rightarrow> arrive i p
         | EPoll _ \<Rightarrow> if new_effects c d = [] then p1 else draw_content True p1
         | _ \<Rightarrow> fold perform (new_effects c d) p1)"

section \<open>What the operations emit\<close>

lemma new_effects_emit: "effects d = effects c @ es \<Longrightarrow> new_effects c d = es"
  by (simp add: new_effects_def)

lemma live_fields [simp]:
  "orgName (startSSE ok c) = orgName c" "appName (startSSE ok c) = appName c" "selectedWorkflowId (startSSE ok c) = selectedWorkflowId c"
  "auditFilters (startSSE ok c) = auditFilters c" "metricsFilters (startSSE ok c) = metricsFilters c" "currentRoute (startSSE ok c) = currentRoute c"
  by (simp_all add: startSSE_def poll_every_def close_source_def clear_timer_def Let_def split: option.split)

lemma emit_fields [simp]:
  "orgName (emit e c) = orgName c" "appName (emit e c) = appName c" "selectedWorkflowId (emit e c) = selectedWorkflowId c"
  "auditFilters (emit e c) = auditFilters c" "metricsFilters (emit e c) = metricsFilters c" "currentRoute (emit e c) = currentRoute c"
  "effects (emit e c) = effects c @ [e]"
  by (simp_all add: emit_def)

lemma content_cong: "currentRoute c = currentRoute d \<Longrightarrow> renderContentView c = renderContentView d"
  by (simp add: renderContentView_def)

text \<open>A hash the router can decode; on another the handler throws before it renders.\<close>

definition routable :: "string \<Rightarrow> bool" where
  "routable h \<longleftrightarrow>
     (let parts = split_on (CHR ''/'') (str_or (strip_hash h) ''fleet'')
      in hd parts = ''workflow'' \<and> length parts > 1 \<and> parts ! 1 \<noteq> [] \<longrightarrow> decode_uri_component (parts ! 1) \<noteq> None)"

definition calm :: "page_event \<Rightarrow> bool" where
  "calm ev = (case ev of EHash h \<Rightarrow> routable h | EResume _ _ _ \<Rightarrow> False | _ \<Rightarrow> True)"

definition redraws :: "effect \<Rightarrow> bool" where
  "redraws e \<longleftrightarrow> e \<in> {Render, RenderContent, RenderDetail}"

lemma perform_toast: "\<not> redraws e \<Longrightarrow> perform e p = p"
  by (cases e) (simp_all add: redraws_def)

lemma fold_redraws: "fold perform es p = fold perform (filter redraws es) p"
  by (induction es arbitrary: p) (simp_all add: perform_toast)

lemma hash_effects: "routable h \<Longrightarrow> new_effects c (operate (EHash h) c) = [Render, RenderContent]"
  by (rule new_effects_emit)
    (auto simp: handleRouting_def routable_def render_def Let_def split: option.split)

lemma org_effects:
  "filter redraws (new_effects c (operate (EOrg r ok org) c)) = (if str_or org ''default'' = orgName c then [] else [Render, RenderContent])"
proof (cases "str_or org ''default'' = orgName c")
  case True
  then show ?thesis by (simp add: onOrgChange_def new_effects_def)
next
  case False
  have "\<exists>es. effects (onOrgChange r ok org c) = effects c @ es \<and> filter redraws es = [Render, RenderContent]"
    using False by (auto simp: onOrgChange_def render_def showToast_def Let_def redraws_def)
  then show ?thesis using False new_effects_emit by fastforce
qed

text \<open>The operations that keep the route.\<close>

definition keeps_route :: "page_event \<Rightarrow> bool" where
  "keeps_route ev = (case ev of EHash _ \<Rightarrow> False | EOrg _ _ _ \<Rightarrow> False | EResume _ _ _ \<Rightarrow> False | EPoll _ \<Rightarrow> False | EArrive _ \<Rightarrow> False | _ \<Rightarrow> True)"

lemma keep_effects:
  assumes "keeps_route ev"
  shows "new_effects c (operate ev c) = [RenderContent]" "currentRoute (operate ev c) = currentRoute c"
proof -
  have "effects (operate ev c) = effects c @ [RenderContent] \<and> currentRoute (operate ev c) = currentRoute c"
    using assms by (cases ev) (simp_all add: onAppChange_def applyAuditFilters_def clearAuditFilters_def auditPrevPage_def auditNextPage_def
        applyMetricsFilters_def clearMetricsFilters_def keeps_route_def Let_def)
  then show "new_effects c (operate ev c) = [RenderContent]" "currentRoute (operate ev c) = currentRoute c" by (simp_all add: new_effects_emit)
qed

text \<open>How the page answers an event.\<close>

lemma step_keep: "keeps_route ev \<Longrightarrow> page_step ev p = draw_content False (p\<lparr>pgConsole := operate ev (pgConsole p)\<rparr>)"
  using keep_effects(1) [of ev "pgConsole p"] by (cases ev) (simp_all add: page_step_def Let_def keeps_route_def)

lemma step_hash: "routable h \<Longrightarrow> page_step (EHash h) p = perform RenderContent (perform Render (p\<lparr>pgConsole := operate (EHash h) (pgConsole p)\<rparr>))"
  using hash_effects [of h "pgConsole p"] by (simp add: page_step_def)

lemma step_org: "page_step (EOrg r ok org) p = (if str_or org ''default'' = orgName (pgConsole p) then p
    else perform RenderContent (perform Render (p\<lparr>pgConsole := operate (EOrg r ok org) (pgConsole p)\<rparr>)))"
proof -
  have "page_step (EOrg r ok org) p = fold perform (filter redraws (new_effects (pgConsole p) (operate (EOrg r ok org) (pgConsole p))))
      (p\<lparr>pgConsole := operate (EOrg r ok org) (pgConsole p)\<rparr>)"
    by (simp add: page_step_def Let_def flip: fold_redraws)
  then show ?thesis unfolding org_effects by (simp add: onOrgChange_def)
qed

lemma step_poll: "page_step (EPoll t) p = p \<or> page_step (EPoll t) p = draw_content True (p\<lparr>pgConsole := emit RenderContent (pgConsole p)\<rparr>)"
  by (auto simp: page_step_def Let_def poll_def new_effects_def)

section \<open>Invariant\<close>

definition current_loads :: "page \<Rightarrow> load list" where
  "current_loads p = filter (\<lambda>l. ldElem l = pgElem p) (pgLoads p)"

text \<open>
  No load is for an element still to come; the loads for the element on the page, and what is drawn there, are
  of the current route.
\<close>

definition page_inv :: "page \<Rightarrow> bool" where
  "page_inv p \<longleftrightarrow> (\<forall>l\<in>set (pgLoads p). ldElem l \<le> pgElem p) \<and>
     (\<forall>l\<in>set (current_loads p). ldContent l = renderContentView (pgConsole p)) \<and>
     (case pgShown p of Spinner \<Rightarrow> True | Drawn s sc \<Rightarrow> s = renderContentView (pgConsole p))"

lemma rebuilt:
  assumes "\<forall>l\<in>set (pgLoads p). ldElem l \<le> pgElem p"
  shows "page_inv (perform RenderContent (perform Render p))"
  using assms by (auto simp: page_inv_def current_loads_def draw_content_def start_load_def Let_def)

lemma redrawn: "page_inv p \<Longrightarrow> page_inv (draw_content silent p)"
  by (auto simp: page_inv_def current_loads_def draw_content_def start_load_def Let_def split: shown.splits)

lemma set_without: "set (take i xs @ drop (Suc i) xs) \<subseteq> set xs"
  by (auto dest: in_set_takeD in_set_dropD)

lemma arrived: "page_inv p \<Longrightarrow> page_inv (arrive i p)"
proof -
  assume p: "page_inv p"
  show ?thesis
  proof (cases "i < length (pgLoads p)")
    case True
    have "ldContent (pgLoads p ! i) = renderContentView (pgConsole p)" if "ldElem (pgLoads p ! i) = pgElem p"
      using p that nth_mem [OF True] by (simp add: page_inv_def current_loads_def)
    then show ?thesis using p set_without [of i "pgLoads p"] True
      by (auto simp: page_inv_def current_loads_def arrive_def Let_def split: shown.split)
  qed (use p in \<open>simp add: arrive_def\<close>)
qed

lemma inv_console: "page_inv p \<Longrightarrow> currentRoute c = currentRoute (pgConsole p) \<Longrightarrow> page_inv (p\<lparr>pgConsole := c\<rparr>)"
  using content_cong [of c "pgConsole p"] by (simp add: page_inv_def current_loads_def split: shown.splits)

lemma inv_bound: "page_inv p \<Longrightarrow> \<forall>l\<in>set (pgLoads p). ldElem l \<le> pgElem p"
  by (simp add: page_inv_def)

lemma step_cases [consumes 1, case_names keep rebuild silent answer same]:
  assumes "calm ev"
    and "keeps_route ev \<Longrightarrow> page_step ev p = draw_content False (p\<lparr>pgConsole := operate ev (pgConsole p)\<rparr>) \<Longrightarrow> thesis"
    and "\<And>c. page_step ev p = perform RenderContent (perform Render (p\<lparr>pgConsole := c\<rparr>)) \<Longrightarrow> thesis"
    and "page_step ev p = draw_content True (p\<lparr>pgConsole := emit RenderContent (pgConsole p)\<rparr>) \<Longrightarrow> thesis"
    and "\<And>i. ev = EArrive i \<Longrightarrow> page_step ev p = arrive i p \<Longrightarrow> thesis"
    and "page_step ev p = p \<Longrightarrow> thesis"
  shows thesis
proof (cases "keeps_route ev")
  case True
  then show ?thesis using assms(2) step_keep by blast
next
  case False
  then consider h where "ev = EHash h" "routable h" | r ok org where "ev = EOrg r ok org" | t where "ev = EPoll t" | i where "ev = EArrive i"
    using assms(1) by (cases ev) (auto simp: keeps_route_def calm_def)
  then show ?thesis
  proof cases
    case 1
    then show ?thesis using assms(3) step_hash by blast
  next
    case 2
    then show ?thesis using assms(3,6) step_org by metis
  next
    case 3
    then show ?thesis using assms(4,6) step_poll by metis
  next
    case 4
    then show ?thesis using assms(5) by (simp add: page_step_def Let_def)
  qed
qed

lemma step_inv: "calm ev \<Longrightarrow> page_inv p \<Longrightarrow> page_inv (page_step ev p)"
proof -
  assume ev: "calm ev" and p: "page_inv p"
  from ev show "page_inv (page_step ev p)"
  proof (cases rule: step_cases [where p = p])
    case keep
    then show ?thesis using redrawn inv_console [OF p] keep_effects(2) by simp
  next
    case (rebuild c)
    then show ?thesis using rebuilt [of "p\<lparr>pgConsole := c\<rparr>"] inv_bound [OF p] by simp
  next
    case silent
    then show ?thesis using redrawn inv_console [OF p] by simp
  next
    case (answer i)
    then show ?thesis using arrived [OF p] by simp
  qed (use p in simp)
qed

lemma run_inv_calm: "list_all calm es \<Longrightarrow> page_inv p \<Longrightarrow> page_inv (fold page_step es p)"
  by (induction es arbitrary: p) (simp_all add: step_inv)

section \<open>Answers in the order of the requests\<close>

definition in_order :: "page_event \<Rightarrow> bool" where
  "in_order ev = (case ev of EArrive i \<Rightarrow> i = 0 | _ \<Rightarrow> True)"

text \<open>The last load for the element on the page is the one that matters; without one, the page is up to date.\<close>

definition settled_inv :: "page \<Rightarrow> bool" where
  "settled_inv p \<longleftrightarrow> (\<forall>l\<in>set (pgLoads p). ldElem l \<le> pgElem p) \<and>
     (let s = renderContentView (pgConsole p); sc = scope_of (pgConsole p)
      in if current_loads p = [] then pgShown p = Drawn s sc
         else s \<noteq> CSelect \<and> last (current_loads p) = \<lparr>ldElem = pgElem p, ldContent = s, ldScope = sc\<rparr>)"

lemma settled_drawn:
  assumes "\<forall>l\<in>set (pgLoads p). ldElem l \<le> pgElem p" "renderContentView (pgConsole p) = CSelect \<Longrightarrow> current_loads p = []"
  shows "settled_inv (draw_content silent p)"
  using assms by (auto simp: settled_inv_def current_loads_def draw_content_def start_load_def Let_def)

lemma settled_rebuilt:
  assumes "\<forall>l\<in>set (pgLoads p). ldElem l \<le> pgElem p"
  shows "settled_inv (perform RenderContent (perform Render p))"
proof -
  have "current_loads (perform Render p) = []" using assms by (auto simp: current_loads_def filter_empty_conv)
  moreover have "\<forall>l\<in>set (pgLoads (perform Render p)). ldElem l \<le> pgElem (perform Render p)" using assms by auto
  ultimately show ?thesis using settled_drawn [of "perform Render p" False] by simp
qed

lemma settled_arrived: "settled_inv p \<Longrightarrow> settled_inv (arrive 0 p)"
  by (cases "pgLoads p") (auto simp: settled_inv_def current_loads_def arrive_def Let_def split: if_splits)

lemma settled_select: "settled_inv p \<Longrightarrow> renderContentView (pgConsole p) = CSelect \<Longrightarrow> current_loads p = []"
  by (auto simp: settled_inv_def Let_def split: if_splits)

lemma settled_bound: "settled_inv p \<Longrightarrow> \<forall>l\<in>set (pgLoads p). ldElem l \<le> pgElem p"
  by (simp add: settled_inv_def)

lemma settled_redrawn: "settled_inv p \<Longrightarrow> currentRoute c = currentRoute (pgConsole p) \<Longrightarrow> settled_inv (draw_content silent (p\<lparr>pgConsole := c\<rparr>))"
  using settled_select [of p] content_cong [of c "pgConsole p"]
  by (intro settled_drawn) (simp_all add: settled_bound current_loads_def)

lemma settled_step: "calm ev \<Longrightarrow> in_order ev \<Longrightarrow> settled_inv p \<Longrightarrow> settled_inv (page_step ev p)"
proof -
  assume ev: "calm ev" "in_order ev" and p: "settled_inv p"
  from ev(1) show "settled_inv (page_step ev p)"
  proof (cases rule: step_cases [where p = p])
    case keep
    then show ?thesis using settled_redrawn [OF p] keep_effects(2) by simp
  next
    case (rebuild c)
    then show ?thesis using settled_rebuilt [of "p\<lparr>pgConsole := c\<rparr>"] settled_bound [OF p] by simp
  next
    case silent
    then show ?thesis using settled_redrawn [OF p] by simp
  next
    case (answer i)
    then show ?thesis using settled_arrived [OF p] ev(2) by (simp add: in_order_def)
  qed (use p in simp)
qed

lemma settled_run: "list_all (\<lambda>ev. calm ev \<and> in_order ev) es \<Longrightarrow> settled_inv p \<Longrightarrow> settled_inv (fold page_step es p)"
  by (induction es arbitrary: p) (simp_all add: settled_step)

section \<open>Theorems\<close>

definition open_page :: "string \<Rightarrow> console \<Rightarrow> page" where
  "open_page h c = page_step (EHash h) \<lparr>pgConsole = c, pgElem = 0, pgLoads = [], pgShown = Spinner\<rparr>"

lemma open_inv: "routable h \<Longrightarrow> page_inv (open_page h c)" "routable h \<Longrightarrow> settled_inv (open_page h c)"
  unfolding open_page_def step_hash by (rule rebuilt settled_rebuilt; simp)+




lemma queue_page: "open_page ''#/queues'' c = \<lparr>pgConsole = operate (EHash ''#/queues'') c, pgElem = 1,
    pgLoads = [\<lparr>ldElem = 1, ldContent = CQueues, ldScope = scope_of (operate (EHash ''#/queues'') c)\<rparr>], pgShown = Spinner\<rparr>"
  "currentRoute (operate (EHash ''#/queues'') c) = ''queues''"
proof -
  have r: "routable ''#/queues''" by code_simp
  have p: "split_on (CHR ''/'') (str_or (strip_hash ''#/queues'') ''fleet'') = [''queues'']" by code_simp
  show q: "currentRoute (operate (EHash ''#/queues'') c) = ''queues''" by (simp add: handleRouting_def p render_def)
  show "open_page ''#/queues'' c = \<lparr>pgConsole = operate (EHash ''#/queues'') c, pgElem = 1,
    pgLoads = [\<lparr>ldElem = 1, ldContent = CQueues, ldScope = scope_of (operate (EHash ''#/queues'') c)\<rparr>], pgShown = Spinner\<rparr>"
    using q unfolding open_page_def step_hash [OF r] by (simp add: draw_content_def start_load_def renderContentView_def del: operate.simps)
qed


text \<open>
  C13: an answer that comes late is not recognized as such. Selecting application \<open>a\<close> and then \<open>b\<close> on the queue screen, with
  the answer for \<open>a\<close> after the one for \<open>b\<close>, leaves the queues of \<open>a\<close> under the selection \<open>b\<close> with nothing under way.
\<close>

theorem late_answer_wins:
  "let p = fold page_step [EArrive 0, EApp ok a, EApp ok b, EArrive 1, EArrive 0] (open_page ''#/queues'' c)
   in pgLoads p = [] \<and> appName (pgConsole p) = b \<and> (\<exists>sc. pgShown p = Drawn CQueues sc \<and> fst (snd sc) = a)"
proof -
  have k: "keeps_route (EApp ok x)" for x by (simp add: keeps_route_def)
  have a: "appName (operate (EApp ok x) d) = x" "currentRoute (operate (EApp ok x) d) = currentRoute d" for x d
    by (simp_all add: onAppChange_def Let_def)
  have q: "renderContentView d = CQueues" if "currentRoute d = ''queues''" for d using that by (simp add: renderContentView_def)
  show ?thesis using queue_page(2) [of c] unfolding queue_page(1)
    by (simp add: page_step_def [of "EArrive _"] step_keep [OF k] arrive_def draw_content_def start_load_def a q scope_of_def Let_def del: operate.simps)
qed

text \<open>
  a workflow that was resumed (or cancelled) reports back to whatever screen is open by then: with the operator on the queue
  screen when the answer comes, the workflow's detail screen is drawn there, under the route of the queues.
\<close>

theorem resumed_workflow_takes_screen:
  "let p = fold page_step [EArrive 0, EResume (Inr ()) wid app, EArrive 0] (open_page ''#/queues'' c)
   in pgLoads p = [] \<and> renderContentView (pgConsole p) = CQueues \<and> (\<exists>sc. pgShown p = Drawn CDetail sc)"
proof -
  have e: "new_effects d (operate (EResume (Inr ()) wid app) d) =
      [Call (ResumeWorkflow (orgName d) (target_app app wid d) wid), Toast (''Resumed workflow '' @ wid) ''success'', RenderDetail]" for d
    by (rule new_effects_emit) (simp add: resumeWorkflow_def call_api_def showToast_def)
  have "currentRoute (operate (EResume (Inr ()) wid app) d) = currentRoute d" for d
    by (simp add: resumeWorkflow_def call_api_def showToast_def)
  then have r: "renderContentView (operate (EResume (Inr ()) wid app) d) = renderContentView d" for d by (rule content_cong)
  have q: "renderContentView (operate (EHash ''#/queues'') c) = CQueues" using queue_page(2) [of c] by (simp add: renderContentView_def)
  show ?thesis unfolding queue_page(1)
    by (simp add: page_step_def arrive_def e r q start_load_def scope_of_def Let_def del: operate.simps)
qed

end
