(* ===== verification/Bridge.thy ===== *)
theory Bridge
  imports Html_Text
begin

text \<open>
  The in-browser API of the playground, \<open>site/playground/relay-bridge.js\<close>: the directory it keeps
  in memory, the audit log, and the replacement of \<open>window.fetch\<close> that answers the console's
  requests. Each numbered block of that function is one handler, in the order of the source; a
  handler that does not answer (\<open>None\<close>) falls through to the next, and a request no handler
  answers goes to the browser's own \<open>fetch\<close> (\<open>Native\<close>). \<open>JSON.stringify\<close> of a body is the value
  itself; a request body is the object the handler parsed, the empty object when there was none.

  The embedded Postgres (PGlite) is not code of the repository: \<open>db\<close> holds, for each query the
  bridge sends, the rows it returns (\<open>None\<close> when there is no database or the query failed). The
  clock, the random token, date arithmetic and the order \<open>sort\<close> gives to entries with equal
  time stamps come from \<open>ctx\<close>.
\<close>

section \<open>Data\<close>

record b_app =
  baName :: string
  baOrganization :: string
  baStatus :: string
  baRuntime :: string
  baCreatedAt :: string

record b_executor =
  bxId :: string
  bxApp :: string
  bxStatus :: string
  bxHostname :: string
  bxVersion :: string
  bxLanguage :: string
  bxUpdatedAt :: string

record b_queue =
  bqName :: string
  bqApp :: string
  bqConcurrency :: "int option"
  bqWorkerConcurrency :: "int option"
  bqPartition :: bool

record b_schedule =
  bsName :: string
  bsApp :: string
  bsCron :: string
  bsWorkflow :: string
  bsStatus :: string
  bsLastRun :: string

record b_alert =
  blId :: string
  blApp :: string
  blRuleType :: "string option"
  blMetric :: "string option"
  blMinIntervalSecs :: int
  blMetadata :: "jsval option"

record b_role =
  brName :: string
  brGlobal :: bool
  brPermissions :: jsval

record b_key =
  bkId :: string
  bkTokenName :: string
  bkName :: string
  bkToken :: "string option"
  bkCreatedAt :: string
  bkPermissions :: jsval
  bkAppNames :: jsval

record b_policy =
  bpQueue :: string
  bpRollout :: "jsval option"
  bpSchema :: "jsval option"

record b_audit =
  auId :: string
  auEmitTime :: string
  auOperation :: string
  auStatus :: string
  auSubjectType :: string
  auSubjectId :: string
  auSubjectDisplay :: string
  auTarget :: "(string \<times> string) option"

record b_workflow =
  bwId :: string
  bwName :: string
  bwStatus :: string
  bwCreatedAt :: "string option"
  bwUpdatedAt :: "string option"
  bwCompletedAt :: "string option"
  bwDurationMs :: int
  bwUser :: string
  bwAppVersion :: string
  bwOutput :: "string option"
  bwError :: "string option"

record b_step =
  stFunctionId :: int
  stName :: string
  stStatus :: string
  stOutput :: "string option"
  stError :: "string option"
  stChild :: "string option"
  stDurationMs :: int
  stStartedAt :: string
  stCompletedAt :: "string option"

record bridge =
  apps_tab :: "b_app list"
  executors_tab :: "b_executor list"
  queues_tab :: "b_queue list"
  schedules_tab :: "b_schedule list"
  alerts_tab :: "b_alert list"
  roles_tab :: "b_role list"
  members_tab :: "(string, string) jsmap"
  keys_tab :: "b_key list"
  configs_tab :: "(string, (string, jsval) jsmap) jsmap"
  autoscaling_tab :: "(string, b_policy) jsmap"
  audit_tab :: "b_audit list"
  workflows_tab :: "b_workflow list"
  steps_tab :: "b_step list"
  auditSeq :: nat

subsection \<open>The database and the environment\<close>

record workflow_row =
  rwId :: string
  rwStatus :: "string option"
  rwName :: string
  rwUser :: "string option"
  rwOutput :: "string option"
  rwError :: "string option"
  rwDurationMs :: "int option"
  rwCreatedAt :: "string option"
  rwUpdatedAt :: "string option"
  rwAppVersion :: "string option"
  rwApplicationVersion :: "string option"

record step_row =
  rsFunctionId :: int
  rsName :: string
  rsStatus :: "string option"
  rsOutput :: "string option"
  rsError :: "string option"
  rsChild :: "string option"
  rsDurationMs :: "int option"
  rsCreatedAt :: "string option"

record executor_row =
  reId :: string
  reName :: "string option"
  reStatus :: "string option"
  reHostname :: "string option"
  reVersion :: "string option"
  reHeartbeat :: "string option"
  reLanguage :: "string option"

record db =
  qApps :: "b_app list option"
  qApp :: "string \<Rightarrow> b_app list option"
  qExecutors :: "string \<Rightarrow> executor_row list option"
  qWorkflows :: "string \<Rightarrow> workflow_row list option"
  qWorkflow :: "string \<Rightarrow> workflow_row list option"
  qSteps :: "string \<Rightarrow> step_row list option"
  qEvents :: "string \<Rightarrow> (string \<times> string) list option"
  qDepth :: "nat option"

record ctx =
  cxDb :: db
  cxNow :: string
  cxStamp :: nat
  cxRandom :: string
  cxAddMs :: "string \<Rightarrow> int \<Rightarrow> string"
  cxIso :: "string \<Rightarrow> string"
  cxSort :: "b_audit list \<Rightarrow> b_audit list"

record request =
  rqMethod :: string
  rqPath :: string
  rqQuery :: "(string \<times> string) list"
  rqBody :: jsval

datatype body =
    BNone
  | BProblem string nat string
  | BApps "b_app list"
  | BExecutors "b_executor list"
  | BWorkflows "b_workflow list"
  | BWorkflow b_workflow
  | BSteps "b_step list"
  | BEvents "(string \<times> string) list"
  | BEmpty
  | BQueues "b_queue list"
  | BSchedules "b_schedule list"
  | BAlerts "b_alert list"
  | BKeys "b_key list"
  | BKey b_key
  | BOk
  | BAppDetail b_app "(string, jsval) jsmap"
  | BPolicy b_policy
  | BRecommendation bool int string nat
  | BAudit "b_audit list"
  | BMetrics string
  | BPermissions "string list"
  | BRole string jsval
  | BRoles "b_role list"
  | BMembers string "(string \<times> b_role) list"
  | BRemoved string

datatype response = Response nat body | Native | Rejected

type_synonym answer = "(bridge \<times> response) option"

section \<open>Paths\<close>

text \<open>
  A regular expression such as \<open>^\/v2\/orgs\/[^/]+\/apps\/([^/]+)\/executors$\<close> on the segments of the
  path: a fixed segment, a segment to skip, a segment to capture.
\<close>

datatype seg = Fixed string | Skip | Capture

fun match_segs :: "seg list \<Rightarrow> string list \<Rightarrow> string list option" where
  "match_segs [] [] = Some []"
| "match_segs (Fixed t # ps) (s # ss) = (if s = t then match_segs ps ss else None)"
| "match_segs (Skip # ps) (s # ss) = (if s \<noteq> [] then match_segs ps ss else None)"
| "match_segs (Capture # ps) (s # ss) = (if s \<noteq> [] then map_option (Cons s) (match_segs ps ss) else None)"
| "match_segs _ _ = None"

definition match_path :: "seg list \<Rightarrow> string \<Rightarrow> string list option" where
  "match_path ps path = match_segs (Fixed [] # ps) (split_on (CHR ''/'') path)"

definition org_path :: "seg list \<Rightarrow> seg list" where
  "org_path ps = [Fixed ''v2'', Fixed ''orgs'', Skip] @ ps"

definition app_path :: "seg list \<Rightarrow> seg list" where
  "app_path ps = org_path ([Fixed ''apps'', Capture] @ ps)"

definition wf_path :: "seg list \<Rightarrow> seg list" where
  "wf_path ps = org_path ([Fixed ''apps'', Skip, Fixed ''workflows'', Capture] @ ps)"

definition ok :: "body \<Rightarrow> bridge \<Rightarrow> answer" where
  "ok b st = Some (st, Response 200 b)"

definition problem :: "nat \<Rightarrow> string \<Rightarrow> string \<Rightarrow> bridge \<Rightarrow> answer" where
  "problem code ttl detail st = Some (st, Response code (BProblem ttl code detail))"

text \<open>\<open>decodeURIComponent\<close> on a captured segment; the handler is rejected when it throws.\<close>

definition with_decoded :: "string \<Rightarrow> bridge \<Rightarrow> (string \<Rightarrow> answer) \<Rightarrow> answer" where
  "with_decoded s st f = (case decode_uri_component s of None \<Rightarrow> Some (st, Rejected) | Some t \<Rightarrow> f t)"

definition pushAudit :: "ctx \<Rightarrow> string \<Rightarrow> (string \<times> string) \<Rightarrow> bridge \<Rightarrow> bridge" where
  "pushAudit cx operation targ st =
     st\<lparr>audit_tab := \<lparr>auId = ''audit-play-'' @ show_nat (auditSeq st), auEmitTime = cxNow cx,
          auOperation = operation, auStatus = ''success'', auSubjectType = ''user'', auSubjectId = ''user_playground'',
          auSubjectDisplay = ''playground-user'', auTarget = Some targ\<rparr> # audit_tab st,
        auditSeq := Suc (auditSeq st)\<rparr>"

section \<open>Handlers: reads\<close>

definition is_static :: "string \<Rightarrow> bool" where
  "is_static path \<longleftrightarrow> str_includes path ''/assets/'' \<or> ends_with path ''.js'' \<or> ends_with path ''.css''
     \<or> ends_with path ''.svg'' \<or> ends_with path ''.png''"

definition h_static :: "ctx \<Rightarrow> request \<Rightarrow> bridge \<Rightarrow> answer" where
  "h_static cx rq st = (if is_static (rqPath rq) then Some (st, Native) else None)"

definition h_users :: "ctx \<Rightarrow> request \<Rightarrow> bridge \<Rightarrow> answer" where
  "h_users cx rq st =
     (if rqPath rq = ''/v2/users/me'' \<or> rqPath rq = ''/v2/users''
      then problem 404 ''Not Found'' ''User endpoint disabled in self-hosted no-auth playground mode'' st
      else None)"

text \<open>\<open>rows && rows.length > 0 ? rows : fallback\<close>\<close>

definition rows_or :: "'a list option \<Rightarrow> 'a list \<Rightarrow> 'a list" where
  "rows_or rows dflt = (case rows of None \<Rightarrow> dflt | Some [] \<Rightarrow> dflt | Some xs \<Rightarrow> xs)"

definition h_apps :: "ctx \<Rightarrow> request \<Rightarrow> bridge \<Rightarrow> answer" where
  "h_apps cx rq st =
     (if match_path (org_path [Fixed ''apps'']) (rqPath rq) \<noteq> None
      then ok (BApps (rows_or (qApps (cxDb cx)) (apps_tab st))) st else None)"

definition executor_of_row :: "ctx \<Rightarrow> string \<Rightarrow> executor_row \<Rightarrow> b_executor" where
  "executor_of_row cx app r =
     \<lparr>bxId = reId r, bxApp = str_or (opt_str (reName r)) app,
      bxStatus = to_upper (str_or (opt_str (reStatus r)) ''HEALTHY''),
      bxHostname = str_or (opt_str (reHostname r)) ''browser-wasm'',
      bxVersion = str_or (opt_str (reVersion r)) ''1.0.0'',
      bxLanguage = str_or (opt_str (reLanguage r)) ''typescript'',
      bxUpdatedAt = str_or (opt_str (reHeartbeat r)) (cxNow cx)\<rparr>"

definition h_executors :: "ctx \<Rightarrow> request \<Rightarrow> bridge \<Rightarrow> answer" where
  "h_executors cx rq st =
     (case match_path (app_path [Fixed ''executors'']) (rqPath rq) of
        Some [a] \<Rightarrow> with_decoded a st (\<lambda>app.
          case qExecutors (cxDb cx) app of
            Some (r # rs) \<Rightarrow> ok (BExecutors (map (executor_of_row cx app) (r # rs))) st
          | _ \<Rightarrow> ok (BExecutors (filter (\<lambda>e. bxApp e = app) (executors_tab st))) st)
      | _ \<Rightarrow> None)"

definition is_terminal :: "string \<Rightarrow> bool" where
  "is_terminal s \<longleftrightarrow> to_upper s \<in> {''SUCCESS'', ''ERROR'', ''CANCELLED''}"

definition workflow_of_row :: "ctx \<Rightarrow> workflow_row \<Rightarrow> b_workflow" where
  "workflow_of_row cx r =
     (let dur = (case rwDurationMs r of None \<Rightarrow> 0 | Some d \<Rightarrow> d);
          completed = (if is_terminal (opt_str (rwStatus r)) then
              (if opt_str (rwUpdatedAt r) \<noteq> [] then rwUpdatedAt r
               else if opt_str (rwCreatedAt r) \<noteq> [] then Some (cxAddMs cx (opt_str (rwCreatedAt r)) dur)
               else None)
            else None)
      in \<lparr>bwId = rwId r, bwName = rwName r, bwStatus = opt_str (rwStatus r), bwCreatedAt = rwCreatedAt r,
          bwUpdatedAt = rwUpdatedAt r, bwCompletedAt = completed, bwDurationMs = dur,
          bwUser = str_or (opt_str (rwUser r)) ''playground-user'',
          bwAppVersion = str_or (opt_str (rwAppVersion r)) (str_or (opt_str (rwApplicationVersion r)) ''-''),
          bwOutput = rwOutput r, bwError = rwError r\<rparr>)"

definition h_workflows :: "ctx \<Rightarrow> request \<Rightarrow> bridge \<Rightarrow> answer" where
  "h_workflows cx rq st =
     (case match_path (app_path [Fixed ''workflows'']) (rqPath rq) of
        Some [a] \<Rightarrow> with_decoded a st (\<lambda>app.
          ok (BWorkflows (map (workflow_of_row cx) (case qWorkflows (cxDb cx) app of None \<Rightarrow> [] | Some rs \<Rightarrow> rs))) st)
      | _ \<Rightarrow> None)"

definition step_of_row :: "ctx \<Rightarrow> step_row \<Rightarrow> b_step" where
  "step_of_row cx r =
     (let dur = (case rsDurationMs r of None \<Rightarrow> 100 | Some d \<Rightarrow> if d = 0 then 100 else d);
          created = (if opt_str (rsCreatedAt r) \<noteq> [] then cxIso cx (opt_str (rsCreatedAt r)) else cxNow cx);
          stat = to_upper (str_or (opt_str (rsStatus r)) ''SUCCESS'')
      in \<lparr>stFunctionId = rsFunctionId r, stName = rsName r, stStatus = stat, stOutput = rsOutput r,
          stError = rsError r, stChild = rsChild r, stDurationMs = dur, stStartedAt = created,
          stCompletedAt = (if stat = ''SUCCESS'' then Some (cxAddMs cx created dur) else None)\<rparr>)"

definition h_steps :: "ctx \<Rightarrow> request \<Rightarrow> bridge \<Rightarrow> answer" where
  "h_steps cx rq st =
     (case match_path (wf_path [Fixed ''steps'']) (rqPath rq) of
        Some [wid] \<Rightarrow>
          (case qSteps (cxDb cx) wid of
             Some (r # rs) \<Rightarrow> ok (BSteps (map (step_of_row cx) (r # rs))) st
           | _ \<Rightarrow> ok (BSteps (if wid = ''wf-ord-89214'' then steps_tab st else [])) st)
      | _ \<Rightarrow> None)"

definition h_events :: "ctx \<Rightarrow> request \<Rightarrow> bridge \<Rightarrow> answer" where
  "h_events cx rq st =
     (case match_path (wf_path [Fixed ''events'']) (rqPath rq) of
        Some [wid] \<Rightarrow> ok (BEvents (case qEvents (cxDb cx) wid of None \<Rightarrow> [] | Some rs \<Rightarrow> rs)) st
      | _ \<Rightarrow> None)"

definition h_notifications :: "ctx \<Rightarrow> request \<Rightarrow> bridge \<Rightarrow> answer" where
  "h_notifications cx rq st =
     (if match_path (wf_path [Fixed ''notifications'']) (rqPath rq) \<noteq> None then ok BEmpty st else None)"

text \<open>The query of a single workflow does not select the two version columns.\<close>

definition h_workflow :: "ctx \<Rightarrow> request \<Rightarrow> bridge \<Rightarrow> answer" where
  "h_workflow cx rq st =
     (case match_path (wf_path []) (rqPath rq) of
        Some [wid] \<Rightarrow>
          (case qWorkflow (cxDb cx) wid of
             Some (r # rs) \<Rightarrow>
               ok (BWorkflow (workflow_of_row cx (r\<lparr>rwAppVersion := None, rwApplicationVersion := None\<rparr>))) st
           | _ \<Rightarrow>
             (case find (\<lambda>w. bwId w = wid) (workflows_tab st) of
                Some w \<Rightarrow> ok (BWorkflow w) st
              | None \<Rightarrow> problem 404 ''Workflow not found'' [] st))
      | _ \<Rightarrow> None)"

definition h_queues :: "ctx \<Rightarrow> request \<Rightarrow> bridge \<Rightarrow> answer" where
  "h_queues cx rq st =
     (case match_path (app_path [Fixed ''queues'']) (rqPath rq) of
        Some [a] \<Rightarrow> with_decoded a st (\<lambda>app. ok (BQueues (filter (\<lambda>e. bqApp e = app) (queues_tab st))) st)
      | _ \<Rightarrow> None)"

definition h_schedules :: "ctx \<Rightarrow> request \<Rightarrow> bridge \<Rightarrow> answer" where
  "h_schedules cx rq st =
     (case match_path (app_path [Fixed ''schedules'']) (rqPath rq) of
        Some [a] \<Rightarrow> with_decoded a st (\<lambda>app. ok (BSchedules (filter (\<lambda>e. bsApp e = app) (schedules_tab st))) st)
      | _ \<Rightarrow> None)"

definition alert_view :: "b_alert \<Rightarrow> b_alert" where
  "alert_view a = a\<lparr>blRuleType := Some (str_or (opt_str (blRuleType a)) (str_or (opt_str (blMetric a)) ''WorkflowFailure'')),
     blMinIntervalSecs := (if blMinIntervalSecs a = 0 then 60 else blMinIntervalSecs a),
     blMetadata := (case blMetadata a of
        None \<Rightarrow> Some (JObj [(''channel'', JStr ''slack''), (''severity'', JStr ''warning'')]) | Some m \<Rightarrow> Some m)\<rparr>"

definition h_alerts :: "ctx \<Rightarrow> request \<Rightarrow> bridge \<Rightarrow> answer" where
  "h_alerts cx rq st =
     (case (case match_path (app_path [Fixed ''alerts'']) (rqPath rq) of
              Some c \<Rightarrow> Some c | None \<Rightarrow> match_path (app_path [Fixed ''alerting-rules'']) (rqPath rq)) of
        Some [a] \<Rightarrow> with_decoded a st (\<lambda>app. ok (BAlerts (map alert_view (filter (\<lambda>e. blApp e = app) (alerts_tab st)))) st)
      | _ \<Rightarrow> None)"

section \<open>Handlers: tokens and workflow operations\<close>

definition h_keys :: "ctx \<Rightarrow> request \<Rightarrow> bridge \<Rightarrow> answer" where
  "h_keys cx rq st =
     (if (match_path (org_path [Fixed ''tokens'']) (rqPath rq) \<noteq> None
          \<or> match_path (org_path [Fixed ''keys'']) (rqPath rq) \<noteq> None) \<and> rqMethod rq = ''GET''
      then ok (BKeys (keys_tab st)) st else None)"

definition h_token :: "ctx \<Rightarrow> request \<Rightarrow> bridge \<Rightarrow> answer" where
  "h_token cx rq st =
     (case match_path (org_path [Fixed ''tokens'', Capture]) (rqPath rq) of
        Some [t] \<Rightarrow> with_decoded t st (\<lambda>kname.
          if rqMethod rq = ''DELETE'' then
            Some (pushAudit cx ''token.revoke'' (''token'', kname)
                    (st\<lparr>keys_tab := filter (\<lambda>k. bkTokenName k \<noteq> kname \<and> bkName k \<noteq> kname) (keys_tab st)\<rparr>),
                  Response 204 BNone)
          else if rqMethod rq = ''POST'' then
            (let k = \<lparr>bkId = ''key-'' @ show_nat (cxStamp cx), bkTokenName = kname, bkName = kname,
                      bkToken = Some (''dbos_sec_'' @ cxRandom cx), bkCreatedAt = cxNow cx,
                      bkPermissions = jor (field (rqBody rq) ''permissions'') (JArr [JStr ''*'']),
                      bkAppNames = jor (field (rqBody rq) ''appNames'') (JArr [JStr ''*''])\<rparr>
             in Some (pushAudit cx ''token.create'' (''token'', kname) (st\<lparr>keys_tab := keys_tab st @ [k]\<rparr>),
                      Response 201 (BKey k)))
          else None)
      | _ \<Rightarrow> None)"

text \<open>\<open>/\/workflows\/([^/]+)\/(cancel|resume|fork)$/\<close>: the last three segments of the path.\<close>

definition workflow_op :: "string \<Rightarrow> (string \<times> string) option" where
  "workflow_op path =
     (case rev (split_on (CHR ''/'') path) of
        op # wid # w # p # rest \<Rightarrow>
          if op \<in> {''cancel'', ''resume'', ''fork''} \<and> wid \<noteq> [] \<and> w = ''workflows'' then Some (wid, op) else None
      | _ \<Rightarrow> None)"

definition h_workflow_op :: "ctx \<Rightarrow> request \<Rightarrow> bridge \<Rightarrow> answer" where
  "h_workflow_op cx rq st =
     (if str_includes (rqPath rq) ''/cancel'' \<or> str_includes (rqPath rq) ''/resume'' \<or> str_includes (rqPath rq) ''/fork''
      then (case workflow_op (rqPath rq) of
              None \<Rightarrow> problem 404 ''Not Found'' ''unknown workflow operation'' st
            | Some (w, op) \<Rightarrow> with_decoded w st (\<lambda>wid.
                Some (pushAudit cx (''workflow.'' @ op) (''workflow'', wid) st, Response 200 BOk)))
      else None)"

section \<open>Handlers: applications and autoscaling\<close>

definition default_config :: "(string, jsval) jsmap" where
  "default_config =
     [(''privateMode'', JBool False), (''executorTimeoutSecs'', JNum (Fin 10)),
      (''gcRowsThreshold'', JNull), (''gcTimeThresholdMs'', JNull), (''globalTimeoutMs'', JNull)]"

definition is_bool :: "jsval \<Rightarrow> bool" where
  "is_bool v = (case v of JBool _ \<Rightarrow> True | _ \<Rightarrow> False)"

definition is_num :: "jsval \<Rightarrow> bool" where
  "is_num v = (case v of JNum _ \<Rightarrow> True | _ \<Rightarrow> False)"

definition patch_rules :: "(string \<times> (jsval \<Rightarrow> bool)) list" where
  "patch_rules =
     [(''privateMode'', is_bool), (''executorTimeoutSecs'', is_num),
      (''gcRowsThreshold'', \<lambda>v. is_num v \<or> v = JNull), (''gcTimeThresholdMs'', \<lambda>v. is_num v \<or> v = JNull),
      (''globalTimeoutMs'', \<lambda>v. is_num v \<or> v = JNull)]"

definition apply_rule :: "jsval \<Rightarrow> string \<times> (jsval \<Rightarrow> bool) \<Rightarrow> (string, jsval) jsmap \<times> bool \<Rightarrow> (string, jsval) jsmap \<times> bool" where
  "apply_rule bd rule acc =
     (if snd rule (field bd (fst rule)) then (AList.update (fst rule) (field bd (fst rule)) (fst acc), True) else acc)"

definition patch_config :: "jsval \<Rightarrow> (string, jsval) jsmap \<Rightarrow> (string, jsval) jsmap \<times> bool" where
  "patch_config bd cfg = fold (apply_rule bd) patch_rules (cfg, False)"

definition find_app :: "ctx \<Rightarrow> string \<Rightarrow> bridge \<Rightarrow> b_app option" where
  "find_app cx app st =
     (case find (\<lambda>a. baName a = app) (apps_tab st) of
        Some a \<Rightarrow> Some a
      | None \<Rightarrow> (case qApp (cxDb cx) app of Some (r # _) \<Rightarrow> Some r | _ \<Rightarrow> None))"

text \<open>\<open>if (!state.appConfigs[appName]) state.appConfigs[appName] = { ... }\<close>, then the configuration.\<close>

definition ensure_config :: "string \<Rightarrow> bridge \<Rightarrow> bridge" where
  "ensure_config app st =
     (if map_of (configs_tab st) app = None
      then st\<lparr>configs_tab := AList.update app default_config (configs_tab st)\<rparr> else st)"

definition config_of :: "bridge \<Rightarrow> string \<Rightarrow> (string, jsval) jsmap" where
  "config_of st app = (case map_of (configs_tab st) app of None \<Rightarrow> default_config | Some g \<Rightarrow> g)"

definition app_patch :: "ctx \<Rightarrow> jsval \<Rightarrow> string \<Rightarrow> bridge \<Rightarrow> bridge" where
  "app_patch cx bd app st =
     (let (cfg, changed) = patch_config bd (config_of st app);
          st1 = st\<lparr>configs_tab := AList.update app cfg (configs_tab st)\<rparr>
      in if changed then pushAudit cx ''application.update'' (''application'', app) st1 else st1)"

definition h_app :: "ctx \<Rightarrow> request \<Rightarrow> bridge \<Rightarrow> answer" where
  "h_app cx rq st =
     (case match_path (app_path []) (rqPath rq) of
        Some [a] \<Rightarrow>
          if rqMethod rq = ''GET'' \<or> rqMethod rq = ''PATCH'' then with_decoded a st (\<lambda>app.
            case find_app cx app st of
              None \<Rightarrow> problem 404 ''Not Found'' ''application not found'' st
            | Some ap \<Rightarrow>
                (let st1 = ensure_config app st
                 in if rqMethod rq = ''PATCH'' then Some (app_patch cx (rqBody rq) app st1, Response 204 BNone)
                    else ok (BAppDetail ap (config_of st1 app)) st1))
          else None
      | _ \<Rightarrow> None)"

definition no_policy :: "bridge \<Rightarrow> answer" where
  "no_policy st = problem 404 ''Not Found'' ''no autoscaling policy configured for application'' st"

definition policy_put :: "ctx \<Rightarrow> jsval \<Rightarrow> string \<Rightarrow> bridge \<Rightarrow> answer" where
  "policy_put cx bd app st =
     (if \<not> truthy (field bd ''queue'') then problem 400 ''Bad Request'' ''autoscaling policy must name a queue'' st
      else case find (\<lambda>x. JStr (bqName x) = field bd ''queue'') (queues_tab st) of
             None \<Rightarrow> problem 400 ''Bad Request'' ''unknown queue'' st
           | Some qu \<Rightarrow>
               if bqPartition qu then problem 400 ''Bad Request'' ''queue is partitioned and cannot drive autoscaling'' st
               else if \<not> (case bqWorkerConcurrency qu of None \<Rightarrow> False | Some w \<Rightarrow> w > 0)
               then problem 400 ''Bad Request'' ''queue has no worker concurrency set'' st
               else let p = \<lparr>bpQueue = bqName qu,
                             bpRollout = (if truthy (field bd ''rollout'') then Some (field bd ''rollout'') else None),
                             bpSchema = (if field bd ''$schema'' \<noteq> JUndef then Some (field bd ''$schema'') else None)\<rparr>
                    in Some (pushAudit cx ''autoscaling_policy.set'' (''application'', app)
                               (st\<lparr>autoscaling_tab := AList.update app p (autoscaling_tab st)\<rparr>),
                             Response 200 (BPolicy p)))"

definition h_policy :: "ctx \<Rightarrow> request \<Rightarrow> bridge \<Rightarrow> answer" where
  "h_policy cx rq st =
     (case match_path (app_path [Fixed ''autoscaling-policy'']) (rqPath rq) of
        Some [a] \<Rightarrow> with_decoded a st (\<lambda>app.
          if rqMethod rq = ''GET'' then
            (case map_of (autoscaling_tab st) app of None \<Rightarrow> no_policy st | Some p \<Rightarrow> ok (BPolicy p) st)
          else if rqMethod rq = ''PUT'' then policy_put cx (rqBody rq) app st
          else if rqMethod rq = ''DELETE'' then
            (let st1 = st\<lparr>autoscaling_tab := AList.delete app (autoscaling_tab st)\<rparr>
             in Some (if map_of (autoscaling_tab st) app \<noteq> None
                      then pushAudit cx ''autoscaling_policy.delete'' (''application'', app) st1 else st1,
                      Response 204 BNone))
          else None)
      | _ \<Rightarrow> None)"

definition ceil_div :: "int \<Rightarrow> int \<Rightarrow> int" where
  "ceil_div a b = - ((- a) div b)"

definition desired_executors :: "b_queue option \<Rightarrow> nat \<Rightarrow> int" where
  "desired_executors qu depth =
     (let wc = (case qu of None \<Rightarrow> 1 | Some x \<Rightarrow>
                  (case bqWorkerConcurrency x of None \<Rightarrow> 1 | Some w \<Rightarrow> if w > 0 then w else 1));
          conc = (case qu of None \<Rightarrow> 0 | Some x \<Rightarrow> (case bqConcurrency x of None \<Rightarrow> 0 | Some c \<Rightarrow> c));
          d = max 1 (ceil_div (int depth) wc)
      in if conc > 0 then min d (ceil_div conc wc) else d)"

text \<open>\<open>/autoscale(\/versions\/(.+))?$/\<close>: \<open>None\<close> in the second component when no version is asked for.\<close>

definition match_autoscale :: "string \<Rightarrow> (string \<times> string option) option" where
  "match_autoscale path =
     (let segs = split_on (CHR ''/'') path
      in case match_segs (Fixed [] # app_path [Fixed ''autoscale'']) (take 7 segs) of
           Some [a] \<Rightarrow>
             (case drop 7 segs of
                [] \<Rightarrow> Some (a, None)
              | v # rest \<Rightarrow> if v = ''versions'' \<and> join ''/'' rest \<noteq> [] then Some (a, Some (join ''/'' rest)) else None)
         | _ \<Rightarrow> None)"

definition h_autoscale :: "ctx \<Rightarrow> request \<Rightarrow> bridge \<Rightarrow> answer" where
  "h_autoscale cx rq st =
     (case match_autoscale (rqPath rq) of
        None \<Rightarrow> None
      | Some (a, version) \<Rightarrow>
          if rqMethod rq \<noteq> ''GET'' then None
          else with_decoded a st (\<lambda>app.
            case map_of (autoscaling_tab st) app of
              None \<Rightarrow> no_policy st
            | Some p \<Rightarrow>
                (let qu = find (\<lambda>x. bqName x = bpQueue p) (queues_tab st);
                     depth = (case qDepth (cxDb cx) of None \<Rightarrow> 0 | Some n \<Rightarrow> n);
                     d = desired_executors qu depth
                 in case version of
                      None \<Rightarrow> ok (BRecommendation True d (bpQueue p) depth) st
                    | Some v \<Rightarrow> with_decoded v st (\<lambda>ver.
                        if ver \<noteq> ''latest'' \<and> ver \<noteq> ''1.0.0''
                        then problem 404 ''Not Found'' ''application version was never registered'' st
                        else ok (BRecommendation False d (bpQueue p) depth) st))))"

end
