(* ===== verification/Bridge_Fetch.thy ===== *)
theory Bridge_Fetch
  imports Bridge
begin

text \<open>
  The rest of the playground's API (audit log, metrics, roles and members), the initial directory,
  the whole replacement of \<open>window.fetch\<close>, and what holds of every sequence of requests.
  Dictionaries hold their own entries: the names every object inherits (\<open>constructor\<close>,
  \<open>toString\<close> and the like) are not used as user or application names.
\<close>

section \<open>The initial directory\<close>

definition all_permissions :: "string list" where
  "all_permissions = [''application.read'', ''application.write'', ''websocket.connect'', ''metric.read'',
     ''organization.read'', ''organization.write'', ''token.read'', ''token.write'']"

definition init_apps :: "b_app list" where
  "init_apps = [\<lparr>baName = ''ecommerce-checkout'', baOrganization = ''default'', baStatus = ''AVAILABLE'',
     baRuntime = ''typescript'', baCreatedAt = ''2026-09-18T18:00:00Z''\<rparr>]"

definition init_executors :: "ctx \<Rightarrow> b_executor list" where
  "init_executors cx = [\<lparr>bxId = ''wasm-executor-1'', bxApp = ''ecommerce-checkout'', bxStatus = ''HEALTHY'',
     bxHostname = ''browser-wasm'', bxVersion = ''1.0.0'', bxLanguage = ''typescript'', bxUpdatedAt = cxNow cx\<rparr>]"

definition init_queues :: "b_queue list" where
  "init_queues =
     [\<lparr>bqName = ''orders-vip'', bqApp = ''ecommerce-checkout'', bqConcurrency = Some 20,
       bqWorkerConcurrency = Some 4, bqPartition = False\<rparr>,
      \<lparr>bqName = ''orders-standard'', bqApp = ''ecommerce-checkout'', bqConcurrency = Some 50,
       bqWorkerConcurrency = Some 5, bqPartition = False\<rparr>]"

definition init_schedules :: "b_schedule list" where
  "init_schedules =
     [\<lparr>bsName = ''nightly-invoices-cron'', bsApp = ''ecommerce-checkout'', bsCron = ''0 2 * * *'',
       bsWorkflow = ''ReconcileDailyInvoices'', bsStatus = ''ACTIVE'', bsLastRun = ''2026-11-06T02:00:00Z''\<rparr>,
      \<lparr>bsName = ''hourly-warehouse-sync'', bsApp = ''ecommerce-checkout'', bsCron = ''0 * * * *'',
       bsWorkflow = ''SyncWarehouseStock'', bsStatus = ''ACTIVE'', bsLastRun = ''2026-11-06T05:00:00Z''\<rparr>]"

definition init_alerts :: "b_alert list" where
  "init_alerts =
     [\<lparr>blId = ''rule-1'', blApp = ''ecommerce-checkout'', blRuleType = Some ''WorkflowFailure'', blMetric = None,
       blMinIntervalSecs = 60,
       blMetadata = Some (JObj [(''channel'', JStr ''slack''), (''severity'', JStr ''critical'')])\<rparr>,
      \<lparr>blId = ''rule-2'', blApp = ''ecommerce-checkout'', blRuleType = Some ''SlowQueue'', blMetric = None,
       blMinIntervalSecs = 120,
       blMetadata = Some (JObj [(''channel'', JStr ''pagerduty''), (''threshold_ms'', JNum (Fin 5000))])\<rparr>]"

definition init_roles :: "b_role list" where
  "init_roles =
     [\<lparr>brName = ''admin'', brGlobal = True, brPermissions = JArr (map JStr all_permissions)\<rparr>,
      \<lparr>brName = ''operator'', brGlobal = True, brPermissions = JArr (map JStr all_permissions)\<rparr>,
      \<lparr>brName = ''viewer'', brGlobal = True, brPermissions = JArr (map JStr
         [''application.read'', ''metric.read'', ''organization.read'', ''token.read''])\<rparr>,
      \<lparr>brName = ''deploy-operator'', brGlobal = False, brPermissions = JArr (map JStr
         [''application.read'', ''application.write'', ''websocket.connect''])\<rparr>]"

definition init_keys :: "b_key list" where
  "init_keys = [\<lparr>bkId = ''key-1'', bkTokenName = ''dev-local-key'', bkName = ''dev-local-key'', bkToken = None,
     bkCreatedAt = ''2026-09-18T18:00:00Z'', bkPermissions = JArr [JStr ''*''], bkAppNames = JArr [JStr ''*'']\<rparr>]"

definition init_audit :: "b_audit list" where
  "init_audit =
     [\<lparr>auId = ''audit-seed-1'', auEmitTime = ''2026-09-18T18:05:00Z'', auOperation = ''workflow.cancel'',
       auStatus = ''success'', auSubjectType = ''user'', auSubjectId = ''user_alice'', auSubjectDisplay = ''alice@example.com'',
       auTarget = Some (''workflow'', ''wf-ord-89214'')\<rparr>,
      \<lparr>auId = ''audit-seed-2'', auEmitTime = ''2026-09-18T18:06:00Z'', auOperation = ''token.create'',
       auStatus = ''success'', auSubjectType = ''api_key'', auSubjectId = ''key-1'', auSubjectDisplay = ''dev-local-key'',
       auTarget = Some (''token'', ''dev-local-key'')\<rparr>]"

definition dqs :: "string \<Rightarrow> string" where
  "dqs s = dq @ s @ dq"

definition init_workflows :: "b_workflow list" where
  "init_workflows = [\<lparr>bwId = ''wf-ord-89214'', bwName = ''ProcessCheckoutWorkflow'', bwStatus = ''SUCCESS'',
     bwCreatedAt = Some ''2026-09-18T18:00:00Z'', bwUpdatedAt = Some ''2026-09-18T18:00:01.242Z'',
     bwCompletedAt = Some ''2026-09-18T18:00:01.242Z'', bwDurationMs = 1242, bwUser = ''alice@example.com'',
     bwAppVersion = [], bwOutput = Some ([CHR ''{''] @ dqs ''orderId'' @ '':'' @ dqs ''wf-ord-89214'' @ '','' @
       dqs ''status'' @ '':'' @ dqs ''FULFILLED'' @ [CHR ''}'']), bwError = None\<rparr>]"

definition init_step :: "int \<Rightarrow> string \<Rightarrow> string \<Rightarrow> string option \<Rightarrow> int \<Rightarrow> string \<Rightarrow> string \<Rightarrow> b_step" where
  "init_step i nm out child dur started completed =
     \<lparr>stFunctionId = i, stName = nm, stStatus = ''SUCCESS'', stOutput = Some out, stError = None,
      stChild = child, stDurationMs = dur, stStartedAt = started, stCompletedAt = Some completed\<rparr>"

definition init_steps :: "b_step list" where
  "init_steps =
     [init_step 1 ''validateCart'' (''{'' @ dqs ''valid'' @ '':true,'' @ dqs ''items'' @ '':2}'') None 310
        ''2026-09-18T18:00:00.000Z'' ''2026-09-18T18:00:00.310Z'',
      init_step 2 ''reserveInventory''
        (''{'' @ dqs ''reserved'' @ '':true,'' @ dqs ''sku'' @ '':'' @ dqs ''DBOS-RELAY-KEY'' @ ''}'') None 245
        ''2026-09-18T18:00:00.310Z'' ''2026-09-18T18:00:00.555Z'',
      init_step 3 ''authorizePaymentGateway'' (''{'' @ dqs ''authId'' @ '':'' @ dqs ''wf-child-auth-01'' @ ''}'')
        (Some ''wf-child-auth-01'') 412 ''2026-09-18T18:00:00.555Z'' ''2026-09-18T18:00:00.967Z'',
      init_step 4 ''scheduleShipping''
        (''{'' @ dqs ''carrier'' @ '':'' @ dqs ''FastTrack'' @ '','' @ dqs ''tracking'' @ '':'' @ dqs ''FT-99124'' @ ''}'')
        None 180 ''2026-09-18T18:00:00.967Z'' ''2026-09-18T18:00:01.147Z'',
      init_step 5 ''sendReceiptNotification'' (''{'' @ dqs ''delivered'' @ '':true}'') None 95
        ''2026-09-18T18:00:01.147Z'' ''2026-09-18T18:00:01.242Z'']"

definition init_bridge :: "ctx \<Rightarrow> bridge" where
  "init_bridge cx =
     \<lparr>apps_tab = init_apps, executors_tab = init_executors cx, queues_tab = init_queues,
      schedules_tab = init_schedules, alerts_tab = init_alerts, roles_tab = init_roles,
      members_tab = [(''alice@example.com'', ''admin''), (''bob@example.com'', ''viewer'')],
      keys_tab = init_keys, configs_tab = [(''ecommerce-checkout'', default_config)], autoscaling_tab = [],
      audit_tab = init_audit, workflows_tab = init_workflows, steps_tab = init_steps, auditSeq = 100\<rparr>"

section \<open>The audit log and the metrics\<close>

text \<open>\<open>searchParams.get(name) || dflt\<close> and \<open>getAll(name)\<close>\<close>

definition param :: "request \<Rightarrow> string \<Rightarrow> string \<Rightarrow> string" where
  "param rq nm dflt = str_or (opt_str (map_of (rqQuery rq) nm)) dflt"

definition params :: "request \<Rightarrow> string \<Rightarrow> string list" where
  "params rq nm = map snd (filter (\<lambda>p. fst p = nm) (rqQuery rq))"

definition audit_match :: "request \<Rightarrow> b_audit \<Rightarrow> bool" where
  "audit_match rq e \<longleftrightarrow>
     (let op = param rq ''operation'' []; subject = param rq ''subject'' []; targ = param rq ''target'' [];
          startTime = param rq ''startTime'' []; endTime = param rq ''endTime'' []
      in (op = [] \<or> auOperation e = op) \<and>
         (subject = [] \<or> auSubjectDisplay e = subject \<or> auSubjectId e = subject) \<and>
         (targ = [] \<or> (case auTarget e of None \<Rightarrow> False | Some t \<Rightarrow> snd t = targ)) \<and>
         (startTime = [] \<or> startTime \<le> auEmitTime e) \<and> (endTime = [] \<or> auEmitTime e < endTime))"

definition h_audit :: "ctx \<Rightarrow> request \<Rightarrow> bridge \<Rightarrow> answer" where
  "h_audit cx rq st =
     (if match_path (org_path [Fixed ''audit-logs'']) (rqPath rq) = None then None
      else case (parse_int (param rq ''limit'' ''100''), parse_int (param rq ''offset'' ''0'')) of
        (Some limitRaw, Some offset) \<Rightarrow>
          if limitRaw < 0 \<or> offset < 0 \<or> limitRaw > 1000
          then problem 400 ''Bad Request'' ''invalid limit or offset'' st
          else let limit = (if limitRaw = 0 then 100 else limitRaw);
                   rows = cxSort cx (filter (audit_match rq) (audit_tab st))
               in ok (BAudit (js_slice (nat offset) (nat (offset + limit)) rows)) st
      | _ \<Rightarrow> problem 400 ''Bad Request'' ''invalid limit or offset'' st)"

text \<open>The canned exposition: for each metric its help line, its type line and one sample.\<close>

definition metric_block :: "string \<Rightarrow> string \<Rightarrow> (string \<times> string) list \<Rightarrow> string \<Rightarrow> string list" where
  "metric_block nm help labels val =
     [''# HELP dbos_conductor_v1_'' @ nm @ '' '' @ help, ''# TYPE dbos_conductor_v1_'' @ nm @ '' gauge'',
      ''dbos_conductor_v1_'' @ nm @ ''{'' @ join '','' (map (\<lambda>(k, v). k @ ''='' @ dqs v) labels) @ ''} '' @ val]"

definition demo_app :: "string \<times> string" where
  "demo_app = (''application'', ''ecommerce-checkout'')"

definition demo_labels :: "(string \<times> string) list" where
  "demo_labels = [demo_app, (''workflow_name'', ''ProcessCheckoutWorkflow''), (''queue_name'', ''orders-standard'')]"

definition exposition :: "string list" where
  "exposition =
     metric_block ''executor_count'' ''Number of registered executors.''
       [demo_app, (''application_version'', ''1.0.0''), (''status'', ''HEALTHY'')] ''1'' @
     metric_block ''workflow_success_rate'' ''Workflows that completed successfully per second.'' demo_labels ''0.42'' @
     metric_block ''workflow_failed_rate'' ''Workflows that terminated with an error per second.'' demo_labels ''0.01'' @
     metric_block ''workflow_started_rate'' ''Workflows created per second.'' demo_labels ''0.45'' @
     metric_block ''workflow_enqueued_count'' ''Workflows currently in the ENQUEUED state.'' demo_labels ''3'' @
     metric_block ''workflow_pending_count'' ''Workflows currently in the PENDING state.''
       [demo_app, (''workflow_name'', ''ProcessCheckoutWorkflow'')] ''2'' @
     metric_block ''workflow_max_queue_wait_seconds''
       ''Maximum queue wait across workflows completed successfully in the window.'' demo_labels ''1.8'' @
     metric_block ''workflow_max_total_latency_seconds''
       ''Maximum end-to-end latency across workflows completed successfully in the window.'' demo_labels ''4.2'' @
     metric_block ''step_success_rate'' ''Workflow steps that completed successfully per second.''
       [demo_app, (''step_name'', ''validate_customer'')] ''0.4'' @
     metric_block ''step_failed_rate'' ''Workflow steps that terminated with an error per second.''
       [demo_app, (''step_name'', ''charge_card'')] ''0.005''"

text \<open>\<open>((?:[^"\\]|\\.)*)"\<close> after the opening quote, and the first place where a label starts.\<close>

fun quoted :: "string \<Rightarrow> string option" where
  "quoted [] = None"
| "quoted (c # s) =
     (if c = CHR 0x22 then Some []
      else if c = CHR 0x5C then
        (case s of [] \<Rightarrow> None | d # t \<Rightarrow> if d = CHR 0x0A then None else map_option (\<lambda>r. c # d # r) (quoted t))
      else map_option (Cons c) (quoted s))"

fun label_at :: "string \<Rightarrow> string \<Rightarrow> string option" where
  "label_at key [] = None"
| "label_at key (c # s) =
     (case (if starts_with (c # s) (key @ ''='' @ [CHR 0x22]) then quoted (drop (length key + 2) (c # s)) else None) of
        Some v \<Rightarrow> Some v
      | None \<Rightarrow> label_at key s)"

definition labelValue :: "string \<Rightarrow> string \<Rightarrow> string" where
  "labelValue line key = opt_str (label_at key line)"

definition is_comment :: "string \<Rightarrow> bool" where
  "is_comment line = starts_with line ''#''"

definition metric_of :: "string \<Rightarrow> string" where
  "metric_of line = hd (split_on (CHR ''{'') line)"

definition keep_sample :: "request \<Rightarrow> string \<Rightarrow> bool" where
  "keep_sample rq line \<longleftrightarrow>
     (let only = params rq ''metrics''; appFilter = param rq ''applications'' []; wfFilter = param rq ''workflow_names'' []
      in \<not> is_comment line \<and> (only = [] \<or> metric_of line \<in> set only) \<and>
         (appFilter = [] \<or> labelValue line ''application'' = appFilter) \<and>
         (wfFilter = [] \<or> labelValue line ''workflow_name'' = wfFilter \<or> labelValue line ''step_name'' = wfFilter))"

definition comment_metric :: "string \<Rightarrow> string" where
  "comment_metric line = (case drop 2 (split_on (CHR '' '') line) of [] \<Rightarrow> [] | m # _ \<Rightarrow> m)"

definition scrape_lines :: "request \<Rightarrow> string list" where
  "scrape_lines rq =
     (let samples = filter (keep_sample rq) exposition; live = map metric_of samples
      in filter (\<lambda>line. if is_comment line then comment_metric line \<in> set live else line \<in> set samples) exposition)"

definition h_metrics :: "ctx \<Rightarrow> request \<Rightarrow> bridge \<Rightarrow> answer" where
  "h_metrics cx rq st =
     (if rqPath rq = ''/v1/metrics'' then ok (BMetrics (join [CHR 0x0A] (scrape_lines rq) @ [CHR 0x0A])) st else None)"

section \<open>Roles and members\<close>

definition h_permissions :: "ctx \<Rightarrow> request \<Rightarrow> bridge \<Rightarrow> answer" where
  "h_permissions cx rq st =
     (if match_path (org_path [Fixed ''permissions'']) (rqPath rq) \<noteq> None then ok (BPermissions all_permissions) st else None)"

definition role_post :: "ctx \<Rightarrow> jsval \<Rightarrow> bridge \<Rightarrow> answer" where
  "role_post cx bd st =
     (case jor (field bd ''name'') (JStr []) of
        JStr raw \<Rightarrow>
          (let name = trim raw
           in if length name < 3 \<or> length name > 30
              then problem 400 ''Bad Request'' ''Role name must be between 3 and 30 characters'' st
              else if name \<in> set (map brName (roles_tab st)) then problem 400 ''Bad Request'' ''Role already exists'' st
              else let role = \<lparr>brName = name, brGlobal = False, brPermissions = jor (field bd ''permissions'') (JArr [])\<rparr>
                   in Some (pushAudit cx ''role.create'' (''role'', name) (st\<lparr>roles_tab := roles_tab st @ [role]\<rparr>),
                            Response 201 (BRole name (brPermissions role))))
      | _ \<Rightarrow> Some (st, Rejected))"

definition h_roles :: "ctx \<Rightarrow> request \<Rightarrow> bridge \<Rightarrow> answer" where
  "h_roles cx rq st =
     (if match_path (org_path [Fixed ''roles'']) (rqPath rq) = None then None
      else if rqMethod rq = ''POST'' then role_post cx (rqBody rq) st
      else ok (BRoles (roles_tab st)) st)"

definition h_del_role :: "ctx \<Rightarrow> request \<Rightarrow> bridge \<Rightarrow> answer" where
  "h_del_role cx rq st =
     (case match_path (org_path [Fixed ''roles'', Capture]) (rqPath rq) of
        Some [r] \<Rightarrow>
          if rqMethod rq \<noteq> ''DELETE'' then None
          else with_decoded r st (\<lambda>name.
            case find (\<lambda>x. brName x = name) (roles_tab st) of
              None \<Rightarrow> problem 500 ''Internal Server Error'' ''role not found'' st
            | Some role \<Rightarrow>
                if brGlobal role then problem 403 ''Forbidden'' ''Cannot delete built-in global role'' st
                else Some (pushAudit cx ''role.delete'' (''role'', name)
                             (st\<lparr>roles_tab := filter (\<lambda>x. brName x \<noteq> name) (roles_tab st)\<rparr>), Response 204 BNone))
      | _ \<Rightarrow> None)"

definition role_of :: "bridge \<Rightarrow> string \<Rightarrow> b_role" where
  "role_of st nm =
     (case find (\<lambda>x. brName x = nm) (roles_tab st) of
        Some role \<Rightarrow> role
      | None \<Rightarrow> \<lparr>brName = nm, brGlobal = False, brPermissions = JArr []\<rparr>)"

definition h_members :: "ctx \<Rightarrow> request \<Rightarrow> bridge \<Rightarrow> answer" where
  "h_members cx rq st =
     (if match_path (org_path [Fixed ''members'']) (rqPath rq) = None then None
      else ok (BMembers (str_or (split_on (CHR ''/'') (rqPath rq) ! 3) ''default'')
                 (map (\<lambda>(u, r). (u, role_of st r)) (members_tab st))) st)"

text \<open>\<open>!state.members[username]\<close>\<close>

definition is_member :: "bridge \<Rightarrow> string \<Rightarrow> bool" where
  "is_member st u \<longleftrightarrow> opt_str (map_of (members_tab st) u) \<noteq> []"

definition h_grant :: "ctx \<Rightarrow> request \<Rightarrow> bridge \<Rightarrow> answer" where
  "h_grant cx rq st =
     (case match_path (org_path [Fixed ''members'', Capture, Fixed ''roles'', Capture]) (rqPath rq) of
        Some [u, r] \<Rightarrow>
          if rqMethod rq \<noteq> ''PUT'' then None
          else with_decoded u st (\<lambda>username. with_decoded r st (\<lambda>roleName.
            if \<not> is_member st username then problem 404 ''Not Found'' ''user not found'' st
            else if roleName \<notin> set (map brName (roles_tab st))
            then problem 500 ''Internal Server Error'' ''role not found'' st
            else Some (pushAudit cx ''role.grant'' (''user'', username)
                         (st\<lparr>members_tab := AList.update username roleName (members_tab st)\<rparr>), Response 204 BNone)))
      | _ \<Rightarrow> None)"

definition h_del_member :: "ctx \<Rightarrow> request \<Rightarrow> bridge \<Rightarrow> answer" where
  "h_del_member cx rq st =
     (case match_path (org_path [Fixed ''members'', Capture]) (rqPath rq) of
        Some [u] \<Rightarrow>
          if rqMethod rq \<noteq> ''DELETE'' then None
          else with_decoded u st (\<lambda>username.
            if \<not> is_member st username then problem 404 ''Not Found'' ''user not found'' st
            else Some (pushAudit cx ''user.remove'' (''user'', username)
                         (st\<lparr>members_tab := AList.delete username (members_tab st)\<rparr>), Response 200 (BRemoved username)))
      | _ \<Rightarrow> None)"

section \<open>The replaced fetch\<close>

definition handlers :: "(ctx \<Rightarrow> request \<Rightarrow> bridge \<Rightarrow> answer) list" where
  "handlers = [h_static, h_users, h_apps, h_executors, h_workflows, h_steps, h_events, h_notifications, h_workflow,
     h_queues, h_schedules, h_alerts, h_keys, h_token, h_workflow_op, h_app, h_policy, h_autoscale, h_audit, h_metrics,
     h_permissions, h_roles, h_del_role, h_members, h_grant, h_del_member]"

fun first_answer :: "(ctx \<Rightarrow> request \<Rightarrow> bridge \<Rightarrow> answer) list \<Rightarrow> ctx \<Rightarrow> request \<Rightarrow> bridge \<Rightarrow> bridge \<times> response" where
  "first_answer [] cx rq st = (st, Native)"
| "first_answer (h # hs) cx rq st = (case h cx rq st of Some r \<Rightarrow> r | None \<Rightarrow> first_answer hs cx rq st)"

definition bridge_fetch :: "ctx \<Rightarrow> request \<Rightarrow> bridge \<Rightarrow> bridge \<times> response" where
  "bridge_fetch cx rq st = first_answer handlers cx rq st"

fun bridge_run :: "(ctx \<times> request) list \<Rightarrow> bridge \<Rightarrow> bridge" where
  "bridge_run [] st = st"
| "bridge_run ((cx, rq) # rs) st = bridge_run rs (fst (bridge_fetch cx rq st))"

section \<open>What a request may change\<close>

definition eligible :: "b_queue \<Rightarrow> bool" where
  "eligible x \<longleftrightarrow> \<not> bqPartition x \<and> (case bqWorkerConcurrency x of None \<Rightarrow> False | Some w \<Rightarrow> w > 0)"

definition config_typed :: "(string, jsval) jsmap \<Rightarrow> bool" where
  "config_typed cfg \<longleftrightarrow> map fst cfg = map fst patch_rules \<and> list_all (\<lambda>(k, ok). case map_of cfg k of None \<Rightarrow> False | Some v \<Rightarrow> ok v) patch_rules"

text \<open>
  The abstract directory: the changes its clients can observe. Each leaves the tables of applications,
  executors, queues, schedules, alerts and workflows alone, and each except the lazy creation of a
  configuration is one audit entry.
\<close>

inductive bridge_change :: "ctx \<Rightarrow> bridge \<Rightarrow> bridge \<Rightarrow> bool" for cx where
  same: "bridge_change cx st st"
| workflow: "bridge_change cx st (pushAudit cx op t st)"
| tokens: "bridge_change cx st (pushAudit cx op t (st\<lparr>keys_tab := ks\<rparr>))"
| configure: "map_of (configs_tab st) app = None \<Longrightarrow>
    bridge_change cx st (st\<lparr>configs_tab := AList.update app default_config (configs_tab st)\<rparr>)"
| patch: "config_typed (config_of st app) \<longrightarrow> config_typed cfg \<Longrightarrow>
    bridge_change cx st (pushAudit cx op t (st\<lparr>configs_tab := AList.update app cfg (configs_tab st)\<rparr>))"
| policy: "x \<in> set (queues_tab st) \<Longrightarrow> eligible x \<Longrightarrow> bpQueue p = bqName x \<Longrightarrow>
    bridge_change cx st (pushAudit cx op t (st\<lparr>autoscaling_tab := AList.update app p (autoscaling_tab st)\<rparr>))"
| no_policy: "bridge_change cx st (pushAudit cx op t (st\<lparr>autoscaling_tab := AList.delete app (autoscaling_tab st)\<rparr>))"
| role_create: "brName r \<notin> set (map brName (roles_tab st)) \<Longrightarrow> \<not> brGlobal r \<Longrightarrow>
    bridge_change cx st (pushAudit cx op t (st\<lparr>roles_tab := roles_tab st @ [r]\<rparr>))"
| role_delete: "\<forall>r\<in>set (roles_tab st). brName r = nm \<longrightarrow> \<not> brGlobal r \<Longrightarrow>
    bridge_change cx st (pushAudit cx op t (st\<lparr>roles_tab := filter (\<lambda>x. brName x \<noteq> nm) (roles_tab st)\<rparr>))"
| grant: "map_of (members_tab st) u \<noteq> None \<Longrightarrow> r \<in> set (map brName (roles_tab st)) \<Longrightarrow>
    bridge_change cx st (pushAudit cx op t (st\<lparr>members_tab := AList.update u r (members_tab st)\<rparr>))"
| remove: "bridge_change cx st (pushAudit cx op t (st\<lparr>members_tab := AList.delete u (members_tab st)\<rparr>))"

subsection \<open>The invariant of the directory\<close>

definition audit_ids_ok :: "bridge \<Rightarrow> bool" where
  "audit_ids_ok st \<longleftrightarrow> distinct (map auId (audit_tab st)) \<and>
     (\<forall>e\<in>set (audit_tab st). auId e \<in> set (map auId init_audit) \<or> (\<exists>n < auditSeq st. auId e = ''audit-play-'' @ show_nat n))"

definition bridge_inv :: "bridge \<Rightarrow> bool" where
  "bridge_inv st \<longleftrightarrow>
     distinct (map brName (roles_tab st)) \<and> filter brGlobal (roles_tab st) = filter brGlobal init_roles \<and>
     audit_ids_ok st \<and> queues_tab st = init_queues \<and>
     (\<forall>p\<in>ran (map_of (autoscaling_tab st)). \<exists>x\<in>set init_queues. eligible x \<and> bpQueue p = bqName x) \<and>
     (\<forall>cfg\<in>ran (map_of (configs_tab st)). config_typed cfg) \<and> distinct (map fst (members_tab st))"

lemma audit_id_fresh: "audit_ids_ok st \<Longrightarrow> ''audit-play-'' @ show_nat (auditSeq st) \<notin> auId ` set (audit_tab st)"
proof
  assume "audit_ids_ok st" "''audit-play-'' @ show_nat (auditSeq st) \<in> auId ` set (audit_tab st)"
  then obtain e where e: "e \<in> set (audit_tab st)" "auId e = ''audit-play-'' @ show_nat (auditSeq st)" by auto
  then show False using \<open>audit_ids_ok st\<close> unfolding audit_ids_ok_def
    by (auto simp: init_audit_def dest!: bspec)
qed

lemma audit_ids_push [simp]: "audit_ids_ok st \<Longrightarrow> audit_ids_ok (pushAudit cx op t st)"
  using audit_id_fresh [of st] by (fastforce simp: audit_ids_ok_def pushAudit_def less_Suc_eq)

lemma audit_ids_cong: "audit_tab s = audit_tab t \<Longrightarrow> auditSeq s = auditSeq t \<Longrightarrow> audit_ids_ok s = audit_ids_ok t"
  by (simp add: audit_ids_ok_def)

lemma pushAudit_tabs [simp]:
  "roles_tab (pushAudit cx op t st) = roles_tab st" "queues_tab (pushAudit cx op t st) = queues_tab st"
  "autoscaling_tab (pushAudit cx op t st) = autoscaling_tab st" "configs_tab (pushAudit cx op t st) = configs_tab st"
  "members_tab (pushAudit cx op t st) = members_tab st" "keys_tab (pushAudit cx op t st) = keys_tab st"
  "apps_tab (pushAudit cx op t st) = apps_tab st" "workflows_tab (pushAudit cx op t st) = workflows_tab st"
  by (simp_all add: pushAudit_def)

lemma bridge_inv_push [simp, intro]: "bridge_inv st \<Longrightarrow> bridge_inv (pushAudit cx op t st)"
  by (simp add: bridge_inv_def)

lemma default_config_typed [simp]: "config_typed default_config"
  by (simp add: config_typed_def default_config_def patch_rules_def is_bool_def is_num_def)

lemma ran_update: "ran (map_of (AList.update k v m)) \<subseteq> insert v (ran (map_of m))"
  by (auto simp: update_conv' ran_def split: if_splits)

lemma ran_delete: "ran (map_of (AList.delete k m)) \<subseteq> ran (map_of m)"
  by (auto simp: delete_conv' ran_def split: if_splits)

lemma filter_global_delete:
  "\<forall>r\<in>set rs. brName r = nm \<longrightarrow> \<not> brGlobal r \<Longrightarrow> filter brGlobal (filter (\<lambda>x. brName x \<noteq> nm) rs) = filter brGlobal rs"
  by (induction rs) auto

lemma distinct_map_filter_name: "distinct (map brName rs) \<Longrightarrow> distinct (map brName (filter P rs))"
  by (rule distinct_map_filter)

lemma bridge_inv_keys [simp]: "bridge_inv (st\<lparr>keys_tab := ks\<rparr>) = bridge_inv st"
  by (simp add: bridge_inv_def audit_ids_ok_def)

lemma bridge_inv_config: "bridge_inv st \<Longrightarrow> config_typed cfg \<Longrightarrow>
    bridge_inv (st\<lparr>configs_tab := AList.update app cfg (configs_tab st)\<rparr>)"
  using ran_update [of app cfg "configs_tab st"] by (auto simp: bridge_inv_def audit_ids_ok_def)

lemma bridge_inv_typed:
  "bridge_inv st \<Longrightarrow> config_typed (config_of st app)"
  by (auto simp: bridge_inv_def config_of_def ran_def split: option.split)

lemma bridge_inv_policy: "bridge_inv st \<Longrightarrow> x \<in> set (queues_tab st) \<Longrightarrow> eligible x \<Longrightarrow> bpQueue p = bqName x \<Longrightarrow>
    bridge_inv (st\<lparr>autoscaling_tab := AList.update app p (autoscaling_tab st)\<rparr>)"
  using ran_update [of app p "autoscaling_tab st"] unfolding bridge_inv_def audit_ids_ok_def
  by simp blast

lemma bridge_inv_no_policy: "bridge_inv st \<Longrightarrow> bridge_inv (st\<lparr>autoscaling_tab := AList.delete app (autoscaling_tab st)\<rparr>)"
  using ran_delete [of app "autoscaling_tab st"] by (auto simp: bridge_inv_def audit_ids_ok_def)

lemma bridge_inv_roles: "bridge_inv st \<Longrightarrow> distinct (map brName rs) \<Longrightarrow> filter brGlobal rs = filter brGlobal (roles_tab st) \<Longrightarrow>
    bridge_inv (st\<lparr>roles_tab := rs\<rparr>)"
  by (simp add: bridge_inv_def audit_ids_ok_def)

lemma bridge_inv_members: "bridge_inv st \<Longrightarrow> distinct (map fst ms) \<Longrightarrow> bridge_inv (st\<lparr>members_tab := ms\<rparr>)"
  by (simp add: bridge_inv_def audit_ids_ok_def)

lemma change_inv: "bridge_change cx st st' \<Longrightarrow> bridge_inv st \<Longrightarrow> bridge_inv st'"
proof (induction rule: bridge_change.induct)
  case (patch st app cfg op t)
  then show ?case using bridge_inv_typed [of st app] by (auto intro: bridge_inv_config)
next
  case (role_create r st op t)
  then have "distinct (map brName (roles_tab st))" by (simp add: bridge_inv_def)
  with role_create show ?case by (auto intro!: bridge_inv_push bridge_inv_roles)
next
  case (role_delete st nm op t)
  then have "distinct (map brName (roles_tab st))" by (simp add: bridge_inv_def)
  with role_delete filter_global_delete [of "roles_tab st" nm] show ?case
    by (intro bridge_inv_push bridge_inv_roles distinct_map_filter_name) auto
next
  case (grant st u r op t)
  then have "distinct (map fst (members_tab st))" by (simp add: bridge_inv_def)
  with grant show ?case by (auto intro!: bridge_inv_push bridge_inv_members distinct_update)
next
  case (remove st op t u)
  then have "distinct (map fst (members_tab st))" by (simp add: bridge_inv_def)
  with remove show ?case by (auto intro!: bridge_inv_push bridge_inv_members distinct_delete)
qed (auto intro: bridge_inv_config bridge_inv_policy bridge_inv_no_policy)

subsection \<open>Every handler is such a change\<close>

definition refines :: "(ctx \<Rightarrow> request \<Rightarrow> bridge \<Rightarrow> answer) \<Rightarrow> bool" where
  "refines h \<longleftrightarrow> (\<forall>cx rq st st' r. bridge_inv st \<longrightarrow> h cx rq st = Some (st', r) \<longrightarrow> (\<exists>mid. (mid = st \<or> (\<exists>app. mid = ensure_config app st)) \<and> bridge_change cx mid st'))"

lemma refinesD: "refines h \<Longrightarrow> bridge_inv st \<Longrightarrow> h cx rq st = Some (st', r) \<Longrightarrow>
    \<exists>mid. (mid = st \<or> (\<exists>app. mid = ensure_config app st)) \<and> bridge_change cx mid st'"
  unfolding refines_def by blast

text \<open>A handler that only reads.\<close>

definition pure_handler :: "(ctx \<Rightarrow> request \<Rightarrow> bridge \<Rightarrow> answer) \<Rightarrow> bool" where
  "pure_handler h \<longleftrightarrow> (\<forall>cx rq st st' r. h cx rq st = Some (st', r) \<longrightarrow> st' = st)"

lemma refines_pure: "pure_handler h \<Longrightarrow> refines h"
  unfolding pure_handler_def refines_def by (metis bridge_change.same)

lemma refines_one: "(\<And>cx rq st st' r. bridge_inv st \<Longrightarrow> h cx rq st = Some (st', r) \<Longrightarrow> bridge_change cx st st') \<Longrightarrow> refines h"
  unfolding refines_def by (metis bridge_change.same)

lemma with_decoded_Some:
  "with_decoded s st f = Some (st', r) \<Longrightarrow> (st' = st \<and> r = Rejected) \<or> (\<exists>t. decode_uri_component s = Some t \<and> f t = Some (st', r))"
  by (auto simp: with_decoded_def split: option.splits)

lemma ok_Some [simp]: "ok b st = Some (st', r) \<longleftrightarrow> st' = st \<and> r = Response 200 b"
  by (auto simp: ok_def)

lemma problem_Some [simp]: "problem c t d st = Some (st', r) \<longleftrightarrow> st' = st \<and> r = Response c (BProblem t c d)"
  by (auto simp: problem_def)

lemmas handler_splits = if_splits option.splits list.splits prod.splits

lemma pure_reads:
  "pure_handler h_static" "pure_handler h_users" "pure_handler h_apps" "pure_handler h_executors" "pure_handler h_workflows"
  "pure_handler h_steps" "pure_handler h_events" "pure_handler h_notifications" "pure_handler h_workflow" "pure_handler h_queues"
  "pure_handler h_schedules"
  unfolding pure_handler_def
  by (auto simp: h_static_def h_users_def h_apps_def h_executors_def h_workflows_def
        h_steps_def h_events_def h_notifications_def h_workflow_def h_queues_def h_schedules_def
        dest!: with_decoded_Some split: handler_splits)

lemma pure_reads2:
  "pure_handler h_alerts" "pure_handler h_keys" "pure_handler h_autoscale" "pure_handler h_audit" "pure_handler h_metrics"
  "pure_handler h_permissions" "pure_handler h_members"
  unfolding pure_handler_def
  by (auto simp: h_alerts_def h_keys_def h_autoscale_def h_audit_def h_metrics_def h_permissions_def
        h_members_def no_policy_def Let_def dest!: with_decoded_Some split: handler_splits)

lemmas refines_reads = pure_reads [THEN refines_pure] pure_reads2 [THEN refines_pure]

lemma refines_workflow_op: "refines h_workflow_op"
  by (rule refines_one) (auto simp: h_workflow_op_def intro: bridge_change.intros
        dest!: with_decoded_Some split: handler_splits)

lemma refines_token: "refines h_token"
  by (rule refines_one) (auto simp: h_token_def Let_def intro: bridge_change.intros
        dest!: with_decoded_Some split: handler_splits)

lemma refines_roles: "refines h_roles"
  by (rule refines_one) (auto simp: h_roles_def role_post_def Let_def intro: bridge_change.intros
        split: if_splits jsval.splits)

lemma refines_grant: "refines h_grant"
  by (rule refines_one) (auto simp: h_grant_def is_member_def opt_str_def intro!: bridge_change.same bridge_change.grant
        dest!: with_decoded_Some split: handler_splits)

lemma refines_del_member: "refines h_del_member"
  by (rule refines_one) (auto simp: h_del_member_def intro: bridge_change.intros
        dest!: with_decoded_Some split: handler_splits)

lemma eligible_queue:
  "find P qs = Some x \<Longrightarrow> \<not> bqPartition x \<Longrightarrow> (case bqWorkerConcurrency x of None \<Rightarrow> False | Some w \<Rightarrow> w > 0) \<Longrightarrow>
     x \<in> set qs \<and> eligible x"
  by (auto simp: eligible_def find_Some_iff)

lemma policy_put_change: "policy_put cx bd app st = Some (st', r) \<Longrightarrow> bridge_change cx st st'"
  by (auto simp: policy_put_def Let_def intro!: bridge_change.same bridge_change.policy dest: eligible_queue
        split: if_splits option.splits)

lemma delete_absent: "map_of m k = None \<Longrightarrow> AList.delete k m = m"
  by (simp add: delete_id map_of_eq_None_iff)

lemma refines_policy: "refines h_policy"
  by (rule refines_one) (auto simp: h_policy_def no_policy_def Let_def delete_absent
        intro!: bridge_change.same bridge_change.no_policy
        dest!: with_decoded_Some dest: policy_put_change split: handler_splits)

lemma named_role_unique:
  "find (\<lambda>x. brName x = nm) rs = Some role \<Longrightarrow> distinct (map brName rs) \<Longrightarrow> r \<in> set rs \<Longrightarrow> brName r = nm \<Longrightarrow> r = role"
  by (induction rs) (force split: if_splits)+

lemma refines_del_role: "refines h_del_role"
proof (rule refines_one)
  fix cx rq st st' r
  assume "bridge_inv st" and h: "h_del_role cx rq st = Some (st', r)"
  then have "distinct (map brName (roles_tab st))" by (simp add: bridge_inv_def)
  with h show "bridge_change cx st st'"
    by (auto simp: h_del_role_def intro!: bridge_change.same bridge_change.role_delete
          dest!: with_decoded_Some split: handler_splits dest: named_role_unique)
qed

subsection \<open>Configuration updates\<close>

definition has_typed :: "(string, jsval) jsmap \<Rightarrow> string \<times> (jsval \<Rightarrow> bool) \<Rightarrow> bool" where
  "has_typed cfg rule \<longleftrightarrow> (case map_of cfg (fst rule) of None \<Rightarrow> False | Some v \<Rightarrow> snd rule v)"

lemma config_typed_iff:
  "config_typed cfg \<longleftrightarrow> map fst cfg = map fst patch_rules \<and> (\<forall>rule\<in>set patch_rules. has_typed cfg rule)"
  by (simp add: config_typed_def list_all_iff has_typed_def case_prod_beta)

lemma patch_rules_unique: "rule \<in> set patch_rules \<Longrightarrow> rule' \<in> set patch_rules \<Longrightarrow> fst rule = fst rule' \<Longrightarrow> rule = rule'"
proof -
  have "distinct (map fst patch_rules)" by (simp add: patch_rules_def)
  then have "inj_on fst (set patch_rules)" by (simp only: distinct_map)
  then show "rule \<in> set patch_rules \<Longrightarrow> rule' \<in> set patch_rules \<Longrightarrow> fst rule = fst rule' \<Longrightarrow> rule = rule'"
    by (simp only: inj_on_eq_iff)
qed

lemma config_typed_update:
  assumes cfg: "config_typed cfg" and rule: "rule \<in> set patch_rules" and v: "snd rule v"
  shows "config_typed (AList.update (fst rule) v cfg)"
  unfolding config_typed_iff
proof (intro conjI ballI)
  have "fst rule \<in> set (map fst cfg)" using cfg rule by (simp add: config_typed_iff)
  then show "map fst (AList.update (fst rule) v cfg) = map fst patch_rules"
    using cfg rule by (simp add: config_typed_iff update_keys)
next
  fix rule' assume "rule' \<in> set patch_rules"
  then show "has_typed (AList.update (fst rule) v cfg) rule'"
    using cfg v patch_rules_unique [OF rule, of rule'] by (cases "fst rule' = fst rule") (auto simp: config_typed_iff has_typed_def update_conv')
qed

lemma apply_rule_hit: "snd rule (field bd (fst rule)) \<Longrightarrow>
    apply_rule bd rule acc = (AList.update (fst rule) (field bd (fst rule)) (fst acc), True)"
  by (simp add: apply_rule_def)

lemma apply_rule_miss: "\<not> snd rule (field bd (fst rule)) \<Longrightarrow> apply_rule bd rule acc = acc"
  by (simp add: apply_rule_def)

lemma apply_rule_typed: "rule \<in> set patch_rules \<Longrightarrow> config_typed (fst acc) \<Longrightarrow> config_typed (fst (apply_rule bd rule acc))"
  by (simp add: apply_rule_def config_typed_update)

lemma fold_apply_typed:
  "set rules \<subseteq> set patch_rules \<Longrightarrow> config_typed (fst acc) \<Longrightarrow> config_typed (fst (fold (apply_rule bd) rules acc))"
  by (induction rules arbitrary: acc) (auto simp: apply_rule_typed)

lemma patch_config_typed: "config_typed cfg \<Longrightarrow> config_typed (fst (patch_config bd cfg))"
  by (simp add: patch_config_def fold_apply_typed)

lemma fold_apply_flag: "snd acc \<Longrightarrow> snd (fold (apply_rule bd) rules acc)"
proof (induction rules arbitrary: acc)
  case (Cons rule rules)
  then show ?case by (cases "snd rule (field bd (fst rule))") (simp_all add: apply_rule_hit apply_rule_miss)
qed simp

lemma fold_apply_unchanged: "\<not> snd (fold (apply_rule bd) rules acc) \<Longrightarrow> fst (fold (apply_rule bd) rules acc) = fst acc"
proof (induction rules arbitrary: acc)
  case (Cons rule rules)
  show ?case
  proof (cases "snd rule (field bd (fst rule))")
    case True
    then show ?thesis using Cons.prems fold_apply_flag [of "apply_rule bd rule acc" bd rules] by (simp add: apply_rule_hit)
  next
    case False
    then show ?thesis using Cons by (simp add: apply_rule_miss)
  qed
qed simp

lemma patch_config_unchanged: "\<not> snd (patch_config bd cfg) \<Longrightarrow> fst (patch_config bd cfg) = cfg"
  using fold_apply_unchanged [of bd patch_rules "(cfg, False)"] by (simp add: patch_config_def)

lemma update_same: "map_of m k = Some v \<Longrightarrow> AList.update k v m = m"
  by (induction m) (auto split: if_splits)

lemma ensure_config_of [simp]: "map_of (configs_tab (ensure_config app st)) app = Some (config_of st app)"
  "config_of (ensure_config app st) app' = config_of st app'"
  by (auto simp: ensure_config_def config_of_def update_conv' split: option.split)

lemma ensure_config_change: "bridge_change cx st (ensure_config app st)"
  by (auto simp: ensure_config_def intro: bridge_change.same bridge_change.configure)

lemma app_patch_change:
  assumes "map_of (configs_tab st) app \<noteq> None"
  shows "bridge_change cx st (app_patch cx bd app st)"
proof (cases "snd (patch_config bd (config_of st app))")
  case True
  then show ?thesis
    by (auto simp: app_patch_def Let_def case_prod_beta intro: bridge_change.patch patch_config_typed)
next
  case False
  have "AList.update app (config_of st app) (configs_tab st) = configs_tab st"
    using assms by (auto simp: config_of_def update_same)
  with False patch_config_unchanged [OF False] show ?thesis
    by (simp add: app_patch_def Let_def case_prod_beta bridge_change.same)
qed

lemma refines_app: "refines h_app"
  unfolding refines_def
proof (intro allI impI)
  fix cx rq st st' r
  assume "h_app cx rq st = Some (st', r)"
  then consider "st' = st" | app where "st' = ensure_config app st" | app where "st' = app_patch cx (rqBody rq) app (ensure_config app st)"
    by (auto simp: h_app_def Let_def dest!: with_decoded_Some split: handler_splits)
  then show "\<exists>mid. (mid = st \<or> (\<exists>app. mid = ensure_config app st)) \<and> bridge_change cx mid st'"
    by cases (metis bridge_change.same, metis bridge_change.same,
        metis app_patch_change ensure_config_of(1) option.distinct(1))
qed

subsection \<open>Runs\<close>

lemma refines_handlers: "h \<in> set handlers \<Longrightarrow> refines h"
  by (auto simp: handlers_def refines_reads refines_workflow_op refines_token refines_roles refines_grant
      refines_del_member refines_policy refines_del_role refines_app)

lemma first_answer_change:
  "\<forall>h\<in>set hs. refines h \<Longrightarrow> bridge_inv st \<Longrightarrow>
     \<exists>mid. (mid = st \<or> (\<exists>app. mid = ensure_config app st)) \<and> bridge_change cx mid (fst (first_answer hs cx rq st))"
proof (induction hs)
  case Nil
  then show ?case by (auto intro: bridge_change.same)
next
  case (Cons h hs)
  show ?case
  proof (cases "h cx rq st")
    case None
    with Cons show ?thesis by simp
  next
    case (Some p)
    moreover have "refines h" using Cons.prems by simp
    ultimately show ?thesis using Cons.prems(2) refinesD [of h st cx rq "fst p" "snd p"] by simp
  qed
qed

lemma fetch_change: "bridge_inv st \<Longrightarrow>
    \<exists>mid. (mid = st \<or> (\<exists>app. mid = ensure_config app st)) \<and> bridge_change cx mid (fst (bridge_fetch cx rq st))"
  using first_answer_change [of handlers] by (simp add: bridge_fetch_def refines_handlers)

lemma fetch_inv: "bridge_inv st \<Longrightarrow> bridge_inv (fst (bridge_fetch cx rq st))"
  using fetch_change [of st cx rq] change_inv ensure_config_change by metis

interpretation served: event_machine "\<lambda>(cx, rq) st. fst (bridge_fetch cx rq st)" bridge_inv
  by unfold_locales (auto simp: fetch_inv)

lemma bridge_run_fold: "bridge_run rs st = fold (\<lambda>(cx, rq) st. fst (bridge_fetch cx rq st)) rs st"
  by (induction rs st rule: bridge_run.induct) simp_all

lemma run_inv: "bridge_inv st \<Longrightarrow> bridge_inv (bridge_run rs st)"
  unfolding bridge_run_fold by (rule served.run_keeps)

lemma init_inv: "bridge_inv (init_bridge cx)"
  by (auto simp: bridge_inv_def init_bridge_def init_roles_def audit_ids_ok_def init_audit_def)

section \<open>Properties of the directory\<close>

text \<open>
  C4: whatever requests the playground console sends, the directory stays well formed: role names are
  unique, the built-in roles are exactly the initial ones with their permissions, every audit entry
  has its own id, every autoscaling policy names a queue that may drive autoscaling (not partitioned,
  with a worker concurrency), and every stored application configuration has its five settings with
  values of their types.
\<close>

theorem bridge_directory_invariant:
  "let st = bridge_run rs (init_bridge cx)
   in distinct (map brName (roles_tab st)) \<and> filter brGlobal (roles_tab st) = filter brGlobal init_roles \<and>
      distinct (map auId (audit_tab st)) \<and> distinct (map fst (members_tab st)) \<and>
      bpQueue ` ran (map_of (autoscaling_tab st)) \<subseteq> bqName ` {x \<in> set (queues_tab st). eligible x} \<and>
      ran (map_of (configs_tab st)) \<subseteq> {cfg. config_typed cfg}"
proof -
  have "bridge_inv (bridge_run rs (init_bridge cx))" by (intro run_inv init_inv)
  then show ?thesis unfolding Let_def bridge_inv_def audit_ids_ok_def by auto
qed

definition directory_view ::
    "bridge \<Rightarrow> b_role list \<times> (string, string) jsmap \<times> b_key list \<times> (string, b_policy) jsmap \<times> (string \<Rightarrow> (string, jsval) jsmap)" where
  "directory_view st = (roles_tab st, members_tab st, keys_tab st, autoscaling_tab st, config_of st)"

lemma change_audited:
  "bridge_change cx st st' \<Longrightarrow>
     audit_tab st' = audit_tab st \<and> directory_view st' = directory_view st \<or>
     (\<exists>op t. audit_tab st' = audit_tab (pushAudit cx op t st))"
  by (induction rule: bridge_change.induct)
    (auto simp: directory_view_def pushAudit_def config_of_def update_conv' fun_eq_iff split: option.split)

lemma ensure_config_view: "directory_view (ensure_config app st) = directory_view st"
  "audit_tab (ensure_config app st) = audit_tab st" "auditSeq (ensure_config app st) = auditSeq st"
proof -
  have "config_of (ensure_config app st) = config_of st" by (rule ext) simp
  then show "directory_view (ensure_config app st) = directory_view st" by (simp add: directory_view_def) (simp add: ensure_config_def)
qed (simp_all add: ensure_config_def)

text \<open>
  C5: no change goes unrecorded, and nothing is recorded twice. On every reachable directory a
  request either leaves the audit log and the visible directory (roles, members, tokens, policies,
  effective configurations) as they were, or adds exactly one entry, with the current time and a new id,
  in front of the log.
\<close>

theorem fetch_audited:
  "let st = bridge_run rs (init_bridge cx0); st' = fst (bridge_fetch cx rq st)
   in audit_tab st' = audit_tab st \<and> directory_view st' = directory_view st \<or>
      (\<exists>op t. audit_tab st' = audit_tab (pushAudit cx op t st))"
proof -
  let ?st = "bridge_run rs (init_bridge cx0)"
  have "bridge_inv ?st" by (intro run_inv init_inv)
  from fetch_change [OF this, of cx rq] obtain mid where mid: "mid = ?st \<or> (\<exists>app. mid = ensure_config app ?st)"
    and ch: "bridge_change cx mid (fst (bridge_fetch cx rq ?st))" by blast
  from mid have "audit_tab (pushAudit cx op t mid) = audit_tab (pushAudit cx op t ?st)" for op t
    by (auto simp: pushAudit_def ensure_config_view)
  then show ?thesis using change_audited [OF ch] mid unfolding Let_def by (auto simp: ensure_config_view)
qed

subsection \<open>Autoscaling\<close>

lemma ceil_div_lower:
  assumes "0 < b"
  shows "a \<le> ceil_div a b * b"
proof -
  have "- a = (- a) div b * b + (- a) mod b" "0 \<le> (- a) mod b" using assms by simp_all
  then have "a \<le> - ((- a) div b * b)" by linarith
  then show ?thesis by (simp add: ceil_div_def)
qed

lemma ceil_div_upper:
  assumes "0 < b"
  shows "(ceil_div a b - 1) * b < a"
proof -
  have "- a = (- a) div b * b + (- a) mod b" "(- a) mod b < b" using assms by simp_all
  then have "- ((- a) div b * b) - b < a" by linarith
  then show ?thesis by (simp add: ceil_div_def left_diff_distrib)
qed

lemma ceil_div_pos: "0 < b \<Longrightarrow> 0 < a \<Longrightarrow> 1 \<le> ceil_div a b"
  using ceil_div_lower [of b a] by (metis linorder_not_le mult_nonpos_nonneg order_less_imp_le order_trans zle_diff1_eq zle_iff_zadd int_one_le_iff_zero_less not_less)

lemma desired_executors_covers:
  assumes "bqWorkerConcurrency qu = Some w" "0 < w"
  shows "1 \<le> desired_executors (Some qu) depth"
    and "bqConcurrency qu = Some c \<Longrightarrow> 0 < c \<Longrightarrow>
      min (int depth) c \<le> desired_executors (Some qu) depth * w \<and> (desired_executors (Some qu) depth - 1) * w < c"
    and "1 < desired_executors (Some qu) depth \<Longrightarrow> (desired_executors (Some qu) depth - 1) * w < int depth"
proof -
  let ?d = "max 1 (ceil_div (int depth) w)"
  have d: "desired_executors (Some qu) depth = (case bqConcurrency qu of None \<Rightarrow> ?d | Some c \<Rightarrow> if 0 < c then min ?d (ceil_div c w) else ?d)"
    using assms by (simp add: desired_executors_def split: option.split)
  show "1 \<le> desired_executors (Some qu) depth" using ceil_div_pos assms(2) by (simp add: d split: option.split)
  have cover: "int depth \<le> ?d * w"
    using ceil_div_lower [OF assms(2), of "int depth"] assms(2) by (meson max.cobounded2 mult_right_mono order.trans order_less_imp_le)
  show "min (int depth) c \<le> desired_executors (Some qu) depth * w \<and> (desired_executors (Some qu) depth - 1) * w < c"
    if c: "bqConcurrency qu = Some c" "0 < c"
  proof
    show "min (int depth) c \<le> desired_executors (Some qu) depth * w"
      using cover ceil_div_lower [OF assms(2), of c] c by (simp add: d min_def)
    have "(desired_executors (Some qu) depth - 1) * w \<le> (ceil_div c w - 1) * w"
      using c assms(2) by (intro mult_right_mono) (auto simp: d)
    then show "(desired_executors (Some qu) depth - 1) * w < c" using ceil_div_upper [OF assms(2), of c] by linarith
  qed
  show "(desired_executors (Some qu) depth - 1) * w < int depth" if "1 < desired_executors (Some qu) depth"
  proof -
    have "desired_executors (Some qu) depth \<le> ceil_div (int depth) w" using that by (auto simp: d split: option.splits if_splits)
    then have "(desired_executors (Some qu) depth - 1) * w \<le> (ceil_div (int depth) w - 1) * w"
      using assms(2) by (intro mult_right_mono) auto
    then show ?thesis using ceil_div_upper [OF assms(2), of "int depth"] by linarith
  qed
qed

text \<open>
  the recommended number of executors. With a policy on an eligible queue it is at least one, it
  offers enough worker slots for the smaller of the queue's depth and its concurrency limit, and it
  is minimal: one executor fewer would not cover the depth.
\<close>

theorem desired_executors_bounds:
  assumes "bqWorkerConcurrency qu = Some w" "0 < w" "bqConcurrency qu = Some c" "0 < c"
  shows "let n = desired_executors (Some qu) depth
         in 1 \<le> n \<and> min (int depth) c \<le> n * w \<and> (n - 1) * w < c \<and> (n = 1 \<or> (n - 1) * w < int depth)"
  using desired_executors_covers(1) [OF assms(1,2), of depth] desired_executors_covers(2) [OF assms(1-4), of depth]
    desired_executors_covers(3) [OF assms(1,2), of depth] unfolding Let_def by linarith

theorem desired_executors_bounds_witness:
  "let n = desired_executors (Some (hd init_queues)) 9
   in n = 3 \<and> 1 \<le> n \<and> min (int 9) 20 \<le> n * 4 \<and> (n - 1) * 4 < 20 \<and> (n = 1 \<or> (n - 1) * 4 < int 9)"
  using desired_executors_bounds [of "hd init_queues" 4 20 9]
  by (simp add: desired_executors_def init_queues_def ceil_div_def)

subsection \<open>Paths the client sends\<close>

lemma match_mk_path: "segs \<noteq> [] \<Longrightarrow> \<forall>s\<in>set segs. CHR ''/'' \<notin> set s \<Longrightarrow> match_path ps (mk_path segs) = match_segs ps segs"
  by (simp add: match_path_def split_mk_path)

text \<open>The requests of \<open>client.ts\<close> the directory answers: every name goes through \<open>encodeURIComponent\<close>.\<close>

definition org_request :: "string \<Rightarrow> string \<Rightarrow> string list \<Rightarrow> jsval \<Rightarrow> request" where
  "org_request meth org segs bd =
     \<lparr>rqMethod = meth, rqPath = mk_path ([''v2'', ''orgs'', encode_uri_component org] @ segs), rqQuery = [], rqBody = bd\<rparr>"

definition req_createToken :: "string \<Rightarrow> string \<Rightarrow> jsval \<Rightarrow> request" where
  "req_createToken org name bd = org_request ''POST'' org [''tokens'', encode_uri_component name] bd"

definition req_revokeToken :: "string \<Rightarrow> string \<Rightarrow> request" where
  "req_revokeToken org name = org_request ''DELETE'' org [''tokens'', encode_uri_component name] JUndef"

definition req_createRole :: "string \<Rightarrow> jsval \<Rightarrow> request" where
  "req_createRole org bd = org_request ''POST'' org [''roles''] bd"

definition req_deleteRole :: "string \<Rightarrow> string \<Rightarrow> request" where
  "req_deleteRole org roleName = org_request ''DELETE'' org [''roles'', encode_uri_component roleName] JUndef"

definition req_grantRole :: "string \<Rightarrow> string \<Rightarrow> string \<Rightarrow> request" where
  "req_grantRole org username roleName =
     org_request ''PUT'' org [''members'', encode_uri_component username, ''roles'', encode_uri_component roleName] JUndef"

definition req_removeMember :: "string \<Rightarrow> string \<Rightarrow> request" where
  "req_removeMember org username = org_request ''DELETE'' org [''members'', encode_uri_component username] JUndef"

definition req_workflow :: "string \<Rightarrow> string \<Rightarrow> string \<Rightarrow> request" where
  "req_workflow org app wid =
     org_request ''GET'' org [''apps'', encode_uri_component app, ''workflows'', encode_uri_component wid] JUndef"

definition req_createAlertingRule :: "string \<Rightarrow> string \<Rightarrow> jsval \<Rightarrow> request" where
  "req_createAlertingRule org app bd = org_request ''POST'' org [''apps'', encode_uri_component app, ''alerting-rules''] bd"

text \<open>The path is neither taken for an asset nor for a workflow operation.\<close>

definition plain :: "request \<Rightarrow> bool" where
  "plain rq \<longleftrightarrow> \<not> is_static (rqPath rq) \<and> \<not> str_includes (rqPath rq) ''/cancel'' \<and>
     \<not> str_includes (rqPath rq) ''/resume'' \<and> \<not> str_includes (rqPath rq) ''/fork''"

lemmas req_defs = req_createToken_def req_revokeToken_def req_createRole_def req_deleteRole_def req_grantRole_def
  req_removeMember_def req_workflow_def req_createAlertingRule_def org_request_def

lemma not_users [simp]: "mk_path (''v2'' # ''orgs'' # segs) \<noteq> ''/v2/users/me''" "mk_path (''v2'' # ''orgs'' # segs) \<noteq> ''/v2/users''"
  "mk_path (''v2'' # ''orgs'' # segs) \<noteq> ''/v1/metrics''"
  by (simp_all add: mk_path_def)

lemma with_decoded_enc [simp]: "with_decoded (encode_uri_component s) st f = f s"
  by (simp add: with_decoded_def decode_encode)

lemmas path_defs = org_path_def app_path_def wf_path_def

lemma early_plain: "plain rq \<Longrightarrow> h_static cx rq st = None" "plain rq \<Longrightarrow> h_workflow_op cx rq st = None"
  by (simp_all add: plain_def h_static_def h_workflow_op_def)

lemmas earlier_defs = h_users_def h_apps_def h_executors_def h_workflows_def h_steps_def h_events_def
  h_notifications_def h_workflow_def h_queues_def h_schedules_def

lemmas later_defs = h_app_def h_policy_def h_autoscale_def match_autoscale_def h_audit_def h_metrics_def h_permissions_def

lemmas route_simps = bridge_fetch_def handlers_def req_defs path_defs match_mk_path split_mk_path

lemma fetch_deleteRole:
  assumes "org \<noteq> []" "nm \<noteq> []" "plain (req_deleteRole org nm)"
  shows "bridge_fetch cx (req_deleteRole org nm) st =
    (case find (\<lambda>x. brName x = nm) (roles_tab st) of
       None \<Rightarrow> (st, Response 500 (BProblem ''Internal Server Error'' 500 ''role not found''))
     | Some role \<Rightarrow>
         if brGlobal role then (st, Response 403 (BProblem ''Forbidden'' 403 ''Cannot delete built-in global role''))
         else (pushAudit cx ''role.delete'' (''role'', nm)
                 (st\<lparr>roles_tab := filter (\<lambda>x. brName x \<noteq> nm) (roles_tab st)\<rparr>), Response 204 BNone))"
  using assms early_plain [OF assms(3)]
  by (auto simp: earlier_defs h_alerts_def h_keys_def h_token_def later_defs h_roles_def h_del_role_def problem_def route_simps
      split: option.split)

lemma fetch_createRole:
  assumes "org \<noteq> []" "plain (req_createRole org bd)"
  shows "bridge_fetch cx (req_createRole org bd) st = the (role_post cx bd st)"
proof -
  have "role_post cx bd st \<noteq> None" by (auto simp: role_post_def Let_def problem_def split: jsval.split)
  then show ?thesis using assms early_plain [OF assms(2)]
    by (auto simp: earlier_defs h_alerts_def h_keys_def h_token_def later_defs h_roles_def route_simps)
qed

lemma fetch_grantRole:
  assumes "org \<noteq> []" "u \<noteq> []" "r \<noteq> []" "plain (req_grantRole org u r)"
  shows "bridge_fetch cx (req_grantRole org u r) st =
    (if \<not> is_member st u then (st, Response 404 (BProblem ''Not Found'' 404 ''user not found''))
     else if r \<notin> set (map brName (roles_tab st))
     then (st, Response 500 (BProblem ''Internal Server Error'' 500 ''role not found''))
     else (pushAudit cx ''role.grant'' (''user'', u) (st\<lparr>members_tab := AList.update u r (members_tab st)\<rparr>), Response 204 BNone))"
  using assms early_plain [OF assms(4)]
  by (auto simp: earlier_defs h_alerts_def h_keys_def h_token_def later_defs h_roles_def h_del_role_def h_members_def h_grant_def
      problem_def route_simps)

lemma fetch_removeMember:
  assumes "org \<noteq> []" "u \<noteq> []" "plain (req_removeMember org u)"
  shows "bridge_fetch cx (req_removeMember org u) st =
    (if \<not> is_member st u then (st, Response 404 (BProblem ''Not Found'' 404 ''user not found''))
     else (pushAudit cx ''user.remove'' (''user'', u) (st\<lparr>members_tab := AList.delete u (members_tab st)\<rparr>),
           Response 200 (BRemoved u)))"
  using assms early_plain [OF assms(3)]
  by (auto simp: earlier_defs h_alerts_def h_keys_def h_token_def later_defs h_roles_def h_del_role_def h_members_def h_grant_def
      h_del_member_def problem_def route_simps)

lemma fetch_revokeToken:
  assumes "org \<noteq> []" "nm \<noteq> []" "plain (req_revokeToken org nm)"
  shows "bridge_fetch cx (req_revokeToken org nm) st =
    (pushAudit cx ''token.revoke'' (''token'', nm)
       (st\<lparr>keys_tab := filter (\<lambda>k. bkTokenName k \<noteq> nm \<and> bkName k \<noteq> nm) (keys_tab st)\<rparr>), Response 204 BNone)"
  using assms early_plain(1) [OF assms(3)]
  by (auto simp: earlier_defs h_alerts_def h_keys_def h_token_def route_simps)

definition new_key :: "ctx \<Rightarrow> string \<Rightarrow> jsval \<Rightarrow> b_key" where
  "new_key cx nm bd =
     \<lparr>bkId = ''key-'' @ show_nat (cxStamp cx), bkTokenName = nm, bkName = nm, bkToken = Some (''dbos_sec_'' @ cxRandom cx),
      bkCreatedAt = cxNow cx, bkPermissions = jor (field bd ''permissions'') (JArr [JStr ''*'']),
      bkAppNames = jor (field bd ''appNames'') (JArr [JStr ''*''])\<rparr>"

lemma fetch_createToken:
  assumes "org \<noteq> []" "nm \<noteq> []" "plain (req_createToken org nm bd)"
  shows "bridge_fetch cx (req_createToken org nm bd) st =
    (pushAudit cx ''token.create'' (''token'', nm) (st\<lparr>keys_tab := keys_tab st @ [new_key cx nm bd]\<rparr>),
     Response 201 (BKey (new_key cx nm bd)))"
  using assms early_plain(1) [OF assms(3)]
  by (auto simp: earlier_defs h_alerts_def h_keys_def h_token_def route_simps new_key_def Let_def)

subsection \<open>Life cycles through the client's requests\<close>

lemma filter_fresh: "nm \<notin> brName ` set rs \<Longrightarrow> filter (\<lambda>x. brName x \<noteq> nm) rs = rs"
  by (induction rs) auto

lemma find_appended: "nm \<notin> brName ` set rs \<Longrightarrow> find (\<lambda>x. brName x = nm) (rs @ [z]) = (if brName z = nm then Some z else None)"
  by (induction rs) auto


definition ctx0 :: ctx where
  "ctx0 = \<lparr>cxDb = \<lparr>qApps = None, qApp = (\<lambda>_. None), qExecutors = (\<lambda>_. None), qWorkflows = (\<lambda>_. None), qWorkflow = (\<lambda>_. None),
       qSteps = (\<lambda>_. None), qEvents = (\<lambda>_. None), qDepth = Some 9\<rparr>,
     cxNow = ''2026-11-06T06:00:00Z'', cxStamp = 7, cxRandom = ''x9'', cxAddMs = (\<lambda>t _. t), cxIso = (\<lambda>t. t), cxSort = (\<lambda>es. es)\<rparr>"


lemma find_global:
  "distinct (map brName rs) \<Longrightarrow> r \<in> set rs \<Longrightarrow> find (\<lambda>x. brName x = brName r) rs = Some r"
proof -
  assume d: "distinct (map brName rs)" and r: "r \<in> set rs"
  obtain role where f: "find (\<lambda>x. brName x = brName r) rs = Some role"
    using r by (cases "find (\<lambda>x. brName x = brName r) rs") (auto simp: find_None_iff)
  with named_role_unique [OF f d r] show ?thesis by simp
qed

text \<open>
  the built-in roles cannot be deleted. After any sequence of requests, deleting \<open>admin\<close>,
  \<open>operator\<close> or \<open>viewer\<close> answers 403 and changes nothing.
\<close>

theorem builtin_role_protected:
  assumes "r \<in> set init_roles" "brGlobal r" "org \<noteq> []" "plain (req_deleteRole org (brName r))"
  shows "let st = bridge_run rs (init_bridge cx0)
         in bridge_fetch cx (req_deleteRole org (brName r)) st =
              (st, Response 403 (BProblem ''Forbidden'' 403 ''Cannot delete built-in global role''))"
proof -
  let ?st = "bridge_run rs (init_bridge cx0)"
  have "bridge_inv ?st" by (intro run_inv init_inv)
  then have d: "distinct (map brName (roles_tab ?st))" and g: "set (filter brGlobal (roles_tab ?st)) = set (filter brGlobal init_roles)"
    by (simp_all only: bridge_inv_def)
  have "r \<in> set (roles_tab ?st)" using g assms(1,2) by auto
  moreover have "brName r \<noteq> []" using assms(1) by (auto simp: init_roles_def)
  ultimately show ?thesis using find_global [OF d] fetch_deleteRole [OF assms(3) _ assms(4)] assms(2) by simp
qed

theorem builtin_role_protected_witness:
  "let st = bridge_run [(ctx0, req_deleteRole ''default'' ''deploy-operator'')] (init_bridge ctx0)
   in bridge_fetch ctx0 (req_deleteRole ''default'' (brName (hd init_roles))) st =
        (st, Response 403 (BProblem ''Forbidden'' 403 ''Cannot delete built-in global role''))"
proof (rule builtin_role_protected)
  show "plain (req_deleteRole ''default'' (brName (hd init_roles)))" by code_simp
qed (simp_all add: init_roles_def)

text \<open>
  the role of a member. Granting an existing role to a member makes the members list show it
  and no other entry changes; an unknown user is answered 404, an unknown role 500, and in both cases
  nothing changes.
\<close>

theorem grant_role_spec:
  assumes "org \<noteq> []" "u \<noteq> []" "r \<noteq> []" "plain (req_grantRole org u r)"
  shows "let (st', resp) = bridge_fetch cx (req_grantRole org u r) st
         in if \<not> is_member st u then st' = st \<and> resp = Response 404 (BProblem ''Not Found'' 404 ''user not found'')
            else if r \<notin> brName ` set (roles_tab st)
            then st' = st \<and> resp = Response 500 (BProblem ''Internal Server Error'' 500 ''role not found'')
            else resp = Response 204 BNone \<and> map_of (members_tab st') = (map_of (members_tab st))(u \<mapsto> r) \<and>
                 roles_tab st' = roles_tab st \<and> keys_tab st' = keys_tab st \<and> brName (role_of st' r) = r"
proof -
  have "brName (role_of s r) = r" for s
    by (auto simp: role_of_def find_Some_iff split: option.split)
  then show ?thesis using fetch_grantRole [OF assms] by (simp add: update_conv')
qed

theorem grant_role_spec_witness:
  "let (st', resp) = bridge_fetch ctx0 (req_grantRole ''default'' ''bob@example.com'' ''operator'') (init_bridge ctx0)
   in if \<not> is_member (init_bridge ctx0) ''bob@example.com''
      then st' = init_bridge ctx0 \<and> resp = Response 404 (BProblem ''Not Found'' 404 ''user not found'')
      else if ''operator'' \<notin> brName ` set (roles_tab (init_bridge ctx0))
      then st' = init_bridge ctx0 \<and> resp = Response 500 (BProblem ''Internal Server Error'' 500 ''role not found'')
      else resp = Response 204 BNone \<and>
           map_of (members_tab st') = (map_of (members_tab (init_bridge ctx0)))(''bob@example.com'' \<mapsto> ''operator'') \<and>
           roles_tab st' = roles_tab (init_bridge ctx0) \<and> keys_tab st' = keys_tab (init_bridge ctx0) \<and>
           brName (role_of st' ''operator'') = ''operator''"
proof (rule grant_role_spec)
  show "plain (req_grantRole ''default'' ''bob@example.com'' ''operator'')" by code_simp
qed simp_all

text \<open>
  the life of an API key. A created key is listed under its name, with all permissions and
  applications when none were chosen; revoking it leaves no key of that name and keeps every other key.
\<close>

theorem token_lifecycle:
  assumes "org \<noteq> []" "nm \<noteq> []" "plain (req_createToken org nm bd)" "plain (req_revokeToken org nm)"
  shows "let (st1, r1) = bridge_fetch cx (req_createToken org nm bd) st;
             (st2, r2) = bridge_fetch cx' (req_revokeToken org nm) st1
         in r1 = Response 201 (BKey (new_key cx nm bd)) \<and> new_key cx nm bd \<in> set (keys_tab st1) \<and>
            r2 = Response 204 BNone \<and> nm \<notin> bkName ` set (keys_tab st2) \<and> nm \<notin> bkTokenName ` set (keys_tab st2) \<and>
            filter (\<lambda>k. bkName k \<noteq> nm \<and> bkTokenName k \<noteq> nm) (keys_tab st) = keys_tab st2"
  using fetch_createToken [OF assms(1-3), of cx st] fetch_revokeToken [OF assms(1,2,4), of cx']
  by (auto simp: new_key_def conj_commute)

theorem token_lifecycle_witness:
  "let (st1, r1) = bridge_fetch ctx0 (req_createToken ''default'' ''ci'' JUndef) (init_bridge ctx0);
       (st2, r2) = bridge_fetch ctx0 (req_revokeToken ''default'' ''ci'') st1
   in r1 = Response 201 (BKey (new_key ctx0 ''ci'' JUndef)) \<and> new_key ctx0 ''ci'' JUndef \<in> set (keys_tab st1) \<and>
      r2 = Response 204 BNone \<and> ''ci'' \<notin> bkName ` set (keys_tab st2) \<and> ''ci'' \<notin> bkTokenName ` set (keys_tab st2) \<and>
      filter (\<lambda>k. bkName k \<noteq> ''ci'' \<and> bkTokenName k \<noteq> ''ci'') (keys_tab (init_bridge ctx0)) = keys_tab st2"
proof (rule token_lifecycle)
  show "plain (req_createToken ''default'' ''ci'' JUndef)" by code_simp
  show "plain (req_revokeToken ''default'' ''ci'')" by code_simp
qed simp_all

subsection \<open>The audit pages\<close>

lemma show_nat_head: "takeWhile is_digit (show_nat n) = show_nat n" "\<not> is_space (hd (show_nat n))"
    "hd (show_nat n) \<noteq> CHR ''-''" "hd (show_nat n) \<noteq> CHR ''+''"
proof -
  show "takeWhile is_digit (show_nat n) = show_nat n" using show_nat_digits by (simp add: takeWhile_eq_all_conv)
  have "is_digit (hd (show_nat n))" using show_nat_digits [of "hd (show_nat n)" n] by simp
  then show "\<not> is_space (hd (show_nat n))" "hd (show_nat n) \<noteq> CHR ''-''" "hd (show_nat n) \<noteq> CHR ''+''"
    by (auto simp: is_digit_def is_space_def Let_def)
qed

lemma parse_show_nat [simp]: "parse_int (show_nat n) = Some (int n)"
proof -
  have "dropWhile is_space (show_nat n) = show_nat n"
    using show_nat_head(2) [of n] by (cases "show_nat n") simp_all
  then show ?thesis using show_nat_head(2-4) [of n] by (simp add: parse_int_def Let_def show_nat_head(1))
qed

text \<open>The request of \<open>listAuditLogs\<close>: a filter that is not set is not sent.\<close>

definition audit_query :: "string \<Rightarrow> string \<Rightarrow> string \<Rightarrow> string \<Rightarrow> string \<Rightarrow> (string \<times> string) list" where
  "audit_query startTime endTime operation subject targ =
     filter (\<lambda>p. snd p \<noteq> []) [(''startTime'', startTime), (''endTime'', endTime), (''operation'', operation),
       (''subject'', subject), (''target'', targ)]"

definition req_listAuditLogs :: "string \<Rightarrow> (string \<times> string) list \<Rightarrow> nat \<Rightarrow> nat \<Rightarrow> request" where
  "req_listAuditLogs org flt n k =
     (org_request ''GET'' org [''audit-logs''] JUndef)\<lparr>rqQuery := flt @ [(''limit'', show_nat n), (''offset'', show_nat k)]\<rparr>"

definition audit_page :: "ctx \<Rightarrow> bridge \<Rightarrow> request \<Rightarrow> b_audit list" where
  "audit_page cx st rq = (case snd (bridge_fetch cx rq st) of Response _ (BAudit es) \<Rightarrow> es | _ \<Rightarrow> [])"

lemma audit_match_limits: "audit_match (req_listAuditLogs org flt n k) = audit_match (req_listAuditLogs org flt n' k')"
proof (rule ext)
  fix e
  have "param (req_listAuditLogs org flt n k) nm d = param (req_listAuditLogs org flt n' k') nm d"
    if "nm \<noteq> ''limit''" "nm \<noteq> ''offset''" for nm d
    using that by (auto simp: param_def req_listAuditLogs_def map_add_def split: option.split)
  then show "audit_match (req_listAuditLogs org flt n k) e = audit_match (req_listAuditLogs org flt n' k') e"
    by (simp add: audit_match_def)
qed

lemma audit_params:
  assumes "map_of flt ''limit'' = None" "map_of flt ''offset'' = None"
  shows "param (req_listAuditLogs org flt n k) ''limit'' d = show_nat n"
    and "param (req_listAuditLogs org flt n k) ''offset'' d = show_nat k"
  using assms by (simp_all add: param_def req_listAuditLogs_def map_add_def str_or_def)

lemma audit_page_eq:
  assumes "org \<noteq> []" "0 < n" "n \<le> 1000" "map_of flt ''limit'' = None" "map_of flt ''offset'' = None"
    and pl: "plain (org_request ''GET'' org [''audit-logs''] JUndef)"
  shows "audit_page cx st (req_listAuditLogs org flt n k) =
    take n (drop k (cxSort cx (filter (audit_match (req_listAuditLogs org flt 1 0)) (audit_tab st))))"
proof -
  let ?rq = "req_listAuditLogs org flt n k"
  have h: "h_audit cx ?rq st =
      ok (BAudit (js_slice k (k + n) (cxSort cx (filter (audit_match (req_listAuditLogs org flt 1 0)) (audit_tab st))))) st"
    using assms(1-3) unfolding h_audit_def audit_params [OF assms(4,5)] audit_match_limits [of org flt n k 1 0]
    by (simp add: req_listAuditLogs_def org_request_def path_defs match_mk_path nat_add_distrib)
  have path: "rqPath ?rq = rqPath (org_request ''GET'' org [''audit-logs''] JUndef)" by (simp add: req_listAuditLogs_def)
  then have "plain ?rq" using pl by (simp add: plain_def)
  from early_plain [OF this] have "bridge_fetch cx ?rq st = the (h_audit cx ?rq st)"
    using assms(1) path h unfolding ok_def
    by (simp add: earlier_defs h_alerts_def h_keys_def h_token_def h_app_def h_policy_def h_autoscale_def match_autoscale_def route_simps)
  then show ?thesis using h by (simp add: audit_page_def ok_def js_slice_def)
qed

lemma concat_pages: "concat (map (\<lambda>i. take n (drop (i * n) xs)) [0..<m]) = take (m * n) xs"
proof (induction m)
  case (Suc m)
  have "take (m * n) xs @ take n (drop (m * n) xs) = take (m * n + n) xs" by (rule take_add [symmetric])
  with Suc show ?case by (simp add: add.commute)
qed simp

lemma take_permuted:
  assumes "mset ys = mset xs"
  shows "set (take k ys) \<subseteq> set xs \<and> (length xs \<le> k \<longrightarrow> mset (take k ys) = mset xs)"
  using mset_eq_setD [OF assms] mset_eq_length [OF assms] assms by (auto dest: in_set_takeD)



subsection \<open>Requests the bridge misroutes\<close>

lemma hijacked:
  assumes path: "rqPath rq = mk_path [''v2'', ''orgs'', o', ''roles'', x]"
    and sp: "split_on (CHR ''/'') (mk_path [''v2'', ''orgs'', o', ''roles'', x]) = [[], ''v2'', ''orgs'', o', ''roles'', x]"
    and "o' \<noteq> []" "\<not> is_static (rqPath rq)" "str_includes (mk_path [''v2'', ''orgs'', o', ''roles'', x]) ''/fork''"
    and "workflow_op (mk_path [''v2'', ''orgs'', o', ''roles'', x]) = None"
  shows "bridge_fetch cx rq st = (st, Response 404 (BProblem ''Not Found'' 404 ''unknown workflow operation''))"
  using assms(3-) unfolding bridge_fetch_def handlers_def
  by (simp add: h_static_def earlier_defs h_alerts_def h_keys_def h_token_def h_workflow_op_def path match_path_def sp path_defs problem_def)

text \<open>
  the test for workflow operations is on the whole path, not on its end. Deleting a role whose
  name begins with \<open>fork\<close> (and, by the same test, \<open>cancel\<close> or \<open>resume\<close>) is taken for an operation on a
  workflow: it is answered 404 and the role stays, although the role was created without complaint.
\<close>

theorem fork_role_undeletable:
  assumes "org \<noteq> []" "rest \<noteq> []" "\<not> is_static (rqPath (req_deleteRole org (''fork'' @ rest)))"
  shows "bridge_fetch cx (req_deleteRole org (''fork'' @ rest)) st =
           (st, Response 404 (BProblem ''Not Found'' 404 ''unknown workflow operation''))"
proof -
  let ?e = "encode_uri_component rest"
  have enc: "encode_uri_component (''fork'' @ rest) = ''fork'' @ ?e"
    by (simp add: encode_uri_component_def encode_char_def uri_unreserved_def is_alpha_def)
  have e: "?e \<noteq> []" using assms(2) by simp
  have path: "rqPath (req_deleteRole org (''fork'' @ rest)) = mk_path [''v2'', ''orgs'', encode_uri_component org, ''roles'', ''fork'' @ ?e]"
    by (simp only: req_deleteRole_def org_request_def enc) simp
  have "mk_path [''v2'', ''orgs'', encode_uri_component org, ''roles'', ''fork'' @ ?e] =
      mk_path [''v2'', ''orgs'', encode_uri_component org, ''roles''] @ ''/fork'' @ ?e"
    by (simp add: mk_path_def)
  then have inc: "str_includes (mk_path [''v2'', ''orgs'', encode_uri_component org, ''roles'', ''fork'' @ ?e]) ''/fork''"
    unfolding str_includes_iff by blast
  have sp: "split_on (CHR ''/'') (mk_path [''v2'', ''orgs'', encode_uri_component org, ''roles'', ''fork'' @ ?e]) =
      [[], ''v2'', ''orgs'', encode_uri_component org, ''roles'', ''fork'' @ ?e]"
    by (rule split_mk_path) simp_all
  have op: "workflow_op (mk_path [''v2'', ''orgs'', encode_uri_component org, ''roles'', ''fork'' @ ?e]) = None"
    unfolding workflow_op_def sp using e by simp
  show ?thesis by (rule hijacked [OF path sp _ assms(3) inc op]) (use assms(1) in simp)
qed

theorem fork_role_undeletable_witness:
  "bridge_fetch ctx0 (req_deleteRole ''default'' (''fork'' @ ''lift''))
     (fst (bridge_fetch ctx0 (req_createRole ''default'' (JObj [(''name'', JStr ''forklift'')])) (init_bridge ctx0))) =
   (fst (bridge_fetch ctx0 (req_createRole ''default'' (JObj [(''name'', JStr ''forklift'')])) (init_bridge ctx0)),
    Response 404 (BProblem ''Not Found'' 404 ''unknown workflow operation''))"
proof (rule fork_role_undeletable)
  show "\<not> is_static (rqPath (req_deleteRole ''default'' (''fork'' @ ''lift'')))" by code_simp
qed simp_all

text \<open>Creating an alerting rule is answered as a listing: 200, and nothing is stored.\<close>

lemma alert_create_ignored:
  assumes "org \<noteq> []" "app \<noteq> []" "plain (req_createAlertingRule org app bd)"
  shows "bridge_fetch cx (req_createAlertingRule org app bd) st =
    (st, Response 200 (BAlerts (map alert_view (filter (\<lambda>e. blApp e = app) (alerts_tab st)))))"
  using assms early_plain(1) [OF assms(3)] by (simp add: earlier_defs h_alerts_def ok_def route_simps)

text \<open>The details of a workflow are looked up under the encoded id, which the handler does not decode.\<close>

lemma workflow_lookup_encoded:
  assumes "org \<noteq> []" "app \<noteq> []" "wid \<noteq> []" "plain (req_workflow org app wid)"
    and "qWorkflow (cxDb cx) (encode_uri_component wid) = Some []" "encode_uri_component wid \<notin> bwId ` set (workflows_tab st)"
  shows "bridge_fetch cx (req_workflow org app wid) st = (st, Response 404 (BProblem ''Workflow not found'' 404 []))"
proof -
  have "find (\<lambda>w. bwId w = encode_uri_component wid) (workflows_tab st) = None" using assms(6) by (force simp: find_None_iff)
  then show ?thesis using assms early_plain(1) [OF assms(4)] by (simp add: earlier_defs problem_def route_simps)
qed

end
