(* ===== verification/Api_Client.thy ===== *)
theory Api_Client
  imports Console_State
begin

text \<open>
  The API client of the console, \<open>console/src/lib/api/client.ts\<close>: the URL, the headers and the body
  of each request, and what \<open>request\<close> makes of the answer. A path is given by its segments, names
  percent-encoded with \<open>encodeURIComponent\<close>; a query by its pairs, written as \<open>URLSearchParams\<close>
  writes them. A JSON body is the value that is stringified. \<open>parse_url\<close> is the part of the
  browser's \<open>URL\<close> class that the receiving side uses: the path with its dot segments removed and the
  query's pairs.
\<close>

section \<open>Requests\<close>

record api_client =
  acBaseUrl :: string
  acApiKey :: "string option"

definition new_client :: "string \<Rightarrow> string option \<Rightarrow> api_client" where
  "new_client base key = \<lparr>acBaseUrl = rev (dropWhile (\<lambda>c. c = CHR ''/'') (rev base)), acApiKey = key\<rparr>"

definition client_setApiKey :: "string option \<Rightarrow> api_client \<Rightarrow> api_client" where
  "client_setApiKey key cl = cl\<lparr>acApiKey := key\<rparr>"

record api_request =
  cqMethod :: string
  cqSegs :: "string list"
  cqQuery :: "(string \<times> string) list"
  cqKey :: "string option"
  cqBody :: "jsval option"

record http_request =
  hqMethod :: string
  hqUrl :: string
  hqHeaders :: "(string \<times> string) list"
  hqBody :: "jsval option"

text \<open>\<open>URLSearchParams.toString()\<close>.\<close>

definition form_char :: "char \<Rightarrow> string" where
  "form_char c =
     (if is_digit c \<or> is_alpha c \<or> c \<in> set ''*-._'' then [c]
      else if c = CHR '' '' then ''+''
      else if uri_unreserved c then pct_byte (of_char c)
      else encode_char c)"

definition form_encode :: "string \<Rightarrow> string" where
  "form_encode s = concat (map form_char s)"

definition params_string :: "(string \<times> string) list \<Rightarrow> string" where
  "params_string ps = join ''&'' (map (\<lambda>p. form_encode (fst p) @ ''='' @ form_encode (snd p)) ps)"

definition query_suffix :: "(string \<times> string) list \<Rightarrow> string" where
  "query_suffix ps = (if params_string ps \<noteq> [] then ''?'' @ params_string ps else [])"

text \<open>A query is written by \<open>URLSearchParams\<close>, or by hand for the single parameter \<open>key\<close>.\<close>

definition url_suffix :: "api_request \<Rightarrow> string" where
  "url_suffix r = (case cqKey r of Some k \<Rightarrow> ''?key='' @ encode_uri_component k | None \<Rightarrow> query_suffix (cqQuery r))"

definition auth_header :: "api_client \<Rightarrow> (string \<times> string) list" where
  "auth_header cl = (if opt_str (acApiKey cl) \<noteq> [] then [(''Authorization'', ''Bearer '' @ opt_str (acApiKey cl))] else [])"

text \<open>The call of \<open>fetch\<close> in \<open>request\<close>, and the one of \<open>getMetricsText\<close>.\<close>

definition send_request :: "api_client \<Rightarrow> api_request \<Rightarrow> http_request" where
  "send_request cl r =
     \<lparr>hqMethod = cqMethod r, hqUrl = acBaseUrl cl @ mk_path (cqSegs r) @ url_suffix r,
      hqHeaders = [(''Accept'', ''application/json'')] @ (if cqBody r \<noteq> None then [(''Content-Type'', ''application/json'')] else [])
        @ auth_header cl,
      hqBody = cqBody r\<rparr>"

definition send_metrics :: "api_client \<Rightarrow> api_request \<Rightarrow> http_request" where
  "send_metrics cl r =
     \<lparr>hqMethod = cqMethod r, hqUrl = acBaseUrl cl @ mk_path (cqSegs r) @ url_suffix r,
      hqHeaders = [(''Accept'', ''text/plain'')] @ auth_header cl, hqBody = None\<rparr>"

section \<open>Answers\<close>

text \<open>\<open>hsJson\<close> is the parsed body, \<open>None\<close> when \<open>json()\<close> rejects, with the message \<open>hsSyntax\<close>.\<close>

record http_response =
  hsStatus :: nat
  hsStatusText :: string
  hsJson :: "jsval option"
  hsSyntax :: string
  hsText :: string

definition response_ok :: "http_response \<Rightarrow> bool" where
  "response_ok r \<longleftrightarrow> 200 \<le> hsStatus r \<and> hsStatus r \<le> 299"

definition http_line :: "http_response \<Rightarrow> string" where
  "http_line r = ''HTTP '' @ show_nat (hsStatus r) @ '' '' @ hsStatusText r"

text \<open>Reading a property of \<open>null\<close> throws, which the \<open>catch\<close> takes like a body that is no JSON.\<close>

definition error_detail :: "http_response \<Rightarrow> string" where
  "error_detail r =
     (case hsJson r of
        None \<Rightarrow> http_line r
      | Some j \<Rightarrow>
          if nullish j then http_line r
          else if truthy (field j ''detail'') then js_string (field j ''detail'')
          else if truthy (field j ''title'') then js_string (field j ''title'')
          else if truthy (field j ''message'') then js_string (field j ''message'')
          else http_line r)"

definition http_error :: "string \<Rightarrow> http_response \<Rightarrow> js_error" where
  "http_error msg r = \<lparr>errName = ''Error'', errMessage = msg, errStatus = Some (int (hsStatus r))\<rparr>"

definition receive_json :: "http_response \<Rightarrow> jsval reply" where
  "receive_json r =
     (if \<not> response_ok r then Inl (http_error (error_detail r) r)
      else if hsStatus r = 204 then Inr JUndef
      else case hsJson r of
             Some j \<Rightarrow> Inr j
           | None \<Rightarrow> Inl \<lparr>errName = ''SyntaxError'', errMessage = hsSyntax r, errStatus = None\<rparr>)"

definition receive_text :: "http_response \<Rightarrow> string reply" where
  "receive_text r = (if \<not> response_ok r then Inl (http_error (http_line r) r) else Inr (hsText r))"

section \<open>Endpoints\<close>

definition get_of :: "string list \<Rightarrow> api_request" where
  "get_of segs = \<lparr>cqMethod = ''GET'', cqSegs = segs, cqQuery = [], cqKey = None, cqBody = None\<rparr>"

definition call_of :: "string \<Rightarrow> string list \<Rightarrow> jsval option \<Rightarrow> api_request" where
  "call_of meth segs bd = \<lparr>cqMethod = meth, cqSegs = segs, cqQuery = [], cqKey = None, cqBody = bd\<rparr>"

definition in_org :: "string \<Rightarrow> string list \<Rightarrow> string list" where
  "in_org org segs = [''v2'', ''orgs'', encode_uri_component org] @ segs"

definition in_app :: "string \<Rightarrow> string \<Rightarrow> string list \<Rightarrow> string list" where
  "in_app org app segs = in_org org ([''apps'', encode_uri_component app] @ segs)"

definition in_wf :: "string \<Rightarrow> string \<Rightarrow> string \<Rightarrow> string list \<Rightarrow> string list" where
  "in_wf org app wid segs = in_app org app ([''workflows'', encode_uri_component wid] @ segs)"

definition api_getHealth :: api_request where
  "api_getHealth = get_of [''healthz'']"

definition api_listApplications :: "string \<Rightarrow> api_request" where
  "api_listApplications org = get_of (in_org org [''apps''])"

definition api_getApplication :: "string \<Rightarrow> string \<Rightarrow> api_request" where
  "api_getApplication org app = get_of (in_app org app [])"

definition api_listExecutors :: "string \<Rightarrow> string \<Rightarrow> api_request" where
  "api_listExecutors org app = get_of (in_app org app [''executors''])"

record workflow_query =
  wqIds :: "string list"
  wqNames :: "string list"
  wqStatus :: "string list"
  wqQueues :: "string list"
  wqVersions :: "string list"
  wqLimit :: nat
  wqOffset :: nat
  wqSortDesc :: "bool option"

text \<open>A limit or an offset of 0 stands for one that is 0 or missing: neither is sent.\<close>

definition workflow_params :: "workflow_query \<Rightarrow> (string \<times> string) list" where
  "workflow_params wq =
     map (Pair ''workflowIds'') (wqIds wq) @ map (Pair ''workflowName'') (wqNames wq) @ map (Pair ''status'') (wqStatus wq)
     @ map (Pair ''queueName'') (wqQueues wq) @ map (Pair ''appVersion'') (wqVersions wq)
     @ (if wqLimit wq \<noteq> 0 then [(''limit'', show_nat (wqLimit wq))] else [])
     @ (if wqOffset wq \<noteq> 0 then [(''offset'', show_nat (wqOffset wq))] else [])
     @ (case wqSortDesc wq of None \<Rightarrow> [] | Some b \<Rightarrow> [(''sortDesc'', if b then ''true'' else ''false'')])"

definition api_listWorkflows :: "string \<Rightarrow> string \<Rightarrow> workflow_query \<Rightarrow> api_request" where
  "api_listWorkflows org app wq = (get_of (in_app org app [''workflows'']))\<lparr>cqQuery := workflow_params wq\<rparr>"

definition api_getWorkflow :: "string \<Rightarrow> string \<Rightarrow> string \<Rightarrow> api_request" where
  "api_getWorkflow org app wid = get_of (in_wf org app wid [])"

definition api_listSteps :: "string \<Rightarrow> string \<Rightarrow> string \<Rightarrow> api_request" where
  "api_listSteps org app wid = get_of (in_wf org app wid [''steps''])"

definition api_getWorkflowEvents :: "string \<Rightarrow> string \<Rightarrow> string \<Rightarrow> api_request" where
  "api_getWorkflowEvents org app wid = get_of (in_wf org app wid [''events''])"

definition api_getWorkflowNotifications :: "string \<Rightarrow> string \<Rightarrow> string \<Rightarrow> api_request" where
  "api_getWorkflowNotifications org app wid = get_of (in_wf org app wid [''notifications''])"

definition api_sendWorkflowMessage :: "string \<Rightarrow> string \<Rightarrow> string \<Rightarrow> jsval \<Rightarrow> string option \<Rightarrow> api_request" where
  "api_sendWorkflowMessage org app wid payload topic =
     call_of ''POST'' (in_wf org app wid [''send''])
       (Some (JObj [(''topic'', if opt_str topic \<noteq> [] then JStr (opt_str topic) else JUndef), (''payload'', payload)]))"

definition api_cancelWorkflow :: "string \<Rightarrow> string \<Rightarrow> string \<Rightarrow> api_request" where
  "api_cancelWorkflow org app wid = call_of ''POST'' (in_wf org app wid [''cancel'']) (Some (JObj []))"

definition api_resumeWorkflow :: "string \<Rightarrow> string \<Rightarrow> string \<Rightarrow> api_request" where
  "api_resumeWorkflow org app wid = call_of ''POST'' (in_wf org app wid [''resume'']) (Some (JObj []))"

definition api_forkWorkflow :: "string \<Rightarrow> string \<Rightarrow> string \<Rightarrow> int \<Rightarrow> api_request" where
  "api_forkWorkflow org app wid startStep =
     call_of ''POST'' (in_wf org app wid [''fork'']) (Some (JObj [(''startStep'', JNum (Fin (of_int startStep)))]))"

definition api_listQueues :: "string \<Rightarrow> string \<Rightarrow> api_request" where
  "api_listQueues org app = get_of (in_app org app [''queues''])"

definition api_listSchedules :: "string \<Rightarrow> string \<Rightarrow> api_request" where
  "api_listSchedules org app = get_of (in_app org app [''schedules''])"

definition api_schedule :: "string \<Rightarrow> string \<Rightarrow> string \<Rightarrow> string \<Rightarrow> api_request" where
  "api_schedule op org app name = call_of ''POST'' (in_app org app [''schedules'', encode_uri_component name, op]) None"

definition api_pauseSchedule :: "string \<Rightarrow> string \<Rightarrow> string \<Rightarrow> api_request" where
  "api_pauseSchedule = api_schedule ''pause''"

definition api_resumeSchedule :: "string \<Rightarrow> string \<Rightarrow> string \<Rightarrow> api_request" where
  "api_resumeSchedule = api_schedule ''resume''"

definition api_triggerSchedule :: "string \<Rightarrow> string \<Rightarrow> string \<Rightarrow> api_request" where
  "api_triggerSchedule = api_schedule ''trigger''"

definition api_getWorkflowEvent :: "string \<Rightarrow> string \<Rightarrow> string \<Rightarrow> string \<Rightarrow> api_request" where
  "api_getWorkflowEvent org app wid key = (get_of (in_wf org app wid [''event'']))\<lparr>cqKey := Some key\<rparr>"

definition api_getWorkflowStreams :: "string \<Rightarrow> string \<Rightarrow> string \<Rightarrow> string option \<Rightarrow> api_request" where
  "api_getWorkflowStreams org app wid key =
     (get_of (in_wf org app wid [''streams'']))\<lparr>cqKey := (if opt_str key \<noteq> [] then Some (opt_str key) else None)\<rparr>"

definition api_listAlertingRules :: "string \<Rightarrow> string \<Rightarrow> api_request" where
  "api_listAlertingRules org app = get_of (in_app org app [''alerting-rules''])"

definition api_createAlertingRule :: "string \<Rightarrow> string \<Rightarrow> jsval \<Rightarrow> api_request" where
  "api_createAlertingRule org app rl = call_of ''POST'' (in_app org app [''alerting-rules'']) (Some rl)"

definition api_deleteAlertingRule :: "string \<Rightarrow> string \<Rightarrow> string \<Rightarrow> api_request" where
  "api_deleteAlertingRule org app ruleId = call_of ''DELETE'' (in_app org app [''alerting-rules'', encode_uri_component ruleId]) None"

definition api_listAPIKeys :: "string \<Rightarrow> api_request" where
  "api_listAPIKeys org = get_of (in_org org [''tokens''])"

definition str_array :: "string list \<Rightarrow> jsval" where
  "str_array xs = JArr (map JStr xs)"

definition api_createAPIKey :: "string \<Rightarrow> string \<Rightarrow> string list \<Rightarrow> string list \<Rightarrow> api_request" where
  "api_createAPIKey org name permissions appNames =
     call_of ''POST'' (in_org org [''tokens'', encode_uri_component name])
       (Some (JObj [(''permissions'', str_array permissions), (''appNames'', str_array appNames)]))"

definition api_revokeAPIKey :: "string \<Rightarrow> string \<Rightarrow> api_request" where
  "api_revokeAPIKey org name = call_of ''DELETE'' (in_org org [''tokens'', encode_uri_component name]) None"

definition api_updateApp :: "string \<Rightarrow> string \<Rightarrow> jsval \<Rightarrow> api_request" where
  "api_updateApp org app inp = call_of ''PATCH'' (in_app org app []) (Some inp)"

definition api_getAutoscalingPolicy :: "string \<Rightarrow> string \<Rightarrow> api_request" where
  "api_getAutoscalingPolicy org app = get_of (in_app org app [''autoscaling-policy''])"

definition api_setAutoscalingPolicy :: "string \<Rightarrow> string \<Rightarrow> jsval \<Rightarrow> api_request" where
  "api_setAutoscalingPolicy org app policy = call_of ''PUT'' (in_app org app [''autoscaling-policy'']) (Some policy)"

definition api_deleteAutoscalingPolicy :: "string \<Rightarrow> string \<Rightarrow> api_request" where
  "api_deleteAutoscalingPolicy org app = call_of ''DELETE'' (in_app org app [''autoscaling-policy'']) None"

definition api_getAutoscale :: "string \<Rightarrow> string \<Rightarrow> api_request" where
  "api_getAutoscale org app = get_of (in_app org app [''autoscale''])"

record audit_log_query =
  aqStartTime :: string
  aqEndTime :: string
  aqOperation :: string
  aqSubject :: string
  aqTarget :: string
  aqLimit :: "nat option"
  aqOffset :: "nat option"

definition set_param :: "string \<Rightarrow> string \<Rightarrow> (string \<times> string) list" where
  "set_param k v = (if v \<noteq> [] then [(k, v)] else [])"

definition opt_param :: "string \<Rightarrow> nat option \<Rightarrow> (string \<times> string) list" where
  "opt_param k v = (case v of None \<Rightarrow> [] | Some n \<Rightarrow> [(k, show_nat n)])"

definition audit_params_of :: "audit_log_query \<Rightarrow> (string \<times> string) list" where
  "audit_params_of aq =
     set_param ''startTime'' (aqStartTime aq) @ set_param ''endTime'' (aqEndTime aq) @ set_param ''operation'' (aqOperation aq)
     @ set_param ''subject'' (aqSubject aq) @ set_param ''target'' (aqTarget aq)
     @ opt_param ''limit'' (aqLimit aq) @ opt_param ''offset'' (aqOffset aq)"

definition api_listAuditLogs :: "string \<Rightarrow> audit_log_query \<Rightarrow> api_request" where
  "api_listAuditLogs org aq = (get_of (in_org org [''audit-logs'']))\<lparr>cqQuery := audit_params_of aq\<rparr>"

record metrics_query =
  mqApplications :: string
  mqWorkflowNames :: string
  mqMetrics :: "string list"

definition api_getMetricsText :: "metrics_query \<Rightarrow> api_request" where
  "api_getMetricsText mq =
     (get_of [''v1'', ''metrics''])\<lparr>cqQuery := set_param ''applications'' (mqApplications mq)
        @ set_param ''workflow_names'' (mqWorkflowNames mq) @ map (Pair ''metrics'') (mqMetrics mq)\<rparr>"

definition api_listRoles :: "string \<Rightarrow> api_request" where
  "api_listRoles org = get_of (in_org org [''roles''])"

definition api_createRole :: "string \<Rightarrow> string \<Rightarrow> string list \<Rightarrow> api_request" where
  "api_createRole org name permissions =
     call_of ''POST'' (in_org org [''roles'']) (Some (JObj [(''name'', JStr name), (''permissions'', str_array permissions)]))"

definition api_deleteRole :: "string \<Rightarrow> string \<Rightarrow> api_request" where
  "api_deleteRole org roleName = call_of ''DELETE'' (in_org org [''roles'', encode_uri_component roleName]) None"

definition api_listMembers :: "string \<Rightarrow> api_request" where
  "api_listMembers org = get_of (in_org org [''members''])"

definition api_grantMemberRole :: "string \<Rightarrow> string \<Rightarrow> string \<Rightarrow> api_request" where
  "api_grantMemberRole org username roleName =
     call_of ''PUT'' (in_org org [''members'', encode_uri_component username, ''roles'', encode_uri_component roleName]) None"

definition api_removeMember :: "string \<Rightarrow> string \<Rightarrow> api_request" where
  "api_removeMember org username = call_of ''DELETE'' (in_org org [''members'', encode_uri_component username]) None"

definition api_listPermissions :: "string \<Rightarrow> api_request" where
  "api_listPermissions org = get_of (in_org org [''permissions''])"

definition api_listOrganizations :: api_request where
  "api_listOrganizations = get_of [''v2'', ''orgs'']"

section \<open>Reading a URL back\<close>

fun remove_dots :: "string list \<Rightarrow> string list \<Rightarrow> string list" where
  "remove_dots acc [] = rev acc"
| "remove_dots acc (s # ss) =
     (if s = ''..'' then remove_dots ((if ss = [] then [[]] else []) @ tl acc) ss
      else if s = ''.'' then remove_dots ((if ss = [] then [[]] else []) @ acc) ss
      else remove_dots (s # acc) ss)"

definition plus_to_space :: "string \<Rightarrow> string" where
  "plus_to_space s = map (\<lambda>c. if c = CHR ''+'' then CHR '' '' else c) s"

text \<open>A malformed escape is not decoded by the parser of queries.\<close>

definition form_decode :: "string \<Rightarrow> string" where
  "form_decode s = (let t = plus_to_space s in case decode_uri_component t of Some u \<Rightarrow> u | None \<Rightarrow> t)"

definition read_pair :: "string \<Rightarrow> string \<times> string" where
  "read_pair s = (form_decode (takeWhile (\<lambda>c. c \<noteq> CHR ''='') s), form_decode (drop 1 (dropWhile (\<lambda>c. c \<noteq> CHR ''='') s)))"

definition parse_params :: "string \<Rightarrow> (string \<times> string) list" where
  "parse_params s = map read_pair (filter (\<lambda>t. t \<noteq> []) (split_on (CHR ''&'') s))"

definition parse_url :: "string \<Rightarrow> string list \<times> (string \<times> string) list" where
  "parse_url url =
     (let path = takeWhile (\<lambda>c. c \<noteq> CHR ''?'') url; qs = drop 1 (dropWhile (\<lambda>c. c \<noteq> CHR ''?'') url)
      in (remove_dots [] (drop 1 (split_on (CHR ''/'') path)), parse_params qs))"

section \<open>The wire\<close>

lemma plus_to_space_append [simp]: "plus_to_space (s @ t) = plus_to_space s @ plus_to_space t"
  by (simp add: plus_to_space_def)

lemma plus_to_space_id: "CHR ''+'' \<notin> set s \<Longrightarrow> plus_to_space s = s"
  by (induction s) (auto simp: plus_to_space_def)

lemma form_char_range: "x \<in> set (form_char c) \<Longrightarrow> x = CHR ''%'' \<or> x = CHR ''+'' \<or> uri_unreserved x"
  using encode_char_range [of x c] hex_digit_range [of "of_char c div 16"] hex_digit_range [of "of_char c mod 16"]
    less_mult_imp_div_less [of "of_char c :: nat" 16 16]
  by (auto simp: form_char_def pct_byte_def uri_unreserved_def split: if_splits)

lemma form_encode_range: "x \<in> set (form_encode s) \<Longrightarrow> x = CHR ''%'' \<or> x = CHR ''+'' \<or> uri_unreserved x"
  by (auto simp: form_encode_def dest: form_char_range)

lemma separators:
  "\<not> uri_unreserved (CHR ''&'')" "\<not> uri_unreserved (CHR ''='')" "\<not> uri_unreserved (CHR ''?'')" "\<not> uri_unreserved (CHR ''/'')"
  "\<not> uri_unreserved (CHR ''+'')"
  by (simp_all add: uri_unreserved_def is_digit_def is_alpha_def)

lemma form_encode_free [simp]: "CHR ''&'' \<notin> set (form_encode s)" "CHR ''='' \<notin> set (form_encode s)" "CHR ''?'' \<notin> set (form_encode s)"
  using form_encode_range [of "CHR ''&''" s] form_encode_range [of "CHR ''=''" s] form_encode_range [of "CHR ''?''" s] separators
  by auto

lemma encode_free [simp]: "CHR ''&'' \<notin> set (encode_uri_component s)" "CHR ''='' \<notin> set (encode_uri_component s)"
  "CHR ''?'' \<notin> set (encode_uri_component s)" "CHR ''+'' \<notin> set (encode_uri_component s)"
  using encode_range [of "CHR ''&''" s] encode_range [of "CHR ''=''" s] encode_range [of "CHR ''?''" s]
    encode_range [of "CHR ''+''" s] separators
  by auto

lemma encode_char_no_plus: "CHR ''+'' \<notin> set (encode_char c)"
  using encode_char_range [of "CHR ''+''" c] separators by auto

lemma decode_pct: "n < 128 \<Longrightarrow> decode_uri_component (pct_byte n @ s) = map_option (Cons (char_of n)) (decode_uri_component s)"
proof -
  assume "n < 128"
  then have "read_pct (pct_byte n @ s) = Some (n, s)" by simp
  then show ?thesis using \<open>n < 128\<close> by (simp add: pct_byte_def)
qed

lemma unreserved_ascii: "uri_unreserved c \<Longrightarrow> (of_char c :: nat) < 128"
  by (auto simp: uri_unreserved_def is_digit_def is_alpha_def Let_def)

lemma pct_no_plus: "n < 256 \<Longrightarrow> CHR ''+'' \<notin> set (pct_byte n)"
  using hex_digit_range [of "n div 16"] hex_digit_range [of "n mod 16"] separators(5) less_mult_imp_div_less [of n 16 16]
  by (auto simp: pct_byte_def uri_unreserved_def)

lemma decode_form_char: "decode_uri_component (plus_to_space (form_char c) @ s) = map_option (Cons c) (decode_uri_component s)"
proof -
  consider "is_digit c \<or> is_alpha c \<or> c \<in> set ''*-._''" | "c = CHR '' ''"
    | "\<not> (is_digit c \<or> is_alpha c \<or> c \<in> set ''*-._'')" "c \<noteq> CHR '' ''" "uri_unreserved c"
    | "\<not> (is_digit c \<or> is_alpha c \<or> c \<in> set ''*-._'')" "c \<noteq> CHR '' ''" "\<not> uri_unreserved c" by blast
  then show ?thesis
  proof cases
    case 1
    then have "uri_unreserved c" "c \<noteq> CHR ''+''" "c \<noteq> CHR ''%''" by (auto simp: uri_unreserved_def is_digit_def is_alpha_def)
    then show ?thesis using 1 by (simp add: form_char_def plus_to_space_def)
  next
    case 2
    then show ?thesis by (simp add: form_char_def plus_to_space_def is_digit_def is_alpha_def)
  next
    case 3
    have "(of_char c :: nat) < 128" using unreserved_ascii 3(3) .
    then show ?thesis using 3 decode_pct [of "of_char c" s] pct_no_plus [of "of_char c"]
      by (simp add: form_char_def plus_to_space_id)
  next
    case 4
    then show ?thesis using decode_encode_char [of c s] encode_char_no_plus [of c] by (simp add: form_char_def plus_to_space_id)
  qed
qed

lemma form_roundtrip [simp]: "form_decode (form_encode s) = s"
proof -
  have "decode_uri_component (plus_to_space (form_encode s)) = Some s"
  proof (induction s)
    case Nil
    then show ?case by (simp add: form_encode_def plus_to_space_def)
  next
    case (Cons c s)
    then show ?case using decode_form_char [of c "plus_to_space (form_encode s)"] by (simp add: form_encode_def)
  qed
  then show ?thesis by (simp add: form_decode_def)
qed

lemma form_decode_encoded [simp]: "form_decode (encode_uri_component s) = s"
  by (simp add: form_decode_def plus_to_space_id decode_encode)

lemma params_roundtrip [simp]: "parse_params (params_string ps) = ps"
proof (cases "ps = []")
  case True
  then show ?thesis by (simp add: parse_params_def params_string_def)
next
  case False
  let ?f = "\<lambda>p. form_encode (fst p) @ ''='' @ form_encode (snd p)"
  have "split_on (CHR ''&'') (params_string ps) = map ?f ps"
    using False unfolding params_string_def by (intro split_on_join) auto
  moreover have "read_pair (?f p) = p" for p
    by (simp add: read_pair_def until_char)
  ultimately show ?thesis by (simp add: parse_params_def comp_def)
qed

lemma params_string_Nil: "params_string ps = [] \<longleftrightarrow> ps = []"
  by (cases ps rule: list.exhaust; cases "tl ps") (simp_all add: params_string_def)

lemma params_no_question: "CHR ''?'' \<notin> set (params_string ps)"
proof -
  have "c \<notin> set (join sep xs)" if "c \<notin> set sep" "\<forall>x\<in>set xs. c \<notin> set x" for c sep xs
    using that by (induction sep xs rule: join.induct) auto
  then show ?thesis by (simp add: params_string_def)
qed

lemma remove_dots_id: "\<forall>s\<in>set ss. s \<noteq> ''.'' \<and> s \<noteq> ''..'' \<Longrightarrow> remove_dots acc ss = rev acc @ ss"
  by (induction ss arbitrary: acc) auto

text \<open>Every segment is the encoding of a text other than the two dot segments (a fixed one of itself).\<close>

definition addressed :: "api_request \<Rightarrow> bool" where
  "addressed r \<longleftrightarrow> cqSegs r \<noteq> [] \<and> (\<forall>s\<in>set (cqSegs r). s \<noteq> ''.'' \<and> s \<noteq> ''..'' \<and> (\<exists>t. s = encode_uri_component t))"

definition sent_query :: "api_request \<Rightarrow> (string \<times> string) list" where
  "sent_query r = (case cqKey r of Some k \<Rightarrow> [(''key'', k)] | None \<Rightarrow> cqQuery r)"

lemma fixed_segment: "list_all uri_unreserved s \<Longrightarrow> encode_uri_component s = s"
  by (induction s) (simp_all add: encode_uri_component_def encode_char_def)

lemma encode_inject: "encode_uri_component s = encode_uri_component t \<longleftrightarrow> s = t"
  by (metis decode_encode option.inject)

lemma addressedI:
  assumes "cqSegs r = map encode_uri_component ts" "ts \<noteq> []" "\<forall>t\<in>set ts. t \<noteq> ''.'' \<and> t \<noteq> ''..''"
  shows "addressed r"
proof -
  have d: "encode_uri_component ''.'' = ''.''" "encode_uri_component ''..'' = ''..''"
    by (simp_all add: fixed_segment uri_unreserved_def)
  show ?thesis unfolding addressed_def assms(1) using assms(2,3) encode_inject d by (auto) (metis d encode_inject)+
qed

lemma addressed_path:
  assumes "addressed r"
  shows "CHR ''?'' \<notin> set (mk_path (cqSegs r))" "split_on (CHR ''/'') (mk_path (cqSegs r)) = [] # cqSegs r"
    "remove_dots [] (cqSegs r) = cqSegs r"
proof -
  show "CHR ''?'' \<notin> set (mk_path (cqSegs r))" using assms by (auto simp: addressed_def mk_path_def)
  show "split_on (CHR ''/'') (mk_path (cqSegs r)) = [] # cqSegs r"
    using assms by (intro split_mk_path) (auto simp: addressed_def)
  show "remove_dots [] (cqSegs r) = cqSegs r" using assms by (simp add: remove_dots_id addressed_def)
qed

lemma suffix_query:
  assumes "CHR ''?'' \<notin> set path"
  shows "takeWhile (\<lambda>c. c \<noteq> CHR ''?'') (path @ url_suffix r) = path"
    "parse_params (drop 1 (dropWhile (\<lambda>c. c \<noteq> CHR ''?'') (path @ url_suffix r))) = sent_query r"
proof -
  have p: "takeWhile (\<lambda>c. c \<noteq> CHR ''?'') (path @ t) = path @ takeWhile (\<lambda>c. c \<noteq> CHR ''?'') t"
    "dropWhile (\<lambda>c. c \<noteq> CHR ''?'') (path @ t) = dropWhile (\<lambda>c. c \<noteq> CHR ''?'') t" for t
    using assms by (simp_all add: until_char)
  have k: "parse_params (''key='' @ encode_uri_component k) = [(''key'', k)]" for k
  proof -
    have "split_on (CHR ''&'') (''key='' @ encode_uri_component k) = [''key='' @ encode_uri_component k]"
      by (intro split_on_no_sep) simp
    moreover have "form_decode ''key'' = ''key''" using form_decode_encoded [of "''key''"]
      by (simp add: encode_uri_component_def encode_char_def uri_unreserved_def is_alpha_def is_digit_def)
    ultimately show ?thesis by (simp add: parse_params_def read_pair_def)
  qed
  have e: "parse_params [] = []" by (simp add: parse_params_def)
  show "takeWhile (\<lambda>c. c \<noteq> CHR ''?'') (path @ url_suffix r) = path"
    by (simp add: p url_suffix_def query_suffix_def split: option.split)
  show "parse_params (drop 1 (dropWhile (\<lambda>c. c \<noteq> CHR ''?'') (path @ url_suffix r))) = sent_query r"
    using k e by (auto simp: p url_suffix_def query_suffix_def sent_query_def params_string_Nil split: option.split)
qed



section \<open>Errors\<close>



end
