(* ===== verification/Client_Bridge.thy ===== *)
theory Client_Bridge
  imports Bridge_Fetch Api_Client
begin

text \<open>
  The console's API client talking to the playground's mock API: the request that
  \<open>client.ts\<close> hands to \<open>fetch\<close>, as \<open>relay-bridge.js\<close> reads it (method, path name, query, parsed
  body), and which of the client's operations the mock API answers.
\<close>

section \<open>The request as the bridge reads it\<close>

definition bridge_request :: "http_request \<Rightarrow> request" where
  "bridge_request hq =
     (case parse_url (hqUrl hq) of (segs, ps) \<Rightarrow>
        \<lparr>rqMethod = hqMethod hq, rqPath = mk_path segs, rqQuery = ps,
         rqBody = (case hqBody hq of None \<Rightarrow> JObj [] | Some v \<Rightarrow> v)\<rparr>)"

definition delivered :: "api_request \<Rightarrow> request" where
  "delivered r = bridge_request (send_request (new_client [] None) r)"

lemma delivered_eq:
  "addressed r \<Longrightarrow> delivered r = \<lparr>rqMethod = cqMethod r, rqPath = mk_path (cqSegs r), rqQuery = sent_query r,
     rqBody = (case cqBody r of None \<Rightarrow> JObj [] | Some v \<Rightarrow> v)\<rparr>"
  using addressed_path [of r] suffix_query [OF addressed_path(1), of r r]
  by (simp add: delivered_def bridge_request_def parse_url_def send_request_def new_client_def Let_def)

section \<open>Ordinary names\<close>

text \<open>A name whose segment is neither taken for an asset nor for a workflow operation.\<close>

definition ordinary_seg :: "string \<Rightarrow> bool" where
  "ordinary_seg s \<longleftrightarrow> s \<noteq> [] \<and> s \<noteq> ''.'' \<and> s \<noteq> ''..'' \<and> CHR ''/'' \<notin> set s
     \<and> list_all (\<lambda>w. \<not> starts_with s w) [''cancel'', ''resume'', ''fork'', ''assets'']
     \<and> list_all (\<lambda>w. \<not> ends_with s w) [''.js'', ''.css'', ''.svg'', ''.png'']"

definition ordinary :: "string \<Rightarrow> bool" where
  "ordinary t \<longleftrightarrow> ordinary_seg (encode_uri_component t)"

lemma prefix_of_segment:
  assumes "CHR ''/'' \<notin> set w" "s @ mk_path segs = w @ b"
  shows "\<exists>t. s = w @ t"
proof -
  from assms(2) consider t where "s = w @ t" | t where "w = s @ t" "mk_path segs = t @ b"
    by (auto simp: append_eq_append_conv2)
  then show ?thesis
  proof cases
    case 2
    have "t = []" using 2 assms(1) by (cases segs; cases t) (auto simp: mk_path_def)
    then show ?thesis using 2(1) by simp
  qed auto
qed

lemma includes_segment:
  assumes w: "CHR ''/'' \<notin> set w"
  shows "\<forall>s\<in>set segs. CHR ''/'' \<notin> set s \<Longrightarrow> str_includes (mk_path segs) (CHR ''/'' # w) \<Longrightarrow> \<exists>s\<in>set segs. starts_with s w"
proof (induction segs)
  case (Cons s segs)
  obtain a b where ab: "CHR ''/'' # s @ mk_path segs = a @ CHR ''/'' # w @ b"
    using Cons.prems(2) by (auto simp: str_includes_iff mk_path_def)
  show ?case
  proof (cases a)
    case Nil
    then obtain t where "s = w @ t" using ab prefix_of_segment [OF w, of s segs b] by auto
    then show ?thesis by (auto simp: starts_with_iff)
  next
    case (Cons c a')
    then have "s @ mk_path segs = a' @ CHR ''/'' # w @ b" using ab by simp
    moreover have "CHR ''/'' \<notin> set s" using Cons.prems(1) by simp
    ultimately obtain t where "mk_path segs = t @ CHR ''/'' # w @ b"
      by (auto simp: append_eq_append_conv2 append_eq_Cons_conv)
    then have "str_includes (mk_path segs) (CHR ''/'' # w)" by (auto simp: str_includes_iff)
    then show ?thesis using Cons.IH Cons.prems(1) by auto
  qed
qed (simp add: mk_path_def str_includes_def starts_with_def)

lemma ends_with_iff: "ends_with s p \<longleftrightarrow> (\<exists>t. s = t @ p)"
  by (auto simp: ends_with_def) (metis append_take_drop_id)

lemma ends_segment:
  assumes "segs \<noteq> []" "CHR ''/'' \<notin> set w" "ends_with (mk_path segs) w"
  shows "ends_with (last segs) w"
proof -
  have "mk_path segs = mk_path (butlast segs) @ CHR ''/'' # last segs"
    using assms(1) by (induction segs) (auto simp: mk_path_def)
  then obtain t where "mk_path (butlast segs) @ CHR ''/'' # last segs = t @ w" using assms(3) by (auto simp: ends_with_iff)
  then consider u where "CHR ''/'' # last segs = u @ w" | u where "u @ CHR ''/'' # last segs = w"
    by (auto simp: append_eq_append_conv2)
  then show ?thesis
  proof cases
    case 1
    then show ?thesis using assms(2) by (cases u) (auto simp: ends_with_iff)
  next
    case 2
    then show ?thesis using assms(2) by auto
  qed
qed

lemma includes_shorter: "str_includes s (v @ w) \<Longrightarrow> str_includes s v"
  unfolding str_includes_iff by (metis append.assoc)

definition not_asset_seg :: "string \<Rightarrow> bool" where
  "not_asset_seg s \<longleftrightarrow> CHR ''/'' \<notin> set s \<and> \<not> starts_with s ''assets''
     \<and> list_all (\<lambda>w. \<not> ends_with s w) [''.js'', ''.css'', ''.svg'', ''.png'']"

lemma not_asset_path:
  assumes "segs \<noteq> []" "\<forall>s\<in>set segs. not_asset_seg s"
  shows "\<not> is_static (mk_path segs)"
proof -
  have free: "\<forall>s\<in>set segs. CHR ''/'' \<notin> set s" using assms(2) by (simp add: not_asset_seg_def)
  have "\<not> str_includes (mk_path segs) (CHR ''/'' # ''assets'')"
    using includes_segment [of "''assets''", OF _ free] assms(2) by (auto simp: not_asset_seg_def)
  then have "\<not> str_includes (mk_path segs) ''/assets/''"
    using includes_shorter [of "mk_path segs" "''/assets''" "''/''"] by auto
  moreover have "\<not> ends_with (mk_path segs) w" if "w \<in> {''.js'', ''.css'', ''.svg'', ''.png''}" for w
  proof
    assume e: "ends_with (mk_path segs) w"
    have "CHR ''/'' \<notin> set w" using that by auto
    then have "ends_with (last segs) w" using ends_segment assms(1) e by blast
    then show False using assms that by (auto simp: not_asset_seg_def dest!: bspec [of _ _ "last segs"])
  qed
  ultimately show ?thesis by (simp add: is_static_def)
qed

lemma ordinary_not_asset: "ordinary_seg s \<Longrightarrow> not_asset_seg s"
  by (simp add: ordinary_seg_def not_asset_seg_def)

lemma ordinary_plain:
  assumes "segs \<noteq> []" "\<forall>s\<in>set segs. ordinary_seg s" "rqPath rq = mk_path segs"
  shows "plain rq"
proof -
  have free: "\<forall>s\<in>set segs. CHR ''/'' \<notin> set s" using assms(2) by (simp add: ordinary_seg_def)
  have "\<not> str_includes (mk_path segs) (CHR ''/'' # w)" if "w \<in> {''cancel'', ''resume'', ''fork''}" for w
  proof
    assume inc: "str_includes (mk_path segs) (CHR ''/'' # w)"
    have "CHR ''/'' \<notin> set w" using that by auto
    then obtain s where "s \<in> set segs" "starts_with s w" using includes_segment free inc by blast
    then show False using assms(2) that by (auto simp: ordinary_seg_def)
  qed
  moreover have "\<not> is_static (mk_path segs)" using not_asset_path ordinary_not_asset assms(1,2) by blast
  ultimately show ?thesis by (simp add: plain_def assms(3))
qed

lemma fixed_ordinary: "ordinary_seg s \<Longrightarrow> s \<noteq> [] \<and> CHR ''/'' \<notin> set s"
  by (simp add: ordinary_seg_def)

section \<open>Routing\<close>

text \<open>The operations of the client the mock API answers, and those it hands on to the browser.\<close>

definition answered_ops :: "string \<Rightarrow> string \<Rightarrow> string \<Rightarrow> string \<Rightarrow> string \<Rightarrow> string list \<Rightarrow> workflow_query \<Rightarrow> audit_log_query \<Rightarrow> jsval \<Rightarrow> api_request list" where
  "answered_ops org app wid nm user perms wq aq bd =
     [api_listApplications org, api_getApplication org app, api_listExecutors org app, api_listWorkflows org app wq,
      api_getWorkflow org app wid, api_listSteps org app wid, api_getWorkflowEvents org app wid,
      api_getWorkflowNotifications org app wid, api_listQueues org app, api_listSchedules org app,
      api_listAlertingRules org app, api_listAPIKeys org, api_createAPIKey org nm perms [], api_revokeAPIKey org nm,
      api_updateApp org app bd, api_getAutoscalingPolicy org app, api_setAutoscalingPolicy org app bd,
      api_deleteAutoscalingPolicy org app, api_getAutoscale org app, api_listAuditLogs org aq, api_listRoles org,
      api_createRole org nm perms, api_deleteRole org nm, api_listMembers org, api_grantMemberRole org user nm,
      api_removeMember org user, api_listPermissions org]"

definition unanswered_ops :: "string \<Rightarrow> string \<Rightarrow> string \<Rightarrow> string \<Rightarrow> string \<Rightarrow> api_request list" where
  "unanswered_ops org app wid nm key =
     [api_getHealth, api_listOrganizations, api_getWorkflowEvent org app wid key, api_sendWorkflowMessage org app wid JNull None,
      api_getWorkflowStreams org app wid None, api_pauseSchedule org app nm, api_triggerSchedule org app nm,
      api_deleteAlertingRule org app nm]"

lemma ordinary_dots: "ordinary t \<Longrightarrow> t \<noteq> [] \<and> t \<noteq> ''.'' \<and> t \<noteq> ''..''"
  using fixed_segment [of "''.''"] fixed_segment [of "''..''"] by (auto simp: ordinary_def ordinary_seg_def uri_unreserved_def)

lemma op_ready:
  assumes "cqSegs r = map encode_uri_component ts" "ts \<noteq> []" "list_all ordinary ts"
  shows "plain (delivered r) \<and> delivered r = \<lparr>rqMethod = cqMethod r, rqPath = mk_path (map encode_uri_component ts),
     rqQuery = sent_query r, rqBody = (case cqBody r of None \<Rightarrow> JObj [] | Some v \<Rightarrow> v)\<rparr>"
proof -
  have "addressed r" using assms ordinary_dots by (intro addressedI) (auto simp: list_all_iff)
  then have d: "delivered r = \<lparr>rqMethod = cqMethod r, rqPath = mk_path (map encode_uri_component ts),
     rqQuery = sent_query r, rqBody = (case cqBody r of None \<Rightarrow> JObj [] | Some v \<Rightarrow> v)\<rparr>"
    using delivered_eq [of r] assms(1) by simp
  have "plain (delivered r)" by (rule ordinary_plain [of "map encode_uri_component ts"])
      (use assms(2,3) in \<open>auto simp: d list_all_iff ordinary_def\<close>)
  then show ?thesis using d by simp
qed

definition route_words :: "string list" where
  "route_words = [''v2'', ''orgs'', ''apps'', ''executors'', ''workflows'', ''steps'', ''events'', ''event'', ''notifications'',
     ''queues'', ''schedules'', ''alerting-rules'', ''tokens'', ''autoscaling-policy'', ''autoscale'', ''audit-logs'', ''roles'',
     ''members'', ''permissions'', ''send'', ''streams'', ''pause'', ''trigger'', ''healthz'', ''v1'', ''metrics'']"

lemma route_words_ordinary: "list_all (\<lambda>w. encode_uri_component w = w \<and> ordinary w) route_words"
  by code_simp

lemma word_ordinary: "w \<in> set route_words \<Longrightarrow> encode_uri_component w = w \<and> ordinary w"
  using route_words_ordinary by (simp add: list_all_iff)

subsection \<open>Only an asset is handed on\<close>

definition own_answers :: "(ctx \<Rightarrow> request \<Rightarrow> bridge \<Rightarrow> answer) \<Rightarrow> bool" where
  "own_answers h \<longleftrightarrow> (\<forall>cx rq st st'. h cx rq st \<noteq> Some (st', Native))"

lemma own_reads:
  "own_answers h_users" "own_answers h_apps" "own_answers h_executors" "own_answers h_workflows" "own_answers h_steps"
  "own_answers h_events" "own_answers h_notifications" "own_answers h_workflow" "own_answers h_queues" "own_answers h_schedules"
  unfolding own_answers_def
  by (auto simp: h_users_def h_apps_def h_executors_def h_workflows_def
        h_steps_def h_events_def h_notifications_def h_workflow_def h_queues_def h_schedules_def
        dest!: with_decoded_Some split: handler_splits)

lemma own_reads2:
  "own_answers h_alerts" "own_answers h_keys" "own_answers h_autoscale" "own_answers h_audit" "own_answers h_metrics"
  "own_answers h_permissions" "own_answers h_members"
  unfolding own_answers_def
  by (auto simp: h_alerts_def h_keys_def h_autoscale_def h_audit_def h_metrics_def h_permissions_def
        h_members_def no_policy_def Let_def dest!: with_decoded_Some split: handler_splits)

lemma own_writes:
  "own_answers h_workflow_op" "own_answers h_token" "own_answers h_roles" "own_answers h_grant" "own_answers h_del_member"
  "own_answers h_del_role"
  unfolding own_answers_def
  by (auto simp: h_workflow_op_def h_token_def h_roles_def role_post_def h_grant_def h_del_member_def h_del_role_def Let_def
        dest!: with_decoded_Some split: handler_splits jsval.splits)

lemma own_apps: "own_answers h_app" "own_answers h_policy"
  unfolding own_answers_def
  by (auto simp: h_app_def h_policy_def policy_put_def no_policy_def Let_def
        dest!: with_decoded_Some split: handler_splits)

lemma first_answer_own:
  "\<forall>h\<in>set hs. own_answers h \<Longrightarrow> \<exists>h\<in>set hs. h cx rq st \<noteq> None \<Longrightarrow> snd (first_answer hs cx rq st) \<noteq> Native"
proof (induction hs)
  case (Cons h hs)
  show ?case
  proof (cases "h cx rq st")
    case None
    with Cons show ?thesis by auto
  next
    case (Some a)
    with Cons.prems(1) show ?thesis by (cases a) (auto simp: own_answers_def)
  qed
qed simp

lemma answered_by:
  assumes "plain rq" "h \<in> set handlers" "h cx rq st \<noteq> None"
  shows "snd (bridge_fetch cx rq st) \<noteq> Native"
proof -
  have "h \<in> set (tl handlers)" using assms early_plain(1) [OF assms(1), of cx st] by (auto simp: handlers_def)
  moreover have "\<forall>h\<in>set (tl handlers). own_answers h"
    by (simp add: handlers_def own_reads own_reads2 own_writes own_apps)
  ultimately have "snd (first_answer (tl handlers) cx rq st) \<noteq> Native" using first_answer_own assms(3) by blast
  then show ?thesis using early_plain(1) [OF assms(1), of cx st] by (simp add: bridge_fetch_def handlers_def)
qed

lemmas word_simps [simp] = route_words_ordinary [unfolded route_words_def list.pred_inject]

lemmas api_segs = get_of_def call_of_def in_org_def in_app_def in_wf_def api_schedule_def

lemma ordinary_nonempty [simp]: "ordinary t \<Longrightarrow> t \<noteq> []"
  using ordinary_dots by blast

lemma route_by:
  assumes "cqSegs r = map encode_uri_component ts" "ts \<noteq> []" "list_all ordinary ts" "h \<in> set handlers"
    and "\<And>q b. h cx \<lparr>rqMethod = cqMethod r, rqPath = mk_path (map encode_uri_component ts), rqQuery = q, rqBody = b\<rparr> st \<noteq> None"
  shows "snd (bridge_fetch cx (delivered r) st) \<noteq> Native"
proof (rule answered_by [of _ h])
  from op_ready [OF assms(1-3)] have d: "delivered r = \<lparr>rqMethod = cqMethod r, rqPath = mk_path (map encode_uri_component ts),
     rqQuery = sent_query r, rqBody = (case cqBody r of None \<Rightarrow> JObj [] | Some v \<Rightarrow> v)\<rparr>" "plain (delivered r)" by blast+
  then show "plain (delivered r)" "h cx (delivered r) st \<noteq> None" using assms(5) by simp_all
qed fact

lemmas route_app_defs = path_defs match_mk_path handlers_def ok_def problem_def no_policy_def

lemma routed_org_reads:
  assumes "ordinary org"
  shows "snd (bridge_fetch cx (delivered (api_listApplications org)) st) \<noteq> Native"
    and "snd (bridge_fetch cx (delivered (api_listAPIKeys org)) st) \<noteq> Native"
    and "snd (bridge_fetch cx (delivered (api_listAuditLogs org aq)) st) \<noteq> Native"
    and "snd (bridge_fetch cx (delivered (api_listRoles org)) st) \<noteq> Native"
    and "snd (bridge_fetch cx (delivered (api_createRole org nm perms)) st) \<noteq> Native"
    and "snd (bridge_fetch cx (delivered (api_listMembers org)) st) \<noteq> Native"
    and "snd (bridge_fetch cx (delivered (api_listPermissions org)) st) \<noteq> Native"
  subgoal by (rule route_by [of _ "[''v2'', ''orgs'', org, ''apps'']" h_apps]) (use assms in \<open>simp_all add: api_listApplications_def api_segs route_app_defs h_apps_def\<close>)
  subgoal by (rule route_by [of _ "[''v2'', ''orgs'', org, ''tokens'']" h_keys]) (use assms in \<open>simp_all add: api_listAPIKeys_def api_segs route_app_defs h_keys_def\<close>)
  subgoal by (rule route_by [of _ "[''v2'', ''orgs'', org, ''audit-logs'']" h_audit]) (use assms in \<open>simp_all add: api_listAuditLogs_def api_segs route_app_defs h_audit_def split: option.split\<close>)
  subgoal by (rule route_by [of _ "[''v2'', ''orgs'', org, ''roles'']" h_roles]) (use assms in \<open>simp_all add: api_listRoles_def api_segs route_app_defs h_roles_def\<close>)
  subgoal by (rule route_by [of _ "[''v2'', ''orgs'', org, ''roles'']" h_roles]) (use assms in \<open>simp_all add: api_createRole_def api_segs route_app_defs h_roles_def role_post_def Let_def split: jsval.split\<close>)
  subgoal by (rule route_by [of _ "[''v2'', ''orgs'', org, ''members'']" h_members]) (use assms in \<open>simp_all add: api_listMembers_def api_segs route_app_defs h_members_def\<close>)
  subgoal by (rule route_by [of _ "[''v2'', ''orgs'', org, ''permissions'']" h_permissions]) (use assms in \<open>simp_all add: api_listPermissions_def api_segs route_app_defs h_permissions_def\<close>)
  done

lemma routed_names:
  assumes "ordinary org" "ordinary nm" "ordinary user"
  shows "snd (bridge_fetch cx (delivered (api_createAPIKey org nm perms anames)) st) \<noteq> Native"
    and "snd (bridge_fetch cx (delivered (api_revokeAPIKey org nm)) st) \<noteq> Native"
    and "snd (bridge_fetch cx (delivered (api_deleteRole org nm)) st) \<noteq> Native"
    and "snd (bridge_fetch cx (delivered (api_grantMemberRole org user nm)) st) \<noteq> Native"
    and "snd (bridge_fetch cx (delivered (api_removeMember org user)) st) \<noteq> Native"
  subgoal by (rule route_by [of _ "[''v2'', ''orgs'', org, ''tokens'', nm]" h_token]) (use assms in \<open>simp_all add: api_createAPIKey_def api_segs route_app_defs h_token_def Let_def\<close>)
  subgoal by (rule route_by [of _ "[''v2'', ''orgs'', org, ''tokens'', nm]" h_token]) (use assms in \<open>simp_all add: api_revokeAPIKey_def api_segs route_app_defs h_token_def\<close>)
  subgoal by (rule route_by [of _ "[''v2'', ''orgs'', org, ''roles'', nm]" h_del_role]) (use assms in \<open>simp_all add: api_deleteRole_def api_segs route_app_defs h_del_role_def split: option.split\<close>)
  subgoal by (rule route_by [of _ "[''v2'', ''orgs'', org, ''members'', user, ''roles'', nm]" h_grant]) (use assms in \<open>simp_all add: api_grantMemberRole_def api_segs route_app_defs h_grant_def\<close>)
  subgoal by (rule route_by [of _ "[''v2'', ''orgs'', org, ''members'', user]" h_del_member]) (use assms in \<open>simp_all add: api_removeMember_def api_segs route_app_defs h_del_member_def\<close>)
  done

lemma routed_app_reads:
  assumes "ordinary org" "ordinary app"
  shows "snd (bridge_fetch cx (delivered (api_getApplication org app)) st) \<noteq> Native"
    and "snd (bridge_fetch cx (delivered (api_listExecutors org app)) st) \<noteq> Native"
    and "snd (bridge_fetch cx (delivered (api_listWorkflows org app wq)) st) \<noteq> Native"
    and "snd (bridge_fetch cx (delivered (api_listQueues org app)) st) \<noteq> Native"
    and "snd (bridge_fetch cx (delivered (api_listSchedules org app)) st) \<noteq> Native"
    and "snd (bridge_fetch cx (delivered (api_listAlertingRules org app)) st) \<noteq> Native"
  subgoal by (rule route_by [of _ "[''v2'', ''orgs'', org, ''apps'', app]" h_app]) (use assms in \<open>simp_all add: api_getApplication_def api_segs route_app_defs h_app_def Let_def split: option.split\<close>)
  subgoal by (rule route_by [of _ "[''v2'', ''orgs'', org, ''apps'', app, ''executors'']" h_executors]) (use assms in \<open>simp_all add: api_listExecutors_def api_segs route_app_defs h_executors_def split: option.split list.split\<close>)
  subgoal by (rule route_by [of _ "[''v2'', ''orgs'', org, ''apps'', app, ''workflows'']" h_workflows]) (use assms in \<open>simp_all add: api_listWorkflows_def api_segs route_app_defs h_workflows_def\<close>)
  subgoal by (rule route_by [of _ "[''v2'', ''orgs'', org, ''apps'', app, ''queues'']" h_queues]) (use assms in \<open>simp_all add: api_listQueues_def api_segs route_app_defs h_queues_def\<close>)
  subgoal by (rule route_by [of _ "[''v2'', ''orgs'', org, ''apps'', app, ''schedules'']" h_schedules]) (use assms in \<open>simp_all add: api_listSchedules_def api_segs route_app_defs h_schedules_def\<close>)
  subgoal by (rule route_by [of _ "[''v2'', ''orgs'', org, ''apps'', app, ''alerting-rules'']" h_alerts]) (use assms in \<open>simp_all add: api_listAlertingRules_def api_segs route_app_defs h_alerts_def\<close>)
  done

lemma routed_app_settings:
  assumes "ordinary org" "ordinary app"
  shows "snd (bridge_fetch cx (delivered (api_updateApp org app bd)) st) \<noteq> Native"
    and "snd (bridge_fetch cx (delivered (api_getAutoscalingPolicy org app)) st) \<noteq> Native"
    and "snd (bridge_fetch cx (delivered (api_setAutoscalingPolicy org app bd)) st) \<noteq> Native"
    and "snd (bridge_fetch cx (delivered (api_deleteAutoscalingPolicy org app)) st) \<noteq> Native"
    and "snd (bridge_fetch cx (delivered (api_getAutoscale org app)) st) \<noteq> Native"
  subgoal by (rule route_by [of _ "[''v2'', ''orgs'', org, ''apps'', app]" h_app]) (use assms in \<open>simp_all add: api_updateApp_def api_segs route_app_defs h_app_def Let_def split: option.split\<close>)
  subgoal by (rule route_by [of _ "[''v2'', ''orgs'', org, ''apps'', app, ''autoscaling-policy'']" h_policy]) (use assms in \<open>simp_all add: api_getAutoscalingPolicy_def api_segs route_app_defs h_policy_def split: option.split\<close>)
  subgoal by (rule route_by [of _ "[''v2'', ''orgs'', org, ''apps'', app, ''autoscaling-policy'']" h_policy]) (use assms in \<open>simp_all add: api_setAutoscalingPolicy_def api_segs route_app_defs h_policy_def policy_put_def Let_def split: option.split\<close>)
  subgoal by (rule route_by [of _ "[''v2'', ''orgs'', org, ''apps'', app, ''autoscaling-policy'']" h_policy]) (use assms in \<open>simp_all add: api_deleteAutoscalingPolicy_def api_segs route_app_defs h_policy_def Let_def\<close>)
  subgoal by (rule route_by [of _ "[''v2'', ''orgs'', org, ''apps'', app, ''autoscale'']" h_autoscale]) (use assms in \<open>simp_all add: api_getAutoscale_def api_segs route_app_defs h_autoscale_def match_autoscale_def split_mk_path Let_def split: option.split\<close>)
  done

lemma routed_workflow_reads:
  assumes "ordinary org" "ordinary app" "ordinary wid"
  shows "snd (bridge_fetch cx (delivered (api_getWorkflow org app wid)) st) \<noteq> Native"
    and "snd (bridge_fetch cx (delivered (api_listSteps org app wid)) st) \<noteq> Native"
    and "snd (bridge_fetch cx (delivered (api_getWorkflowEvents org app wid)) st) \<noteq> Native"
    and "snd (bridge_fetch cx (delivered (api_getWorkflowNotifications org app wid)) st) \<noteq> Native"
  subgoal by (rule route_by [of _ "[''v2'', ''orgs'', org, ''apps'', app, ''workflows'', wid]" h_workflow]) (use assms in \<open>simp_all add: api_getWorkflow_def api_segs route_app_defs h_workflow_def split: option.split list.split\<close>)
  subgoal by (rule route_by [of _ "[''v2'', ''orgs'', org, ''apps'', app, ''workflows'', wid, ''steps'']" h_steps]) (use assms in \<open>simp_all add: api_listSteps_def api_segs route_app_defs h_steps_def split: option.split list.split\<close>)
  subgoal by (rule route_by [of _ "[''v2'', ''orgs'', org, ''apps'', app, ''workflows'', wid, ''events'']" h_events]) (use assms in \<open>simp_all add: api_getWorkflowEvents_def api_segs route_app_defs h_events_def\<close>)
  subgoal by (rule route_by [of _ "[''v2'', ''orgs'', org, ''apps'', app, ''workflows'', wid, ''notifications'']" h_notifications]) (use assms in \<open>simp_all add: api_getWorkflowNotifications_def api_segs route_app_defs h_notifications_def\<close>)
  done

subsection \<open>What the browser gets\<close>

lemma native_by:
  assumes "cqSegs r = map encode_uri_component ts" "ts \<noteq> []" "list_all ordinary ts"
    and "\<And>h q b. h \<in> set handlers - {h_static, h_workflow_op} \<Longrightarrow>
      h cx \<lparr>rqMethod = cqMethod r, rqPath = mk_path (map encode_uri_component ts), rqQuery = q, rqBody = b\<rparr> st = None"
  shows "bridge_fetch cx (delivered r) st = (st, Native)"
proof -
  have none: "\<forall>h\<in>set hs. h cx rq st = None \<Longrightarrow> first_answer hs cx rq st = (st, Native)" for hs rq
    by (induction hs) auto
  from op_ready [OF assms(1-3)] have d: "delivered r = \<lparr>rqMethod = cqMethod r, rqPath = mk_path (map encode_uri_component ts),
     rqQuery = sent_query r, rqBody = (case cqBody r of None \<Rightarrow> JObj [] | Some v \<Rightarrow> v)\<rparr>" "plain (delivered r)" by blast+
  have "h cx (delivered r) st = None" if "h \<in> set handlers" for h
    using early_plain [OF d(2)] assms(4) [of h] that unfolding d(1) by (cases "h = h_static \<or> h = h_workflow_op") auto
  then show ?thesis unfolding bridge_fetch_def using none by blast
qed

lemma other_handlers: "h \<in> set handlers - {h_static, h_workflow_op} \<Longrightarrow>
  h \<in> {h_users, h_apps, h_executors, h_workflows, h_steps, h_events, h_notifications, h_workflow, h_queues, h_schedules,
     h_alerts, h_keys, h_token, h_app, h_policy, h_autoscale, h_audit, h_metrics, h_permissions, h_roles, h_del_role,
     h_members, h_grant, h_del_member}"
  by (auto simp: handlers_def)

lemmas handler_defs = earlier_defs later_defs h_alerts_def h_keys_def h_token_def h_roles_def h_del_role_def h_members_def
  h_grant_def h_del_member_def

lemma native_workflow:
  assumes "ordinary org" "ordinary app" "ordinary wid" and "w \<in> {''event'', ''send'', ''streams''}"
    and "cqSegs r = map encode_uri_component [''v2'', ''orgs'', org, ''apps'', app, ''workflows'', wid, w]"
  shows "bridge_fetch cx (delivered r) st = (st, Native)"
proof (rule native_by [OF assms(5)])
  show "list_all ordinary [''v2'', ''orgs'', org, ''apps'', app, ''workflows'', wid, w]" using assms(1-4) by auto
  fix h q b
  assume "h \<in> set handlers - {h_static, h_workflow_op}"
  from other_handlers [OF this] assms(1-4)
  show "h cx \<lparr>rqMethod = cqMethod r, rqPath = mk_path (map encode_uri_component [''v2'', ''orgs'', org, ''apps'', app, ''workflows'', wid, w]),
     rqQuery = q, rqBody = b\<rparr> st = None"
    by (auto simp: handler_defs path_defs match_mk_path split_mk_path)
qed simp

lemma native_schedule:
  assumes "ordinary org" "ordinary app" "ordinary nm" and "w \<in> {''pause'', ''trigger''}"
    and "cqSegs r = map encode_uri_component [''v2'', ''orgs'', org, ''apps'', app, ''schedules'', nm, w]"
  shows "bridge_fetch cx (delivered r) st = (st, Native)"
proof (rule native_by [OF assms(5)])
  show "list_all ordinary [''v2'', ''orgs'', org, ''apps'', app, ''schedules'', nm, w]" using assms(1-4) by auto
  fix h q b
  assume "h \<in> set handlers - {h_static, h_workflow_op}"
  from other_handlers [OF this] assms(1-4)
  show "h cx \<lparr>rqMethod = cqMethod r, rqPath = mk_path (map encode_uri_component [''v2'', ''orgs'', org, ''apps'', app, ''schedules'', nm, w]),
     rqQuery = q, rqBody = b\<rparr> st = None"
    by (auto simp: handler_defs path_defs match_mk_path split_mk_path)
qed simp

lemma native_others:
  assumes "ts \<in> {[''healthz''], [''v2'', ''orgs''], [''v2'', ''orgs'', org, ''apps'', app, ''alerting-rules'', nm]}"
    and "ordinary org" "ordinary app" "ordinary nm" "cqSegs r = map encode_uri_component ts"
  shows "bridge_fetch cx (delivered r) st = (st, Native)"
proof (rule native_by [OF assms(5)])
  show "ts \<noteq> []" "list_all ordinary ts" using assms(1-4) by auto
  fix h q b
  assume "h \<in> set handlers - {h_static, h_workflow_op}"
  from other_handlers [OF this] assms(1-4)
  show "h cx \<lparr>rqMethod = cqMethod r, rqPath = mk_path (map encode_uri_component ts), rqQuery = q, rqBody = b\<rparr> st = None"
    by (auto simp: handler_defs path_defs match_mk_path split_mk_path) (auto simp: mk_path_def)
qed

lemma workflow_op_answered:
  assumes "ordinary org" "ordinary app" "ordinary wid" "op \<in> {''cancel'', ''resume'', ''fork''}"
    and "cqSegs r = map encode_uri_component [''v2'', ''orgs'', org, ''apps'', app, what, wid, op]" "cqMethod r = ''POST''"
    and "what \<in> {''workflows'', ''schedules''}"
  shows "bridge_fetch cx (delivered r) st =
    (if what = ''workflows'' then (pushAudit cx (''workflow.'' @ op) (''workflow'', wid) st, Response 200 BOk)
     else (st, Response 404 (BProblem ''Not Found'' 404 ''unknown workflow operation'')))"
proof -
  let ?ts = "[''v2'', ''orgs'', org, ''apps'', app, what, wid, op]"
  have op: "encode_uri_component op = op \<and> not_asset_seg op \<and> op \<noteq> []" using assms(4) by (elim insertE; simp) code_simp+
  have "addressed r" using assms(1-5,7) ordinary_dots by (intro addressedI [of _ ?ts]) auto
  then have path: "rqPath (delivered r) = mk_path (map encode_uri_component ?ts)"
    and meth: "rqMethod (delivered r) = ''POST''" using delivered_eq [of r] assms(5,6) by simp_all
  have static: "\<not> is_static (mk_path (map encode_uri_component ?ts))"
  proof (rule not_asset_path)
    have "\<forall>t\<in>set [''v2'', ''orgs'', org, ''apps'', app, what, wid]. ordinary t" using assms(1-3,7) by auto
    then have "\<forall>t\<in>set [''v2'', ''orgs'', org, ''apps'', app, what, wid]. not_asset_seg (encode_uri_component t)"
      using ordinary_not_asset ordinary_def by blast
    then show "\<forall>s\<in>set (map encode_uri_component ?ts). not_asset_seg s" using op by auto
  qed simp
  have "mk_path (map encode_uri_component ?ts) =
      mk_path (map encode_uri_component (butlast ?ts)) @ (CHR ''/'' # op) @ []" using op by (simp add: mk_path_def)
  then have "str_includes (mk_path (map encode_uri_component ?ts)) (CHR ''/'' # op)" unfolding str_includes_iff by blast
  then have hit: "str_includes (rqPath (delivered r)) ''/cancel'' \<or> str_includes (rqPath (delivered r)) ''/resume'' \<or>
      str_includes (rqPath (delivered r)) ''/fork''" using assms(4) by (elim insertE) (simp_all only: path simp_thms empty_iff)
  have "workflow_op (rqPath (delivered r)) = (if what = ''workflows'' then Some (encode_uri_component wid, op) else None)"
    using op assms(3,4,7) unfolding path by (auto simp: workflow_op_def split_mk_path not_asset_seg_def)
  then have wop: "h_workflow_op cx (delivered r) st = Some (if what = ''workflows''
      then (pushAudit cx (''workflow.'' @ op) (''workflow'', wid) st, Response 200 BOk)
      else (st, Response 404 (BProblem ''Not Found'' 404 ''unknown workflow operation'')))"
    using hit by (simp add: h_workflow_op_def problem_def)
  have "\<forall>h\<in>{h_users, h_apps, h_executors, h_workflows, h_steps, h_events, h_notifications, h_workflow, h_queues,
      h_schedules, h_alerts, h_keys, h_token}. h cx (delivered r) st = None"
    using op assms(1-4,7) by (auto simp: path meth earlier_defs h_alerts_def h_keys_def h_token_def path_defs match_mk_path not_asset_seg_def)
  then show ?thesis using wop static by (simp add: bridge_fetch_def handlers_def h_static_def path)
qed

section \<open>Theorems\<close>

text \<open>
  how the mock API meets the console's client. For names that contain none of the words the path
  tests look for, every request of the first list is answered by the directory, and every request of the
  second is passed to the browser's own \<open>fetch\<close> and leaves the directory as it is.
\<close>

theorem client_routing:
  assumes "list_all ordinary [org, app, wid, nm, user]"
  shows "list_all (\<lambda>r. snd (bridge_fetch cx (delivered r) st) \<noteq> Native) (answered_ops org app wid nm user perms wq aq bd)
    \<and> list_all (\<lambda>r. bridge_fetch cx (delivered r) st = (st, Native)) (unanswered_ops org app wid nm key)"
proof
  have o': "ordinary org" "ordinary app" "ordinary wid" "ordinary nm" "ordinary user" using assms by simp_all
  show "list_all (\<lambda>r. snd (bridge_fetch cx (delivered r) st) \<noteq> Native) (answered_ops org app wid nm user perms wq aq bd)"
    by (simp add: answered_ops_def routed_org_reads [OF o'(1)] routed_names [OF o'(1,4,5)] routed_app_reads [OF o'(1,2)]
      routed_app_settings [OF o'(1,2)] routed_workflow_reads [OF o'(1,2,3)])
  have n: "bridge_fetch cx (delivered r) st = (st, Native)"
    if "w \<in> {''event'', ''send'', ''streams''}" "cqSegs r = in_wf org app wid [w]" for r w
    by (rule native_workflow [OF o'(1-3) that(1)]) (use that in \<open>auto simp: api_segs\<close>)
  have s: "bridge_fetch cx (delivered r) st = (st, Native)"
    if "w \<in> {''pause'', ''trigger''}" "cqSegs r = in_app org app [''schedules'', encode_uri_component nm, w]" for r w
    by (rule native_schedule [OF o'(1,2,4) that(1)]) (use that in \<open>auto simp: api_segs\<close>)
  note x = native_others [OF _ o'(1,2,4)]
  show "list_all (\<lambda>r. bridge_fetch cx (delivered r) st = (st, Native)) (unanswered_ops org app wid nm key)"
    using x [of "[''healthz'']" api_getHealth cx st] x [of "[''v2'', ''orgs'']" api_listOrganizations cx st]
      n [of "''event''" "api_getWorkflowEvent org app wid key"] n [of "''send''" "api_sendWorkflowMessage org app wid JNull None"]
      n [of "''streams''" "api_getWorkflowStreams org app wid None"] s [of "''pause''" "api_pauseSchedule org app nm"]
      s [of "''trigger''" "api_triggerSchedule org app nm"]
      x [of "[''v2'', ''orgs'', org, ''apps'', app, ''alerting-rules'', nm]" "api_deleteAlertingRule org app nm" cx st]
    by (simp add: unanswered_ops_def api_getHealth_def api_listOrganizations_def api_getWorkflowEvent_def
        api_sendWorkflowMessage_def api_getWorkflowStreams_def api_pauseSchedule_def api_triggerSchedule_def
        api_deleteAlertingRule_def api_segs)
qed

theorem client_routing_witness:
  "list_all (\<lambda>r. snd (bridge_fetch ctx0 (delivered r) (init_bridge ctx0)) \<noteq> Native)
      (answered_ops ''default'' ''shop'' ''wf-1'' ''ci'' ''bob@example.com'' []
        \<lparr>wqIds = [], wqNames = [], wqStatus = [], wqQueues = [], wqVersions = [], wqLimit = 5, wqOffset = 0, wqSortDesc = None\<rparr>
        \<lparr>aqStartTime = [], aqEndTime = [], aqOperation = [], aqSubject = [], aqTarget = [], aqLimit = None, aqOffset = None\<rparr> JNull)
    \<and> list_all (\<lambda>r. bridge_fetch ctx0 (delivered r) (init_bridge ctx0) = (init_bridge ctx0, Native))
        (unanswered_ops ''default'' ''shop'' ''wf-1'' ''ci'' ''k'')"
proof (rule client_routing)
  show "list_all ordinary [''default'', ''shop'', ''wf-1'', ''ci'', ''bob@example.com'']" by code_simp
qed

text \<open>
  the operations on a workflow. Cancelling, resuming and forking a workflow of an ordinary name are
  acknowledged and audited under the workflow's own id, and change nothing else; resuming a schedule, whose
  path ends in \<open>/resume\<close> too, is taken for such an operation and refused.
\<close>

theorem client_workflow_operations:
  assumes "list_all ordinary [org, app, wid]"
  shows "bridge_fetch cx (delivered (api_cancelWorkflow org app wid)) st =
           (pushAudit cx ''workflow.cancel'' (''workflow'', wid) st, Response 200 BOk)
    \<and> bridge_fetch cx (delivered (api_resumeWorkflow org app wid)) st =
           (pushAudit cx ''workflow.resume'' (''workflow'', wid) st, Response 200 BOk)
    \<and> bridge_fetch cx (delivered (api_forkWorkflow org app wid n)) st =
           (pushAudit cx ''workflow.fork'' (''workflow'', wid) st, Response 200 BOk)
    \<and> bridge_fetch cx (delivered (api_resumeSchedule org app wid)) st =
           (st, Response 404 (BProblem ''Not Found'' 404 ''unknown workflow operation''))"
proof -
  have o': "ordinary org" "ordinary app" "ordinary wid" using assms by simp_all
  have e: "encode_uri_component ''cancel'' = ''cancel''" "encode_uri_component ''resume'' = ''resume''"
    "encode_uri_component ''fork'' = ''fork''" by code_simp+
  note a = workflow_op_answered [OF o', of _ _ "''workflows''"] and b = workflow_op_answered [OF o', of _ _ "''schedules''"]
  show ?thesis
    using a [of "''cancel''" "api_cancelWorkflow org app wid" cx st] a [of "''resume''" "api_resumeWorkflow org app wid" cx st]
      a [of "''fork''" "api_forkWorkflow org app wid n" cx st] b [of "''resume''" "api_resumeSchedule org app wid" cx st] e
    by (simp add: api_cancelWorkflow_def api_resumeWorkflow_def api_forkWorkflow_def api_resumeSchedule_def api_segs)
qed

theorem client_workflow_operations_witness:
  "bridge_fetch ctx0 (delivered (api_cancelWorkflow ''default'' ''shop'' ''wf-1'')) (init_bridge ctx0) =
     (pushAudit ctx0 ''workflow.cancel'' (''workflow'', ''wf-1'') (init_bridge ctx0), Response 200 BOk)
    \<and> bridge_fetch ctx0 (delivered (api_resumeWorkflow ''default'' ''shop'' ''wf-1'')) (init_bridge ctx0) =
     (pushAudit ctx0 ''workflow.resume'' (''workflow'', ''wf-1'') (init_bridge ctx0), Response 200 BOk)
    \<and> bridge_fetch ctx0 (delivered (api_forkWorkflow ''default'' ''shop'' ''wf-1'' 2)) (init_bridge ctx0) =
     (pushAudit ctx0 ''workflow.fork'' (''workflow'', ''wf-1'') (init_bridge ctx0), Response 200 BOk)
    \<and> bridge_fetch ctx0 (delivered (api_resumeSchedule ''default'' ''shop'' ''wf-1'')) (init_bridge ctx0) =
     (init_bridge ctx0, Response 404 (BProblem ''Not Found'' 404 ''unknown workflow operation''))"
proof (rule client_workflow_operations)
  show "list_all ordinary [''default'', ''shop'', ''wf-1'']" by code_simp
qed

end
