(* ===== verification/Console_Bridge.thy ===== *)
theory Console_Bridge
  imports Console_Actions Client_Bridge
begin

text \<open>
  The console's calls, end to end on the playground's mock API: the API client's request for each call an
  operator action makes, with the JSON body the action builds, and what the directory makes of it.
\<close>

section \<open>The request of a call\<close>

definition int_field :: "string \<Rightarrow> int option \<Rightarrow> (string \<times> jsval) list" where
  "int_field k v = (case v of None \<Rightarrow> [] | Some n \<Rightarrow> [(k, JNum (Fin (of_int n)))])"

definition settings_body :: "app_settings \<Rightarrow> jsval" where
  "settings_body s = JObj ([(''privateMode'', JBool (setPrivateMode s))]
     @ int_field ''gcRowsThreshold'' (gcRowsThreshold s) @ int_field ''gcTimeThresholdMs'' (gcTimeThresholdMs s)
     @ int_field ''globalTimeoutMs'' (globalTimeoutMs s) @ int_field ''executorTimeoutSecs'' (setExecutorTimeoutSecs s))"

definition rollout_body :: "rollout \<Rightarrow> jsval" where
  "rollout_body r = JObj (int_field ''maxOldApplicationVersions'' (maxOldApplicationVersions r)
     @ int_field ''maxExecutorsForOldApplicationVersions'' (maxExecutorsForOldApplicationVersions r))"

definition policy_body :: "string \<Rightarrow> rollout option \<Rightarrow> jsval" where
  "policy_body qu r = JObj ((''queue'', JStr qu) # (case r of None \<Rightarrow> [] | Some ro \<Rightarrow> [(''rollout'', rollout_body ro)]))"

definition rule_body :: "string \<Rightarrow> int \<Rightarrow> jsval \<Rightarrow> jsval" where
  "rule_body ty secs meta = JObj [(''ruleType'', JStr ty), (''minIntervalSecs'', JNum (Fin (of_int secs))), (''ruleMetadata'', meta)]"

fun call_request :: "api_call \<Rightarrow> api_request" where
  "call_request (CancelWorkflow org app wid) = api_cancelWorkflow org app wid"
| "call_request (ResumeWorkflow org app wid) = api_resumeWorkflow org app wid"
| "call_request (ForkWorkflow org app wid n) = api_forkWorkflow org app wid (int n)"
| "call_request (SendWorkflowMessage org app wid payload topic) = api_sendWorkflowMessage org app wid payload topic"
| "call_request (PauseSchedule org app name) = api_pauseSchedule org app name"
| "call_request (ResumeSchedule org app name) = api_resumeSchedule org app name"
| "call_request (TriggerSchedule org app name) = api_triggerSchedule org app name"
| "call_request (CreateAlertingRule org app ty secs meta) = api_createAlertingRule org app (rule_body ty secs meta)"
| "call_request (DeleteAlertingRule org app rid) = api_deleteAlertingRule org app rid"
| "call_request (CreateAPIKey org name perms anames) = api_createAPIKey org name perms anames"
| "call_request (RevokeAPIKey org name) = api_revokeAPIKey org name"
| "call_request (CreateRole org name perms) = api_createRole org name perms"
| "call_request (DeleteRole org name) = api_deleteRole org name"
| "call_request (GrantMemberRole org user name) = api_grantMemberRole org user name"
| "call_request (RemoveMember org user) = api_removeMember org user"
| "call_request (UpdateApp org app s) = api_updateApp org app (settings_body s)"
| "call_request (SetAutoscalingPolicy org app qu r) = api_setAutoscalingPolicy org app (policy_body qu r)"
| "call_request (DeleteAutoscalingPolicy org app) = api_deleteAutoscalingPolicy org app"

section \<open>The application's settings\<close>

lemma deliver:
  assumes "cqSegs r = map encode_uri_component ts" "ts \<noteq> []" "list_all ordinary ts" "cqKey r = None"
  shows "plain (delivered r)" "delivered r = \<lparr>rqMethod = cqMethod r, rqPath = mk_path (map encode_uri_component ts),
     rqQuery = cqQuery r, rqBody = (case cqBody r of None \<Rightarrow> JObj [] | Some v \<Rightarrow> v)\<rparr>"
  using op_ready [OF assms(1-3)] assms(4) by (auto simp: sent_query_def)

lemma fetch_app:
  assumes "ordinary org" "ordinary app" "cqSegs r = in_app org app []" "cqKey r = None" "cqMethod r \<in> {''GET'', ''PATCH''}"
    and "find_app cx app st = Some ap"
  shows "bridge_fetch cx (delivered r) st =
    (let st1 = ensure_config app st in
     if cqMethod r = ''PATCH'' then (app_patch cx (case cqBody r of None \<Rightarrow> JObj [] | Some v \<Rightarrow> v) app st1, Response 204 BNone)
     else (st1, Response 200 (BAppDetail ap (config_of st1 app))))"
proof -
  have s: "cqSegs r = map encode_uri_component [''v2'', ''orgs'', org, ''apps'', app]" using assms(3) by (simp add: in_app_def in_org_def)
  note d = deliver [OF s _ _ assms(4)]
  have "plain (delivered r)" by (rule d(1)) (use assms(1,2) in simp_all)
  moreover have e: "delivered r = \<lparr>rqMethod = cqMethod r, rqPath = mk_path (map encode_uri_component [''v2'', ''orgs'', org, ''apps'', app]),
     rqQuery = cqQuery r, rqBody = (case cqBody r of None \<Rightarrow> JObj [] | Some v \<Rightarrow> v)\<rparr>" by (rule d(2)) (use assms(1,2) in simp_all)
  ultimately show ?thesis using early_plain [of "delivered r" cx st] assms(1,2,5,6) unfolding e
    by (auto simp: bridge_fetch_def handlers_def earlier_defs h_alerts_def h_keys_def h_token_def h_app_def path_defs match_mk_path
        ok_def Let_def)
qed

lemma settings_fields:
  "field (settings_body s) ''privateMode'' = JBool (setPrivateMode s)"
  "field (settings_body s) ''executorTimeoutSecs'' = (case setExecutorTimeoutSecs s of None \<Rightarrow> JUndef | Some n \<Rightarrow> JNum (Fin (of_int n)))"
  "field (settings_body s) ''gcRowsThreshold'' = (case gcRowsThreshold s of None \<Rightarrow> JUndef | Some n \<Rightarrow> JNum (Fin (of_int n)))"
  "field (settings_body s) ''gcTimeThresholdMs'' = (case gcTimeThresholdMs s of None \<Rightarrow> JUndef | Some n \<Rightarrow> JNum (Fin (of_int n)))"
  "field (settings_body s) ''globalTimeoutMs'' = (case globalTimeoutMs s of None \<Rightarrow> JUndef | Some n \<Rightarrow> JNum (Fin (of_int n)))"
  by (auto simp: settings_body_def int_field_def field_def split: option.split)

definition override :: "string \<Rightarrow> int option \<Rightarrow> (string \<rightharpoonup> jsval) \<Rightarrow> string \<rightharpoonup> jsval" where
  "override k v m = (case v of None \<Rightarrow> m | Some n \<Rightarrow> m(k \<mapsto> JNum (Fin (of_int n))))"

text \<open>The stored configuration with the submitted settings laid over it.\<close>

definition with_settings :: "app_settings \<Rightarrow> (string \<rightharpoonup> jsval) \<Rightarrow> string \<rightharpoonup> jsval" where
  "with_settings s m =
     override ''globalTimeoutMs'' (globalTimeoutMs s) (override ''gcTimeThresholdMs'' (gcTimeThresholdMs s)
       (override ''gcRowsThreshold'' (gcRowsThreshold s) (override ''executorTimeoutSecs'' (setExecutorTimeoutSecs s)
         (m(''privateMode'' \<mapsto> JBool (setPrivateMode s))))))"

lemma apply_num_rule:
  assumes "field bd k = (case v of None \<Rightarrow> JUndef | Some n \<Rightarrow> JNum (Fin (of_int n)))" "pr \<in> {is_num, \<lambda>x. is_num x \<or> x = JNull}"
  shows "map_of (fst (apply_rule bd (k, pr) acc)) = override k v (map_of (fst acc)) \<and> (snd acc \<longrightarrow> snd (apply_rule bd (k, pr) acc))"
  using assms by (auto simp: apply_rule_def override_def is_num_def update_conv' split: option.splits)

lemma patch_settings: "map_of (fst (patch_config (settings_body s) cfg)) = with_settings s (map_of cfg) \<and> snd (patch_config (settings_body s) cfg)"
proof -
  have p: "map_of (fst (apply_rule (settings_body s) (''privateMode'', is_bool) (cfg, False))) = (map_of cfg)(''privateMode'' \<mapsto> JBool (setPrivateMode s))"
    "snd (apply_rule (settings_body s) (''privateMode'', is_bool) (cfg, False))"
    by (simp_all add: apply_rule_def settings_fields is_bool_def update_conv')
  show ?thesis unfolding patch_config_def patch_rules_def with_settings_def
    using p apply_num_rule [OF settings_fields(2), of is_num] apply_num_rule [OF settings_fields(3), of "\<lambda>v. is_num v \<or> v = JNull"]
      apply_num_rule [OF settings_fields(4), of "\<lambda>v. is_num v \<or> v = JNull"] apply_num_rule [OF settings_fields(5), of "\<lambda>v. is_num v \<or> v = JNull"]
    by simp
qed

lemma find_app_listed: "app \<in> baName ` set (apps_tab st) \<Longrightarrow> \<exists>ap. \<forall>cx. find_app cx app st = Some ap \<and> baName ap = app"
proof -
  assume "app \<in> baName ` set (apps_tab st)"
  then obtain ap where ap: "find (\<lambda>a. baName a = app) (apps_tab st) = Some ap" by (cases "find (\<lambda>a. baName a = app) (apps_tab st)") (auto simp: find_None_iff)
  then have "baName ap = app" by (auto simp: find_Some_iff)
  with ap show ?thesis by (auto simp: find_app_def)
qed

lemma tables_kept [simp]:
  "apps_tab (ensure_config app st) = apps_tab st" "apps_tab (app_patch cx bd app st) = apps_tab st"
  by (auto simp: ensure_config_def app_patch_def Let_def pushAudit_def split: prod.split)

lemma find_app_cong: "apps_tab st = apps_tab st' \<Longrightarrow> find_app cx app st = find_app cx app st'"
  by (simp add: find_app_def)

lemma config_after_patch: "map_of (configs_tab (app_patch cx bd app st)) app = Some (fst (patch_config bd (config_of st app)))"
  by (simp add: app_patch_def Let_def pushAudit_def update_conv' split: prod.split)

lemma audit_after_patch: "snd (patch_config bd (config_of st app)) \<Longrightarrow>
    map auOperation (audit_tab (app_patch cx bd app st)) = ''application.update'' # map auOperation (audit_tab st)"
  by (cases "patch_config bd (config_of st app)") (simp add: app_patch_def pushAudit_def)

lemma ensure_config_idem: "map_of (configs_tab st) app = Some g \<Longrightarrow> ensure_config app st = st"
  by (simp add: ensure_config_def)

lemma config_of_ensure: "config_of (ensure_config app st) app = config_of st app"
  by (simp add: config_of_def ensure_config_def update_conv' split: option.split)



section \<open>The autoscaling policy\<close>

lemma policy_put_answers: "\<exists>y. policy_put cx bd app st = Some y"
  by (auto simp: policy_put_def problem_def Let_def split: option.split)

lemma fetch_policy:
  assumes "ordinary org" "ordinary app" "cqSegs r = in_app org app [''autoscaling-policy'']" "cqKey r = None"
    and "cqMethod r \<in> {''GET'', ''PUT''}"
  shows "bridge_fetch cx (delivered r) st =
    (if cqMethod r = ''GET'' then (case map_of (autoscaling_tab st) app of
        None \<Rightarrow> (st, Response 404 (BProblem ''Not Found'' 404 ''no autoscaling policy configured for application''))
      | Some p \<Rightarrow> (st, Response 200 (BPolicy p)))
     else the (policy_put cx (case cqBody r of None \<Rightarrow> JObj [] | Some v \<Rightarrow> v) app st))"
proof -
  have s: "cqSegs r = map encode_uri_component [''v2'', ''orgs'', org, ''apps'', app, ''autoscaling-policy'']"
    using assms(3) by (simp add: in_app_def in_org_def)
  note d = deliver [OF s _ _ assms(4)]
  have "plain (delivered r)" by (rule d(1)) (use assms(1,2) in simp_all)
  moreover have e: "delivered r = \<lparr>rqMethod = cqMethod r,
     rqPath = mk_path (map encode_uri_component [''v2'', ''orgs'', org, ''apps'', app, ''autoscaling-policy'']),
     rqQuery = cqQuery r, rqBody = (case cqBody r of None \<Rightarrow> JObj [] | Some v \<Rightarrow> v)\<rparr>" by (rule d(2)) (use assms(1,2) in simp_all)
  moreover obtain y where "policy_put cx (case cqBody r of None \<Rightarrow> JObj [] | Some v \<Rightarrow> v) app st = Some y"
    using policy_put_answers by blast
  ultimately show ?thesis using early_plain [of "delivered r" cx st] assms(1,2,5) unfolding e
    by (cases "map_of (autoscaling_tab st) app"; cases "cqMethod r = ''GET''")
      (auto simp: bridge_fetch_def handlers_def earlier_defs h_alerts_def h_keys_def h_token_def h_app_def h_policy_def path_defs
        match_mk_path ok_def problem_def no_policy_def)
qed

definition sent_rollout :: "string \<Rightarrow> string \<Rightarrow> rollout option" where
  "sent_rollout oldRaw execRaw =
     (if readOpt oldRaw \<noteq> Blank \<or> readOpt execRaw \<noteq> Blank
      then Some \<lparr>maxOldApplicationVersions = floor_of 1 (readOpt oldRaw), maxExecutorsForOldApplicationVersions = floor_of 1 (readOpt execRaw)\<rparr>
      else None)"

lemma submitted_policy:
  "new_calls c (submitAutoscalingPolicy reply qu oldRaw execRaw c) =
     (if qu = [] \<or> Invalid \<in> {readOpt oldRaw, readOpt execRaw} then []
      else [SetAutoscalingPolicy (orgName c) (appName c) qu (sent_rollout oldRaw execRaw)])"
  unfolding submitAutoscalingPolicy_def sent_rollout_def Let_def by (auto simp del: append.simps)

definition policy_of :: "string \<Rightarrow> rollout option \<Rightarrow> b_policy" where
  "policy_of qu r = \<lparr>bpQueue = qu, bpRollout = map_option rollout_body r, bpSchema = None\<rparr>"

lemma policy_put_spec:
  assumes "qu \<noteq> []"
  shows "the (policy_put cx (policy_body qu r) app st) =
    (case find (\<lambda>x. bqName x = qu) (queues_tab st) of
       None \<Rightarrow> (st, Response 400 (BProblem ''Bad Request'' 400 ''unknown queue''))
     | Some x \<Rightarrow>
         if eligible x then (pushAudit cx ''autoscaling_policy.set'' (''application'', app)
             (st\<lparr>autoscaling_tab := AList.update app (policy_of qu r) (autoscaling_tab st)\<rparr>), Response 200 (BPolicy (policy_of qu r)))
         else (st, Response 400 (BProblem ''Bad Request'' 400 (if bqPartition x then ''queue is partitioned and cannot drive autoscaling''
             else ''queue has no worker concurrency set''))))"
proof -
  have f: "field (policy_body qu r) ''queue'' = JStr qu" "field (policy_body qu r) ''$schema'' = JUndef"
    "field (policy_body qu r) ''rollout'' = (case r of None \<Rightarrow> JUndef | Some ro \<Rightarrow> rollout_body ro)" for r
    by (auto simp: policy_body_def field_def split: option.split)
  have t: "truthy (rollout_body ro)" "truthy (JStr qu)" "\<not> truthy JUndef" for ro using assms by (simp_all add: rollout_body_def)
  show ?thesis
  proof (cases "find (\<lambda>x. bqName x = qu) (queues_tab st)")
    case None
    then show ?thesis using assms by (simp add: policy_put_def f problem_def)
  next
    case (Some x)
    then have "bqName x = qu" by (auto simp: find_Some_iff)
    then show ?thesis using Some assms
      by (cases r; cases "bqPartition x"; cases "bqWorkerConcurrency x") (simp_all add: policy_put_def f t problem_def eligible_def policy_of_def Let_def)
  qed
qed

text \<open>
  C8: saving an autoscaling policy. A valid form makes one call; the mock API accepts it exactly when the
  chosen queue exists, is not partitioned and has a worker concurrency, and then reading the policy back gives the queue and
  the rollout caps of the form; otherwise it answers 400 and keeps the directory as it was.
\<close>

theorem policy_saved:
  assumes "list_all ordinary [orgName c, appName c]"
    and "new_calls c (submitAutoscalingPolicy reply qu oldRaw execRaw c) = [k]"
  shows "let p = policy_of qu (sent_rollout oldRaw execRaw); (st1, r1) = bridge_fetch cx (delivered (call_request k)) st;
             (st2, r2) = bridge_fetch cx' (delivered (api_getAutoscalingPolicy (orgName c) (appName c))) st1
         in case find (\<lambda>x. bqName x = qu) (queues_tab st) of
              None \<Rightarrow> st1 = st \<and> r1 = Response 400 (BProblem ''Bad Request'' 400 ''unknown queue'')
            | Some x \<Rightarrow> if eligible x then r1 = Response 200 (BPolicy p) \<and> st2 = st1 \<and> r2 = Response 200 (BPolicy p)
                else st1 = st \<and> (\<exists>d. r1 = Response 400 (BProblem ''Bad Request'' 400 d))"
proof -
  let ?o = "orgName c" and ?a = "appName c" and ?r = "sent_rollout oldRaw execRaw"
  have k: "k = SetAutoscalingPolicy ?o ?a qu ?r" and q0: "qu \<noteq> []" using assms(2) submitted_policy by (auto split: if_splits)
  have o': "ordinary ?o" "ordinary ?a" using assms(1) by simp_all
  have f1: "bridge_fetch cx (delivered (call_request k)) st = the (policy_put cx (policy_body qu ?r) ?a st)"
    using fetch_policy [OF o', of "call_request k" cx st] by (simp add: k api_setAutoscalingPolicy_def call_of_def)
  have f2: "bridge_fetch cx' (delivered (api_getAutoscalingPolicy ?o ?a)) st1 = (case map_of (autoscaling_tab st1) ?a of
        None \<Rightarrow> (st1, Response 404 (BProblem ''Not Found'' 404 ''no autoscaling policy configured for application''))
      | Some p \<Rightarrow> (st1, Response 200 (BPolicy p)))" for st1
    using fetch_policy [OF o', of "api_getAutoscalingPolicy ?o ?a" cx' st1] by (simp add: api_getAutoscalingPolicy_def get_of_def)
  show ?thesis unfolding Let_def f1 f2 policy_put_spec [OF q0]
    by (auto simp: pushAudit_def update_conv' split: option.split)
qed

theorem policy_saved_witness:
  "let c = (new_console [] [] False [])\<lparr>appName := ''ecommerce-checkout''\<rparr>; st = init_bridge ctx0;
       p = policy_of ''orders-vip'' (sent_rollout ''2'' []);
       (st1, r1) = bridge_fetch ctx0 (delivered (call_request (SetAutoscalingPolicy (orgName c) (appName c) ''orders-vip'' (sent_rollout ''2'' [])))) st;
       (st2, r2) = bridge_fetch ctx0 (delivered (api_getAutoscalingPolicy (orgName c) (appName c))) st1
   in case find (\<lambda>x. bqName x = ''orders-vip'') (queues_tab st) of
        None \<Rightarrow> st1 = st \<and> r1 = Response 400 (BProblem ''Bad Request'' 400 ''unknown queue'')
      | Some x \<Rightarrow> if eligible x then r1 = Response 200 (BPolicy p) \<and> st2 = st1 \<and> r2 = Response 200 (BPolicy p)
          else st1 = st \<and> (\<exists>d. r1 = Response 400 (BProblem ''Bad Request'' 400 d))"
proof -
  let ?c = "(new_console [] [] False [])\<lparr>appName := ''ecommerce-checkout''\<rparr>"
  have "list_all ordinary [orgName ?c, appName ?c]" by code_simp
  moreover have "Invalid \<notin> {readOpt ''2'', readOpt []}" by code_simp
  then have "new_calls ?c (submitAutoscalingPolicy (Inr ()) ''orders-vip'' ''2'' [] ?c) =
      [SetAutoscalingPolicy (orgName ?c) (appName ?c) ''orders-vip'' (sent_rollout ''2'' [])]" by (simp add: submitted_policy)
  ultimately show ?thesis unfolding Let_def by (rule policy_saved [unfolded Let_def])
qed

end
