(* ===== verification/Api_Types.thy ===== *)
theory Api_Types
  imports Console_Bridge
begin

text \<open>
  The types of \<open>console/src/lib/api/types.ts\<close> and the values that have them. TypeScript's types are
  structural: an object has an interface when every required property is there and every property named in
  the interface that is there has its type; further properties are allowed. Types are erased at run
  time, so nothing checks the answers of a server. This theory states which answers of the mock API have
  the type the API client promises for them, and which have not.
\<close>

section \<open>Types and values\<close>

datatype ts_type =
    TUnknown
  | TString
  | TNumber
  | TBoolean
  | TNull
  | TLit string
  | TArray ts_type
  | TRecord ts_type
  | TInterface "(string \<times> bool \<times> ts_type) list"
  | TUnion "ts_type list"

lemma size_field: "f \<in> set fs \<Longrightarrow> size (snd (snd f)) < Suc (size_list (size_prod (\<lambda>_. 0) (size_prod (\<lambda>_. 0) size)) fs)"
  by (induction fs) (auto simp: size_prod_def split: prod.splits)

text \<open>A property is its name, whether it is required, and its type; a missing property reads as \<open>undefined\<close>.\<close>

function has_type :: "ts_type \<Rightarrow> jsval \<Rightarrow> bool" where
  "has_type TUnknown v = True"
| "has_type TString v = (case v of JStr _ \<Rightarrow> True | _ \<Rightarrow> False)"
| "has_type TNumber v = (case v of JNum _ \<Rightarrow> True | _ \<Rightarrow> False)"
| "has_type TBoolean v = (case v of JBool _ \<Rightarrow> True | _ \<Rightarrow> False)"
| "has_type TNull v = (v = JNull)"
| "has_type (TLit s) v = (v = JStr s)"
| "has_type (TArray t) v = (case v of JArr xs \<Rightarrow> list_all (has_type t) xs | _ \<Rightarrow> False)"
| "has_type (TRecord t) v = (case v of JObj kvs \<Rightarrow> list_all (\<lambda>p. has_type t (snd p)) kvs | _ \<Rightarrow> False)"
| "has_type (TInterface fs) v =
     ((case v of JObj _ \<Rightarrow> True | _ \<Rightarrow> False) \<and>
      list_all (\<lambda>f. if field v (fst f) = JUndef then \<not> fst (snd f) else has_type (snd (snd f)) (field v (fst f))) fs)"
| "has_type (TUnion ts) v = list_ex (\<lambda>t. has_type t v) ts"
  by pat_completeness auto
termination
  by (relation "measure (size \<circ> fst)") (auto dest: size_field simp: size_list_estimation' less_Suc_eq_le)

section \<open>The declarations\<close>

definition required :: "string \<Rightarrow> ts_type \<Rightarrow> string \<times> bool \<times> ts_type" where
  "required k t = (k, True, t)"

definition optional :: "string \<Rightarrow> ts_type \<Rightarrow> string \<times> bool \<times> ts_type" where
  "optional k t = (k, False, t)"

definition nullable :: "ts_type \<Rightarrow> ts_type" where
  "nullable t = TUnion [t, TNull]"

definition T_WorkflowStatus :: ts_type where
  "T_WorkflowStatus = TUnion [TLit ''PENDING'', TLit ''SUCCESS'', TLit ''ERROR'', TLit ''CANCELLED'', TLit ''ENQUEUED'', TLit ''DELAYED'', TLit ''MAX_RECOVERY_ATTEMPTS_EXCEEDED'']"

definition T_ExecutorStatus :: ts_type where
  "T_ExecutorStatus = TUnion [TLit ''HEALTHY'', TLit ''DISCONNECTED'', TLit ''DEAD'']"

definition T_Application :: ts_type where
  "T_Application = TInterface [
     required ''id'' TString, required ''name'' TString, required ''orgId'' TString,
     required ''status'' (TUnion [TLit ''AVAILABLE'', TLit ''UNAVAILABLE'']), required ''dbosCloud'' TBoolean,
     required ''privateMode'' TBoolean, required ''executorTimeoutSecs'' TNumber,
     optional ''gcRowsThreshold'' (nullable TNumber), optional ''gcTimeThresholdMs'' (nullable TNumber),
     optional ''globalTimeoutMs'' (nullable TNumber), optional ''language'' (nullable TString)]"

definition T_Executor :: ts_type where
  "T_Executor = TInterface [
     required ''executorId'' TString, required ''appId'' TString, required ''appVersion'' TString,
     required ''status'' T_ExecutorStatus, optional ''hostId'' (nullable TString),
     optional ''hostname'' (nullable TString), required ''createdAt'' TString, required ''updatedAt'' TString,
     optional ''language'' (nullable TString), optional ''dbosVersion'' (nullable TString),
     optional ''executorMetadata'' (nullable (TRecord TUnknown))]"

definition T_Workflow :: ts_type where
  "T_Workflow = TInterface [
     required ''workflowId'' TString, required ''status'' T_WorkflowStatus,
     optional ''workflowName'' (nullable TString), optional ''workflowClass'' (nullable TString),
     optional ''workflowConfig'' (nullable TString), optional ''user'' (nullable TString),
     optional ''assumedRole'' (nullable TString), optional ''roles'' (nullable TString),
     optional ''input'' (nullable TString), optional ''output'' (nullable TString),
     optional ''error'' (nullable TString), required ''createdAt'' TString, required ''updatedAt'' TString,
     optional ''queueName'' (nullable TString), optional ''appVersion'' (nullable TString),
     optional ''executorId'' (nullable TString), optional ''timeoutMs'' (nullable TNumber),
     optional ''deadline'' (nullable TString), optional ''deduplicationId'' (nullable TString),
     required ''priority'' TNumber, optional ''queuePartitionKey'' (nullable TString),
     optional ''forkedFrom'' (nullable TString), required ''wasForkedFrom'' TBoolean,
     optional ''parentWorkflowId'' (nullable TString), optional ''dequeuedAt'' (nullable TString),
     optional ''delayUntil'' (nullable TString), optional ''completedAt'' (nullable TString),
     optional ''attributes'' (nullable TString), optional ''scheduleName'' (nullable TString),
     optional ''applicationName'' (nullable TString)]"

definition T_Step :: ts_type where
  "T_Step = TInterface [
     required ''stepId'' TNumber, required ''stepName'' TString, optional ''output'' (nullable TString),
     optional ''error'' (nullable TString), optional ''childWorkflowId'' (nullable TString),
     optional ''startedAt'' (nullable TString), optional ''completedAt'' (nullable TString)]"

definition T_Event :: ts_type where
  "T_Event = TInterface [
     required ''key'' TString, required ''value'' TString]"

definition T_WorkflowEvent :: ts_type where
  "T_WorkflowEvent = TInterface [
     required ''key'' TString, required ''value'' TUnknown]"

definition T_Notification :: ts_type where
  "T_Notification = TInterface [
     optional ''topic'' (nullable TString), required ''message'' TString, required ''createdAt'' TString,
     required ''consumed'' TBoolean]"

definition T_StreamEntry :: ts_type where
  "T_StreamEntry = TInterface [
     required ''key'' TString, required ''values'' (TArray TString)]"

definition T_Queue :: ts_type where
  "T_Queue = TInterface [
     required ''name'' TString, optional ''concurrency'' (nullable TNumber),
     optional ''workerConcurrency'' (nullable TNumber), optional ''rateLimitMax'' (nullable TNumber),
     optional ''rateLimitPeriodSecs'' (nullable TNumber), required ''priorityEnabled'' TBoolean,
     required ''partitionQueue'' TBoolean, required ''pollingIntervalSecs'' TNumber,
     optional ''applicationName'' (nullable TString)]"

definition T_Schedule :: ts_type where
  "T_Schedule = TInterface [
     required ''scheduleId'' TString, required ''scheduleName'' TString, required ''workflowName'' TString,
     optional ''workflowClass'' (nullable TString), required ''cronExpression'' TString,
     optional ''cronTimezone'' (nullable TString), required ''status'' TString,
     optional ''context'' (nullable TString), optional ''lastFiredAt'' (nullable TString),
     required ''automaticBackfill'' TBoolean, optional ''applicationName'' (nullable TString)]"

definition T_AlertingRule :: ts_type where
  "T_AlertingRule = TInterface [
     required ''id'' TString, required ''appId'' TString, required ''receivingAppId'' TString,
     required ''ruleType'' (TUnion [TLit ''WorkflowFailure'', TLit ''SlowQueue'', TLit ''UnresponsiveApplication'', TString]),
     required ''ruleMetadata'' (TRecord TUnknown), optional ''minIntervalSecs'' (nullable TNumber),
     optional ''lastFiredAt'' (nullable TString)]"

definition T_CreateAlertInput :: ts_type where
  "T_CreateAlertInput = TInterface [
     required ''ruleType'' TString, optional ''receivingAppName'' TString, optional ''minIntervalSecs'' TNumber,
     required ''ruleMetadata'' (TRecord TUnknown)]"

definition T_Token :: ts_type where
  "T_Token = TInterface [
     required ''tokenName'' TString, required ''createdAt'' TString, required ''permissions'' (TArray TString),
     required ''appIds'' (TArray TString)]"

definition T_TokenCreated :: ts_type where
  "T_TokenCreated = TInterface [
     required ''token'' TString, required ''tokenName'' TString]"

definition T_UpdateAppInput :: ts_type where
  "T_UpdateAppInput = TInterface [
     optional ''privateMode'' TBoolean, optional ''executorTimeoutSecs'' TNumber, optional ''gcRowsThreshold'' TNumber,
     optional ''gcTimeThresholdMs'' TNumber, optional ''globalTimeoutMs'' TNumber]"

definition T_RolloutPolicy :: ts_type where
  "T_RolloutPolicy = TInterface [
     optional ''maxOldApplicationVersions'' (nullable TNumber),
     optional ''maxExecutorsForOldApplicationVersions'' (nullable TNumber)]"

definition T_AutoscalePolicy :: ts_type where
  "T_AutoscalePolicy = TInterface [
     required ''queue'' TString, optional ''rollout'' (nullable T_RolloutPolicy)]"

definition T_QueueAutoscale :: ts_type where
  "T_QueueAutoscale = TInterface [
     required ''applicationVersion'' TString, required ''isLatest'' TBoolean, required ''desiredExecutors'' TNumber,
     required ''queueName'' TString, required ''queueDepth'' TNumber, required ''observedAt'' TNumber]"

definition T_AuditSubjectType :: ts_type where
  "T_AuditSubjectType = TUnion [TLit ''user'', TLit ''api_key'']"

definition T_AuditTargetType :: ts_type where
  "T_AuditTargetType = TUnion [TLit ''application'', TLit ''workflow'', TLit ''schedule'', TLit ''alerting_rule'', TLit ''token'', TLit ''role'', TLit ''user'', TLit ''organization'', TLit ''domain_claim'']"

definition T_AuditLogEntry :: ts_type where
  "T_AuditLogEntry = TInterface [
     required ''id'' TString, required ''emitTime'' TString, required ''operation'' TString,
     required ''status'' (TUnion [TLit ''success'', TLit ''failure'']),
     required ''subject'' (TInterface [required ''id'' TString, required ''display'' TString, required ''type'' T_AuditSubjectType]),
     optional ''target'' (nullable (TInterface [required ''id'' TString, required ''type'' T_AuditTargetType])),
     required ''sourceIp'' TString, optional ''details'' (nullable (TRecord TUnknown))]"

definition T_AuditLogQuery :: ts_type where
  "T_AuditLogQuery = TInterface [
     optional ''startTime'' TString, optional ''endTime'' TString, optional ''operation'' TString,
     optional ''subject'' TString, optional ''target'' TString, optional ''limit'' TNumber, optional ''offset'' TNumber]"

definition T_MetricsQuery :: ts_type where
  "T_MetricsQuery = TInterface [
     optional ''applications'' TString, optional ''workflowNames'' TString, optional ''metrics'' (TArray TString)]"

definition T_Role :: ts_type where
  "T_Role = TInterface [
     required ''name'' TString, required ''isGlobal'' TBoolean, required ''permissions'' (TArray TString)]"

definition T_OrgMembers :: ts_type where
  "T_OrgMembers = TInterface [
     required ''orgName'' TString, required ''users'' (TRecord T_Role)]"

definition T_ApiKey :: ts_type where
  "T_ApiKey = T_Token"

definition T_WorkflowSearchQuery :: ts_type where
  "T_WorkflowSearchQuery = TInterface [
     optional ''workflowIds'' (TArray TString), optional ''workflowName'' (TArray TString),
     optional ''workflowIdPrefix'' (TArray TString), optional ''status'' (TArray TString),
     optional ''queueName'' (TArray TString), optional ''appVersion'' (TArray TString),
     optional ''executorId'' (TArray TString), optional ''startTime'' TString, optional ''endTime'' TString,
     optional ''limit'' TNumber, optional ''offset'' TNumber, optional ''sortDesc'' TBoolean]"

section \<open>What the console sends\<close>

lemmas type_defs = required_def optional_def nullable_def

lemma field_JObj [simp]: "field (JObj kvs) k = (case map_of kvs k of None \<Rightarrow> JUndef | Some w \<Rightarrow> w)"
  by (simp add: field_def)

lemma int_field_lookup [simp]: "map_of (int_field k v) j = (if j = k then map_option (\<lambda>n. JNum (Fin (of_int n))) v else None)"
  by (simp add: int_field_def split: option.split)

lemma settings_typed: "has_type T_UpdateAppInput (settings_body s)"
  by (auto simp: T_UpdateAppInput_def type_defs settings_body_def map_add_def split: option.split)

lemma rollout_typed: "has_type T_RolloutPolicy (rollout_body r)"
  by (auto simp: T_RolloutPolicy_def type_defs rollout_body_def map_add_def split: option.split)

lemma policy_typed: "has_type T_AutoscalePolicy (policy_body qu r)"
  using rollout_typed by (auto simp: T_AutoscalePolicy_def type_defs policy_body_def rollout_body_def split: option.split)

text \<open>The metadata of a new alert rule is any JSON text the operator typed; only an object has the declared type.\<close>

lemma rule_typed: "has_type T_CreateAlertInput (rule_body ty secs meta) \<longleftrightarrow> (\<exists>kvs. meta = JObj kvs)"
  by (auto simp: T_CreateAlertInput_def type_defs rule_body_def list_all_iff split: jsval.splits)

lemma str_array_typed [simp]: "has_type (TArray TString) (str_array xs)"
  by (auto simp: str_array_def list_all_iff)

section \<open>The answers as JSON\<close>

text \<open>
  The objects the handlers of \<open>relay-bridge.js\<close> pass to \<open>JSON.stringify\<close>, with the properties the
  directory's records keep: the display prefix of a key, the details of an audit entry, the address of an executor, the
  language of an application and the active count of a queue are not among them, nor are they required by an interface.
\<close>

definition js_int :: "int \<Rightarrow> jsval" where
  "js_int n = JNum (Fin (of_int n))"

definition js_opt :: "string option \<Rightarrow> jsval" where
  "js_opt s = (case s of None \<Rightarrow> JNull | Some x \<Rightarrow> JStr x)"

definition js_opt_int :: "int option \<Rightarrow> jsval" where
  "js_opt_int n = (case n of None \<Rightarrow> JNull | Some x \<Rightarrow> js_int x)"

definition js_field :: "string \<Rightarrow> jsval option \<Rightarrow> (string \<times> jsval) list" where
  "js_field k v = (case v of None \<Rightarrow> [] | Some x \<Rightarrow> [(k, x)])"

definition problem_json :: "string \<Rightarrow> nat \<Rightarrow> string \<Rightarrow> jsval" where
  "problem_json ttl code detail = JObj ([(''title'', JStr ttl), (''status'', js_int (int code))]
     @ (if detail = [] then [] else [(''detail'', JStr detail)]))"

definition app_json :: "b_app \<Rightarrow> (string \<times> jsval) list" where
  "app_json a = [(''name'', JStr (baName a)), (''organization'', JStr (baOrganization a)), (''status'', JStr (baStatus a)),
     (''runtime'', JStr (baRuntime a)), (''createdAt'', JStr (baCreatedAt a))]"

definition executor_json :: "b_executor \<Rightarrow> jsval" where
  "executor_json x = JObj [(''executorId'', JStr (bxId x)), (''id'', JStr (bxId x)), (''name'', JStr (bxApp x)), (''appName'', JStr (bxApp x)),
     (''status'', JStr (bxStatus x)), (''hostname'', JStr (bxHostname x)), (''version'', JStr (bxVersion x)), (''appVersion'', JStr (bxVersion x)),
     (''language'', JStr (bxLanguage x)), (''createdAt'', JStr ''2026-09-18T18:00:00Z''), (''updatedAt'', JStr (bxUpdatedAt x)),
     (''lastHeartbeat'', JStr (bxUpdatedAt x))]"

definition queue_json :: "b_queue \<Rightarrow> jsval" where
  "queue_json x = JObj [(''name'', JStr (bqName x)), (''appName'', JStr (bqApp x)), (''concurrency'', js_opt_int (bqConcurrency x)),
     (''workerConcurrency'', js_opt_int (bqWorkerConcurrency x)), (''partitionQueue'', JBool (bqPartition x))]"

definition schedule_json :: "b_schedule \<Rightarrow> jsval" where
  "schedule_json x = JObj [(''scheduleName'', JStr (bsName x)), (''name'', JStr (bsName x)), (''appName'', JStr (bsApp x)),
     (''workflowName'', JStr (bsWorkflow x)), (''cronExpression'', JStr (bsCron x)), (''schedule'', JStr (bsCron x)),
     (''status'', JStr (bsStatus x)), (''lastFiredAt'', JStr (bsLastRun x)), (''lastRun'', JStr (bsLastRun x))]"

definition role_json :: "b_role \<Rightarrow> jsval" where
  "role_json r = JObj [(''name'', JStr (brName r)), (''isGlobal'', JBool (brGlobal r)), (''permissions'', brPermissions r)]"

definition key_json :: "b_key \<Rightarrow> jsval" where
  "key_json k = JObj ([(''id'', JStr (bkId k)), (''tokenName'', JStr (bkTokenName k)), (''name'', JStr (bkName k))]
     @ js_field ''token'' (map_option JStr (bkToken k)) @ [(''createdAt'', JStr (bkCreatedAt k)), (''permissions'', bkPermissions k),
      (''appIds'', bkAppNames k), (''appNames'', bkAppNames k)])"

definition policy_json :: "b_policy \<Rightarrow> jsval" where
  "policy_json p = JObj ([(''queue'', JStr (bpQueue p))] @ js_field ''rollout'' (bpRollout p) @ js_field ''$schema'' (bpSchema p))"

definition recommendation_json :: "ctx \<Rightarrow> int \<Rightarrow> string \<Rightarrow> nat \<Rightarrow> jsval" where
  "recommendation_json cx desired queue depth = JObj [(''applicationVersion'', JStr ''1.0.0''), (''isLatest'', JBool True),
     (''desiredExecutors'', js_int desired), (''queueName'', JStr queue), (''queueDepth'', js_int (int depth)),
     (''observedAt'', js_int (int (cxStamp cx)))]"

definition audit_json :: "b_audit \<Rightarrow> jsval" where
  "audit_json e = JObj [(''id'', JStr (auId e)), (''emitTime'', JStr (auEmitTime e)), (''operation'', JStr (auOperation e)),
     (''status'', JStr (auStatus e)),
     (''subject'', JObj [(''type'', JStr (auSubjectType e)), (''id'', JStr (auSubjectId e)), (''display'', JStr (auSubjectDisplay e))]),
     (''target'', case auTarget e of None \<Rightarrow> JNull | Some t \<Rightarrow> JObj [(''type'', JStr (fst t)), (''id'', JStr (snd t))]),
     (''sourceIp'', JStr ''127.0.0.1'')]"

definition members_json :: "string \<Rightarrow> (string \<times> b_role) list \<Rightarrow> jsval" where
  "members_json org users = JObj [(''orgName'', JStr org), (''users'', JObj (map (\<lambda>u. (fst u, role_json (snd u))) users))]"

definition workflow_json :: "b_workflow \<Rightarrow> jsval" where
  "workflow_json w = JObj [(''workflowId'', JStr (bwId w)), (''workflow_id'', JStr (bwId w)), (''workflowName'', JStr (bwName w)),
     (''workflow_name'', JStr (bwName w)), (''name'', JStr (bwName w)), (''status'', JStr (bwStatus w)),
     (''createdAt'', js_opt (bwCreatedAt w)), (''created_at'', js_opt (bwCreatedAt w)), (''updatedAt'', js_opt (bwUpdatedAt w)),
     (''updated_at'', js_opt (bwUpdatedAt w)), (''completedAt'', js_opt (bwCompletedAt w)), (''completed_at'', js_opt (bwCompletedAt w)),
     (''durationMs'', js_int (bwDurationMs w)), (''duration_ms'', js_int (bwDurationMs w)), (''authenticatedUser'', JStr (bwUser w)),
     (''authenticated_user'', JStr (bwUser w)), (''appVersion'', JStr (bwAppVersion w)), (''applicationVersion'', JStr (bwAppVersion w)),
     (''output'', js_opt (bwOutput w)), (''error'', js_opt (bwError w))]"

text \<open>The answers this theory speaks about.\<close>

fun body_json :: "ctx \<Rightarrow> body \<Rightarrow> jsval option" where
  "body_json cx (BProblem ttl code detail) = Some (problem_json ttl code detail)"
| "body_json cx (BApps as) = Some (JArr (map (JObj \<circ> app_json) as))"
| "body_json cx (BAppDetail a cfg) = Some (JObj (app_json a @ cfg))"
| "body_json cx (BExecutors xs) = Some (JArr (map executor_json xs))"
| "body_json cx (BWorkflows ws) = Some (JArr (map workflow_json ws))"
| "body_json cx (BWorkflow w) = Some (workflow_json w)"
| "body_json cx (BQueues xs) = Some (JArr (map queue_json xs))"
| "body_json cx (BSchedules xs) = Some (JArr (map schedule_json xs))"
| "body_json cx (BKeys ks) = Some (JArr (map key_json ks))"
| "body_json cx (BKey k) = Some (key_json k)"
| "body_json cx BOk = Some (JObj [(''status'', JStr ''SUCCESS'')])"
| "body_json cx (BPolicy p) = Some (JObj [(''policy'', policy_json p)])"
| "body_json cx (BRecommendation listed d qu n) =
     Some (if listed then JArr [recommendation_json cx d qu n] else recommendation_json cx d qu n)"
| "body_json cx (BAudit es) = Some (JArr (map audit_json es))"
| "body_json cx (BPermissions ps) = Some (str_array ps)"
| "body_json cx (BRole nm perms) = Some (JObj [(''name'', JStr nm), (''permissions'', perms)])"
| "body_json cx (BRoles rs) = Some (JArr (map role_json rs))"
| "body_json cx (BMembers org us) = Some (members_json org us)"
| "body_json cx (BRemoved u) = Some (JObj [(''name'', JStr u)])"
| "body_json cx _ = None"

section \<open>A typed directory\<close>

definition role_ok :: "b_role \<Rightarrow> bool" where
  "role_ok r \<longleftrightarrow> has_type (TArray TString) (brPermissions r)"

definition key_ok :: "b_key \<Rightarrow> bool" where
  "key_ok k \<longleftrightarrow> has_type (TArray TString) (bkPermissions k) \<and> has_type (TArray TString) (bkAppNames k)"

definition policy_ok :: "b_policy \<Rightarrow> bool" where
  "policy_ok p \<longleftrightarrow> (case bpRollout p of None \<Rightarrow> True | Some r \<Rightarrow> has_type T_RolloutPolicy r)"

definition entry_ok :: "b_audit \<Rightarrow> bool" where
  "entry_ok e \<longleftrightarrow> auStatus e \<in> {''success'', ''failure''} \<and> auSubjectType e \<in> {''user'', ''api_key''} \<and>
     (case auTarget e of None \<Rightarrow> True | Some t \<Rightarrow> has_type T_AuditTargetType (JStr (fst t)))"

definition directory_typed :: "bridge \<Rightarrow> bool" where
  "directory_typed st \<longleftrightarrow> list_all role_ok (roles_tab st) \<and> list_all key_ok (keys_tab st) \<and>
     list_all (policy_ok \<circ> snd) (autoscaling_tab st) \<and> list_all entry_ok (audit_tab st)"

text \<open>A request whose body, where the directory takes something from it, has the type of the client's operation.\<close>

definition body_ok :: "jsval \<Rightarrow> bool" where
  "body_ok v \<longleftrightarrow> (field v ''permissions'' = JUndef \<or> has_type (TArray TString) (field v ''permissions'')) \<and>
     (field v ''appNames'' = JUndef \<or> has_type (TArray TString) (field v ''appNames'')) \<and>
     (field v ''rollout'' = JUndef \<or> has_type T_RolloutPolicy (field v ''rollout''))"

definition keeps_types :: "(ctx \<Rightarrow> request \<Rightarrow> bridge \<Rightarrow> answer) \<Rightarrow> bool" where
  "keeps_types h \<longleftrightarrow> (\<forall>cx rq st st' r. directory_typed st \<longrightarrow> body_ok (rqBody rq) \<longrightarrow> h cx rq st = Some (st', r) \<longrightarrow> directory_typed st')"

lemma keeps_typesD: "keeps_types h \<Longrightarrow> directory_typed st \<Longrightarrow> body_ok (rqBody rq) \<Longrightarrow> h cx rq st = Some (st', r) \<Longrightarrow> directory_typed st'"
  unfolding keeps_types_def by blast

lemma pure_keeps: "pure_handler h \<Longrightarrow> keeps_types h"
  unfolding pure_handler_def keeps_types_def by blast

lemma typed_push:
  assumes "directory_typed st" "has_type T_AuditTargetType (JStr (fst t))"
  shows "directory_typed (pushAudit cx op t st)"
  using assms by (auto simp: directory_typed_def pushAudit_def entry_ok_def)

lemma typed_updates [simp]:
  "directory_typed (st\<lparr>members_tab := ms\<rparr>) = directory_typed st" "directory_typed (st\<lparr>configs_tab := gs\<rparr>) = directory_typed st"
  by (simp_all add: directory_typed_def)

lemma typed_tabs:
  "directory_typed st \<Longrightarrow> list_all key_ok ks \<Longrightarrow> directory_typed (st\<lparr>keys_tab := ks\<rparr>)"
  "directory_typed st \<Longrightarrow> list_all role_ok rs \<Longrightarrow> directory_typed (st\<lparr>roles_tab := rs\<rparr>)"
  "directory_typed st \<Longrightarrow> list_all (policy_ok \<circ> snd) ps \<Longrightarrow> directory_typed (st\<lparr>autoscaling_tab := ps\<rparr>)"
  by (simp_all add: directory_typed_def)

lemma typed_parts:
  "directory_typed st \<Longrightarrow> list_all key_ok (keys_tab st)" "directory_typed st \<Longrightarrow> list_all role_ok (roles_tab st)"
  "directory_typed st \<Longrightarrow> list_all (policy_ok \<circ> snd) (autoscaling_tab st)" "directory_typed st \<Longrightarrow> list_all entry_ok (audit_tab st)"
  by (simp_all add: directory_typed_def)

lemma target_types [simp]:
  "has_type T_AuditTargetType (JStr ''token'')" "has_type T_AuditTargetType (JStr ''workflow'')"
  "has_type T_AuditTargetType (JStr ''application'')" "has_type T_AuditTargetType (JStr ''role'')"
  "has_type T_AuditTargetType (JStr ''user'')"
  by (simp_all add: T_AuditTargetType_def)

lemma list_all_update: "list_all (P \<circ> snd) m \<Longrightarrow> P v \<Longrightarrow> list_all (P \<circ> snd) (AList.update k v m)"
  by (induction m) auto

lemma list_all_filter: "list_all P xs \<Longrightarrow> list_all P (filter Q xs)"
  by (simp add: list_all_iff)

lemma list_all_delete: "list_all (P \<circ> snd) m \<Longrightarrow> list_all (P \<circ> snd) (AList.delete k m)"
  by (induction m) auto

lemma typed_or: "v = JUndef \<or> has_type (TArray TString) v \<Longrightarrow> has_type (TArray TString) w \<Longrightarrow> has_type (TArray TString) (jor v w)"
  by (auto simp: jor_def)

lemma token_keeps: "keeps_types h_token"
  unfolding keeps_types_def
proof (intro allI impI)
  fix cx rq st st' r
  assume st: "directory_typed st" "body_ok (rqBody rq)" and h: "h_token cx rq st = Some (st', r)"
  have "key_ok \<lparr>bkId = i, bkTokenName = nm, bkName = nm, bkToken = tk, bkCreatedAt = tm,
      bkPermissions = jor (field (rqBody rq) ''permissions'') (JArr [JStr ''*'']), bkAppNames = jor (field (rqBody rq) ''appNames'') (JArr [JStr ''*''])\<rparr>"
    for i nm tk tm using st(2) typed_or by (simp add: key_ok_def body_ok_def del: has_type.simps) (simp add: typed_or)
  then show "directory_typed st'" using st h typed_parts(1) [OF st(1)]
    by (auto simp: h_token_def Let_def list_all_filter intro!: typed_push typed_tabs dest!: with_decoded_Some split: handler_splits)
qed

lemma roles_keep: "keeps_types h_roles"
  unfolding keeps_types_def
proof (intro allI impI)
  fix cx rq st st' r
  assume st: "directory_typed st" "body_ok (rqBody rq)" and h: "h_roles cx rq st = Some (st', r)"
  have "has_type (TArray TString) (jor (field (rqBody rq) ''permissions'') (JArr []))"
    using st(2) by (intro typed_or) (simp_all add: body_ok_def)
  then show "directory_typed st'" using st(1) h typed_parts(2) [OF st(1)]
    by (auto simp: h_roles_def role_post_def role_ok_def Let_def intro!: typed_push typed_tabs simp del: has_type.simps
        split: if_splits jsval.splits)
qed

lemma policy_keeps: "keeps_types h_policy"
  unfolding keeps_types_def
proof (intro allI impI)
  fix cx rq st st' r
  assume st: "directory_typed st" "body_ok (rqBody rq)" and h: "h_policy cx rq st = Some (st', r)"
  have put: "directory_typed s'" if "policy_put cx (rqBody rq) app st = Some (s', r')" for app s' r'
    using that st typed_parts(3) [OF st(1)]
    by (auto simp: policy_put_def policy_ok_def body_ok_def Let_def intro!: typed_push typed_tabs list_all_update
        simp del: has_type.simps split: if_splits option.splits)
  show "directory_typed st'" using h st(1) put typed_parts(3) [OF st(1)]
    by (auto simp: h_policy_def no_policy_def Let_def intro!: typed_push typed_tabs list_all_delete dest!: with_decoded_Some
        split: handler_splits)
qed

lemma ensure_config_typed [simp]: "directory_typed (ensure_config app st) = directory_typed st"
  by (simp add: ensure_config_def)

lemma app_patch_typed: "directory_typed st \<Longrightarrow> directory_typed (app_patch cx bd app st)"
  by (auto simp: app_patch_def Let_def intro!: typed_push split: prod.splits)

lemma others_keep: "keeps_types h_workflow_op" "keeps_types h_grant" "keeps_types h_del_member" "keeps_types h_app"
  unfolding keeps_types_def
  by (auto simp: h_workflow_op_def h_grant_def h_del_member_def h_app_def Let_def app_patch_typed intro!: typed_push
      dest!: with_decoded_Some split: handler_splits)

lemma del_role_keeps: "keeps_types h_del_role"
  unfolding keeps_types_def
  by (auto simp: h_del_role_def intro!: typed_push typed_tabs list_all_filter typed_parts(2) dest!: with_decoded_Some split: handler_splits)

lemma handlers_keep: "h \<in> set handlers \<Longrightarrow> keeps_types h"
  by (auto simp: handlers_def pure_keeps pure_reads pure_reads2 token_keeps roles_keep policy_keeps others_keep del_role_keeps)

lemma fetch_typed:
  assumes "directory_typed st" "body_ok (rqBody rq)"
  shows "directory_typed (fst (bridge_fetch cx rq st))"
proof -
  have "\<forall>h\<in>set hs. keeps_types h \<Longrightarrow> directory_typed (fst (first_answer hs cx rq st))" for hs
  proof (induction hs)
    case (Cons h hs)
    have "h cx rq st = Some p \<Longrightarrow> directory_typed (fst p)" for p
      using Cons.prems keeps_typesD [of h st rq cx "fst p" "snd p"] assms by simp
    with Cons show ?case by (cases "h cx rq st") simp_all
  qed (use assms in simp)
  then show ?thesis unfolding bridge_fetch_def using handlers_keep by blast
qed

lemma init_typed: "directory_typed (init_bridge cx)"
proof -
  have "list_all role_ok init_roles" "list_all key_ok init_keys" "list_all entry_ok init_audit" by code_simp+
  then show ?thesis by (simp add: directory_typed_def init_bridge_def)
qed

section \<open>The requests of the client\<close>

definition calls_typed :: "api_call \<Rightarrow> bool" where
  "calls_typed k \<longleftrightarrow> body_ok (rqBody (delivered (call_request k)))"

lemma body_ok_simps [simp]: "body_ok (JObj [])" "body_ok (settings_body s)" "body_ok (policy_body qu r)" "body_ok (rule_body ty secs meta)"
proof -
  show "body_ok (policy_body qu r)" using rollout_typed
    by (auto simp: body_ok_def policy_body_def simp del: has_type.simps split: option.split)
qed (auto simp: body_ok_def settings_body_def rule_body_def map_add_def split: option.splits)

lemma body_ok_strings [simp]:
  "body_ok (JObj [(''permissions'', str_array xs), (''appNames'', str_array ys)])"
  "body_ok (JObj [(''name'', JStr nm), (''permissions'', str_array xs)])"
  "body_ok (JObj [(''topic'', v), (''payload'', w)])" "body_ok (JObj [(''startStep'', v)])"
  by (simp_all add: body_ok_def del: has_type.simps)

lemma delivered_body: "rqBody (delivered r) = (case cqBody r of None \<Rightarrow> JObj [] | Some v \<Rightarrow> v)"
  by (simp add: delivered_def bridge_request_def send_request_def split: prod.split)

lemma every_call_typed: "calls_typed k"
  unfolding calls_typed_def delivered_body
  by (cases k) (simp_all add: api_cancelWorkflow_def api_resumeWorkflow_def api_forkWorkflow_def api_sendWorkflowMessage_def
      api_pauseSchedule_def api_resumeSchedule_def api_triggerSchedule_def api_createAlertingRule_def api_deleteAlertingRule_def
      api_createAPIKey_def api_revokeAPIKey_def api_createRole_def api_deleteRole_def api_grantMemberRole_def api_removeMember_def
      api_updateApp_def api_setAutoscalingPolicy_def api_deleteAutoscalingPolicy_def api_segs)

definition serve_call :: "ctx \<times> api_call \<Rightarrow> bridge \<Rightarrow> bridge" where
  "serve_call p st = fst (bridge_fetch (fst p) (delivered (call_request (snd p))) st)"

interpretation typed: event_machine serve_call directory_typed
  by unfold_locales (use every_call_typed fetch_typed in \<open>auto simp: serve_call_def calls_typed_def\<close>)

section \<open>The answers the client's operations get\<close>

lemma first_answer_skip: "h cx rq st = None \<Longrightarrow> first_answer (hs @ h # hs') cx rq st = first_answer (hs @ hs') cx rq st"
  by (induction hs) (simp_all split: option.split)

lemma answer_of:
  assumes "cqSegs r = map encode_uri_component ts" "ts \<noteq> []" "list_all ordinary ts" "cqKey r = None"
    and "\<And>b rq. b = (case cqBody r of None \<Rightarrow> JObj [] | Some v \<Rightarrow> v) \<Longrightarrow>
      rq = \<lparr>rqMethod = cqMethod r, rqPath = mk_path (map encode_uri_component ts), rqQuery = cqQuery r, rqBody = b\<rparr> \<Longrightarrow>
      first_answer [h_users, h_apps, h_executors, h_workflows, h_steps, h_events, h_notifications, h_workflow, h_queues, h_schedules,
        h_alerts, h_keys, h_token, h_app, h_policy, h_autoscale, h_audit, h_metrics, h_permissions, h_roles, h_del_role, h_members,
        h_grant, h_del_member] cx rq st = y"
  shows "bridge_fetch cx (delivered r) st = y"
proof -
  note d = deliver [OF assms(1-4)]
  let ?hs = "[h_users, h_apps, h_executors, h_workflows, h_steps, h_events, h_notifications, h_workflow, h_queues, h_schedules,
        h_alerts, h_keys, h_token]"
  have "h_workflow_op cx (delivered r) st = None" by (rule early_plain [OF d(1)])
  from first_answer_skip [of h_workflow_op, OF this, of ?hs] show ?thesis
    using early_plain(1) [OF d(1), of cx st] assms(5) [OF refl d(2)] by (simp add: bridge_fetch_def handlers_def del: first_answer.simps(2) add: first_answer.simps(2) [of h_static])
qed

lemmas routed_defs = handler_defs path_defs match_mk_path split_mk_path ok_def

lemma listed_answers:
  assumes "ordinary org"
  shows "bridge_fetch cx (delivered (api_listAPIKeys org)) st = (st, Response 200 (BKeys (keys_tab st)))"
    and "bridge_fetch cx (delivered (api_listRoles org)) st = (st, Response 200 (BRoles (roles_tab st)))"
    and "bridge_fetch cx (delivered (api_listPermissions org)) st = (st, Response 200 (BPermissions all_permissions))"
    and "\<exists>o'. bridge_fetch cx (delivered (api_listMembers org)) st = (st, Response 200 (BMembers o' (map (\<lambda>(u, r). (u, role_of st r)) (members_tab st))))"
  subgoal by (rule answer_of [of _ "[''v2'', ''orgs'', org, ''tokens'']"]) (use assms in \<open>simp_all add: api_listAPIKeys_def api_segs routed_defs\<close>)
  subgoal by (rule answer_of [of _ "[''v2'', ''orgs'', org, ''roles'']"]) (use assms in \<open>simp_all add: api_listRoles_def api_segs routed_defs\<close>)
  subgoal by (rule answer_of [of _ "[''v2'', ''orgs'', org, ''permissions'']"]) (use assms in \<open>simp_all add: api_listPermissions_def api_segs routed_defs\<close>)
  subgoal by (rule exI, rule answer_of [of _ "[''v2'', ''orgs'', org, ''members'']"]) (use assms in \<open>simp_all add: api_listMembers_def api_segs routed_defs\<close>)
  done

definition typed_answer :: "ts_type \<Rightarrow> ctx \<Rightarrow> response \<Rightarrow> bool" where
  "typed_answer t cx r \<longleftrightarrow>
     (case r of Response code b \<Rightarrow> 400 \<le> code \<or> (case body_json cx b of None \<Rightarrow> False | Some v \<Rightarrow> has_type t v) | _ \<Rightarrow> False)"

lemma role_typed: "role_ok r \<Longrightarrow> has_type T_Role (role_json r)"
  by (simp add: T_Role_def type_defs role_json_def role_ok_def split: jsval.splits)

lemma key_typed: "key_ok k \<Longrightarrow> has_type T_Token (key_json k)"
  by (auto simp: T_Token_def type_defs key_json_def key_ok_def js_field_def split: option.splits jsval.splits)

lemma created_typed: "key_ok k \<Longrightarrow> bkToken k = Some tk \<Longrightarrow> has_type T_TokenCreated (key_json k)"
  by (auto simp: T_TokenCreated_def type_defs key_json_def js_field_def)

lemma entry_typed: "entry_ok e \<Longrightarrow> has_type T_AuditLogEntry (audit_json e)"
  by (cases "auTarget e") (auto simp: T_AuditLogEntry_def T_AuditSubjectType_def type_defs audit_json_def entry_ok_def)

lemma stored_policy_typed: "policy_ok p \<Longrightarrow> has_type T_AutoscalePolicy (policy_json p)"
  by (cases "bpRollout p"; cases "bpSchema p") (simp_all add: T_AutoscalePolicy_def type_defs policy_json_def policy_ok_def js_field_def)

lemma recommendation_typed: "has_type T_QueueAutoscale (recommendation_json cx d qu n)"
  by (simp add: T_QueueAutoscale_def type_defs recommendation_json_def js_int_def)

lemma member_typed: "list_all role_ok (roles_tab st) \<Longrightarrow> role_ok (role_of st nm)"
  by (auto simp: role_of_def role_ok_def list_all_iff find_Some_iff split: option.split)

lemma members_typed: "list_all role_ok (roles_tab st) \<Longrightarrow> has_type T_OrgMembers (members_json org (map (\<lambda>(u, r). (u, role_of st r)) ms))"
  using member_typed role_typed by (simp add: T_OrgMembers_def type_defs members_json_def list.pred_map o_def case_prod_beta list_all_iff)

lemma audit_answer:
  assumes "ordinary org"
  shows "\<exists>code b. bridge_fetch cx (delivered (api_listAuditLogs org aq)) st = (st, Response code b) \<and>
    (400 \<le> code \<or> (\<exists>P n m. b = BAudit (js_slice n m (cxSort cx (filter P (audit_tab st))))))"
proof -
  define rq where "rq = \<lparr>rqMethod = ''GET'', rqPath = mk_path (map encode_uri_component [''v2'', ''orgs'', org, ''audit-logs'']),
     rqQuery = audit_params_of aq, rqBody = JObj []\<rparr>"
  have m: "match_path (org_path [Fixed ''audit-logs'']) (rqPath rq) \<noteq> None"
    using assms by (simp add: rq_def path_defs match_mk_path)
  have f: "bridge_fetch cx (delivered (api_listAuditLogs org aq)) st = the (h_audit cx rq st)" if "h_audit cx rq st = Some y" for y
    by (rule answer_of [of _ "[''v2'', ''orgs'', org, ''audit-logs'']"])
      (use assms that in \<open>simp_all add: api_listAuditLogs_def api_segs earlier_defs h_alerts_def h_keys_def h_token_def h_app_def h_policy_def
        h_autoscale_def match_autoscale_def path_defs match_mk_path split_mk_path rq_def\<close>)
  have "\<exists>code b. h_audit cx rq st = Some (st, Response code b) \<and>
    (400 \<le> code \<or> (\<exists>P n m. b = BAudit (js_slice n m (cxSort cx (filter P (audit_tab st))))))"
    using m by (cases "parse_int (param rq ''limit'' ''100'')"; cases "parse_int (param rq ''offset'' ''0'')")
      (auto simp: h_audit_def ok_def problem_def Let_def)
  then obtain code b where "h_audit cx rq st = Some (st, Response code b)"
    and b: "400 \<le> code \<or> (\<exists>P n m. b = BAudit (js_slice n m (cxSort cx (filter P (audit_tab st)))))" by blast
  from f [OF this(1)] this(1) have "bridge_fetch cx (delivered (api_listAuditLogs org aq)) st = (st, Response code b)" by simp
  with b show ?thesis by blast
qed

lemma named_answers:
  assumes "ordinary org" "ordinary nm"
  shows "snd (bridge_fetch cx (delivered (api_createAPIKey org nm perms anames)) st) =
      Response 201 (BKey (new_key cx nm (JObj [(''permissions'', str_array perms), (''appNames'', str_array anames)])))"
    and "bridge_fetch cx (delivered (api_createRole org nm perms)) st =
      the (role_post cx (JObj [(''name'', JStr nm), (''permissions'', str_array perms)]) st)"
proof -
  have e: "bridge_fetch cx (delivered (api_createAPIKey org nm perms anames)) st =
      the (h_token cx \<lparr>rqMethod = ''POST'', rqPath = mk_path (map encode_uri_component [''v2'', ''orgs'', org, ''tokens'', nm]),
         rqQuery = [], rqBody = JObj [(''permissions'', str_array perms), (''appNames'', str_array anames)]\<rparr> st)"
    by (rule answer_of [of _ "[''v2'', ''orgs'', org, ''tokens'', nm]"])
      (use assms in \<open>simp_all add: api_createAPIKey_def api_segs earlier_defs h_alerts_def h_keys_def h_token_def path_defs match_mk_path Let_def\<close>)
  show "snd (bridge_fetch cx (delivered (api_createAPIKey org nm perms anames)) st) =
      Response 201 (BKey (new_key cx nm (JObj [(''permissions'', str_array perms), (''appNames'', str_array anames)])))"
    unfolding e using assms by (simp add: h_token_def path_defs match_mk_path Let_def new_key_def)
  have "role_post cx (JObj [(''name'', JStr nm), (''permissions'', str_array perms)]) st \<noteq> None"
    by (auto simp: role_post_def Let_def problem_def split: jsval.split)
  then show "bridge_fetch cx (delivered (api_createRole org nm perms)) st =
      the (role_post cx (JObj [(''name'', JStr nm), (''permissions'', str_array perms)]) st)"
    by (intro answer_of [of _ "[''v2'', ''orgs'', org, ''roles'']"])
      (use assms in \<open>auto simp: api_createRole_def api_segs routed_defs\<close>)
qed

lemma autoscale_answer:
  assumes "ordinary org" "ordinary app"
  shows "\<exists>code b. bridge_fetch cx (delivered (api_getAutoscale org app)) st = (st, Response code b) \<and>
    (400 \<le> code \<or> (\<exists>d qu n. b = BRecommendation True d qu n))"
proof -
  have "bridge_fetch cx (delivered (api_getAutoscale org app)) st =
      (case map_of (autoscaling_tab st) app of None \<Rightarrow> the (no_policy st) | Some p \<Rightarrow>
         let depth = (case qDepth (cxDb cx) of None \<Rightarrow> 0 | Some n \<Rightarrow> n)
         in (st, Response 200 (BRecommendation True (desired_executors (find (\<lambda>x. bqName x = bpQueue p) (queues_tab st)) depth) (bpQueue p) depth)))"
    by (rule answer_of [of _ "[''v2'', ''orgs'', org, ''apps'', app, ''autoscale'']"])
      (use assms in \<open>auto simp: api_getAutoscale_def api_segs earlier_defs h_alerts_def h_keys_def h_token_def h_app_def h_policy_def
        h_autoscale_def match_autoscale_def path_defs match_mk_path split_mk_path ok_def no_policy_def problem_def Let_def split: option.splits\<close>)
  then show ?thesis by (auto simp: no_policy_def problem_def Let_def split: option.split)
qed

section \<open>Typed answers\<close>

definition T_policy_answer :: ts_type where
  "T_policy_answer = TInterface [required ''policy'' T_AutoscalePolicy]"

definition T_role_answer :: ts_type where
  "T_role_answer = TInterface [required ''name'' TString, required ''permissions'' (TArray TString)]"

text \<open>Operations of the client with the type of their promise.\<close>

definition typed_ops :: "string \<Rightarrow> string \<Rightarrow> string \<Rightarrow> string list \<Rightarrow> string list \<Rightarrow> audit_log_query \<Rightarrow> string \<Rightarrow> rollout option \<Rightarrow> (api_request \<times> ts_type) list" where
  "typed_ops org app nm perms anames aq qu ro =
     [(api_listAPIKeys org, TArray T_Token), (api_createAPIKey org nm perms anames, T_TokenCreated),
      (api_getAutoscalingPolicy org app, T_policy_answer), (api_setAutoscalingPolicy org app (policy_body qu ro), T_policy_answer),
      (api_getAutoscale org app, TArray T_QueueAutoscale), (api_listAuditLogs org aq, TArray T_AuditLogEntry),
      (api_listRoles org, TArray T_Role), (api_createRole org nm perms, T_role_answer), (api_listMembers org, T_OrgMembers),
      (api_listPermissions org, TArray TString)]"

lemma js_slice_all: "list_all P xs \<Longrightarrow> list_all P (js_slice n m xs)"
  unfolding js_slice_def list_all_iff by (blast dest: in_set_takeD in_set_dropD)

lemma typed_lists:
  assumes "directory_typed st" "ordinary org"
  shows "typed_answer (TArray T_Token) cx (snd (bridge_fetch cx (delivered (api_listAPIKeys org)) st))"
    and "typed_answer (TArray T_Role) cx (snd (bridge_fetch cx (delivered (api_listRoles org)) st))"
    and "typed_answer (TArray TString) cx (snd (bridge_fetch cx (delivered (api_listPermissions org)) st))"
    and "typed_answer T_OrgMembers cx (snd (bridge_fetch cx (delivered (api_listMembers org)) st))"
proof -
  obtain o' where m: "bridge_fetch cx (delivered (api_listMembers org)) st = (st, Response 200 (BMembers o' (map (\<lambda>(u, r). (u, role_of st r)) (members_tab st))))"
    using listed_answers(4) [OF assms(2)] by blast
  show "typed_answer T_OrgMembers cx (snd (bridge_fetch cx (delivered (api_listMembers org)) st))"
    unfolding m using members_typed typed_parts(2) [OF assms(1)] by (simp add: typed_answer_def)
qed (use typed_parts [OF assms(1)] key_typed role_typed in
    \<open>auto simp: typed_answer_def listed_answers(1-3) [OF assms(2)] list_all_iff str_array_def simp del: has_type.simps(9)\<close>)

lemma typed_audit:
  assumes "directory_typed st" "ordinary org" "\<forall>es. set (cxSort cx es) \<subseteq> set es"
  shows "typed_answer (TArray T_AuditLogEntry) cx (snd (bridge_fetch cx (delivered (api_listAuditLogs org aq)) st))"
proof -
  have "list_all entry_ok (js_slice n m (cxSort cx (filter P (audit_tab st))))" for n m P
    by (rule js_slice_all) (use typed_parts(4) [OF assms(1)] assms(3) in \<open>fastforce simp: list_all_iff\<close>)
  then have "list_all (has_type T_AuditLogEntry) (map audit_json (js_slice n m (cxSort cx (filter P (audit_tab st)))))" for n m P
    using entry_typed by (auto simp: list_all_iff)
  then show ?thesis using audit_answer [OF assms(2), of cx aq st] by (auto simp: typed_answer_def)
qed

lemma typed_policies:
  assumes "directory_typed st" "ordinary org" "ordinary app"
  shows "typed_answer T_policy_answer cx (snd (bridge_fetch cx (delivered (api_getAutoscalingPolicy org app)) st))"
    and "typed_answer T_policy_answer cx (snd (bridge_fetch cx (delivered (api_setAutoscalingPolicy org app (policy_body qu ro))) st))"
    and "typed_answer (TArray T_QueueAutoscale) cx (snd (bridge_fetch cx (delivered (api_getAutoscale org app)) st))"
proof -
  have ans: "typed_answer T_policy_answer cx (Response 200 (BPolicy p))" if "policy_ok p" for p
    using stored_policy_typed [OF that] by (simp add: typed_answer_def T_policy_answer_def type_defs policy_json_def)
  have ok: "policy_ok p" if "map_of (autoscaling_tab st) app = Some p" for p
    using typed_parts(3) [OF assms(1)] map_of_SomeD [OF that] by (auto simp: list_all_iff)
  show "typed_answer T_policy_answer cx (snd (bridge_fetch cx (delivered (api_getAutoscalingPolicy org app)) st))"
    using ok ans fetch_policy [OF assms(2,3), of "api_getAutoscalingPolicy org app" cx st]
    by (auto simp: api_getAutoscalingPolicy_def get_of_def typed_answer_def split: option.split)
  have new: "policy_ok (policy_of qu ro)" using rollout_typed by (simp add: policy_ok_def policy_of_def split: option.split)
  have "typed_answer T_policy_answer cx (snd (the (policy_put cx (policy_body qu ro) app st)))"
  proof (cases "qu = []")
    case True
    then show ?thesis by (simp add: policy_put_def policy_body_def problem_def typed_answer_def)
  next
    case False
    then show ?thesis using ans [OF new] by (simp add: policy_put_spec typed_answer_def split: option.split)
  qed
  then show "typed_answer T_policy_answer cx (snd (bridge_fetch cx (delivered (api_setAutoscalingPolicy org app (policy_body qu ro))) st))"
    using fetch_policy [OF assms(2,3), of "api_setAutoscalingPolicy org app (policy_body qu ro)" cx st]
    by (simp add: api_setAutoscalingPolicy_def call_of_def)
  show "typed_answer (TArray T_QueueAutoscale) cx (snd (bridge_fetch cx (delivered (api_getAutoscale org app)) st))"
    using autoscale_answer [OF assms(2,3), of cx st] recommendation_typed by (auto simp: typed_answer_def simp del: has_type.simps(9))
qed

lemma typed_created:
  assumes "ordinary org" "ordinary nm"
  shows "typed_answer T_TokenCreated cx (snd (bridge_fetch cx (delivered (api_createAPIKey org nm perms anames)) st))"
    and "typed_answer T_role_answer cx (snd (bridge_fetch cx (delivered (api_createRole org nm perms)) st))"
proof -
  have n: "nm \<noteq> []" using assms(2) by simp
  show "typed_answer T_TokenCreated cx (snd (bridge_fetch cx (delivered (api_createAPIKey org nm perms anames)) st))"
    by (simp add: named_answers [OF assms] typed_answer_def T_TokenCreated_def type_defs key_json_def new_key_def js_field_def)
  show "typed_answer T_role_answer cx (snd (bridge_fetch cx (delivered (api_createRole org nm perms)) st))"
    using n by (simp add: named_answers [OF assms] role_post_def jor_def Let_def problem_def typed_answer_def T_role_answer_def
        type_defs str_array_def list_all_iff)
qed

lemma rows_untyped:
  "\<not> has_type T_Application (JObj (app_json a))" "\<not> has_type T_Executor (executor_json x)" "\<not> has_type T_Workflow (workflow_json w)"
  "\<not> has_type T_Queue (queue_json u)" "\<not> has_type T_Schedule (schedule_json s)"
  by (simp_all add: T_Application_def T_Executor_def T_Workflow_def T_Queue_def T_Schedule_def type_defs app_json_def executor_json_def
      workflow_json_def queue_json_def schedule_json_def)

lemma rows_answers:
  assumes "ordinary org" "ordinary app"
  shows "bridge_fetch cx (delivered (api_listApplications org)) st = (st, Response 200 (BApps (rows_or (qApps (cxDb cx)) (apps_tab st))))"
    and "bridge_fetch cx (delivered (api_listQueues org app)) st = (st, Response 200 (BQueues (filter (\<lambda>e. bqApp e = app) (queues_tab st))))"
    and "bridge_fetch cx (delivered (api_listSchedules org app)) st = (st, Response 200 (BSchedules (filter (\<lambda>e. bsApp e = app) (schedules_tab st))))"
    and "bridge_fetch cx (delivered (api_listWorkflows org app wq)) st =
      (st, Response 200 (BWorkflows (map (workflow_of_row cx) (case qWorkflows (cxDb cx) app of None \<Rightarrow> [] | Some rs \<Rightarrow> rs))))"
    and "bridge_fetch cx (delivered (api_listExecutors org app)) st = (st, Response 200 (BExecutors (case qExecutors (cxDb cx) app of
        Some (r # rs) \<Rightarrow> map (executor_of_row cx app) (r # rs) | _ \<Rightarrow> filter (\<lambda>e. bxApp e = app) (executors_tab st))))"
  subgoal by (rule answer_of [of _ "[''v2'', ''orgs'', org, ''apps'']"]) (use assms in \<open>simp_all add: api_listApplications_def api_segs routed_defs\<close>)
  subgoal by (rule answer_of [of _ "[''v2'', ''orgs'', org, ''apps'', app, ''queues'']"]) (use assms in \<open>simp_all add: api_listQueues_def api_segs routed_defs\<close>)
  subgoal by (rule answer_of [of _ "[''v2'', ''orgs'', org, ''apps'', app, ''schedules'']"]) (use assms in \<open>simp_all add: api_listSchedules_def api_segs routed_defs\<close>)
  subgoal by (rule answer_of [of _ "[''v2'', ''orgs'', org, ''apps'', app, ''workflows'']"]) (use assms in \<open>simp_all add: api_listWorkflows_def api_segs routed_defs\<close>)
  subgoal by (rule answer_of [of _ "[''v2'', ''orgs'', org, ''apps'', app, ''executors'']"])
      (use assms in \<open>simp_all add: api_listExecutors_def api_segs routed_defs split: option.split list.split\<close>)
  done

text \<open>An array of rows none of which has the element type is typed only when it is empty.\<close>

lemma array_typed_empty: "\<forall>x. \<not> has_type t (f x) \<Longrightarrow> has_type (TArray t) (JArr (map f xs)) \<longleftrightarrow> xs = []"
  by (cases xs) simp_all

section \<open>Theorems\<close>

text \<open>
  C10: after any sequence of calls the console makes, each of these operations of the API client gets from
  the mock API an error or an answer that has the type its declaration promises: the API keys, a new key,
  the autoscaling policy read or set, the recommendations, the audit log, the roles, a new role, the members
  with their roles and the permissions. The names are ones the mock API's path patterns do not mistake, and
  sorting adds no audit entries.
\<close>

theorem answers_have_declared_types:
  assumes "list_all ordinary [org, app, nm]" "\<forall>es. set (cxSort cx es) \<subseteq> set es"
    and "(r, t) \<in> set (typed_ops org app nm perms anames aq qu ro)"
  shows "typed_answer t cx (snd (bridge_fetch cx (delivered r) (fold serve_call ks (init_bridge cx0))))"
proof -
  have st: "directory_typed (fold serve_call ks (init_bridge cx0))" by (rule typed.run_keeps [OF init_typed])
  have o': "ordinary org" "ordinary app" "ordinary nm" using assms(1) by simp_all
  from assms(3) typed_lists [OF st o'(1)] typed_audit [OF st o'(1) assms(2)] typed_policies [OF st o'(1,2)] typed_created [OF o'(1,3)]
  show ?thesis unfolding typed_ops_def by auto
qed

theorem answers_have_declared_types_witness:
  "typed_answer (TArray T_Role) ctx0 (snd (bridge_fetch ctx0 (delivered (api_listRoles ''default''))
     (fold serve_call [(ctx0, CreateRole ''default'' ''auditor'' [''audit:read''])] (init_bridge ctx0))))"
proof (rule answers_have_declared_types)
  show "list_all ordinary [''default'', ''checkout'', ''auditor'']" by code_simp
  show "\<forall>es. set (cxSort ctx0 es) \<subseteq> set es" by (simp add: ctx0_def)
  show "(api_listRoles ''default'', TArray T_Role) \<in> set (typed_ops ''default'' ''checkout'' ''auditor'' [] [] aq [] None)" for aq
    by (simp add: typed_ops_def)
qed

text \<open>
  the mock API's applications, queues, schedules, executors and workflows are not what the client's types
  promise: every row lacks required properties (such as the identifier of an application, the priority of a
  workflow, or whether a queue has priorities), so only an empty answer has the declared type; and the answer to
  a fork, which succeeds, has no \<open>workflowId\<close>.
\<close>

theorem rows_short_of_types:
  assumes "list_all ordinary [org, app, wid]"
  shows "(typed_answer (TArray T_Application) cx (snd (bridge_fetch cx (delivered (api_listApplications org)) st)) \<longleftrightarrow>
            rows_or (qApps (cxDb cx)) (apps_tab st) = []) \<and>
         (typed_answer (TArray T_Queue) cx (snd (bridge_fetch cx (delivered (api_listQueues org app)) st)) \<longleftrightarrow>
            app \<notin> bqApp ` set (queues_tab st)) \<and>
         (typed_answer (TArray T_Schedule) cx (snd (bridge_fetch cx (delivered (api_listSchedules org app)) st)) \<longleftrightarrow>
            app \<notin> bsApp ` set (schedules_tab st)) \<and>
         (typed_answer (TArray T_Workflow) cx (snd (bridge_fetch cx (delivered (api_listWorkflows org app wq)) st)) \<longleftrightarrow>
            qWorkflows (cxDb cx) app \<in> {None, Some []}) \<and>
         (typed_answer (TArray T_Executor) cx (snd (bridge_fetch cx (delivered (api_listExecutors org app)) st)) \<longleftrightarrow>
            qExecutors (cxDb cx) app \<in> {None, Some []} \<and> app \<notin> bxApp ` set (executors_tab st)) \<and>
         snd (bridge_fetch cx (delivered (api_forkWorkflow org app wid n)) st) = Response 200 BOk \<and>
         \<not> typed_answer (TInterface [required ''workflowId'' TString]) cx
             (snd (bridge_fetch cx (delivered (api_forkWorkflow org app wid n)) st))"
proof -
  have o': "ordinary org" "ordinary app" "ordinary wid" using assms by simp_all
  note a = rows_answers [OF o'(1,2)] and e = array_typed_empty rows_untyped
  have enc: "encode_uri_component ''fork'' = ''fork''" by code_simp
  have f: "snd (bridge_fetch cx (delivered (api_forkWorkflow org app wid n)) st) = Response 200 BOk"
    using workflow_op_answered [OF o', of "''fork''" "api_forkWorkflow org app wid n" "''workflows''" cx st]
    by (simp add: api_forkWorkflow_def api_segs enc)
  show ?thesis unfolding f
    by (auto simp: typed_answer_def a e filter_empty_conv required_def o_def simp del: has_type.simps(7) split: option.splits list.splits)
qed

theorem rows_short_of_types_witness:
  "\<not> typed_answer (TArray T_Queue) ctx0 (snd (bridge_fetch ctx0 (delivered (api_listQueues ''default'' ''ecommerce-checkout'')) (init_bridge ctx0)))"
proof -
  have "list_all ordinary [''default'', ''ecommerce-checkout'', ''wf-1'']" by code_simp
  moreover have "''ecommerce-checkout'' \<in> bqApp ` set (queues_tab (init_bridge ctx0))" by code_simp
  ultimately show ?thesis using rows_short_of_types [of "''default''" "''ecommerce-checkout''" "''wf-1''" ctx0 "init_bridge ctx0"] by blast
qed

end
