(* ===== verification/Metrics.thy ===== *)
theory Metrics
  imports Formatters
begin

text \<open>
  The metrics explorer of \<open>console/src/app.js\<close>: the parser of the Prometheus text exposition, the
  aggregation of samples into the five cards, and the headline sums. The regular expressions of the
  parser are written out as functions; each is deterministic up to the closing brace of the labels, for
  which the greedy match is a search from the right. A card is the list of its table rows, each
  cell the markup of its \<open>td\<close>.
\<close>

section \<open>Parsing the exposition\<close>

record sample =
  smLabels :: "(string, string) jsmap"
  smValue :: jsnum

record family =
  faHelp :: string
  faType :: string
  faSamples :: "sample list"

type_synonym families = "(string, family) jsmap"

definition empty_family :: family where
  "empty_family = \<lparr>faHelp = [], faType = [], faSamples = []\<rparr>"

text \<open>\<open>familyOf(name)\<close> followed by an assignment to the family: a new family goes to the end.\<close>

definition on_family :: "string \<Rightarrow> (family \<Rightarrow> family) \<Rightarrow> families \<Rightarrow> families" where
  "on_family nm f fams =
     AList.update nm (f (case map_of fams nm of None \<Rightarrow> empty_family | Some fa \<Rightarrow> fa)) fams"

definition name_start :: "char \<Rightarrow> bool" where
  "name_start c \<longleftrightarrow> is_alpha c \<or> c = CHR ''_''"

definition metric_char :: "char \<Rightarrow> bool" where
  "metric_char c \<longleftrightarrow> is_word_char c \<or> c = CHR '':''"

definition value_char :: "char \<Rightarrow> bool" where
  "value_char c \<longleftrightarrow> is_digit c \<or> c \<in> set ''.eE+-''"

text \<open>
  \<open>(-?[0-9.eE+-]+|NaN|\+Inf|-Inf)\<close>. The class holds both signs, so the first alternative already
  matches the sign of an infinity.
\<close>

definition match_value :: "string \<Rightarrow> string option" where
  "match_value s =
     (if takeWhile value_char s \<noteq> [] then Some (takeWhile value_char s)
      else if starts_with s ''NaN'' then Some ''NaN''
      else if starts_with s ''+Inf'' then Some ''+Inf''
      else if starts_with s ''-Inf'' then Some ''-Inf'' else None)"

text \<open>\<open>\s+\<close> and the value\<close>

definition match_tail :: "string \<Rightarrow> string option" where
  "match_tail s = (if s \<noteq> [] \<and> is_space (hd s) then match_value (dropWhile is_space s) else None)"

text \<open>
  \<open>(.*)\}\<close> followed by the tail: the last closing brace after which the tail matches, with no line
  terminator before it (the lines are split at line feeds only, so a carriage return can be left).
\<close>

definition line_end :: "char \<Rightarrow> bool" where
  "line_end c \<longleftrightarrow> c = CHR 0x0A \<or> c = CHR 0x0D"

fun match_labels :: "string \<Rightarrow> (string \<times> string) option" where
  "match_labels [] = None"
| "match_labels (c # s) =
     (case (if line_end c then None else match_labels s) of
        Some (ls, v) \<Rightarrow> Some (c # ls, v)
      | None \<Rightarrow> if c = CHR ''}'' then map_option (\<lambda>v. ([], v)) (match_tail s) else None)"

definition match_sample :: "string \<Rightarrow> (string \<times> string \<times> string) option" where
  "match_sample line =
     (let nm = takeWhile metric_char line; rest = dropWhile metric_char line
      in if nm = [] \<or> is_digit (hd nm) then None
         else case rest of
                [] \<Rightarrow> None
              | c # r \<Rightarrow>
                  if c = CHR ''{'' then map_option (\<lambda>(ls, v). (nm, ls, v)) (match_labels r)
                  else map_option (\<lambda>v. (nm, [], v)) (match_tail rest))"

text \<open>\<open>((?:[^"\\]|\\.)*)"\<close>: the raw value and what follows the closing quote.\<close>

fun label_value :: "string \<Rightarrow> (string \<times> string) option" where
  "label_value [] = None"
| "label_value (c # s) =
     (if c = CHR 0x22 then Some ([], s)
      else if c = CHR 0x5C then
        (case s of
           [] \<Rightarrow> None
         | d # t \<Rightarrow> if line_end d then None else map_option (\<lambda>(v, r). (c # d # v, r)) (label_value t))
      else map_option (\<lambda>(v, r). (c # v, r)) (label_value s))"

lemma label_value_shorter: "label_value s = Some (v, r) \<Longrightarrow> length r < length s"
  by (induction s arbitrary: v r rule: label_value.induct) (fastforce split: if_splits list.splits)+

text \<open>\<open>([a-zA-Z_][a-zA-Z0-9_]*)="..."\<close> at the start of the text\<close>

definition label_here :: "string \<Rightarrow> ((string \<times> string) \<times> string) option" where
  "label_here s =
     (let nm = takeWhile is_word_char s; rest = dropWhile is_word_char s
      in if nm = [] \<or> is_digit (hd nm) then None
         else case rest of
                a # b # r \<Rightarrow> if a = CHR ''='' \<and> b = CHR 0x22 then map_option (\<lambda>(v, t). ((nm, v), t)) (label_value r) else None
              | _ \<Rightarrow> None)"

lemma label_here_shorter: "label_here s = Some (p, r) \<Longrightarrow> length r < length s"
proof -
  assume "label_here s = Some (p, r)"
  then obtain a b t v where "dropWhile is_word_char s = a # b # t" "label_value t = Some (v, r)"
    by (auto simp: label_here_def Let_def split: if_splits list.splits)
  with label_value_shorter [of t v r] length_dropWhile_le [of is_word_char s] show ?thesis by simp
qed

text \<open>The loop of \<open>labelRe.exec\<close>: every match, from left to right.\<close>

function find_labels :: "string \<Rightarrow> (string \<times> string) list" where
  "find_labels s =
     (case label_here s of
        Some (p, r) \<Rightarrow> p # find_labels r
      | None \<Rightarrow> (case s of [] \<Rightarrow> [] | _ # t \<Rightarrow> find_labels t))"
  by auto
termination
  by (relation "measure length") (auto dest: label_here_shorter)

declare find_labels.simps [simp del]

text \<open>\<open>.replace(/\\n/g, "\n")\<close> and \<open>.replace(/\\(.)/g, "$1")\<close>\<close>

fun replace_newlines :: "string \<Rightarrow> string" where
  "replace_newlines (c # d # s) =
     (if c = CHR 0x5C \<and> d = CHR ''n'' then CHR 0x0A # replace_newlines s else c # replace_newlines (d # s))"
| "replace_newlines s = s"

fun replace_escapes :: "string \<Rightarrow> string" where
  "replace_escapes (c # d # s) =
     (if c = CHR 0x5C \<and> \<not> line_end d then d # replace_escapes s else c # replace_escapes (d # s))"
| "replace_escapes s = s"

definition unescape_label :: "string \<Rightarrow> string" where
  "unescape_label v = replace_escapes (replace_newlines v)"

text \<open>An assignment of a text to \<open>labels.__proto__\<close> has no effect.\<close>

definition parse_labels :: "string \<Rightarrow> (string, string) jsmap" where
  "parse_labels s = foldl (\<lambda>m (k, v). if k = ''__proto__'' then m else AList.update k (unescape_label v) m) [] (find_labels s)"

definition parse_value :: "string \<Rightarrow> jsnum" where
  "parse_value raw =
     (if raw = ''NaN'' then NaN else if raw = ''+Inf'' then PInf else if raw = ''-Inf'' then NInf else parse_float raw)"

definition parse_line :: "string \<Rightarrow> families \<Rightarrow> families" where
  "parse_line rawLine fams =
     (let line = trim rawLine
      in if line = [] then fams
         else if starts_with line ''# HELP '' then
           (let rest = drop 7 line
            in case index_of rest '' '' of
                 None \<Rightarrow> on_family rest (faHelp_update (\<lambda>_. [])) fams
               | Some sp \<Rightarrow> on_family (take sp rest) (faHelp_update (\<lambda>_. drop (sp + 1) rest)) fams)
         else if starts_with line ''# TYPE '' then
           (case split_ws (drop 7 line) of
              nm # ty # _ \<Rightarrow> on_family nm (faType_update (\<lambda>_. ty)) fams
            | _ \<Rightarrow> fams)
         else if starts_with line ''#'' then fams
         else case match_sample line of
                None \<Rightarrow> fams
              | Some (nm, ls, raw) \<Rightarrow>
                  on_family nm (faSamples_update (\<lambda>ss. ss @ [\<lparr>smLabels = parse_labels ls, smValue = parse_value raw\<rparr>])) fams)"

definition parsePrometheusExposition :: "string \<Rightarrow> families" where
  "parsePrometheusExposition text = fold parse_line (split_on (CHR 0x0A) text) []"

section \<open>The cards\<close>

definition metric_prefix :: string where
  "metric_prefix = ''dbos_conductor_v1_''"

definition samplesOf :: "families \<Rightarrow> string \<Rightarrow> sample list" where
  "samplesOf fams nm = (case map_of fams nm of None \<Rightarrow> [] | Some fa \<Rightarrow> faSamples fa)"

definition sum_samples :: "sample list \<Rightarrow> rat" where
  "sum_samples ss = foldl (\<lambda>acc s. acc + fin_or_zero (smValue s)) 0 ss"

definition label :: "sample \<Rightarrow> string \<Rightarrow> string" where
  "label s k = opt_str (map_of (smLabels s) k)"

text \<open>The table key of two labels: both joined by a NUL character.\<close>

definition key2 :: "string \<Rightarrow> string \<Rightarrow> sample \<Rightarrow> string" where
  "key2 k1 k2 s = label s k1 @ CHR 0x00 # label s k2"

text \<open>
  The loop \<open>collect\<close> the cards share: the row of the sample's key, made if it is missing, is updated.
\<close>

definition collect :: "(sample \<Rightarrow> string) \<Rightarrow> (sample \<Rightarrow> 'r) \<Rightarrow> (rat \<Rightarrow> 'r \<Rightarrow> 'r) \<Rightarrow> sample list \<Rightarrow> (string, 'r) jsmap \<Rightarrow> (string, 'r) jsmap" where
  "collect key fresh add ss rows =
     foldl (\<lambda>m s. AList.update (key s) (add (fin_or_zero (smValue s))
        (case map_of m (key s) of None \<Rightarrow> fresh s | Some r \<Rightarrow> r)) m) rows ss"

definition max_of :: "rat list \<Rightarrow> rat" where
  "max_of xs = foldr max xs 0"

definition fmt :: "rat \<Rightarrow> string" where
  "fmt x = formatMetricValue (JNum (Fin x))"

definition code_cell :: "string \<Rightarrow> string" where
  "code_cell s = ''<code>'' @ escapeHtml (JStr s) @ ''</code>''"

type_synonym card = "string list list"

subsection \<open>Workflow rates\<close>

record rate_row =
  rrApplication :: string
  rrWorkflow :: string
  rrStarted :: rat
  rrSuccess :: rat
  rrFailed :: rat
  rrCancelled :: rat

definition fresh_rate :: "sample \<Rightarrow> rate_row" where
  "fresh_rate s = \<lparr>rrApplication = label s ''application'', rrWorkflow = label s ''workflow_name'',
     rrStarted = 0, rrSuccess = 0, rrFailed = 0, rrCancelled = 0\<rparr>"

definition workflow_rates :: "(string \<Rightarrow> sample list) \<Rightarrow> rate_row list" where
  "workflow_rates so =
     (let key = key2 ''application'' ''workflow_name'';
          m1 = collect key fresh_rate (\<lambda>v. rrStarted_update (\<lambda>x. x + v)) (so (metric_prefix @ ''workflow_started_rate'')) [];
          m2 = collect key fresh_rate (\<lambda>v. rrSuccess_update (\<lambda>x. x + v)) (so (metric_prefix @ ''workflow_success_rate'')) m1;
          m3 = collect key fresh_rate (\<lambda>v. rrFailed_update (\<lambda>x. x + v)) (so (metric_prefix @ ''workflow_failed_rate'')) m2;
          m4 = collect key fresh_rate (\<lambda>v. rrCancelled_update (\<lambda>x. x + v)) (so (metric_prefix @ ''workflow_cancelled_rate'')) m3
      in sort_desc rrSuccess (map snd m4))"

definition renderWorkflowRateCard :: "(string \<Rightarrow> sample list) \<Rightarrow> card" where
  "renderWorkflowRateCard so =
     (let rows = workflow_rates so; mx = max_of (map rrSuccess rows)
      in map (\<lambda>r. [code_cell (rrWorkflow r), escapeHtml (JStr (rrApplication r)), fmt (rrStarted r), fmt (rrSuccess r),
           fmt (rrFailed r), fmt (rrCancelled r), metricBar (Fin (rrSuccess r)) (Fin mx) ''var(--success)'']) rows)"

subsection \<open>Queue depth\<close>

record depth_row =
  drQueue :: string
  drWorkflow :: string
  drEnqueued :: rat
  drPending :: rat

definition fresh_depth :: "sample \<Rightarrow> depth_row" where
  "fresh_depth s = \<lparr>drQueue = label s ''queue_name'', drWorkflow = label s ''workflow_name'', drEnqueued = 0, drPending = 0\<rparr>"

definition queue_depths :: "(string \<Rightarrow> sample list) \<Rightarrow> depth_row list" where
  "queue_depths so =
     (let key = key2 ''queue_name'' ''workflow_name'';
          m1 = collect key fresh_depth (\<lambda>v. drEnqueued_update (\<lambda>x. x + v)) (so (metric_prefix @ ''workflow_enqueued_count'')) [];
          m2 = collect key fresh_depth (\<lambda>v. drPending_update (\<lambda>x. x + v)) (so (metric_prefix @ ''workflow_pending_count'')) m1
      in sort_desc (\<lambda>r. drEnqueued r + drPending r) (map snd m2))"

definition renderQueueDepthCard :: "(string \<Rightarrow> sample list) \<Rightarrow> card" where
  "renderQueueDepthCard so =
     (let rows = queue_depths so; mx = max_of (map (\<lambda>r. drEnqueued r + drPending r) rows)
      in map (\<lambda>r. [code_cell (str_or (drQueue r) ''n/a''), escapeHtml (JStr (drWorkflow r)), fmt (drEnqueued r), fmt (drPending r),
           metricBar (Fin (drEnqueued r + drPending r)) (Fin mx) ''var(--info)'']) rows)"

subsection \<open>Latency maxima\<close>

record latency_row =
  lrWorkflow :: string
  lrWait :: "rat option"
  lrLatency :: "rat option"

text \<open>Here a finite sample replaces the value of its row.\<close>

definition collect_latest ::
    "((rat option \<Rightarrow> rat option) \<Rightarrow> latency_row \<Rightarrow> latency_row) \<Rightarrow> sample list \<Rightarrow> (string, latency_row) jsmap \<Rightarrow> (string, latency_row) jsmap" where
  "collect_latest upd ss rows =
     foldl (\<lambda>m s. let key = label s ''workflow_name'';
                     row = (case map_of m key of None \<Rightarrow> \<lparr>lrWorkflow = key, lrWait = None, lrLatency = None\<rparr> | Some r \<Rightarrow> r)
                 in AList.update key (case smValue s of Fin v \<Rightarrow> upd (\<lambda>_. Some v) row | _ \<Rightarrow> row) m) rows ss"

definition latency_rows :: "(string \<Rightarrow> sample list) \<Rightarrow> latency_row list" where
  "latency_rows so =
     (let m1 = collect_latest lrWait_update (so (metric_prefix @ ''workflow_max_queue_wait_seconds'')) [];
          m2 = collect_latest lrLatency_update (so (metric_prefix @ ''workflow_max_total_latency_seconds'')) m1
      in sort_desc (\<lambda>r. case lrLatency r of None \<Rightarrow> 0 | Some v \<Rightarrow> v) (map snd m2))"

definition step_latencies :: "(string \<Rightarrow> sample list) \<Rightarrow> (string \<times> rat) list" where
  "step_latencies so =
     sort_desc snd (foldl (\<lambda>m s. case smValue s of Fin v \<Rightarrow> AList.update (label s ''step_name'') v m | _ \<Rightarrow> m) []
       (so (metric_prefix @ ''step_max_duration_seconds'')))"

definition opt_fmt :: "rat option \<Rightarrow> string" where
  "opt_fmt v = (case v of None \<Rightarrow> ''n/a'' | Some x \<Rightarrow> fmt x)"

definition step_mark :: string where
  "step_mark = '' <span class='' @ dq @ ''text-secondary'' @ dq @ '' style='' @ dq @ ''font-size:11px;'' @ dq @ ''>(step)</span>''"

definition renderLatencyCard :: "(string \<Rightarrow> sample list) \<Rightarrow> card" where
  "renderLatencyCard so =
     map (\<lambda>r. [code_cell (lrWorkflow r), opt_fmt (lrWait r), opt_fmt (lrLatency r), ''-'']) (latency_rows so) @
     map (\<lambda>(st, v). [code_cell st @ step_mark, ''-'', ''-'', fmt v]) (step_latencies so)"

subsection \<open>Executors and step rates\<close>

record executor_row_m =
  emApplication :: string
  emVersion :: string
  emStatus :: string
  emCount :: rat

definition executor_counts :: "(string \<Rightarrow> sample list) \<Rightarrow> executor_row_m list" where
  "executor_counts so =
     sort_desc emCount (map (\<lambda>s. \<lparr>emApplication = label s ''application'', emVersion = label s ''application_version'',
        emStatus = label s ''status'', emCount = fin_or_zero (smValue s)\<rparr>) (so (metric_prefix @ ''executor_count'')))"

definition renderExecutorCard :: "(string \<Rightarrow> sample list) \<Rightarrow> card" where
  "renderExecutorCard so =
     (let rows = executor_counts so; mx = max_of (map emCount rows)
      in map (\<lambda>r. [escapeHtml (JStr (emApplication r)), code_cell (emVersion r), escapeHtml (JStr (emStatus r)), fmt (emCount r),
           metricBar (Fin (emCount r)) (Fin mx) ''var(--warning)'']) rows)"

record step_rate_row =
  srApplication :: string
  srStep :: string
  srSuccess :: rat
  srFailed :: rat

definition fresh_step_rate :: "sample \<Rightarrow> step_rate_row" where
  "fresh_step_rate s = \<lparr>srApplication = label s ''application'', srStep = label s ''step_name'', srSuccess = 0, srFailed = 0\<rparr>"

definition step_rates :: "(string \<Rightarrow> sample list) \<Rightarrow> step_rate_row list" where
  "step_rates so =
     (let key = key2 ''application'' ''step_name'';
          m1 = collect key fresh_step_rate (\<lambda>v. srSuccess_update (\<lambda>x. x + v)) (so (metric_prefix @ ''step_success_rate'')) [];
          m2 = collect key fresh_step_rate (\<lambda>v. srFailed_update (\<lambda>x. x + v)) (so (metric_prefix @ ''step_failed_rate'')) m1
      in sort_desc srSuccess (map snd m2))"

definition renderStepRateCard :: "(string \<Rightarrow> sample list) \<Rightarrow> card" where
  "renderStepRateCard so =
     (let rows = step_rates so; mx = max_of (map srSuccess rows)
      in map (\<lambda>r. [code_cell (srStep r), escapeHtml (JStr (srApplication r)), fmt (srSuccess r), fmt (srFailed r),
           metricBar (Fin (srSuccess r)) (Fin mx) ''var(--success)'']) rows)"

subsection \<open>The screen\<close>

datatype metrics_sections = NoSamples | Cards card card card card card

record metrics_view =
  mvSuccessRate :: string
  mvFailedRate :: string
  mvEnqueued :: string
  mvPending :: string
  mvExecutors :: string
  mvOptions :: "(string \<times> string \<times> bool) list"
  mvSections :: metrics_sections

definition short_name :: "string \<Rightarrow> string" where
  "short_name nm = (if starts_with nm metric_prefix then drop (length metric_prefix) nm else nm)"

definition metrics_screen :: "string \<Rightarrow> string \<Rightarrow> metrics_view" where
  "metrics_screen fam text =
     (let fams = parsePrometheusExposition text; so = samplesOf fams;
          total = (\<lambda>nm. sum_samples (so (metric_prefix @ nm)))
      in \<lparr>mvSuccessRate = fmt (total ''workflow_success_rate'') @ ''/s'', mvFailedRate = fmt (total ''workflow_failed_rate'') @ ''/s'',
          mvEnqueued = fmt (total ''workflow_enqueued_count''), mvPending = fmt (total ''workflow_pending_count''),
          mvExecutors = fmt (total ''executor_count''),
          mvOptions = (''all'', ''All families'', fam = ''all'') #
            map (\<lambda>(nm, _). (escapeHtml (JStr nm), escapeHtml (JStr (short_name nm)), fam = nm)) fams,
          mvSections = (if list_all (\<lambda>(_, fa). faSamples fa = []) fams then NoSamples
             else Cards (renderWorkflowRateCard so) (renderQueueDepthCard so) (renderLatencyCard so)
                    (renderExecutorCard so) (renderStepRateCard so))\<rparr>)"

section \<open>Totals\<close>

text \<open>
  What the tables rely on in \<open>collect\<close>: a field \<open>f\<close> of the row that starts at zero and grows by \<open>w\<close> times
  the value of each sample (\<open>w = 1\<close> for the field collected, \<open>0\<close> for every other field).
\<close>

definition total :: "('r \<Rightarrow> rat) \<Rightarrow> (string, 'r) jsmap \<Rightarrow> rat" where
  "total f m = sum_list (map f (map snd m))"

lemma total_Nil [simp]: "total f [] = 0"
  by (simp add: total_def)

lemma total_update:
  "total f (AList.update k r m) = total f m - (case map_of m k of None \<Rightarrow> 0 | Some r0 \<Rightarrow> f r0) + f r"
  by (induction m) (auto simp: total_def split: option.split)

lemma foldl_plus: "foldl (\<lambda>acc s. acc + g s) a ss = a + foldl (\<lambda>acc s. acc + g s) 0 ss" for a :: rat
proof (induction ss arbitrary: a)
  case (Cons s ss)
  show ?case using Cons [of "a + g s"] Cons [of "g s"] by simp
qed simp

lemma sum_samples_Nil [simp]: "sum_samples [] = 0"
  by (simp add: sum_samples_def)

lemma sum_samples_Cons: "sum_samples (s # ss) = fin_or_zero (smValue s) + sum_samples ss"
  unfolding sum_samples_def using foldl_plus [of _ "fin_or_zero (smValue s)" ss] by simp

locale tally =
  fixes f :: "'r \<Rightarrow> rat" and fresh :: "sample \<Rightarrow> 'r" and add :: "rat \<Rightarrow> 'r \<Rightarrow> 'r" and w :: rat
  assumes add_field: "f (add v r) = f r + w * v"
    and fresh_field: "f (fresh s) = 0"
begin

lemma collect_total: "total f (collect key fresh add ss rows) = total f rows + w * sum_samples ss"
proof (induction ss arbitrary: rows)
  case Nil
  then show ?case by (simp add: collect_def)
next
  case (Cons s ss)
  let ?rows = "AList.update (key s) (add (fin_or_zero (smValue s)) (case map_of rows (key s) of None \<Rightarrow> fresh s | Some r \<Rightarrow> r)) rows"
  have "collect key fresh add (s # ss) rows = collect key fresh add ss ?rows" by (simp add: collect_def)
  moreover have "total f ?rows = total f rows + w * fin_or_zero (smValue s)"
    by (simp add: total_update add_field fresh_field split: option.split)
  ultimately show ?case using Cons by (simp add: sum_samples_Cons distrib_left)
qed

end

text \<open>The five tables: each field against each of the loops that fill its table.\<close>

interpretation started_started: tally rrStarted fresh_rate "\<lambda>v. rrStarted_update (\<lambda>x. x + v)" 1
  by unfold_locales (simp_all add: fresh_rate_def)

interpretation started_success: tally rrStarted fresh_rate "\<lambda>v. rrSuccess_update (\<lambda>x. x + v)" 0
  by unfold_locales (simp_all add: fresh_rate_def)

interpretation started_failed: tally rrStarted fresh_rate "\<lambda>v. rrFailed_update (\<lambda>x. x + v)" 0
  by unfold_locales (simp_all add: fresh_rate_def)

interpretation started_cancelled: tally rrStarted fresh_rate "\<lambda>v. rrCancelled_update (\<lambda>x. x + v)" 0
  by unfold_locales (simp_all add: fresh_rate_def)

interpretation success_started: tally rrSuccess fresh_rate "\<lambda>v. rrStarted_update (\<lambda>x. x + v)" 0
  by unfold_locales (simp_all add: fresh_rate_def)

interpretation success_success: tally rrSuccess fresh_rate "\<lambda>v. rrSuccess_update (\<lambda>x. x + v)" 1
  by unfold_locales (simp_all add: fresh_rate_def)

interpretation success_failed: tally rrSuccess fresh_rate "\<lambda>v. rrFailed_update (\<lambda>x. x + v)" 0
  by unfold_locales (simp_all add: fresh_rate_def)

interpretation success_cancelled: tally rrSuccess fresh_rate "\<lambda>v. rrCancelled_update (\<lambda>x. x + v)" 0
  by unfold_locales (simp_all add: fresh_rate_def)

interpretation failed_started: tally rrFailed fresh_rate "\<lambda>v. rrStarted_update (\<lambda>x. x + v)" 0
  by unfold_locales (simp_all add: fresh_rate_def)

interpretation failed_success: tally rrFailed fresh_rate "\<lambda>v. rrSuccess_update (\<lambda>x. x + v)" 0
  by unfold_locales (simp_all add: fresh_rate_def)

interpretation failed_failed: tally rrFailed fresh_rate "\<lambda>v. rrFailed_update (\<lambda>x. x + v)" 1
  by unfold_locales (simp_all add: fresh_rate_def)

interpretation failed_cancelled: tally rrFailed fresh_rate "\<lambda>v. rrCancelled_update (\<lambda>x. x + v)" 0
  by unfold_locales (simp_all add: fresh_rate_def)

interpretation enqueued_enqueued: tally drEnqueued fresh_depth "\<lambda>v. drEnqueued_update (\<lambda>x. x + v)" 1
  by unfold_locales (simp_all add: fresh_depth_def)

interpretation enqueued_pending: tally drEnqueued fresh_depth "\<lambda>v. drPending_update (\<lambda>x. x + v)" 0
  by unfold_locales (simp_all add: fresh_depth_def)

interpretation pending_enqueued: tally drPending fresh_depth "\<lambda>v. drEnqueued_update (\<lambda>x. x + v)" 0
  by unfold_locales (simp_all add: fresh_depth_def)

interpretation pending_pending: tally drPending fresh_depth "\<lambda>v. drPending_update (\<lambda>x. x + v)" 1
  by unfold_locales (simp_all add: fresh_depth_def)

lemmas tally_totals = started_started.collect_total started_success.collect_total started_failed.collect_total
  started_cancelled.collect_total success_started.collect_total success_success.collect_total
  success_failed.collect_total success_cancelled.collect_total failed_started.collect_total
  failed_success.collect_total failed_failed.collect_total failed_cancelled.collect_total
  enqueued_enqueued.collect_total enqueued_pending.collect_total pending_enqueued.collect_total pending_pending.collect_total

lemma sum_list_sort_desc: "sum_list (map f (sort_desc key xs)) = (sum_list (map f xs) :: rat)"
proof -
  have "sum_mset (mset (map f (sort_desc key xs))) = sum_mset (mset (map f xs))"
    by (simp only: mset_map mset_sort_desc)
  then show ?thesis by (simp only: sum_mset_sum_list)
qed

lemma sum_fin_or_zero: "sum_list (map (\<lambda>s. fin_or_zero (smValue s)) ss) = sum_samples ss"
  by (induction ss) (simp_all add: sum_samples_Cons)

lemma sum_executor_counts: "sum_list (map emCount (executor_counts so)) = sum_samples (so (metric_prefix @ ''executor_count''))"
  by (simp add: executor_counts_def sum_list_sort_desc comp_def sum_fin_or_zero del: append.simps)

lemma sum_rates: "sum_list (map f (workflow_rates so)) = total f
    (collect (key2 ''application'' ''workflow_name'') fresh_rate (\<lambda>v. rrCancelled_update (\<lambda>x. x + v)) (so (metric_prefix @ ''workflow_cancelled_rate''))
    (collect (key2 ''application'' ''workflow_name'') fresh_rate (\<lambda>v. rrFailed_update (\<lambda>x. x + v)) (so (metric_prefix @ ''workflow_failed_rate''))
    (collect (key2 ''application'' ''workflow_name'') fresh_rate (\<lambda>v. rrSuccess_update (\<lambda>x. x + v)) (so (metric_prefix @ ''workflow_success_rate''))
    (collect (key2 ''application'' ''workflow_name'') fresh_rate (\<lambda>v. rrStarted_update (\<lambda>x. x + v)) (so (metric_prefix @ ''workflow_started_rate'')) []))))"
  unfolding workflow_rates_def Let_def sum_list_sort_desc total_def ..

lemma sum_depths: "sum_list (map f (queue_depths so)) = total f
    (collect (key2 ''queue_name'' ''workflow_name'') fresh_depth (\<lambda>v. drPending_update (\<lambda>x. x + v)) (so (metric_prefix @ ''workflow_pending_count''))
    (collect (key2 ''queue_name'' ''workflow_name'') fresh_depth (\<lambda>v. drEnqueued_update (\<lambda>x. x + v)) (so (metric_prefix @ ''workflow_enqueued_count'')) []))"
  unfolding queue_depths_def Let_def sum_list_sort_desc total_def ..

lemma rates_sorted: "sorted_wrt (\<lambda>a b. rrSuccess b \<le> rrSuccess a) (workflow_rates so)"
  unfolding workflow_rates_def Let_def by (rule sorted_sort_desc)


section \<open>Round trip of the exposition\<close>

text \<open>
  A sample in the exposition format. Its value is a decimal number with a sign, digits, a fraction and an
  exponent, each but the digits optional, or \<open>NaN\<close>; the sample stands for the double nearest to it.
\<close>

datatype printed =
    Decimal (pNegative: bool) (pWhole: nat) (pFraction: string) (pExponent: "int option")
  | NotANumber

type_synonym printed_sample = "string \<times> (string \<times> string) list \<times> printed"

definition print_exponent :: "int option \<Rightarrow> string" where
  "print_exponent z =
     (case z of None \<Rightarrow> [] | Some e \<Rightarrow> ''e'' @ (if e < 0 then ''-'' else ''+'') @ show_nat (nat \<bar>e\<bar>))"

fun print_value :: "printed \<Rightarrow> string" where
  "print_value (Decimal neg i fs z) =
     (if neg then ''-'' else []) @ show_nat i @ (if fs = [] then [] else ''.'' @ fs) @ print_exponent z"
| "print_value NotANumber = ''NaN''"

fun value_printed :: "printed \<Rightarrow> jsnum" where
  "value_printed (Decimal neg i fs z) =
     (let m = of_nat (i * 10 ^ length fs + read_nat fs) * 10 powi ((case z of None \<Rightarrow> 0 | Some e \<Rightarrow> e) - int (length fs))
      in round_double (if neg then - m else m))"
| "value_printed NotANumber = NaN"

definition print_label :: "string \<times> string \<Rightarrow> string" where
  "print_label p = fst p @ CHR ''='' # CHR 0x22 # snd p @ [CHR 0x22]"

definition print_sample :: "printed_sample \<Rightarrow> string" where
  "print_sample t =
     fst t @ CHR ''{'' # join '','' (map print_label (fst (snd t))) @ CHR ''}'' # CHR '' '' # print_value (snd (snd t))"

definition plain_name :: "string \<Rightarrow> bool" where
  "plain_name nm \<longleftrightarrow> nm \<noteq> [] \<and> list_all is_word_char nm \<and> \<not> is_digit (hd nm)"

definition plain_value :: "string \<Rightarrow> bool" where
  "plain_value v \<longleftrightarrow> CHR 0x22 \<notin> set v \<and> CHR 0x5C \<notin> set v \<and> \<not> list_ex line_end v"

definition plain_label :: "string \<times> string \<Rightarrow> bool" where
  "plain_label p \<longleftrightarrow> plain_name (fst p) \<and> fst p \<noteq> ''__proto__'' \<and> plain_value (snd p)"

definition plain_printed :: "printed \<Rightarrow> bool" where
  "plain_printed v \<longleftrightarrow> (case v of Decimal _ _ fs _ \<Rightarrow> list_all is_digit fs | NotANumber \<Rightarrow> True)"

definition plain_sample :: "printed_sample \<Rightarrow> bool" where
  "plain_sample t \<longleftrightarrow> plain_name (fst t) \<and> distinct (map fst (fst (snd t))) \<and>
     list_all plain_label (fst (snd t)) \<and> plain_printed (snd (snd t))"

lemma label_value_plain: "plain_value v \<Longrightarrow> label_value (v @ CHR 0x22 # r) = Some (v, r)"
  by (induction v) (auto simp: plain_value_def)

lemma word_char_stop: "\<not> is_word_char (CHR ''='')" "\<not> is_word_char (CHR '','')" "\<not> metric_char (CHR ''{'')"
  by (simp_all add: is_word_char_def metric_char_def is_digit_def is_alpha_def)

lemma label_here_print: "plain_label p \<Longrightarrow> label_here (print_label p @ r) = Some (p, r)"
  by (cases p) (simp add: label_here_def print_label_def plain_label_def plain_name_def list_all_iff takeWhile_append2 dropWhile_append2
      word_char_stop label_value_plain Let_def)

lemma label_here_comma [simp]: "label_here (CHR '','' # s) = None" "label_here [] = None"
  by (simp_all add: label_here_def word_char_stop)

lemma find_labels_print:
  "list_all plain_label ls \<Longrightarrow> find_labels (join '','' (map print_label ls)) = ls"
proof (induction ls rule: induct_list012)
  case 1
  then show ?case by (simp add: find_labels.simps)
next
  case (2 p)
  then show ?case using label_here_print [of p "[]"] by (simp add: find_labels.simps [of "print_label p"] find_labels.simps [of "[]"])
next
  case (3 p p' ls)
  then have "find_labels (CHR '','' # join '','' (map print_label (p' # ls))) = p' # ls"
    by (subst find_labels.simps) simp
  with 3 label_here_print [of p "CHR '','' # join '','' (map print_label (p' # ls))"] show ?case
    by (subst find_labels.simps) simp
qed

lemma unescape_plain: "plain_value v \<Longrightarrow> unescape_label v = v"
proof -
  have "CHR 0x5C \<notin> set v \<Longrightarrow> replace_newlines v = v" "CHR 0x5C \<notin> set v \<Longrightarrow> replace_escapes v = v"
    by (induction v rule: replace_newlines.induct) auto
  then show "plain_value v \<Longrightarrow> unescape_label v = v" by (simp add: unescape_label_def plain_value_def)
qed

lemma update_new: "k \<notin> fst ` set m \<Longrightarrow> AList.update k v m = m @ [(k, v)]"
  by (induction m) auto

lemma foldl_update_labels:
  "list_all plain_label ls \<Longrightarrow> distinct (map fst (m @ ls)) \<Longrightarrow>
     foldl (\<lambda>m (k, v). if k = ''__proto__'' then m else AList.update k (unescape_label v) m) m ls = m @ ls"
proof (induction ls arbitrary: m)
  case (Cons p ls)
  then show ?case by (cases p) (auto simp: plain_label_def unescape_plain update_new)
qed simp

lemma parse_labels_print:
  "list_all plain_label ls \<Longrightarrow> distinct (map fst ls) \<Longrightarrow>
     parse_labels (join '','' (map print_label ls)) = ls"
  using foldl_update_labels [of ls "[]"] by (simp add: parse_labels_def find_labels_print list_all_iff)

lemma digit_not_space: "is_digit c \<Longrightarrow> value_char c"
  by (simp add: value_char_def)

lemma value_char_plain: "value_char c \<Longrightarrow> \<not> is_space c \<and> c \<noteq> CHR ''}'' \<and> \<not> line_end c"
  by (auto simp: is_digit_def is_space_def value_char_def line_end_def Let_def)

lemma print_exponent_chars: "c \<in> set (print_exponent z) \<Longrightarrow> value_char c"
  using show_nat_digits by (auto simp: print_exponent_def value_char_def split: option.splits if_splits)

lemma print_value_chars:
  assumes "plain_printed v" and "c \<in> set (print_value v)"
  shows "value_char c \<or> v = NotANumber"
proof (cases v)
  case (Decimal neg i fs z)
  then show ?thesis using assms print_exponent_chars [of c z] show_nat_digits [of c i]
    by (auto simp: plain_printed_def list_all_iff value_char_def split: if_splits)
qed simp

lemma print_value_ne [simp]: "print_value v \<noteq> []"
  by (cases v) auto

lemma print_value_plain:
  assumes "plain_printed v" and "c \<in> set (print_value v)"
  shows "\<not> is_space c \<and> c \<noteq> CHR ''}'' \<and> \<not> line_end c"
  using assms print_value_chars [OF assms] value_char_plain [of c]
  by (auto simp: is_space_def line_end_def)

lemma match_tail_value:
  assumes "plain_printed v"
  shows "match_tail (CHR '' '' # print_value v) = Some (print_value v)"
proof -
  have dw: "dropWhile is_space (print_value v) = print_value v"
    using print_value_plain [OF assms, of "hd (print_value v)"] by (cases "print_value v") auto
  show ?thesis
  proof (cases "v = NotANumber")
    case True
    then show ?thesis by (simp add: match_tail_def match_value_def is_space_def value_char_def is_digit_def starts_with_def)
  next
    case False
    then have tw: "takeWhile value_char (print_value v) = print_value v"
      using print_value_chars [OF assms] by (auto simp: takeWhile_eq_all_conv)
    then have "match_value (print_value v) = Some (print_value v)" unfolding match_value_def tw by simp
    then show ?thesis by (simp add: match_tail_def is_space_def [of "CHR '' ''"] dw)
  qed
qed

lemma match_labels_None: "CHR ''}'' \<notin> set s \<Longrightarrow> match_labels s = None"
  by (induction s) auto

lemma match_labels_last:
  "CHR ''}'' \<notin> set t \<Longrightarrow> match_tail t = Some v \<Longrightarrow> \<forall>c\<in>set ls. \<not> line_end c \<Longrightarrow>
     match_labels (ls @ CHR ''}'' # t) = Some (ls, v)"
  by (induction ls) (simp_all add: match_labels_None)

lemma in_join: "c \<in> set (join sep xs) \<Longrightarrow> c \<in> set sep \<or> (\<exists>x\<in>set xs. c \<in> set x)"
  by (induction sep xs rule: join.induct) auto

lemma word_char_line: "is_word_char c \<Longrightarrow> \<not> line_end c"
  by (auto simp: is_word_char_def is_digit_def is_alpha_def line_end_def)

lemma labels_no_line_end:
  assumes "list_all plain_label ls" and "c \<in> set (join '','' (map print_label ls))"
  shows "\<not> line_end c"
proof -
  consider "c = CHR '',''" | p where "p \<in> set ls" "c \<in> set (print_label p)" using in_join [OF assms(2)] by auto
  then show ?thesis
  proof cases
    case 1
    then show ?thesis by (simp add: line_end_def)
  next
    case 2
    then have "plain_label p" using assms(1) by (simp add: list_all_iff)
    with 2(2) show ?thesis
      using word_char_line [of c] by (auto simp: print_label_def plain_label_def plain_name_def plain_value_def list_all_iff list_ex_iff line_end_def)
  qed
qed

lemma match_sample_print:
  assumes "plain_name nm" and "plain_printed v" and "\<forall>c\<in>set ls. \<not> line_end c"
  shows "match_sample (nm @ CHR ''{'' # ls @ CHR ''}'' # CHR '' '' # print_value v) = Some (nm, ls, print_value v)"
proof -
  have "\<forall>c\<in>set nm. metric_char c" using assms by (auto simp: plain_name_def metric_char_def list_all_iff)
  moreover have "CHR ''}'' \<notin> set (CHR '' '' # print_value v)" using print_value_plain [OF assms(2)] by auto
  ultimately show ?thesis
    using assms match_labels_last [OF _ match_tail_value [OF assms(2)], of ls]
    by (simp add: match_sample_def plain_name_def takeWhile_append2 dropWhile_append2 word_char_stop)
qed

lemma parse_exponent_print: "parse_exponent (print_exponent z) = ((case z of None \<Rightarrow> 0 | Some e \<Rightarrow> e), [])"
proof (cases z)
  case None
  then show ?thesis by (simp add: print_exponent_def parse_exponent_def)
next
  case (Some e)
  have tw: "takeWhile is_digit (show_nat n) = show_nat n" "dropWhile is_digit (show_nat n) = []" for n
    using show_nat_digits by (simp_all add: takeWhile_eq_all_conv dropWhile_eq_Nil_conv)
  show ?thesis unfolding Some by (cases "e < 0") (simp_all add: print_exponent_def parse_exponent_def Let_def tw)
qed

lemma read_nat_append: "read_nat (s @ t) = read_nat s * 10 ^ length t + read_nat t"
proof (induction t rule: rev_induct)
  case (snoc c t)
  have "read_nat (s @ t @ [c]) = 10 * read_nat (s @ t) + digit_val c"
    unfolding append_assoc [symmetric] by (rule read_nat_snoc)
  with snoc show ?case by (simp add: algebra_simps)
qed (simp add: read_nat_def)

lemma scale10_powi: "scale10 r e = r * 10 powi e"
  by (simp add: scale10_def power_int_def field_simps)

lemma parse_decimal_body:
  assumes "b \<noteq> []" "hd b \<noteq> CHR ''-''" "hd b \<noteq> CHR ''+''" "\<not> starts_with b ''Infinity''" "takeWhile is_digit b = ds" "ds \<noteq> []"
    and "dropWhile is_digit b = v" "fs = (if v \<noteq> [] \<and> hd v = CHR ''.'' then takeWhile is_digit (tl v) else [])"
    and "parse_exponent (if v \<noteq> [] \<and> hd v = CHR ''.'' then dropWhile is_digit (tl v) else v) = (e, [])"
  shows "parse_decimal ((if neg then ''-'' else []) @ b) =
    (let m = scale10 (of_nat (read_nat (ds @ fs))) (e - int (length fs)) in Some (round_double (if neg then - m else m), []))"
  unfolding assms(8) using assms(1-4,6,9) by (cases neg) (simp_all add: parse_decimal_def Let_def assms(5,7))

lemma parse_decimal_print:
  assumes "list_all is_digit fs"
  shows "parse_decimal (print_value (Decimal neg i fs z)) = Some (value_printed (Decimal neg i fs z), [])"
proof -
  let ?rest = "(if fs = [] then [] else ''.'' @ fs) @ print_exponent z"
  have dg: "is_digit c" if "c \<in> set (show_nat i)" for c using that show_nat_digits by blast
  have hd: "is_digit (hd (show_nat i @ ?rest))" by (simp add: dg hd_append)
  have sw: "\<not> starts_with (show_nat i @ ?rest) ''Infinity''"
    using hd by (cases "show_nat i") (auto simp: starts_with_def is_digit_def)
  have ex: "print_exponent z = [] \<or> hd (print_exponent z) = CHR ''e''" by (simp add: print_exponent_def split: option.split)
  then have stop: "takeWhile is_digit (print_exponent z) = []" "dropWhile is_digit (print_exponent z) = print_exponent z"
    by (cases "print_exponent z"; simp add: is_digit_def)+
  have tw: "takeWhile is_digit (show_nat i @ ?rest) = show_nat i" "dropWhile is_digit (show_nat i @ ?rest) = ?rest"
    using dg stop by (simp_all add: takeWhile_append2 dropWhile_append2 is_digit_def [of "CHR ''.''"])
  have tf: "takeWhile is_digit (fs @ print_exponent z) = fs" "dropWhile is_digit (fs @ print_exponent z) = print_exponent z"
    using assms stop by (simp_all add: list_all_iff takeWhile_append2 dropWhile_append2)
  have "parse_decimal ((if neg then ''-'' else []) @ show_nat i @ ?rest) =
    (let m = scale10 (of_nat (read_nat (show_nat i @ fs))) ((case z of None \<Rightarrow> 0 | Some e \<Rightarrow> e) - int (length fs))
     in Some (round_double (if neg then - m else m), []))"
    using hd sw ex parse_exponent_print [of z]
    by (intro parse_decimal_body [OF _ _ _ _ tw(1) _ tw(2)]) (auto simp: tf is_digit_def)
  then show ?thesis by (simp add: Let_def scale10_powi read_nat_append)
qed

lemma parse_value_print:
  assumes "plain_printed v"
  shows "parse_value (print_value v) = value_printed v"
proof (cases v)
  case (Decimal neg i fs z)
  let ?t = "print_value v"
  have dw: "dropWhile is_space ?t = ?t"
    using print_value_plain [OF assms, of "hd ?t"] by (cases ?t) auto
  have h: "hd ?t = CHR ''-'' \<or> is_digit (hd ?t)" and n: "\<not> (?t \<noteq> [] \<and> hd ?t = CHR ''-'' \<and> hd (tl ?t) = CHR ''I'')"
    using show_nat_digits [of "hd (show_nat i)" i] by (auto simp: Decimal hd_append is_digit_def)
  then have "?t \<noteq> ''NaN''" "?t \<noteq> ''+Inf''" "?t \<noteq> ''-Inf''" by (auto simp: is_digit_def)
  then show ?thesis
    using assms parse_decimal_print [of fs neg i z] by (simp add: parse_value_def parse_float_def dw del: print_value.simps value_printed.simps)
      (simp add: Decimal plain_printed_def del: print_value.simps value_printed.simps)
qed (simp add: parse_value_def)

lemma trim_id: "s \<noteq> [] \<Longrightarrow> \<not> is_space (hd s) \<Longrightarrow> \<not> is_space (last s) \<Longrightarrow> trim s = s"
proof -
  assume "s \<noteq> []" "\<not> is_space (hd s)" "\<not> is_space (last s)"
  then have "dropWhile is_space s = s" "dropWhile is_space (rev s) = rev s"
    by (metis dropWhile_eq_self_iff, metis dropWhile_eq_self_iff hd_rev)
  then show ?thesis by (simp add: trim_def)
qed

definition read_sample :: "printed_sample \<Rightarrow> sample" where
  "read_sample t = \<lparr>smLabels = fst (snd t), smValue = value_printed (snd (snd t))\<rparr>"

lemma parse_line_print:
  assumes "plain_sample t"
  shows "parse_line (print_sample t) fams = on_family (fst t) (faSamples_update (\<lambda>ss. ss @ [read_sample t])) fams"
proof -
  let ?nm = "fst t" and ?ls = "fst (snd t)" and ?n = "snd (snd t)" and ?line = "print_sample t"
  have nm: "plain_name ?nm" and ls: "list_all plain_label ?ls" "distinct (map fst ?ls)" and v: "plain_printed ?n"
    using assms by (simp_all add: plain_sample_def)
  have hd: "hd ?line = hd ?nm" "hd ?nm \<in> set ?nm" using nm by (auto simp: print_sample_def plain_name_def)
  then have "is_word_char (hd ?nm)" using nm by (auto simp: plain_name_def list_all_iff)
  then have hs: "\<not> is_space (hd ?line)" "hd ?line \<noteq> CHR ''#''"
    using hd(1) by (auto simp: is_word_char_def is_digit_def is_alpha_def is_space_def Let_def)
  have "last ?line = last (print_value ?n)" by (simp add: print_sample_def)
  then have "\<not> is_space (last ?line)" using print_value_plain [OF v, of "last (print_value ?n)"] by simp
  then have tr: "trim ?line = ?line" using hs(1) by (intro trim_id) (simp_all add: print_sample_def)
  have ne: "\<not> starts_with ?line (CHR ''#'' # p)" for p using hs(2) by (auto simp: starts_with_iff)
  have m: "match_sample ?line = Some (?nm, join '','' (map print_label ?ls), print_value ?n)"
    unfolding print_sample_def using labels_no_line_end [OF ls(1)] by (intro match_sample_print [OF nm v]) blast
  have e: "?line \<noteq> []" by (simp add: print_sample_def)
  show ?thesis
    unfolding parse_line_def Let_def tr using ne e
    by (simp add: m parse_labels_print [OF ls] parse_value_print [OF v] read_sample_def)
qed

lemma samplesOf_on_family:
  "samplesOf (on_family nm (faSamples_update g) fams) nm' = (if nm' = nm then g (samplesOf fams nm) else samplesOf fams nm')"
  by (auto simp: samplesOf_def on_family_def empty_family_def update_conv' split: option.split)

lemma split_join_lines: "ls \<noteq> [] \<Longrightarrow> \<forall>l\<in>set ls. c \<notin> set l \<Longrightarrow> split_on c (join [c] ls) = ls"
  by (induction ls rule: induct_list012) (simp_all add: split_on_no_sep split_on_append)

lemma print_sample_no_newline: "plain_sample t \<Longrightarrow> CHR 0x0A \<notin> set (print_sample t)"
proof -
  assume t: "plain_sample t"
  have "plain_name k \<Longrightarrow> CHR 0x0A \<notin> set k" for k
    using word_char_line by (auto simp: plain_name_def list_all_iff line_end_def)
  moreover have "CHR 0x0A \<notin> set (join '','' (map print_label (fst (snd t))))"
    using t labels_no_line_end [of "fst (snd t)" "CHR 0x0A"] by (auto simp: plain_sample_def line_end_def)
  moreover have "CHR 0x0A \<notin> set (print_value (snd (snd t)))"
    using t print_value_plain [of "snd (snd t)" "CHR 0x0A"] by (auto simp: plain_sample_def line_end_def)
  ultimately show ?thesis using t by (auto simp: print_sample_def plain_sample_def)
qed



text \<open>Whole numbers below \<open>2^53\<close> are read exactly.\<close>

lemma value_printed_whole: "n < 2 ^ 53 \<Longrightarrow> value_printed (Decimal False n [] None) = Fin (of_nat n)"
  by (simp add: round_double_nat read_nat_def)

section \<open>What the parser and the latency table get wrong\<close>

lemma collect_latest_snoc:
  "collect_latest upd (ss @ [s]) rows =
     (let m = collect_latest upd ss rows; key = label s ''workflow_name'';
          row = (case map_of m key of None \<Rightarrow> \<lparr>lrWorkflow = key, lrWait = None, lrLatency = None\<rparr> | Some r \<Rightarrow> r)
      in AList.update key (case smValue s of Fin v \<Rightarrow> upd (\<lambda>_. Some v) row | _ \<Rightarrow> row) m)"
  by (simp add: collect_latest_def Let_def)

lemma collect_latest_named:
  assumes "\<And>g r. lrWorkflow (upd g r) = lrWorkflow r" "\<forall>k r. map_of rows k = Some r \<longrightarrow> lrWorkflow r = k"
  shows "map_of (collect_latest upd ss rows) k = Some r \<Longrightarrow> lrWorkflow r = k"
proof (induction ss arbitrary: k r rule: rev_induct)
  case Nil
  then show ?case using assms(2) by (simp add: collect_latest_def)
next
  case (snoc s ss)
  then show ?case unfolding collect_latest_snoc Let_def
    by (auto simp: update_conv' assms(1) split: if_splits option.splits jsnum.splits)
qed

text \<open>
  the latency table claims maxima, but is keyed by workflow name only. When several series share a
  workflow name (two applications, or two queues), each finite sample overwrites the one before: the
  row of the workflow shows the value of the last such series of the scrape, whatever the others were.
\<close>

theorem latency_shows_last_series:
  assumes "so (metric_prefix @ ''workflow_max_total_latency_seconds'') = ss @ [s]" "smValue s = Fin v"
  shows "\<exists>r\<in>set (latency_rows so). lrWorkflow r = label s ''workflow_name'' \<and> lrLatency r = Some v"
proof -
  let ?m = "collect_latest lrWait_update (so (metric_prefix @ ''workflow_max_queue_wait_seconds'')) []"
  let ?m' = "collect_latest lrLatency_update (ss @ [s]) ?m" and ?k = "label s ''workflow_name''"
  have wait: "lrWorkflow r = k" if "map_of ?m k = Some r" for k r
    using that by (rule collect_latest_named [where upd = lrWait_update and rows = "[]", rotated 2]) simp_all
  have nm: "lrWorkflow r = k" if "map_of ?m' k = Some r" for k r
    using that by (rule collect_latest_named [where upd = lrLatency_update and rows = ?m, rotated 2]) (simp_all add: wait)
  have "map_option lrLatency (map_of ?m' ?k) = Some (Some v)"
    unfolding collect_latest_snoc Let_def update_conv' by (simp add: assms(2))
  then obtain r where r: "map_of ?m' ?k = Some r" "lrLatency r = Some v" by blast
  have "r \<in> set (latency_rows so)"
    using map_of_SomeD [OF r(1)] unfolding latency_rows_def Let_def assms(1) by (simp add: rev_image_eqI)
  with nm [OF r(1)] r(2) show ?thesis by blast
qed

theorem latency_shows_last_series_witness:
  "\<exists>r\<in>set (latency_rows (\<lambda>nm. if nm = metric_prefix @ ''workflow_max_total_latency_seconds''
       then [\<lparr>smLabels = [(''application'', ''a''), (''workflow_name'', ''pay'')], smValue = Fin 9\<rparr>] @
            [\<lparr>smLabels = [(''application'', ''b''), (''workflow_name'', ''pay'')], smValue = Fin 2\<rparr>] else [])).
     lrWorkflow r = label \<lparr>smLabels = [(''application'', ''b''), (''workflow_name'', ''pay'')], smValue = Fin 2\<rparr> ''workflow_name'' \<and>
     lrLatency r = Some 2"
  by (rule latency_shows_last_series) simp_all

text \<open>
  The number pattern comes before the two infinities and accepts a lone sign, so an infinity is read
  as its sign, which is not a number. An escaped backslash before an \<open>n\<close> is taken for a line break.
\<close>

lemma infinity_unread: "match_value (''+Inf'' @ r) = Some ''+'' \<and> parse_value ''+'' = NaN"
  by (simp add: match_value_def value_char_def is_digit_def parse_value_def parse_float_def parse_decimal_def is_space_def
      starts_with_def parse_exponent_def)

lemma escaped_backslash_lost:
  "unescape_label [CHR 0x5C, CHR 0x5C, CHR ''n''] = [CHR 0x5C, CHR 0x0A]"
  by (simp add: unescape_label_def line_end_def)

end
