(* ===== verification/Metrics_Screen.thy ===== *)
theory Metrics_Screen
  imports Metrics Console_Admin Client_Bridge
begin

text \<open>
  The whole metrics screen of \<open>console/src/app.js\<close>: the query made of the filters, the scrape through
  the API client, the view or the outcome of a failure; and the screen on the playground's mock API.
\<close>

section \<open>The screen\<close>

definition metrics_query_of :: "metrics_filters \<Rightarrow> metrics_query" where
  "metrics_query_of f = \<lparr>mqApplications = mApplication f, mqWorkflowNames = mWorkflowName f,
     mqMetrics = (if mFamily f \<noteq> ''all'' then [mFamily f] else [])\<rparr>"

definition renderMetricsScreen :: "(metrics_query \<Rightarrow> string reply) \<Rightarrow> console \<Rightarrow> metrics_view screen" where
  "renderMetricsScreen getMetricsText c =
     (case getMetricsText (metrics_query_of (metricsFilters c)) of
        Inr text \<Rightarrow> Shown (metrics_screen (mFamily (metricsFilters c)) text)
      | Inl err \<Rightarrow>
          if isAuthError err \<or> errStatus err = Some 403 then renderAuthRequired ''load metrics''
          else load_failed ''Metrics'' err)"

lemma line_has_status: "hsStatus r = 401 \<Longrightarrow> str_includes (http_line r) ''401''"
proof -
  assume r: "hsStatus r = 401"
  have "show_nat 401 = ''401''" by code_simp
  then have "http_line r = ''HTTP '' @ ''401'' @ ('' '' @ hsStatusText r)" using r by (simp add: http_line_def)
  then show ?thesis unfolding str_includes_iff by blast
qed

text \<open>
  a refused scrape. Whatever the server writes into its 401 or 403 answer, the metrics screen offers
  to sign in; every other failure of the request is shown as an error with the status line.
\<close>

theorem metrics_refusal_offers_sign_in:
  assumes "\<not> response_ok r"
  shows "renderMetricsScreen (\<lambda>q. receive_text r) c =
    (if hsStatus r \<in> {401, 403} \<or> isAuthError (http_error (http_line r) r) then AuthRequired (esc ''load metrics'')
     else LoadFailed (renderErrorState ''Metrics'' (http_line r)))"
proof -
  have "hsStatus r = 401 \<Longrightarrow> isAuthError (http_error (http_line r) r)"
    using line_has_status [of r] by (simp add: isAuthError_def error_text_def http_error_def http_line_def str_or_def)
  then show ?thesis using assms
    by (auto simp: renderMetricsScreen_def receive_text_def renderAuthRequired_def load_failed_def http_error_def)
qed

theorem metrics_refusal_offers_sign_in_witness:
  "let r = \<lparr>hsStatus = 403, hsStatusText = ''Forbidden'', hsJson = None, hsSyntax = [], hsText = []\<rparr> in
   renderMetricsScreen (\<lambda>q. receive_text r) (new_console [] [] False []) =
    (if hsStatus r \<in> {401, 403} \<or> isAuthError (http_error (http_line r) r) then AuthRequired (esc ''load metrics'')
     else LoadFailed (renderErrorState ''Metrics'' (http_line r)))"
  unfolding Let_def by (rule metrics_refusal_offers_sign_in) (simp add: response_ok_def)

section \<open>The samples of a text\<close>

definition line_samples :: "string \<Rightarrow> string \<Rightarrow> sample list" where
  "line_samples nm rawLine =
     (let line = trim rawLine
      in if line = [] \<or> starts_with line ''#'' then []
         else case match_sample line of
                None \<Rightarrow> []
              | Some (n, ls, raw) \<Rightarrow> if n = nm then [\<lparr>smLabels = parse_labels ls, smValue = parse_value raw\<rparr>] else [])"

lemma samplesOf_comment:
  "samplesOf (on_family n (faHelp_update g) fams) nm = samplesOf fams nm"
  "samplesOf (on_family n (faType_update g) fams) nm = samplesOf fams nm"
  by (simp_all add: samplesOf_def on_family_def update_conv' empty_family_def split: option.split)

lemma hash_prefix: "starts_with l (''#'' @ w) \<Longrightarrow> starts_with l ''#''"
  by (auto simp: starts_with_iff)

lemma parse_line_samples: "samplesOf (parse_line l fams) nm = samplesOf fams nm @ line_samples nm l"
proof (cases "trim l = [] \<or> starts_with (trim l) ''#''")
  case True
  then have "samplesOf (parse_line l fams) nm = samplesOf fams nm"
    by (simp add: parse_line_def Let_def samplesOf_comment split: option.split list.split) blast
  moreover have "line_samples nm l = []" unfolding line_samples_def Let_def using True by (simp only: if_True)
  ultimately show ?thesis by simp
next
  case False
  have "\<not> starts_with (trim l) ''# HELP ''" "\<not> starts_with (trim l) ''# TYPE ''"
    using False hash_prefix [of "trim l" "'' HELP ''"] hash_prefix [of "trim l" "'' TYPE ''"] by auto
  then show ?thesis using False
    by (simp add: parse_line_def line_samples_def samplesOf_on_family split: option.split)
qed

lemma parse_samples: "samplesOf (fold parse_line ls fams) nm = samplesOf fams nm @ concat (map (line_samples nm) ls)"
  by (induction ls arbitrary: fams) (simp_all add: parse_line_samples)

section \<open>On the mock API\<close>

text \<open>The scrape as the frame makes it: the client's request, answered by the bridge.\<close>

definition metrics_text :: "ctx \<Rightarrow> bridge \<Rightarrow> metrics_query \<Rightarrow> string reply" where
  "metrics_text cx st q' =
     (case snd (bridge_fetch cx (bridge_request (send_metrics (new_client [] None) (api_getMetricsText q'))) st) of
        Response n (BMetrics t) \<Rightarrow> receive_text \<lparr>hsStatus = n, hsStatusText = [], hsJson = None, hsSyntax = [], hsText = t\<rparr>
      | _ \<Rightarrow> Inl \<lparr>errName = ''TypeError'', errMessage = ''Failed to fetch'', errStatus = None\<rparr>)"

definition passes :: "metrics_filters \<Rightarrow> string \<Rightarrow> sample \<Rightarrow> bool" where
  "passes f nm s \<longleftrightarrow> (mApplication f = [] \<or> label s ''application'' = mApplication f)
     \<and> (mWorkflowName f = [] \<or> label s ''workflow_name'' = mWorkflowName f \<or> label s ''step_name'' = mWorkflowName f)
     \<and> (mFamily f = ''all'' \<or> nm = mFamily f)"

definition scrape_request :: "metrics_query \<Rightarrow> request" where
  "scrape_request q' = \<lparr>rqMethod = ''GET'', rqPath = ''/v1/metrics'',
     rqQuery = cqQuery (api_getMetricsText q'), rqBody = JObj []\<rparr>"

lemma metrics_request: "bridge_request (send_metrics (new_client [] None) (api_getMetricsText q')) = scrape_request q'"
proof -
  let ?r = "api_getMetricsText q'"
  have a: "addressed ?r" by (rule addressedI [of _ "[''v1'', ''metrics'']"]) (simp_all add: api_getMetricsText_def get_of_def)
  have "mk_path [''v1'', ''metrics''] = ''/v1/metrics''" "sent_query ?r = cqQuery ?r" "cqSegs ?r = [''v1'', ''metrics'']" "cqMethod ?r = ''GET''"
    by (simp_all add: mk_path_def sent_query_def api_getMetricsText_def get_of_def)
  then show ?thesis using addressed_path [OF a] suffix_query [OF addressed_path(1) [OF a], of ?r]
    by (simp add: bridge_request_def parse_url_def send_metrics_def new_client_def scrape_request_def Let_def)
qed

lemma scrape_params:
  "params (scrape_request q') ''metrics'' = mqMetrics q'"
  "param (scrape_request q') ''applications'' [] = mqApplications q'"
  "param (scrape_request q') ''workflow_names'' [] = mqWorkflowNames q'"
proof -
  have m: "filter (\<lambda>p. fst p = ''metrics'') (map (Pair ''metrics'') xs) = map (Pair ''metrics'') xs" for xs :: "string list"
    by (induction xs) simp_all
  have n: "k \<noteq> ''metrics'' \<Longrightarrow> map_of (map (Pair ''metrics'') xs) k = None" for k and xs :: "string list"
    by (induction xs) simp_all
  show "params (scrape_request q') ''metrics'' = mqMetrics q'"
    by (simp add: params_def scrape_request_def api_getMetricsText_def set_param_def m comp_def)
  show "param (scrape_request q') ''applications'' [] = mqApplications q'" "param (scrape_request q') ''workflow_names'' [] = mqWorkflowNames q'"
    by (auto simp: param_def scrape_request_def api_getMetricsText_def set_param_def n str_or_def opt_str_def)
qed

lemma metrics_answer: "metrics_text cx st q' = Inr (join [CHR 0x0A] (scrape_lines (scrape_request q')) @ [CHR 0x0A])"
proof -
  have rq: "rqPath (scrape_request q') = ''/v1/metrics''" "rqMethod (scrape_request q') = ''GET''" by (simp_all add: scrape_request_def)
  have "\<not> is_static ''/v1/metrics''" "\<not> str_includes ''/v1/metrics'' ''/cancel''" "\<not> str_includes ''/v1/metrics'' ''/resume''"
    "\<not> str_includes ''/v1/metrics'' ''/fork''" by code_simp+
  moreover have "split_on (CHR ''/'') ''/v1/metrics'' = [[], ''v1'', ''metrics'']" by code_simp
  ultimately have "bridge_fetch cx (scrape_request q') st = (st, Response 200 (BMetrics (join [CHR 0x0A] (scrape_lines (scrape_request q')) @ [CHR 0x0A])))"
    by (simp add: bridge_fetch_def handlers_def h_static_def h_workflow_op_def handler_defs path_defs match_path_def ok_def rq)
  then show ?thesis by (simp add: metrics_text_def metrics_request receive_text_def response_ok_def)
qed

text \<open>Each line of the canned text: a comment, or a sample whose labels the two parsers read alike.\<close>

definition read_alike :: "string \<Rightarrow> bool" where
  "read_alike l \<longleftrightarrow> CHR 0x0A \<notin> set l \<and> trim l = l \<and> l \<noteq> [] \<and>
     (is_comment l \<or> (case match_sample l of None \<Rightarrow> False
        | Some (nm, ls, raw) \<Rightarrow> nm = metric_of l \<and>
            list_all (\<lambda>k. opt_str (map_of (parse_labels ls) k) = labelValue l k) [''application'', ''workflow_name'', ''step_name'']))"

lemma read_alike_0: "list_all read_alike (take 3 (drop 0 exposition))" by code_simp
lemma read_alike_1: "list_all read_alike (take 3 (drop 3 exposition))" by code_simp
lemma read_alike_2: "list_all read_alike (take 3 (drop 6 exposition))" by code_simp
lemma read_alike_3: "list_all read_alike (take 3 (drop 9 exposition))" by code_simp
lemma read_alike_4: "list_all read_alike (take 3 (drop 12 exposition))" by code_simp
lemma read_alike_5: "list_all read_alike (take 3 (drop 15 exposition))" by code_simp
lemma read_alike_6: "list_all read_alike (take 3 (drop 18 exposition))" by code_simp
lemma read_alike_7: "list_all read_alike (take 3 (drop 21 exposition))" by code_simp
lemma read_alike_8: "list_all read_alike (take 3 (drop 24 exposition))" by code_simp
lemma read_alike_9: "list_all read_alike (take 3 (drop 27 exposition))" by code_simp

lemma exposition_read_alike: "l \<in> set exposition \<Longrightarrow> read_alike l"
proof -
  define P where "P n \<longleftrightarrow> list_all read_alike (drop n exposition)" for n
  have s: "list_all read_alike (take 3 (drop n exposition)) \<Longrightarrow> P (n + 3) \<Longrightarrow> P n" for n
    unfolding P_def by (metis add.commute append_take_drop_id drop_drop list_all_append)
  have "length exposition = 30" by code_simp
  then have "P 30" by (simp add: P_def)
  with s [OF read_alike_9] s [OF read_alike_8] s [OF read_alike_7] s [OF read_alike_6] s [OF read_alike_5] s [OF read_alike_4]
    s [OF read_alike_3] s [OF read_alike_2] s [OF read_alike_1] s [OF read_alike_0] have "P 0" by simp
  then show "l \<in> set exposition \<Longrightarrow> read_alike l" by (simp add: P_def list_all_iff)
qed

lemma filtered_line:
  assumes "l \<in> set exposition"
  shows "line_samples nm l = [] \<or> (\<not> is_comment l \<and> (\<exists>s. line_samples nm l = [s]
     \<and> (passes f nm s \<longleftrightarrow> keep_sample (scrape_request (metrics_query_of f)) l)))"
proof (cases "is_comment l")
  case True
  then show ?thesis using exposition_read_alike [OF assms] by (simp add: read_alike_def line_samples_def is_comment_def)
next
  case False
  then obtain ls raw where m: "match_sample l = Some (metric_of l, ls, raw)"
    and k: "opt_str (map_of (parse_labels ls) ''application'') = labelValue l ''application''"
      "opt_str (map_of (parse_labels ls) ''workflow_name'') = labelValue l ''workflow_name''"
      "opt_str (map_of (parse_labels ls) ''step_name'') = labelValue l ''step_name''"
    using exposition_read_alike [OF assms] by (auto simp: read_alike_def split: option.splits)
  have "trim l = l" "l \<noteq> []" using exposition_read_alike [OF assms] by (simp_all add: read_alike_def)
  then have "line_samples nm l = (if metric_of l = nm then [\<lparr>smLabels = parse_labels ls, smValue = parse_value raw\<rparr>] else [])"
    using m False by (simp add: line_samples_def is_comment_def)
  then show ?thesis using False k
    by (auto simp: keep_sample_def scrape_params metrics_query_of_def passes_def label_def Let_def)
qed

lemma scrape_samples:
  "concat (map (line_samples nm) (scrape_lines (scrape_request (metrics_query_of f)))) =
     filter (passes f nm) (concat (map (line_samples nm) exposition))"
proof -
  let ?rq = "scrape_request (metrics_query_of f)"
  have filt: "concat (map (line_samples nm) (filter P ls)) = filter (passes f nm) (concat (map (line_samples nm) ls))"
    if "set ls \<subseteq> set exposition" "\<forall>l\<in>set ls. \<not> is_comment l \<longrightarrow> P l = keep_sample ?rq l" for P ls
    using that
  proof (induction ls)
    case (Cons l ls)
    have "line_samples nm l = [] \<or> (\<not> is_comment l \<and> (\<exists>s. line_samples nm l = [s] \<and> passes f nm s = keep_sample ?rq l))"
      using filtered_line [of l nm f] Cons.prems(1) by auto
    then show ?case using Cons by auto
  qed simp
  show ?thesis unfolding scrape_lines_def Let_def by (rule filt) auto
qed

lemma join_newline: "ls \<noteq> [] \<Longrightarrow> join sep ls @ sep = join sep (ls @ [[]])"
  by (induction ls rule: induct_list012) simp_all

lemma text_samples:
  assumes "\<forall>l\<in>set ls. CHR 0x0A \<notin> set l"
  shows "samplesOf (parsePrometheusExposition (join [CHR 0x0A] ls)) nm = concat (map (line_samples nm) ls)"
    and "samplesOf (parsePrometheusExposition (join [CHR 0x0A] ls @ [CHR 0x0A])) nm = concat (map (line_samples nm) ls)"
proof -
  have e: "line_samples nm [] = []" by (simp add: line_samples_def trim_def)
  have none: "samplesOf [] nm = []" by (simp add: samplesOf_def)
  show "samplesOf (parsePrometheusExposition (join [CHR 0x0A] ls)) nm = concat (map (line_samples nm) ls)"
    using assms e none by (cases "ls = []") (simp_all add: parsePrometheusExposition_def parse_samples parse_line_samples split_on_join)
  have "split_on (CHR 0x0A) (join [CHR 0x0A] (ls @ [[]])) = ls @ [[]]" using assms by (intro split_on_join) auto
  then show "samplesOf (parsePrometheusExposition (join [CHR 0x0A] ls @ [CHR 0x0A])) nm = concat (map (line_samples nm) ls)"
    using e none by (cases "ls = []") (simp_all add: parsePrometheusExposition_def parse_samples parse_line_samples join_newline)
qed

text \<open>
  C38: the metrics screen on the mock API. Through the client's encoding, the bridge's filters and the
  parser, the families the screen draws hold, under every metric name, exactly the canned samples that pass
  the three filters of the form, in their order.
\<close>

theorem embedded_metrics_filtered:
  "let text = join [CHR 0x0A] (scrape_lines (scrape_request (metrics_query_of (metricsFilters c)))) @ [CHR 0x0A] in
     renderMetricsScreen (metrics_text cx st) c = Shown (metrics_screen (mFamily (metricsFilters c)) text) \<and>
     samplesOf (parsePrometheusExposition text) nm =
       filter (passes (metricsFilters c) nm) (samplesOf (parsePrometheusExposition (join [CHR 0x0A] exposition)) nm)"
proof -
  have nl: "\<forall>l\<in>set exposition. CHR 0x0A \<notin> set l" using exposition_read_alike by (auto simp: read_alike_def)
  then have "\<forall>l\<in>set (scrape_lines (scrape_request (metrics_query_of (metricsFilters c)))). CHR 0x0A \<notin> set l"
    by (auto simp: scrape_lines_def Let_def)
  from text_samples(2) [OF this, of nm] text_samples(1) [OF nl, of nm] show ?thesis
    unfolding Let_def by (simp add: renderMetricsScreen_def metrics_answer scrape_samples)
qed

end
