(* ===== verification/Wiki_Search.thy ===== *)
theory Wiki_Search
  imports Html_Text
begin

text \<open>
  The search dialog of the documentation site, \<open>site/internal/sitewiki/search.js\<close>: the index and its
  loading, scoring, snippets and highlighting, the selection, and the event handlers. A promise callback
  is a microtask: the browser runs the pending ones before it delivers the next event, the answer of a
  request included. \<open>ssTasks\<close> are the pending microtasks, \<open>ssWaiting\<close> the callbacks of the request under way.
\<close>

section \<open>Data\<close>

record search_entry =
  enT :: string
  enD :: string
  enS :: string
  enC :: string
  enU :: string

record result_item =
  riHref :: string
  riSection :: string
  riDoc :: string
  riTitle :: string
  riSnippet :: string

datatype search_view = VInitial | VLoading | VNoResults string | VResults "result_item list"

datatype search_task = AfterOpen | RunSearch

record search =
  ssIndex :: "search_entry list option"
  ssLoading :: bool
  ssSelected :: int
  ssResults :: "search_entry list"
  ssOpen :: bool
  ssInput :: string
  ssView :: search_view
  ssTasks :: "search_task list"
  ssWaiting :: "search_task list"
  ssLocation :: "string option"

definition init_search :: search where
  "init_search = \<lparr>ssIndex = None, ssLoading = False, ssSelected = -1, ssResults = [], ssOpen = False, ssInput = [],
     ssView = VInitial, ssTasks = [], ssWaiting = [], ssLocation = None\<rparr>"

section \<open>Highlighting and snippets\<close>

text \<open>The alternation of the terms at a position, the case ignored: the first term that matches.\<close>

fun match_term :: "string list \<Rightarrow> string \<Rightarrow> nat option" where
  "match_term [] s = None"
| "match_term (t # ts) s =
     (if t \<noteq> [] \<and> starts_with (to_lower s) (to_lower t) then Some (length t) else match_term ts s)"

lemma match_term_pos: "match_term ts s = Some n \<Longrightarrow> 0 < n \<and> n \<le> length s"
  by (induction ts) (auto simp: starts_with_iff split: if_splits dest: arg_cong [where f = length])

function mark_tokens :: "string list \<Rightarrow> string \<Rightarrow> (bool \<times> string) list" where
  "mark_tokens ts [] = []"
| "mark_tokens ts (c # s) =
     (case match_term ts (c # s) of
        Some n \<Rightarrow> (True, take n (c # s)) # mark_tokens ts (drop n (c # s))
      | None \<Rightarrow> (False, [c]) # mark_tokens ts s)"
  by pat_completeness auto
termination
  by (relation "measure (length \<circ> snd)") (auto dest: match_term_pos)

definition mark :: "bool \<times> string \<Rightarrow> string" where
  "mark t = (if fst t then ''<mark class='' @ dq @ ''search-match'' @ dq @ ''>'' @ snd t @ ''</mark>'' else snd t)"

definition highlight :: "string \<Rightarrow> string list \<Rightarrow> string" where
  "highlight txt terms =
     (if txt = [] \<or> terms = [] then escapeHTML (Some txt)
      else concat (map mark (mark_tokens (map (\<lambda>t. escapeHTML (Some t)) terms) (escapeHTML (Some txt)))))"

definition first_pos :: "string \<Rightarrow> string list \<Rightarrow> nat option" where
  "first_pos lower terms =
     foldl (\<lambda>best t. case index_of lower t of
        None \<Rightarrow> best
      | Some p \<Rightarrow> (case best of None \<Rightarrow> Some p | Some b \<Rightarrow> Some (if p < b then p else b))) None terms"

definition extractSnippet :: "string \<Rightarrow> string list \<Rightarrow> string" where
  "extractSnippet content terms =
     (if content = [] then []
      else case first_pos (to_lower content) terms of
             None \<Rightarrow> highlight (take 110 content @ (if length content > 110 then ''...'' else [])) terms
           | Some p \<Rightarrow>
               (let start = p - 35; fin = min (length content) (p + 95)
                in (if start > 0 then ''...'' else []) @ highlight (js_slice start fin content) terms @
                   (if fin < length content then ''...'' else [])))"

section \<open>Scoring\<close>

definition term_score :: "search_entry \<Rightarrow> string \<Rightarrow> int option" where
  "term_score e term =
     (let tt = to_lower (enT e);
          inT = str_includes tt term; inD = str_includes (to_lower (enD e)) term;
          inS = str_includes (to_lower (enS e)) term; inC = str_includes (to_lower (enC e)) term
      in if inT \<or> inD \<or> inS \<or> inC
         then Some ((if inT then 45 + (if tt = term \<or> starts_with tt (term @ '' '') then 40 else 0) else 0) +
                    (if inD then 25 else 0) + (if inS then 15 else 0) + (if inC then 10 else 0))
         else None)"

fun terms_score :: "search_entry \<Rightarrow> string list \<Rightarrow> int option" where
  "terms_score e [] = Some 0"
| "terms_score e (t # ts) =
     (case term_score e t of None \<Rightarrow> None | Some n \<Rightarrow> map_option (\<lambda>m. n + m) (terms_score e ts))"

definition query_bonus :: "search_entry \<Rightarrow> string \<Rightarrow> int" where
  "query_bonus e query =
     (if str_includes (to_lower (enT e)) query then 80
      else if str_includes (to_lower (enD e)) query then 40
      else if str_includes (to_lower (enC e)) query then 30 else 0)"

definition entry_score :: "string \<Rightarrow> search_entry \<Rightarrow> int option" where
  "entry_score query e =
     map_option (\<lambda>n. n + query_bonus e query) (terms_score e (filter (\<lambda>t. t \<noteq> []) (split_ws query)))"

definition matches :: "string \<Rightarrow> search_entry list \<Rightarrow> (search_entry \<times> int) list" where
  "matches query es = List.map_filter (\<lambda>e. map_option (\<lambda>n. (e, n)) (entry_score query e)) es"

definition search_results :: "string \<Rightarrow> search_entry list \<Rightarrow> search_entry list" where
  "search_results query es = map fst (take 12 (sort_desc snd (matches query es)))"

section \<open>Operations\<close>

definition fetchIndex :: "search_task option \<Rightarrow> search \<Rightarrow> search" where
  "fetchIndex k st =
     (let ks = (case k of None \<Rightarrow> [] | Some t \<Rightarrow> [t])
      in if ssIndex st \<noteq> None \<or> ssLoading st then st\<lparr>ssTasks := ssTasks st @ ks\<rparr>
         else st\<lparr>ssLoading := True, ssWaiting := ssWaiting st @ ks\<rparr>)"

text \<open>The answer of the request: the index, or \<open>None\<close> when it failed.\<close>

definition index_fetched :: "search_entry list option \<Rightarrow> search \<Rightarrow> search" where
  "index_fetched data st =
     st\<lparr>ssIndex := (case data of None \<Rightarrow> ssIndex st | Some es \<Rightarrow> Some es), ssLoading := False,
        ssTasks := ssTasks st @ ssWaiting st, ssWaiting := []\<rparr>"

definition openSearch :: "search \<Rightarrow> search" where
  "openSearch st =
     (fetchIndex (Some AfterOpen) (st\<lparr>ssOpen := True\<rparr>))
       \<lparr>ssInput := [], ssSelected := -1, ssResults := [], ssView := VInitial\<rparr>"

definition closeSearch :: "search \<Rightarrow> search" where
  "closeSearch st = (if ssOpen st then st\<lparr>ssOpen := False\<rparr> else st)"

definition result_of :: "string list \<Rightarrow> search_entry \<Rightarrow> result_item" where
  "result_of terms e = \<lparr>riHref = escapeHTML (Some (enU e)), riSection = escapeHTML (Some (enS e)), riDoc = escapeHTML (Some (enD e)),
     riTitle = highlight (str_or (enT e) (enD e)) terms, riSnippet = extractSnippet (enC e) terms\<rparr>"

definition renderResults :: "string list \<Rightarrow> string \<Rightarrow> search \<Rightarrow> search" where
  "renderResults terms query st =
     (if ssResults st = [] then st\<lparr>ssSelected := -1, ssView := VNoResults (escapeHTML (Some query))\<rparr>
      else st\<lparr>ssSelected := 0, ssView := VResults (map (result_of terms) (ssResults st))\<rparr>)"

definition runSearch :: "search \<Rightarrow> search" where
  "runSearch st =
     (let query = to_lower (trim (ssInput st))
      in if query = [] then st\<lparr>ssSelected := -1, ssResults := [], ssView := VInitial\<rparr>
         else case ssIndex st of
                None \<Rightarrow> fetchIndex (Some RunSearch) (st\<lparr>ssView := VLoading\<rparr>)
              | Some es \<Rightarrow>
                  (let terms = filter (\<lambda>t. t \<noteq> []) (split_ws query)
                   in if terms = [] then st\<lparr>ssView := VInitial\<rparr>
                      else renderResults terms query (st\<lparr>ssResults := search_results query es\<rparr>)))"

definition run_search_task :: "search_task \<Rightarrow> search \<Rightarrow> search" where
  "run_search_task t st =
     (case t of AfterOpen \<Rightarrow> if trim (ssInput st) \<noteq> [] then runSearch st else st | RunSearch \<Rightarrow> runSearch st)"

definition moveSelection :: "int \<Rightarrow> search \<Rightarrow> search" where
  "moveSelection delta st =
     (if ssResults st = [] then st
      else let i = ssSelected st + delta; n = int (length (ssResults st))
           in st\<lparr>ssSelected := (if i < 0 then n - 1 else if n \<le> i then 0 else i)\<rparr>)"

definition openSelected :: "search \<Rightarrow> search" where
  "openSelected st =
     (if 0 \<le> ssSelected st \<and> ssSelected st < int (length (ssResults st))
      then st\<lparr>ssLocation := Some (enU (ssResults st ! nat (ssSelected st)))\<rparr> else st)"

definition hover :: "int \<Rightarrow> search \<Rightarrow> search" where
  "hover i st = (if i \<noteq> ssSelected st then st\<lparr>ssSelected := i\<rparr> else st)"

section \<open>Events\<close>

datatype search_event =
    Prefetch
  | OpenClick
  | CloseClick
  | BackdropClick bool
  | TypeText string
  | InputKey string
  | DocKey string bool "(string \<times> bool) option"
  | Hover nat
  | Fetched "search_entry list option"

definition on_input_key :: "string \<Rightarrow> search \<Rightarrow> search" where
  "on_input_key key st =
     (if key = ''ArrowDown'' then moveSelection 1 st
      else if key = ''ArrowUp'' then moveSelection (-1) st
      else if key = ''Enter'' then openSelected st
      else if key = ''Escape'' then closeSearch st else st)"

text \<open>An element is its tag name and whether its content can be edited.\<close>

definition isEditable :: "(string \<times> bool) option \<Rightarrow> bool" where
  "isEditable el =
     (case el of None \<Rightarrow> False | Some (tag, ce) \<Rightarrow> to_lower tag \<in> {''input'', ''textarea'', ''select''} \<or> ce)"

text \<open>The document's handler: the key, whether Ctrl or Meta is held, and the element that has the focus.\<close>

definition on_doc_key :: "string \<Rightarrow> bool \<Rightarrow> (string \<times> bool) option \<Rightarrow> search \<Rightarrow> search" where
  "on_doc_key key ctrl active st =
     (if (key = ''k'' \<or> key = ''K'') \<and> ctrl then (if ssOpen st then closeSearch st else openSearch st)
      else if key = ''/'' \<and> \<not> ssOpen st \<and> \<not> isEditable active then openSearch st
      else if key = ''Escape'' \<and> ssOpen st then closeSearch st else st)"

definition item_count :: "search \<Rightarrow> nat" where
  "item_count st = (case ssView st of VResults is \<Rightarrow> length is | _ \<Rightarrow> 0)"

text \<open>One event, delivered when no microtask is pending; a result can be hovered only if it is shown.\<close>

definition search_event_step :: "search_event \<Rightarrow> search \<Rightarrow> search" where
  "search_event_step ev st =
     (case ev of
        Prefetch \<Rightarrow> fetchIndex None st
      | OpenClick \<Rightarrow> openSearch st
      | CloseClick \<Rightarrow> closeSearch st
      | BackdropClick onBackdrop \<Rightarrow> if onBackdrop then closeSearch st else st
      | TypeText s \<Rightarrow> runSearch (st\<lparr>ssInput := s\<rparr>)
      | InputKey key \<Rightarrow> on_doc_key key False (Some (''INPUT'', False)) (on_input_key key st)
      | DocKey key ctrl active \<Rightarrow> on_doc_key key ctrl active st
      | Hover i \<Rightarrow> if i < item_count st then hover (int i) st else st
      | Fetched data \<Rightarrow> if ssLoading st then index_fetched data st else st)"

definition task_step :: "search \<Rightarrow> search" where
  "task_step st = (case ssTasks st of [] \<Rightarrow> st | t # ts \<Rightarrow> run_search_task t (st\<lparr>ssTasks := ts\<rparr>))"

inductive search_step :: "search \<Rightarrow> search \<Rightarrow> bool" where
  task: "ssTasks st \<noteq> [] \<Longrightarrow> search_step st (task_step st)"
| event: "ssTasks st = [] \<Longrightarrow> search_step st (search_event_step ev st)"

inductive_cases search_stepE: "search_step st st'"

inductive search_reachable :: "search \<Rightarrow> bool" where
  start: "search_reachable init_search"
| step: "search_reachable st \<Longrightarrow> search_step st st' \<Longrightarrow> search_reachable st'"

section \<open>What a search finds\<close>

definition query_terms :: "string \<Rightarrow> string list" where
  "query_terms query = filter (\<lambda>t. t \<noteq> []) (split_ws query)"

definition entry_has :: "search_entry \<Rightarrow> string \<Rightarrow> bool" where
  "entry_has e t \<longleftrightarrow> str_includes (to_lower (enT e)) t \<or> str_includes (to_lower (enD e)) t \<or>
     str_includes (to_lower (enS e)) t \<or> str_includes (to_lower (enC e)) t"

lemma term_score_iff: "term_score e t = None \<longleftrightarrow> \<not> entry_has e t"
  by (auto simp: term_score_def entry_has_def Let_def)

lemma terms_score_iff: "terms_score e ts = None \<longleftrightarrow> \<not> list_all (entry_has e) ts"
proof (induction ts)
  case (Cons t ts)
  then show ?case using term_score_iff [of e t] by (cases "term_score e t") auto
qed simp

lemma entry_score_iff: "entry_score query e = None \<longleftrightarrow> \<not> list_all (entry_has e) (query_terms query)"
  by (simp add: entry_score_def terms_score_iff query_terms_def)

lemma fst_matches: "map fst (matches query es) = filter (\<lambda>e. list_all (entry_has e) (query_terms query)) es"
proof (induction es)
  case (Cons e es)
  then show ?case using entry_score_iff [of query e]
    by (cases "entry_score query e") (simp_all add: matches_def List.map_filter_simps)
qed (simp add: matches_def List.map_filter_simps)

lemma matches_score: "(e, n) \<in> set (matches query es) \<Longrightarrow> entry_score query e = Some n"
  by (auto simp: matches_def List.map_filter_def)

lemma sort_desc_split:
  assumes "x \<in> set (take n (sort_desc key xs))" "y \<in> set (drop n (sort_desc key xs))"
  shows "key y \<le> key x"
proof -
  have "sorted_wrt (\<lambda>a b. key b \<le> key a) (take n (sort_desc key xs) @ drop n (sort_desc key xs))"
    by (simp add: sorted_sort_desc)
  then show ?thesis using assms unfolding sorted_wrt_append by blast
qed

text \<open>
  C30: a search is sound, bounded, ranked and complete up to its bound. At most twelve entries are
  shown, all from the index, each containing every word of the query in its title, document, section
  or text; they come in descending score; and an entry that matches but is not shown scores no
  higher than any that is. With at most twelve matches all of them are shown.
\<close>

theorem search_results_spec:
  "let res = search_results query es; hits = filter (\<lambda>e. list_all (entry_has e) (query_terms query)) es
   in length res = min 12 (length hits) \<and> set res \<subseteq> set hits \<and>
      sorted_wrt (\<lambda>a b. the (entry_score query b) \<le> the (entry_score query a)) res \<and>
      (\<exists>rest. mset res + mset rest = mset hits \<and>
         list_all (\<lambda>x. list_all (\<lambda>y. the (entry_score query y) \<le> the (entry_score query x)) rest) res)"
proof -
  let ?m = "matches query es" and ?hits = "filter (\<lambda>e. list_all (entry_has e) (query_terms query)) es"
  let ?s = "sort_desc snd ?m" and ?rest = "map fst (drop 12 (sort_desc snd (matches query es)))"
  have sc: "the (entry_score query (fst p)) = snd p" if "p \<in> set ?s" for p
    using that matches_score [of "fst p" "snd p" query es] by simp
  have ms: "mset (map fst (take 12 ?s)) + mset (map fst (drop 12 ?s)) = mset ?hits"
  proof -
    have "mset (map fst (take 12 ?s)) + mset (map fst (drop 12 ?s)) = mset (map fst ?s)"
      by (metis append_take_drop_id map_append mset_append)
    also have "\<dots> = mset (map fst ?m)" by simp
    finally show ?thesis by (simp only: fst_matches)
  qed
  have len: "length ?m = length ?hits" by (metis fst_matches length_map)
  have srt: "sorted_wrt (\<lambda>a b. the (entry_score query b) \<le> the (entry_score query a)) (map fst (take 12 ?s))"
    unfolding sorted_wrt_map
  proof (rule sorted_wrt_mono_rel [where P = "\<lambda>a b. snd b \<le> snd a"])
    show "sorted_wrt (\<lambda>a b. snd b \<le> snd a) (take 12 ?s)" by (intro sorted_wrt_take sorted_sort_desc)
    show "the (entry_score query (fst b)) \<le> the (entry_score query (fst a))"
      if "a \<in> set (take 12 ?s)" "b \<in> set (take 12 ?s)" "snd b \<le> snd a" for a b
      using that sc [OF in_set_takeD [OF that(1)]] sc [OF in_set_takeD [OF that(2)]] by simp
  qed
  have low: "the (entry_score query y) \<le> the (entry_score query x)"
    if xy: "x \<in> set (map fst (take 12 ?s))" "y \<in> set ?rest" for x y
  proof -
    obtain p r where p: "p \<in> set (take 12 ?s)" "x = fst p" and r: "r \<in> set (drop 12 ?s)" "y = fst r" using xy by auto
    have "snd r \<le> snd p" using sort_desc_split [OF p(1) r(1)] .
    then show ?thesis using p(2) r(2) sc [OF in_set_takeD [OF p(1)]] sc [OF in_set_dropD [OF r(1)]] by simp
  qed
  have sub: "set (map fst (take 12 ?s)) \<subseteq> set ?hits"
    using ms by (metis mset_subset_eq_add_left set_mset_mono set_mset_mset)
  have "length (map fst (take 12 ?s)) = min 12 (length ?hits)" using len by simp
  moreover have "list_all (\<lambda>x. list_all (\<lambda>y. the (entry_score query y) \<le> the (entry_score query x)) ?rest) (map fst (take 12 ?s))"
    unfolding list_all_iff using low by blast
  ultimately show ?thesis unfolding Let_def search_results_def using ms srt sub by blast
qed

section \<open>The selection\<close>

definition search_inv :: "search \<Rightarrow> bool" where
  "search_inv st \<longleftrightarrow>
     (if ssResults st = [] then ssSelected st = -1 else 0 \<le> ssSelected st \<and> ssSelected st < int (length (ssResults st))) \<and>
     item_count st = length (ssResults st) \<and>
     (ssIndex st = None \<longrightarrow> ssResults st = [])"

lemma search_inv_fetchIndex [simp]: "search_inv (fetchIndex k st) = search_inv st"
  by (auto simp: search_inv_def item_count_def fetchIndex_def Let_def)

lemma search_inv_tasks [simp]: "search_inv (st\<lparr>ssTasks := ts\<rparr>) = search_inv st" "search_inv (st\<lparr>ssInput := s\<rparr>) = search_inv st"
  "search_inv (st\<lparr>ssOpen := b\<rparr>) = search_inv st" "search_inv (st\<lparr>ssLocation := x\<rparr>) = search_inv st"
  by (simp_all add: search_inv_def item_count_def)

lemma search_inv_fetched: "search_inv st \<Longrightarrow> search_inv (index_fetched data st)"
  by (auto simp: search_inv_def item_count_def index_fetched_def split: option.split)

lemma search_inv_open: "search_inv (openSearch st)"
  by (simp add: openSearch_def search_inv_def item_count_def)

lemma search_inv_close [simp]: "search_inv (closeSearch st) = search_inv st"
  by (simp add: closeSearch_def)

lemma split_ws_terms: "s \<noteq> [] \<Longrightarrow> \<not> is_space (hd s) \<Longrightarrow> filter (\<lambda>t. t \<noteq> []) (split_ws s) \<noteq> []"
  by (subst split_ws.simps, cases s) (auto simp: Let_def)

lemma lower_space [simp]: "is_space (lower_char c) = is_space c"
proof -
  have "(of_char (char_of (of_char c + 32 :: nat) :: char) :: nat) = of_char c + 32" if "(of_char c :: nat) \<le> 90"
    using that by (simp add: of_char_of)
  then show ?thesis by (auto simp: lower_char_def is_space_def Let_def)
qed

lemma trim_hd: "trim s \<noteq> [] \<Longrightarrow> \<not> is_space (hd (trim s))"
proof -
  assume t: "trim s \<noteq> []"
  let ?u = "dropWhile is_space s"
  have "?u \<noteq> []"
  proof
    assume "?u = []"
    with t show False unfolding trim_def by simp
  qed
  then have h: "\<not> is_space (hd ?u)" by (rule hd_dropWhile)
  obtain v where v: "?u = trim s @ v"
    unfolding trim_def by (metis rev_append rev_rev_ident takeWhile_dropWhile_id)
  then show ?thesis using h t by simp
qed

lemma query_has_terms: "to_lower (trim s) \<noteq> [] \<Longrightarrow> filter (\<lambda>t. t \<noteq> []) (split_ws (to_lower (trim s))) \<noteq> []"
proof (rule split_ws_terms)
  assume "to_lower (trim s) \<noteq> []"
  then show "\<not> is_space (hd (to_lower (trim s)))" using trim_hd [of s] by (cases "trim s") (simp_all add: to_lower_def)
qed

lemma search_inv_run: "search_inv st \<Longrightarrow> search_inv (runSearch st)"
  using query_has_terms [of "ssInput st"]
  by (auto simp: runSearch_def Let_def renderResults_def search_inv_def item_count_def fetchIndex_def split: option.split)

lemma search_inv_move: "search_inv st \<Longrightarrow> search_inv (moveSelection d st)"
  by (auto simp: moveSelection_def search_inv_def item_count_def Let_def)

lemma search_inv_hover: "search_inv st \<Longrightarrow> i < item_count st \<Longrightarrow> search_inv (hover (int i) st)"
  by (auto simp: hover_def search_inv_def item_count_def split: search_view.splits)

lemma search_inv_openSelected: "search_inv st \<Longrightarrow> search_inv (openSelected st)"
  by (simp add: openSelected_def)

lemmas search_inv_ops = search_inv_fetched search_inv_open search_inv_run search_inv_move search_inv_hover search_inv_openSelected

lemma search_inv_event: "search_inv st \<Longrightarrow> search_inv (search_event_step ev st)"
  by (cases ev) (auto simp: search_event_step_def on_doc_key_def on_input_key_def search_inv_ops)

lemma search_inv_task: "search_inv st \<Longrightarrow> search_inv (task_step st)"
  by (auto simp: task_step_def run_search_task_def search_inv_ops split: list.split search_task.split)

lemma reachable_search_inv: "search_reachable st \<Longrightarrow> search_inv st"
proof (induction rule: search_reachable.induct)
  case start
  then show ?case by (simp add: search_inv_def item_count_def init_search_def)
next
  case (step st st')
  then show ?case by (auto elim!: search_stepE intro: search_inv_event search_inv_task)
qed

text \<open>
  C31: the selection is always on a result. In every reachable state the selected index is that of a
  result shown, or none when nothing is shown; the arrow keys move it around the results in a circle,
  and Enter goes to the address of the selected result.
\<close>

theorem search_selection:
  assumes "search_reachable st" "ssResults st \<noteq> []"
  shows "let n = int (length (ssResults st)); i = ssSelected st
         in 0 \<le> i \<and> i < n \<and> item_count st = length (ssResults st) \<and>
            ssSelected (moveSelection 1 st) = (i + 1) mod n \<and> ssSelected (moveSelection (-1) st) = (i - 1) mod n \<and>
            ssLocation (openSelected st) = Some (enU (ssResults st ! nat i))"
proof -
  let ?n = "int (length (ssResults st))" and ?i = "ssSelected st"
  have inv: "search_inv st" by (rule reachable_search_inv [OF assms(1)])
  then have i: "0 \<le> ?i" "?i < ?n" using assms(2) by (simp_all add: search_inv_def)
  have up: "(?i + 1) mod ?n = (if ?i + 1 = ?n then 0 else ?i + 1)" using i by (auto intro: mod_pos_pos_trivial)
  have down: "(?i - 1) mod ?n = (if ?i = 0 then ?n - 1 else ?i - 1)"
  proof (cases "?i = 0")
    case True
    then show ?thesis using i zmod_minus1 [of ?n] by simp
  next
    case False
    then show ?thesis using i by (auto intro: mod_pos_pos_trivial)
  qed
  have "item_count st = length (ssResults st)" using inv by (simp add: search_inv_def)
  then show ?thesis using i assms(2) by (auto simp: Let_def up down moveSelection_def openSelected_def)
qed

definition demo_entry :: search_entry where
  "demo_entry = \<lparr>enT = ''Lease Fencing'', enD = ''Recovery'', enS = ''Architecture'', enC = ''A lease'', enU = ''/wiki/r.html''\<rparr>"

definition demo_search :: search where
  "demo_search = search_event_step (TypeText ''lease'')
     (search_event_step (Fetched (Some [demo_entry])) (search_event_step Prefetch init_search))"

lemma demo_search_reachable: "search_reachable demo_search"
proof -
  have "search_reachable (search_event_step Prefetch init_search)"
    by (rule search_reachable.step [OF search_reachable.start]) (rule search_step.event, simp add: init_search_def)
  moreover have t: "ssTasks (search_event_step Prefetch init_search) = []" by code_simp
  ultimately have "search_reachable (search_event_step (Fetched (Some [demo_entry])) (search_event_step Prefetch init_search))"
    by (blast intro: search_reachable.step search_step.event)
  moreover have "ssTasks (search_event_step (Fetched (Some [demo_entry])) (search_event_step Prefetch init_search)) = []" by code_simp
  ultimately show ?thesis unfolding demo_search_def by (blast intro: search_reachable.step search_step.event)
qed

theorem search_selection_witness:
  "let n = int (length (ssResults demo_search)); i = ssSelected demo_search
   in 0 \<le> i \<and> i < n \<and> item_count demo_search = length (ssResults demo_search) \<and>
      ssSelected (moveSelection 1 demo_search) = (i + 1) mod n \<and> ssSelected (moveSelection (-1) demo_search) = (i - 1) mod n \<and>
      ssLocation (openSelected demo_search) = Some (enU (ssResults demo_search ! nat i))"
proof (rule search_selection [OF demo_search_reachable])
  show "ssResults demo_search \<noteq> []" by code_simp
qed

section \<open>Typing before the index has arrived\<close>

definition stuck :: "search \<Rightarrow> bool" where
  "stuck st \<longleftrightarrow> ssTasks st = [RunSearch] \<and> ssLoading st \<and> ssIndex st = None \<and> trim (ssInput st) \<noteq> [] \<and> ssView st = VLoading"

lemma run_while_loading:
  "ssLoading st \<Longrightarrow> ssIndex st = None \<Longrightarrow> trim (ssInput st) \<noteq> [] \<Longrightarrow>
     runSearch st = st\<lparr>ssView := VLoading, ssTasks := ssTasks st @ [RunSearch]\<rparr>"
  by (simp add: runSearch_def to_lower_def fetchIndex_def)

lemma stuck_step: "stuck st \<Longrightarrow> search_step st st' \<Longrightarrow> stuck st'"
  by (auto simp: stuck_def task_step_def run_search_task_def run_while_loading elim!: search_stepE)

text \<open>
  C32: the dialog hangs when text is typed while the index is still being fetched (the fetch starts on
  hovering or focusing the search button). \<open>fetchIndex\<close> then answers with a resolved promise, whose
  callback runs the search again, which asks again: the microtask queues itself for ever. From that
  moment the queue is never empty, so no event is delivered any more, not even the arrival of the index.
\<close>

theorem search_hangs_while_loading:
  assumes "ssTasks st = []" "ssLoading st" "ssIndex st = None" "trim s \<noteq> []"
    and "search_step\<^sup>*\<^sup>* (search_event_step (TypeText s) st) st'"
  shows "ssTasks st' = [RunSearch] \<and> ssIndex st' = None \<and> ssView st' = VLoading"
proof -
  have "stuck (search_event_step (TypeText s) st)"
    using assms(1-4) by (simp add: search_event_step_def run_while_loading stuck_def)
  with assms(5) have "stuck st'" by (induction rule: rtranclp_induct) (auto intro: stuck_step)
  then show ?thesis by (simp add: stuck_def)
qed

theorem search_hangs_while_loading_witness:
  "search_reachable (search_event_step Prefetch init_search) \<and>
   (let st' = task_step (search_event_step (TypeText ''a'') (search_event_step Prefetch init_search))
    in ssTasks st' = [RunSearch] \<and> ssIndex st' = None \<and> ssView st' = VLoading)"
proof -
  let ?st = "search_event_step Prefetch init_search"
  have t: "ssTasks ?st = []" "ssLoading ?st" "ssIndex ?st = None" by code_simp+
  have "search_reachable ?st"
    by (rule search_reachable.step [OF search_reachable.start]) (rule search_step.event, simp add: init_search_def)
  moreover have a: "trim ''a'' \<noteq> []" by code_simp
  have "ssTasks (search_event_step (TypeText ''a'') ?st) \<noteq> []" by code_simp
  then have "search_step\<^sup>*\<^sup>* (search_event_step (TypeText ''a'') ?st) (task_step (search_event_step (TypeText ''a'') ?st))"
    by (blast intro: search_step.task)
  ultimately show ?thesis using search_hangs_while_loading [OF t a] unfolding Let_def by blast
qed

section \<open>Highlighting\<close>

lemma mark_tokens_text: "concat (map snd (mark_tokens ts s)) = s"
proof (induction ts s rule: mark_tokens.induct)
  case (2 ts c s)
  then show ?case by (auto split: option.split)
qed simp

text \<open>
  The marks are set in the escaped text, so a term can match inside a character reference: searching
  for \<open>amp\<close> breaks the reference of every ampersand shown.
\<close>

lemma highlight_breaks_reference:
  "highlight ''A & B'' [''amp''] = ''A &<mark class='' @ dq @ ''search-match'' @ dq @ ''>amp</mark>; B''"
  by code_simp

end
