(* ===== verification/Playground.thy ===== *)
theory Playground
  imports Html_Text
begin

text \<open>
  The controller of the in-browser playground, \<open>site/playground/playground.js\<close>: the code editor
  pane, the theme, the armed failure, the SQL bar, and the simulated checkout run that writes a
  workflow, its child and their steps into the embedded database.

  The database (PGlite, loaded from a CDN) is not code of the repository: an \<open>engine\<close> holds what
  \<open>query\<close> and \<open>exec\<close> answer, as functions of the statement and of a database state of any type.
  The statements the controller writes are values of \<open>stmt\<close> (the columns they set), the texts a
  visitor types are \<open>RawQuery\<close>; the engine of \<open>initFallbackEngine\<close>, used when the CDN cannot be
  reached, is code of the repository and is defined here. \<open>JSON.stringify\<close> is \<open>json_stringify\<close>.

  The methods are asynchronous and other clicks are handled between their \<open>await\<close>s. A method
  under way is a \<open>task\<close>: the actions it still has to perform and what catches its exceptions
  (\<open>Run\<close>: the \<open>catch\<close> and \<open>finally\<close> of \<open>runWorkflow\<close>; \<open>Init\<close>: the \<open>catch\<close> of \<open>initDatabase\<close>;
  \<open>Plain\<close>: nothing). One tick performs the first action of one task. The check and cross marks of
  the log lines are written with the codes 134 and 135. Not modelled: markup of the buttons
  besides their labels, Prism's colouring, scroll positions and the delay of a \<open>sleep\<close>.
\<close>

section \<open>Data\<close>

fun json_char :: "char \<Rightarrow> string" where
  "json_char c =
     (let n = of_char c :: nat in
      if n = 34 then [char_of (92::nat), char_of (34::nat)]
      else if n = 92 then [char_of (92::nat), char_of (92::nat)]
      else if n = 8 then [char_of (92::nat), CHR ''b'']
      else if n = 9 then [char_of (92::nat), CHR ''t'']
      else if n = 10 then [char_of (92::nat), CHR ''n'']
      else if n = 12 then [char_of (92::nat), CHR ''f'']
      else if n = 13 then [char_of (92::nat), CHR ''r'']
      else if n < 32 then [char_of (92::nat), CHR ''u'', CHR ''0'', CHR ''0'', lower_char (hex_digit (n div 16)), lower_char (hex_digit (n mod 16))]
      else [c])"

definition json_quote :: "string \<Rightarrow> string" where
  "json_quote s = dq @ concat (map json_char s) @ dq"

text \<open>\<open>JSON.stringify\<close> without indentation; \<open>undefined\<close> is left out of objects and is null in arrays.\<close>

fun json_stringify :: "jsval \<Rightarrow> string" where
  "json_stringify JUndef = ''null''"
| "json_stringify JNull = ''null''"
| "json_stringify (JBool b) = (if b then ''true'' else ''false'')"
| "json_stringify (JNum n) = (if is_finite n then show_num n else ''null'')"
| "json_stringify (JStr s) = json_quote s"
| "json_stringify (JArr vs) = ''['' @ join '','' (map json_stringify vs) @ '']''"
| "json_stringify (JObj kvs) =
     ''{'' @ join '','' (concat (map (\<lambda>kv. if snd kv = JUndef then [] else [json_quote (fst kv) @ '':'' @ json_stringify (snd kv)]) kvs)) @ ''}''"

definition json :: "(string \<times> jsval) list \<Rightarrow> string" where
  "json kvs = json_stringify (JObj kvs)"

definition jint :: "int \<Rightarrow> jsval" where
  "jint n = JNum (Fin (of_int n))"

text \<open>
  The rows of \<open>dbos.workflow_status\<close> and \<open>dbos.operation_execution\<close>, by the columns the controller
  writes. A column left out of the INSERT has the default of \<open>createSchema\<close>; a time the database
  fills in is \<open>None\<close>.
\<close>

record pg_workflow =
  pwId :: string
  pwStatus :: string
  pwName :: string
  pwClass :: "string option"
  pwConfig :: "string option"
  pwUser :: string
  pwAssumedRole :: "string option"
  pwRoles :: string
  pwRequest :: "string option"
  pwOutput :: "string option"
  pwError :: "string option"
  pwExecutor :: "string option"
  pwAppId :: string
  pwAppVersion :: string
  pwCreatedAt :: "int option"
  pwUpdatedAt :: "int option"
  pwDurationMs :: int

record pg_step =
  psWorkflow :: string
  psFunction :: nat
  psName :: string
  psType :: string
  psStatus :: string
  psInput :: "string option"
  psOutput :: "string option"
  psError :: "string option"
  psChild :: "string option"
  psDurationMs :: int
  psCreatedAt :: "int option"

datatype stmt =
    InsertWorkflow pg_workflow
  | InsertSteps "pg_step list"
  | FailWorkflow string string int int
  | CompleteWorkflow string string int int
  | LinkChild string string nat
  | DeleteFrom string
  | InsertApplication string string string string
  | InsertExecutor string string string string string string
  | CreateSchema "string list"
  | RawQuery string "string list"

type_synonym sql_row = "(string \<times> jsval) list"

record 'd engine =
  eng_query :: "stmt \<Rightarrow> 'd \<Rightarrow> (string + sql_row list) \<times> 'd"
  eng_exec :: "stmt list \<Rightarrow> 'd \<Rightarrow> (string + unit) \<times> 'd"

text \<open>\<open>window.pgliteDb\<close>: null at first, then PGlite, or the fallback of \<open>initFallbackEngine\<close>.\<close>

datatype 'd handle = NoDb | Pg 'd | Fallback

datatype action =
    Log string string
  | Query "int \<Rightarrow> stmt"
  | Exec "stmt list"
  | Post string "(string \<times> string) option"
  | Hash string
  | ShowSql "string option"
  | Sleep nat
  | IfFailure "action list"
  | Import
  | DbStatus string string

datatype kind = Run | Init | Plain

type_synonym task = "kind \<times> action list"

record 'd page =
  pgInjectFailure :: bool
  pgIsRunning :: bool
  pgRunDisabled :: bool
  pgFailLabel :: string
  pgActive :: "string option"
  pgEditorFolded :: bool
  pgPaneFolded :: bool
  pgFoldLabel :: string
  pgFoldTitle :: string
  pgTheme :: string
  pgThemeLabel :: string
  pgStorage :: "(string, string) jsmap"
  pgCode :: string
  pgHighlight :: string
  pgCaret :: "nat \<times> nat"
  pgSqlInput :: string
  pgResults :: string
  pgDbStatus :: "string \<times> string"
  pgLog :: "(string \<times> string) list"
  pgPosts :: "(string \<times> (string \<times> string) option) list"
  pgHash :: "string option"
  pgFrameThemes :: "string list"
  pgDb :: "'d handle"
  pgTasks :: "task list"

section \<open>The editor pane, the theme and the log\<close>

text \<open>\<open>log\<close> (the time prefix of a line is left out).\<close>

definition log_line :: "string \<Rightarrow> string \<Rightarrow> 'd page \<Rightarrow> 'd page" where
  "log_line msg typ p = p\<lparr>pgLog := pgLog p @ [(msg, typ)]\<rparr>"

definition updateHighlighting :: "'d page \<Rightarrow> 'd page" where
  "updateHighlighting p = p\<lparr>pgHighlight := pgCode p @ (if ends_with (pgCode p) [char_of (10::nat)] then [] else [char_of (10::nat)])\<rparr>"

text \<open>The Tab key in the editor, with the selection from \<open>start\<close> to \<open>stop\<close>.\<close>

definition tab_key :: "nat \<Rightarrow> nat \<Rightarrow> 'd page \<Rightarrow> 'd page" where
  "tab_key start stop p =
     updateHighlighting (p\<lparr>pgCode := take start (pgCode p) @ ''  '' @ drop stop (pgCode p), pgCaret := (start + 2, start + 2)\<rparr>)"

definition setTheme :: "string \<Rightarrow> bool \<Rightarrow> 'd page \<Rightarrow> 'd page" where
  "setTheme theme notifyIframe p =
     p\<lparr>pgTheme := theme, pgStorage := AList.update ''relay-theme'' theme (pgStorage p),
       pgThemeLabel := (if theme = ''dark'' then ''Light Mode'' else ''Dark Mode''),
       pgFrameThemes := pgFrameThemes p @ (if notifyIframe then [theme] else [])\<rparr>"

definition toggleTheme :: "'d page \<Rightarrow> 'd page" where
  "toggleTheme p = setTheme (if str_or (pgTheme p) ''dark'' = ''dark'' then ''light'' else ''dark'') True p"

definition toggleFailure :: "'d page \<Rightarrow> 'd page" where
  "toggleFailure p =
     (let armed = \<not> pgInjectFailure p; p' = p\<lparr>pgInjectFailure := armed\<rparr> in
      if armed
      then log_line ''Step failure injection armed: reserveInventory will throw InventoryShortageError'' ''warn''
             (p'\<lparr>pgFailLabel := ''Step Failure: ON''\<rparr>)
      else log_line ''Step failure injection cleared: normal workflow execution'' ''info''
             (p'\<lparr>pgFailLabel := ''Inject Step Failure''\<rparr>))"

definition setDbStatus :: "string \<Rightarrow> string \<Rightarrow> 'd page \<Rightarrow> 'd page" where
  "setDbStatus txt state p = p\<lparr>pgDbStatus := (txt, ''status-dot '' @ state)\<rparr>"

definition applyEditorFold :: "bool \<Rightarrow> 'd page \<Rightarrow> 'd page" where
  "applyEditorFold folded p =
     p\<lparr>pgPaneFolded := folded, pgFoldLabel := (if folded then ''Show Code Panel'' else ''Fold Code Panel''),
       pgFoldTitle := (if folded then ''Expand code editor panel'' else ''Fold code editor panel'')\<rparr>"

definition toggleEditorFold :: "'d page \<Rightarrow> 'd page" where
  "toggleEditorFold p =
     (let folded = \<not> pgEditorFolded p in
      applyEditorFold folded (p\<lparr>pgEditorFolded := folded,
        pgStorage := AList.update ''relay-playground-editor-folded'' (if folded then ''true'' else ''false'') (pgStorage p)\<rparr>))"

text \<open>The scripts \<open>DEMO_SCRIPTS\<close> are the argument \<open>demos\<close>.\<close>

definition switchDemo :: "(string, string) jsmap \<Rightarrow> string \<Rightarrow> 'd page \<Rightarrow> 'd page" where
  "switchDemo demos key p =
     (case map_of demos key of
        None \<Rightarrow> p
      | Some code \<Rightarrow> if code = [] then p else
          log_line (''Switched demo script to: '' @ key) ''info'' (updateHighlighting (p\<lparr>pgCode := code\<rparr>)))"

section \<open>The SQL bar\<close>

definition null_cell :: string where
  "null_cell = ''<span style='' @ dq @ ''color: var(--text-muted)'' @ dq @ ''>null</span>''"

definition cell_text :: "jsval \<Rightarrow> string" where
  "cell_text v = (case v of JUndef \<Rightarrow> null_cell | JNull \<Rightarrow> null_cell | JArr _ \<Rightarrow> json_stringify v
     | JObj _ \<Rightarrow> json_stringify v | _ \<Rightarrow> js_string v)"

definition table_row :: "string list \<Rightarrow> sql_row \<Rightarrow> string" where
  "table_row cols r = ''<tr>'' @ concat (map (\<lambda>c. ''<td>'' @ cell_text (field (JObj r) c) @ ''</td>'') cols) @ ''</tr>''"

definition empty_table :: string where
  "empty_table = ''<div style='' @ dq @ ''color: var(--text-muted); padding: 12px; font-size: 12px;'' @ dq @ ''>(0 rows returned)</div>''"

text \<open>\<open>renderTable\<close>: the markup put into \<open>innerHTML\<close>.\<close>

definition renderTable :: "sql_row list \<Rightarrow> string" where
  "renderTable rows =
     (case rows of
        [] \<Rightarrow> empty_table
      | r # _ \<Rightarrow> (let cols = map fst r in
          ''<table class='' @ dq @ ''data-table'' @ dq @ ''><thead><tr>''
          @ concat (map (\<lambda>c. ''<th>'' @ c @ ''</th>'') cols) @ ''</tr></thead><tbody>''
          @ concat (map (table_row cols) rows) @ ''</tbody></table>''))"

definition sql_error :: "string \<Rightarrow> string" where
  "sql_error msg = ''<div style='' @ dq @ ''color: var(--accent-red); padding: 12px; font-family: var(--font-mono); font-size: 12px;''
     @ dq @ ''>SQL Error: '' @ msg @ ''</div>''"

subsection \<open>The fallback engine\<close>

text \<open>
  The tables a statement's text names, and its first parameter. The store of the fallback is
  never written, so its state is the constant empty store.
\<close>

definition names_table :: "string \<Rightarrow> stmt \<Rightarrow> bool" where
  "names_table t s = (case s of
     InsertWorkflow _ \<Rightarrow> t = ''dbos.workflow_status''
   | InsertSteps _ \<Rightarrow> t = ''dbos.operation_execution''
   | FailWorkflow _ _ _ _ \<Rightarrow> t = ''dbos.workflow_status''
   | CompleteWorkflow _ _ _ _ \<Rightarrow> t = ''dbos.workflow_status''
   | LinkChild _ _ _ \<Rightarrow> t = ''dbos.operation_execution''
   | DeleteFrom u \<Rightarrow> t = u
   | InsertApplication _ _ _ _ \<Rightarrow> t = ''applications''
   | InsertExecutor _ _ _ _ _ _ \<Rightarrow> t = ''executors''
   | CreateSchema ts \<Rightarrow> t \<in> set ts
   | RawQuery txt _ \<Rightarrow> str_includes (to_lower txt) t)"

definition first_param :: "stmt \<Rightarrow> string option" where
  "first_param s = (case s of
     InsertWorkflow w \<Rightarrow> Some (pwId w)
   | InsertSteps (x # _) \<Rightarrow> Some (psWorkflow x)
   | FailWorkflow _ e _ _ \<Rightarrow> Some e
   | CompleteWorkflow _ v _ _ \<Rightarrow> Some v
   | RawQuery _ (p # _) \<Rightarrow> Some p
   | _ \<Rightarrow> None)"

record store =
  storeWorkflows :: "sql_row list"
  storeSteps :: "sql_row list"

definition empty_store :: store where
  "empty_store = \<lparr>storeWorkflows = [], storeSteps = []\<rparr>"

definition fallback_query :: "store \<Rightarrow> stmt \<Rightarrow> sql_row list" where
  "fallback_query st s =
     (if names_table ''dbos.workflow_status'' s then storeWorkflows st
      else if names_table ''dbos.operation_execution'' s then
        (case first_param s of
           Some p \<Rightarrow> filter (\<lambda>r. field (JObj r) ''workflow_id'' = JStr p) (storeSteps st)
         | None \<Rightarrow> storeSteps st)
      else [])"

subsection \<open>Sending a statement\<close>

definition no_db :: "string \<Rightarrow> string \<Rightarrow> string" where
  "no_db kind meth = ''Cannot read properties of '' @ kind @ '' (reading '' @ [char_of (39::nat)] @ meth @ [char_of (39::nat)] @ '')''"

text \<open>\<open>this.db\<close> is undefined and \<open>window.pgliteDb\<close> null until a database is there.\<close>

definition send_query :: "'d engine \<Rightarrow> string \<Rightarrow> stmt \<Rightarrow> 'd page \<Rightarrow> (string + sql_row list) \<times> 'd page" where
  "send_query e missing s p = (case pgDb p of
     NoDb \<Rightarrow> (Inl (no_db missing ''query''), p)
   | Fallback \<Rightarrow> (Inr (fallback_query empty_store s), p)
   | Pg d \<Rightarrow> (case eng_query e s d of (r, d') \<Rightarrow> (r, p\<lparr>pgDb := Pg d'\<rparr>)))"

definition send_exec :: "'d engine \<Rightarrow> stmt list \<Rightarrow> 'd page \<Rightarrow> (string + unit) \<times> 'd page" where
  "send_exec e ss p = (case pgDb p of
     NoDb \<Rightarrow> (Inl (no_db ''null'' ''exec''), p)
   | Fallback \<Rightarrow> (Inr (), p)
   | Pg d \<Rightarrow> (case eng_exec e ss d of (r, d') \<Rightarrow> (r, p\<lparr>pgDb := Pg d'\<rparr>)))"

definition executeSql :: "'d engine \<Rightarrow> string option \<Rightarrow> 'd page \<Rightarrow> 'd page" where
  "executeSql e overrideQuery p =
     (let query = trim (str_or (opt_str overrideQuery) (pgSqlInput p)) in
      if query = [] then p else
      (case send_query e ''null'' (RawQuery query []) p of
         (Inr rows, p') \<Rightarrow> p'\<lparr>pgResults := renderTable rows\<rparr>
       | (Inl msg, p') \<Rightarrow> p'\<lparr>pgResults := sql_error msg\<rparr>))"

section \<open>The scripts the methods perform\<close>

definition tick_mark :: string where
  "tick_mark = [char_of (134::nat)]"

definition cross_mark :: string where
  "cross_mark = [char_of (135::nat)]"

definition default_workflow :: pg_workflow where
  "default_workflow =
     \<lparr>pwId = [], pwStatus = [], pwName = [], pwClass = None, pwConfig = None, pwUser = ''playground-user'',
      pwAssumedRole = None, pwRoles = ''[]'', pwRequest = None, pwOutput = None, pwError = None,
      pwExecutor = None, pwAppId = ''ecommerce-checkout'', pwAppVersion = ''1.0.0'', pwCreatedAt = None,
      pwUpdatedAt = None, pwDurationMs = 0\<rparr>"

definition createSchema :: "action list" where
  "createSchema =
     [Exec [CreateSchema [''applications'', ''executors'', ''dbos.workflow_status'', ''dbos.operation_execution'', ''dbos.workflow_events'']],
      Log ''DBOS system schema (dbos.workflow_status, dbos.operation_execution) created'' ''success'']"

definition seed_workflow :: "string \<Rightarrow> string \<Rightarrow> int \<Rightarrow> (string \<times> jsval) list \<Rightarrow> stmt" where
  "seed_workflow wid name dur out =
     InsertWorkflow (default_workflow\<lparr>pwId := wid, pwStatus := ''SUCCESS'', pwName := name, pwDurationMs := dur,
       pwUser := ''alice@example.com'', pwOutput := Some (json out)\<rparr>)"

definition seed_step :: "string \<Rightarrow> nat \<Rightarrow> string \<Rightarrow> (string \<times> jsval) list \<Rightarrow> int \<Rightarrow> pg_step" where
  "seed_step wid n name out dur =
     \<lparr>psWorkflow = wid, psFunction = n, psName = name, psType = ''step'', psStatus = ''SUCCESS'', psInput = None,
      psOutput = Some (json out), psError = None, psChild = None, psDurationMs = dur, psCreatedAt = None\<rparr>"

definition seed_script :: "stmt list" where
  "seed_script =
     (let wfId = ''wf-ord-89214''; childAuthId = ''wf-child-auth-01''; childShipId = ''wf-child-ship-02'' in
      [DeleteFrom ''dbos.workflow_status'', DeleteFrom ''dbos.operation_execution'', DeleteFrom ''applications'', DeleteFrom ''executors'',
       InsertApplication ''ecommerce-checkout'' ''default'' ''AVAILABLE'' ''typescript'',
       InsertExecutor ''wasm-executor-1'' ''ecommerce-checkout'' ''healthy'' ''browser-wasm'' ''127.0.0.1'' ''1.0.0'',
       seed_workflow wfId ''ProcessCheckoutWorkflow'' 1242 [(''orderId'', JStr wfId), (''status'', JStr ''FULFILLED'')],
       InsertSteps
         [seed_step wfId 1 ''validateCart'' [(''valid'', JBool True), (''items'', jint 2)] 310,
          seed_step wfId 2 ''reserveInventory'' [(''reserved'', JBool True), (''sku'', JStr ''DBOS-RELAY-KEY'')] 245,
          seed_step wfId 3 ''authorizePaymentGateway'' [(''authId'', JStr childAuthId)] 412,
          seed_step wfId 4 ''scheduleShipping'' [(''carrier'', JStr ''FastTrack''), (''tracking'', JStr ''FT-99124'')] 180,
          seed_step wfId 5 ''sendReceiptNotification'' [(''delivered'', JBool True)] 95],
       seed_workflow childAuthId ''AuthorizePaymentGateway'' 412 [(''authorized'', JBool True)],
       InsertSteps
         [seed_step childAuthId 1 ''checkFraudVelocity'' [(''score'', jint 10), (''cleared'', JBool True)] 120,
          seed_step childAuthId 2 ''chargeCard'' [(''card'', JStr ''*4242''), (''captured'', JBool True)] 292],
       LinkChild childAuthId wfId 3,
       seed_workflow childShipId ''ReserveWarehouseInventory'' 180 [(''allocated'', JBool True)],
       InsertSteps
         [seed_step childShipId 1 ''locateOptimalBin'' [(''bin'', JStr ''A-12-04'')] 85,
          seed_step childShipId 2 ''lockInventorySlot'' [(''locked'', JBool True)] 95],
       LinkChild childShipId wfId 4])"

text \<open>\<open>refreshConsole\<close> and \<open>broadcastUpdate\<close> are the two forms of \<open>Post\<close>.\<close>

definition refreshConsole :: action where
  "refreshConsole = Post ''workflow_update'' None"

definition broadcastUpdate :: "string \<Rightarrow> string \<Rightarrow> string \<Rightarrow> action" where
  "broadcastUpdate event wid status = Post event (Some (wid, status))"

definition seedInitialData :: "action list" where
  "seedInitialData =
     [Exec seed_script,
      Log ''Pre-populated demo workflow wf-ord-89214 with 2 child workflows into PGlite'' ''info'',
      refreshConsole]"

definition all_workflows :: string where
  "all_workflows = ''SELECT * FROM dbos.workflow_status;''"

definition initDatabase :: "action list" where
  "initDatabase =
     [Log ''Initializing in-browser PGlite (PostgreSQL 16 WebAssembly)...'' ''info'', Import,
      Log ''PGlite WASM engine started successfully in browser memory'' ''success'',
      DbStatus ''PGlite (Postgres 16 WASM) Ready'' ''ready'']
     @ createSchema @ seedInitialData @ [ShowSql (Some all_workflows)]"

definition resetDatabase :: "action list" where
  "resetDatabase =
     [Log ''Resetting in-browser database to pristine demo state...'' ''info''] @ seedInitialData
     @ [ShowSql (Some all_workflows), Hash ''#fleet'', Log ''Database reset complete'' ''success'']"

subsection \<open>The checkout run\<close>

definition root_id :: "nat \<Rightarrow> string" where
  "root_id n = ''wf-ord-'' @ show_nat n"

definition pay_id :: "nat \<Rightarrow> string" where
  "pay_id n = ''wf-pay-'' @ show_nat n"

definition run_workflow_row ::
  "string \<Rightarrow> string \<Rightarrow> string \<Rightarrow> string \<Rightarrow> (string \<times> jsval) list \<Rightarrow> string option \<Rightarrow> int \<Rightarrow> stmt" where
  "run_workflow_row wid status name cls req out now =
     InsertWorkflow
       (\<lparr>pwId = wid, pwStatus = status, pwName = name, pwClass = Some cls, pwConfig = Some ''default'',
        pwUser = ''customer-portal'', pwAssumedRole = Some ''customer'', pwRoles = json_stringify (JArr [JStr ''customer'']),
        pwRequest = Some (json req), pwOutput = out, pwError = None, pwExecutor = Some ''exec-inbrowser-1'',
        pwAppId = ''app-ecommerce'', pwAppVersion = ''1.0.0'', pwCreatedAt = Some now, pwUpdatedAt = Some now,
        pwDurationMs = 0\<rparr>)"

definition run_step_row ::
  "string \<Rightarrow> nat \<Rightarrow> string \<Rightarrow> string \<Rightarrow> string \<Rightarrow> (string \<times> jsval) list \<Rightarrow> string option \<Rightarrow> string option \<Rightarrow> string option \<Rightarrow> int \<Rightarrow> int \<Rightarrow> pg_step" where
  "run_step_row wid n name typ status inp out err child dur now =
     \<lparr>psWorkflow = wid, psFunction = n, psName = name, psType = typ, psStatus = status, psInput = Some (json inp),
      psOutput = out, psError = err, psChild = child, psDurationMs = dur, psCreatedAt = Some now\<rparr>"

definition run_start :: "nat \<Rightarrow> action list" where
  "run_start n =
     [Query (run_workflow_row (root_id n) ''PENDING'' ''ProcessCheckoutWorkflow'' ''OrderService''
        [(''orderId'', JStr (root_id n)), (''items'', JArr [JStr ''dbos-pro-license'', JStr ''relay-support-tier'']), (''amount'', jint 299)] None),
      broadcastUpdate ''workflow_created'' (root_id n) ''PENDING'',
      Hash (''#/workflow/'' @ root_id n), ShowSql None, Sleep 450]"

definition run_step1 :: "nat \<Rightarrow> action list" where
  "run_step1 n =
     [Log ''[Step 1/5] Executing validateCart...'' ''step'',
      Query (\<lambda>now. InsertSteps [run_step_row (root_id n) 0 ''validateCart'' ''step'' ''SUCCESS''
        [(''orderId'', JStr (root_id n)), (''amount'', jint 299)]
        (Some (json [(''valid'', JBool True), (''items'', JArr [JStr ''dbos-pro-license'', JStr ''relay-support-tier''])])) None None 450 now]),
      Log (tick_mark @ '' Step 1: validateCart completed in 450ms'') ''success'', ShowSql None, Sleep 400]"

definition failed_branch :: "nat \<Rightarrow> action list" where
  "failed_branch n =
     [Query (\<lambda>now. InsertSteps [run_step_row (root_id n) 1 ''reserveInventory'' ''step'' ''ERROR''
        [(''sku'', JStr ''DBOS-RELAY-KEY''), (''qty'', jint 2)] None
        (Some (json [(''code'', JStr ''INVENTORY_SHORTAGE''),
           (''message'', JStr ''Requested stock SKU DBOS-RELAY-KEY exhausted in regional warehouse'')])) None 320 now]),
      Query (FailWorkflow (root_id n) (json [(''message'', JStr ''Step reserveInventory failed: InventoryShortageError'')]) 1220),
      Log (cross_mark @ '' Step 2: reserveInventory FAILED (Simulated Failure Injected)'') ''error'',
      Log (''[DBOS] Workflow '' @ root_id n @ '' entered ERROR state. Transaction rolled back cleanly.'') ''error'',
      broadcastUpdate ''workflow_failed'' (root_id n) ''ERROR'', ShowSql None]"

definition run_step2 :: "nat \<Rightarrow> action list" where
  "run_step2 n =
     [Log ''[Step 2/5] Executing reserveInventory...'' ''step'', IfFailure (failed_branch n),
      Query (\<lambda>now. InsertSteps [run_step_row (root_id n) 1 ''reserveInventory'' ''step'' ''SUCCESS''
        [(''sku'', JStr ''DBOS-RELAY-KEY''), (''qty'', jint 2)]
        (Some (json [(''reserved'', JBool True), (''sku'', JStr ''DBOS-RELAY-KEY''), (''warehouse'', JStr ''us-west-primary'')])) None None 400 now]),
      Log (tick_mark @ '' Step 2: reserveInventory completed in 400ms'') ''success'', ShowSql None, Sleep 500]"

definition run_step3 :: "nat \<Rightarrow> action list" where
  "run_step3 n =
     [Log (''[Step 3/5] Spawning Child Workflow AuthorizePaymentGateway ('' @ pay_id n @ '')...'') ''step'',
      Query (run_workflow_row (pay_id n) ''SUCCESS'' ''AuthorizePaymentGateway'' ''PaymentService''
        [(''parentId'', JStr (root_id n)), (''amount'', jint 299), (''currency'', JStr ''USD'')]
        (Some (json [(''authCode'', JStr ''AUTH-89214-OK''), (''gateway'', JStr ''Stripe-Mock'')]))),
      Query (\<lambda>now. InsertSteps [run_step_row (root_id n) 2 ''authorizePayment'' ''child_workflow'' ''SUCCESS''
        [(''amount'', jint 299)] (Some (json [(''authorized'', JBool True), (''transactionId'', JStr ''tx_mock_9921'')]))
        None (Some (pay_id n)) 650 now]),
      Query (\<lambda>now. InsertSteps
        [run_step_row (pay_id n) 0 ''checkFraudVelocity'' ''step'' ''SUCCESS'' [(''score'', jint 5)] (Some (json [(''cleared'', JBool True)])) None None 180 now,
         run_step_row (pay_id n) 1 ''chargeCard'' ''step'' ''SUCCESS'' [(''card'', JStr ''*4242''), (''amount'', jint 299)]
           (Some (json [(''captured'', JBool True), (''authCode'', JStr ''AUTH-89214-OK'')])) None None 470 now]),
      Log (tick_mark @ '' Step 3: Child Workflow AuthorizePaymentGateway ('' @ pay_id n @ '') completed in 650ms'') ''success'',
      ShowSql None, Sleep 400]"

definition run_step4 :: "nat \<Rightarrow> action list" where
  "run_step4 n =
     [Log ''[Step 4/5] Executing scheduleShipping...'' ''step'',
      Query (\<lambda>now. InsertSteps [run_step_row (root_id n) 3 ''scheduleShipping'' ''step'' ''SUCCESS''
        [(''carrier'', JStr ''FastTrack''), (''orderId'', JStr (root_id n))]
        (Some (json [(''trackingNumber'', JStr ''FT-9912048''), (''status'', JStr ''DISPATCHED'')])) None None 380 now]),
      Log (tick_mark @ '' Step 4: scheduleShipping completed in 380ms (Tracking: FT-9912048)'') ''success'', ShowSql None, Sleep 350]"

definition run_step5 :: "nat \<Rightarrow> action list" where
  "run_step5 n =
     [Log ''[Step 5/5] Executing sendReceiptNotification...'' ''step'',
      Query (\<lambda>now. InsertSteps [run_step_row (root_id n) 4 ''sendReceiptNotification'' ''step'' ''SUCCESS''
        [(''recipient'', JStr ''operator@example.com''), (''orderId'', JStr (root_id n))]
        (Some (json [(''delivered'', JBool True), (''timestamp'', jint now)])) None None 220 now]),
      Log (tick_mark @ '' Step 5: sendReceiptNotification completed in 220ms'') ''success'']"

definition run_finish :: "nat \<Rightarrow> action list" where
  "run_finish n =
     [Query (CompleteWorkflow (root_id n)
        (json [(''status'', JStr ''ORDER_FULFILLED''), (''orderId'', JStr (root_id n)),
           (''invoiceUrl'', JStr (''https://relay.local/invoices/'' @ root_id n))]) 2100),
      Log (tick_mark @ '' [DBOS] Workflow '' @ root_id n @ '' completed with status SUCCESS (2100ms total duration)'') ''success'',
      broadcastUpdate ''workflow_completed'' (root_id n) ''SUCCESS'', ShowSql None]"

definition checkout_script :: "nat \<Rightarrow> action list" where
  "checkout_script n = run_start n @ run_step1 n @ run_step2 n @ run_step3 n @ run_step4 n @ run_step5 n @ run_finish n"

text \<open>
  \<open>runWorkflow\<close> up to its first \<open>await\<close>: the guard, the button, the identifiers from the random
  suffix \<open>n\<close>, two log lines; the rest is the task.
\<close>

definition runWorkflow :: "nat \<Rightarrow> 'd page \<Rightarrow> 'd page" where
  "runWorkflow n p =
     (if pgIsRunning p then p
      else (log_line (''[DBOS] Starting workflow ProcessCheckoutWorkflow ('' @ root_id n @ '')'') ''step''
             (log_line (replicate 50 (CHR ''-'')) ''step''
               (p\<lparr>pgIsRunning := True, pgRunDisabled := True, pgActive := Some (root_id n),
                  pgTasks := pgTasks p @ [(Run, checkout_script n)]\<rparr>))))"

section \<open>Tasks and events\<close>

datatype flow = Continue | Jump "action list" | Throw string

text \<open>One action. \<open>now\<close> is \<open>Date.now()\<close>, \<open>imp\<close> the outcome of the dynamic import with \<open>new PGlite()\<close>.\<close>

definition perform :: "'d engine \<Rightarrow> int \<Rightarrow> string + 'd \<Rightarrow> action \<Rightarrow> 'd page \<Rightarrow> flow \<times> 'd page" where
  "perform e now imp a p = (case a of
     Log msg typ \<Rightarrow> (Continue, log_line msg typ p)
   | Query s \<Rightarrow> (case send_query e ''undefined'' (s now) p of
        (Inl msg, p') \<Rightarrow> (Throw msg, p') | (Inr _, p') \<Rightarrow> (Continue, p'))
   | Exec ss \<Rightarrow> (case send_exec e ss p of (Inl msg, p') \<Rightarrow> (Throw msg, p') | (Inr _, p') \<Rightarrow> (Continue, p'))
   | Post ev dat \<Rightarrow> (Continue, p\<lparr>pgPosts := pgPosts p @ [(ev, dat)]\<rparr>)
   | Hash h \<Rightarrow> (Continue, p\<lparr>pgHash := Some h\<rparr>)
   | ShowSql txt \<Rightarrow> (Continue, executeSql e txt p)
   | Sleep _ \<Rightarrow> (Continue, p)
   | IfFailure as \<Rightarrow> (if pgInjectFailure p then Jump as else Continue, p)
   | Import \<Rightarrow> (case imp of Inl msg \<Rightarrow> (Throw msg, p) | Inr d \<Rightarrow> (Continue, p\<lparr>pgDb := Pg d\<rparr>))
   | DbStatus txt state \<Rightarrow> (Continue, setDbStatus txt state p))"

definition initFallbackEngine :: "'d page \<Rightarrow> 'd page" where
  "initFallbackEngine p =
     (let p' = setDbStatus ''In-Memory Engine Ready'' ''ready'' (p\<lparr>pgDb := Fallback\<rparr>)
      in p'\<lparr>pgTasks := pgTasks p' @ [(Plain, seedInitialData)]\<rparr>)"

text \<open>The \<open>finally\<close> of \<open>runWorkflow\<close>, and what a task does when it ends or throws.\<close>

definition finish_run :: "'d page \<Rightarrow> 'd page" where
  "finish_run p = p\<lparr>pgIsRunning := False, pgRunDisabled := False\<rparr>"

definition task_ends :: "kind \<Rightarrow> 'd page \<Rightarrow> 'd page" where
  "task_ends k p = (case k of Run \<Rightarrow> finish_run p | _ \<Rightarrow> p)"

definition task_throws :: "kind \<Rightarrow> string \<Rightarrow> 'd page \<Rightarrow> 'd page" where
  "task_throws k msg p = (case k of
     Run \<Rightarrow> finish_run (log_line (''Execution error: '' @ msg) ''error'' p)
   | Init \<Rightarrow> initFallbackEngine
       (log_line (''PGlite CDN load failed: '' @ msg @ ''. Initializing fallback in-memory SQLite emulator...'') ''warn'' p)
   | Plain \<Rightarrow> p)"

definition drop_task :: "nat \<Rightarrow> 'a list \<Rightarrow> 'a list" where
  "drop_task i ts = take i ts @ drop (Suc i) ts"

definition tick :: "'d engine \<Rightarrow> nat \<Rightarrow> int \<Rightarrow> string + 'd \<Rightarrow> 'd page \<Rightarrow> 'd page" where
  "tick e i now imp p =
     (if i < length (pgTasks p) then
       (case pgTasks p ! i of
          (k, []) \<Rightarrow> task_ends k (p\<lparr>pgTasks := drop_task i (pgTasks p)\<rparr>)
        | (k, a # as) \<Rightarrow> (case perform e now imp a p of
             (Continue, p') \<Rightarrow> p'\<lparr>pgTasks := (pgTasks p)[i := (k, as)]\<rparr>
           | (Jump bs, p') \<Rightarrow> p'\<lparr>pgTasks := (pgTasks p)[i := (k, bs)]\<rparr>
           | (Throw msg, p') \<Rightarrow> task_throws k msg (p'\<lparr>pgTasks := drop_task i (pgTasks p)\<rparr>)))
      else p)"

datatype 'd event =
    Tick nat int "string + 'd"
  | ClickRun nat
  | ClickFailure
  | ClickReset
  | ClickTheme
  | ClickFold
  | ChooseDemo string
  | EditCode string
  | TabKey nat nat
  | TypeSql string
  | RunSql
  | Preset string
  | ThemeMessage string

definition start_task :: "action list \<Rightarrow> 'd page \<Rightarrow> 'd page" where
  "start_task as p = p\<lparr>pgTasks := pgTasks p @ [(Plain, as)]\<rparr>"

text \<open>The listeners of \<open>initElements\<close>.\<close>

definition play_event :: "'d engine \<Rightarrow> (string, string) jsmap \<Rightarrow> 'd event \<Rightarrow> 'd page \<Rightarrow> 'd page" where
  "play_event e demos ev p = (case ev of
     Tick i now imp \<Rightarrow> tick e i now imp p
   | ClickRun n \<Rightarrow> runWorkflow n p
   | ClickFailure \<Rightarrow> toggleFailure p
   | ClickReset \<Rightarrow> start_task resetDatabase p
   | ClickTheme \<Rightarrow> toggleTheme p
   | ClickFold \<Rightarrow> toggleEditorFold p
   | ChooseDemo key \<Rightarrow> switchDemo demos key p
   | EditCode txt \<Rightarrow> updateHighlighting (p\<lparr>pgCode := txt\<rparr>)
   | TabKey start stop \<Rightarrow> tab_key start stop p
   | TypeSql txt \<Rightarrow> p\<lparr>pgSqlInput := txt\<rparr>
   | RunSql \<Rightarrow> executeSql e None p
   | Preset txt \<Rightarrow> executeSql e None (p\<lparr>pgSqlInput := txt\<rparr>)
   | ThemeMessage theme \<Rightarrow> setTheme theme False p)"

definition play :: "'d engine \<Rightarrow> (string, string) jsmap \<Rightarrow> 'd event list \<Rightarrow> 'd page \<Rightarrow> 'd page" where
  "play e demos evs p = foldl (\<lambda>q ev. play_event e demos ev q) p evs"

text \<open>
  The constructor and \<open>initElements\<close>: \<open>stored\<close> is the local storage, \<open>editor_param\<close> the query
  parameter \<open>editor\<close>, \<open>sql\<close> the text in the SQL bar of the page.
\<close>

definition folded_at_start :: "(string, string) jsmap \<Rightarrow> string option \<Rightarrow> bool" where
  "folded_at_start stored editor_param =
     (if editor_param = Some ''folded'' then True
      else if editor_param = Some ''expanded'' then False
      else map_of stored ''relay-playground-editor-folded'' = Some ''true'')"

definition new_page :: "(string, string) jsmap \<Rightarrow> string option \<Rightarrow> string \<Rightarrow> (string, string) jsmap \<Rightarrow> 'd page" where
  "new_page stored editor_param sql demos =
     updateHighlighting (setTheme (str_or (opt_str (map_of stored ''relay-theme'')) ''dark'') False
       ((if folded_at_start stored editor_param then applyEditorFold True else id)
         \<lparr>pgInjectFailure = False, pgIsRunning = False, pgRunDisabled = False, pgFailLabel = ''Inject Step Failure'',
          pgActive = None, pgEditorFolded = folded_at_start stored editor_param, pgPaneFolded = False,
          pgFoldLabel = ''Fold Code Panel'', pgFoldTitle = ''Toggle code editor panel (fold/expand)'', pgTheme = [],
          pgThemeLabel = [], pgStorage = stored, pgCode = opt_str (map_of demos ''checkout''), pgHighlight = [],
          pgCaret = (0, 0), pgSqlInput = sql, pgResults = [], pgDbStatus = (''PGlite Loading...'', ''status-dot''), pgLog = [], pgPosts = [],
          pgHash = None, pgFrameThemes = [], pgDb = NoDb, pgTasks = [(Init, initDatabase)]\<rparr>))"

inductive play_reachable :: "'d engine \<Rightarrow> (string, string) jsmap \<Rightarrow> 'd page \<Rightarrow> bool" for e demos where
  opened: "play_reachable e demos (new_page stored editor_param sql demos)"
| event: "play_reachable e demos p \<Longrightarrow> play_reachable e demos (play_event e demos ev p)"

section \<open>At most one run, and every run ends\<close>

text \<open>The most ticks a list of actions can take.\<close>

fun cost :: "action list \<Rightarrow> nat" where
  "cost [] = 0"
| "cost (IfFailure bs # as) = Suc (max (cost bs) (cost as))"
| "cost (a # as) = Suc (cost as)"

definition task_cost :: "task \<Rightarrow> nat" where
  "task_cost t = (if fst t = Run then Suc (cost (snd t)) else 0)"

definition run_left :: "'d page \<Rightarrow> nat" where
  "run_left p = sum_list (map task_cost (pgTasks p))"

definition runs :: "'d page \<Rightarrow> nat" where
  "runs p = length (filter (\<lambda>t. fst t = Run) (pgTasks p))"

definition page_inv :: "'d page \<Rightarrow> bool" where
  "page_inv p \<longleftrightarrow> runs p = (if pgIsRunning p then 1 else 0) \<and> pgRunDisabled p = pgIsRunning p
     \<and> run_left p \<le> 36 \<and> pgPaneFolded p = pgEditorFolded p"

definition same_run :: "'d page \<Rightarrow> 'd page \<Rightarrow> bool" where
  "same_run p q \<longleftrightarrow> pgTasks q = pgTasks p \<and> pgIsRunning q = pgIsRunning p \<and> pgRunDisabled q = pgRunDisabled p
     \<and> pgPaneFolded q = pgPaneFolded p \<and> pgEditorFolded q = pgEditorFolded p"

lemma same_run_refl [simp]: "same_run p p"
  by (simp add: same_run_def)

lemma cost_tail: "cost as < cost (a # as)" "cost bs < cost (IfFailure bs # as)"
  by (cases a) auto

lemma checkout_cost: "task_cost (Run, checkout_script n) = 36"
  by (simp add: task_cost_def checkout_script_def run_start_def run_step1_def run_step2_def failed_branch_def
      run_step3_def run_step4_def run_step5_def run_finish_def broadcastUpdate_def)

lemma send_same_run:
  "same_run p (snd (send_query e m s p))" "same_run p (snd (send_exec e ss p))"
  by (auto simp: same_run_def send_query_def send_exec_def split: handle.splits prod.splits)

lemma executeSql_same_run: "same_run p (executeSql e txt p)"
proof -
  obtain r q where rq: "send_query e ''null'' (RawQuery (trim (str_or (opt_str txt) (pgSqlInput p))) []) p = (r, q)"
    by (meson surj_pair)
  have "same_run p q" using send_same_run(1) [of p e "''null''"] rq by (metis snd_conv)
  then show ?thesis by (auto simp: executeSql_def Let_def rq same_run_def split: sum.splits)
qed

lemma perform_same_run: "same_run p (snd (perform e now imp a p))"
proof (cases a)
  case (Query s)
  then show ?thesis using send_same_run(1) [of p e "''undefined''" "s now"]
    by (auto simp: perform_def split: prod.splits sum.splits)
next
  case (Exec ss)
  then show ?thesis using send_same_run(2) [of p e ss]
    by (auto simp: perform_def split: prod.splits sum.splits)
next
  case (ShowSql t)
  then show ?thesis using executeSql_same_run [of p e t] by (simp add: perform_def)
qed (auto simp: perform_def same_run_def log_line_def setDbStatus_def split: sum.splits)

lemma perform_jump: "fst (perform e now imp a p) = Jump bs \<Longrightarrow> a = IfFailure bs"
  by (cases a) (auto simp: perform_def split: prod.splits sum.splits if_splits)

lemma sum_update:
  "i < length ts \<Longrightarrow> sum_list (map f (ts[i := t])) + f (ts ! i) = sum_list (map f ts) + (f t :: nat)"
  by (induction ts arbitrary: i) (auto split: nat.splits)

lemma sum_drop:
  "i < length ts \<Longrightarrow> sum_list (map f (drop_task i ts)) + f (ts ! i) = sum_list (map f ts :: nat list)"
proof -
  assume "i < length ts"
  then have "sum_list (map f ts) = sum_list (map f (take i ts @ ts ! i # drop (Suc i) ts))"
    by (metis id_take_nth_drop)
  then show ?thesis by (simp add: drop_task_def)
qed

definition is_run :: "task \<Rightarrow> nat" where
  "is_run t = (if fst t = Run then 1 else 0)"

lemma count_runs: "length (filter (\<lambda>t. fst t = Run) ts) = sum_list (map is_run ts)"
  by (induction ts) (auto simp: is_run_def)

lemma runs_sum: "runs p = sum_list (map is_run (pgTasks p))"
  by (simp add: runs_def count_runs)

lemma is_run_cost: "is_run t \<le> task_cost t"
  by (simp add: is_run_def task_cost_def)

lemma runs_left: "runs p \<le> run_left p"
  unfolding runs_sum run_left_def by (induction "pgTasks p") (auto intro: add_mono is_run_cost sum_list_mono)

subsection \<open>The effect of a tick\<close>

definition moved :: "nat \<Rightarrow> 'd page \<Rightarrow> 'd page \<Rightarrow> bool" where
  "moved i p q \<longleftrightarrow> (\<exists>as. pgTasks q = (pgTasks p)[i := (fst (pgTasks p ! i), as)]
       \<and> cost as < cost (snd (pgTasks p ! i)))
     \<and> pgIsRunning q = pgIsRunning p \<and> pgRunDisabled q = pgRunDisabled p
     \<and> pgPaneFolded q = pgPaneFolded p \<and> pgEditorFolded q = pgEditorFolded p"

definition ended :: "nat \<Rightarrow> 'd page \<Rightarrow> 'd page \<Rightarrow> bool" where
  "ended i p q \<longleftrightarrow> (\<exists>ts. pgTasks q = drop_task i (pgTasks p) @ ts \<and> (\<forall>t\<in>set ts. fst t \<noteq> Run))
     \<and> (if fst (pgTasks p ! i) = Run then \<not> pgIsRunning q \<and> \<not> pgRunDisabled q
        else pgIsRunning q = pgIsRunning p \<and> pgRunDisabled q = pgRunDisabled p)
     \<and> pgPaneFolded q = pgPaneFolded p \<and> pgEditorFolded q = pgEditorFolded p"

lemma task_ends_ended:
  "same_run p q \<Longrightarrow> fst (pgTasks p ! i) = k \<Longrightarrow> ended i p (task_ends k (q\<lparr>pgTasks := drop_task i (pgTasks p)\<rparr>))"
  by (cases k) (auto simp: ended_def task_ends_def finish_run_def same_run_def)

lemma task_throws_ended:
  "same_run p q \<Longrightarrow> fst (pgTasks p ! i) = k \<Longrightarrow> ended i p (task_throws k msg (q\<lparr>pgTasks := drop_task i (pgTasks p)\<rparr>))"
  by (cases k) (auto simp: ended_def task_throws_def finish_run_def same_run_def log_line_def initFallbackEngine_def setDbStatus_def)

lemma tick_effect:
  assumes i: "i < length (pgTasks p)"
  shows "moved i p (tick e i now imp p) \<or> ended i p (tick e i now imp p)"
proof (cases "pgTasks p ! i")
  case (Pair k as)
  show ?thesis
  proof (cases as)
    case Nil
    then show ?thesis using i Pair task_ends_ended [of p p i k] by (simp add: tick_def)
  next
    case (Cons a bs)
    obtain f q where fq: "perform e now imp a p = (f, q)" by (meson surj_pair)
    have same: "same_run p q" using perform_same_run [of p e now imp a] fq by simp
    show ?thesis
    proof (cases f)
      case Continue
      then show ?thesis using i Pair Cons fq same by (auto simp: tick_def moved_def same_run_def intro: cost_tail)
    next
      case (Jump cs)
      then have "a = IfFailure cs" using perform_jump [of e now imp a p cs] fq by simp
      then show ?thesis using i Pair Cons fq Jump same by (auto simp: tick_def moved_def same_run_def intro: cost_tail)
    next
      case (Throw msg)
      then show ?thesis using i Pair Cons fq task_throws_ended [OF same, of i k] by (simp add: tick_def)
    qed
  qed
qed

lemma tick_outside: "\<not> i < length (pgTasks p) \<Longrightarrow> tick e i now imp p = p"
  by (simp add: tick_def)

lemma no_run_sum: "\<forall>t\<in>set ts. fst t \<noteq> Run \<Longrightarrow> sum_list (map is_run ts) = 0 \<and> sum_list (map task_cost ts) = 0"
  by (induction ts) (auto simp: is_run_def task_cost_def)

lemma moved_counts:
  assumes "i < length (pgTasks p)" "moved i p q"
  shows "runs q = runs p \<and> run_left q + is_run (pgTasks p ! i) \<le> run_left p"
proof -
  obtain as where as: "pgTasks q = (pgTasks p)[i := (fst (pgTasks p ! i), as)]"
    "cost as < cost (snd (pgTasks p ! i))" using assms(2) by (auto simp: moved_def)
  show ?thesis
    using as(2) sum_update [OF assms(1), of is_run "(fst (pgTasks p ! i), as)"]
      sum_update [OF assms(1), of task_cost "(fst (pgTasks p ! i), as)"]
    by (auto simp: runs_sum run_left_def as(1) is_run_def task_cost_def split: if_splits)
qed

lemma ended_counts:
  assumes "i < length (pgTasks p)" "ended i p q"
  shows "runs q + is_run (pgTasks p ! i) = runs p \<and> run_left q + is_run (pgTasks p ! i) \<le> run_left p"
proof -
  obtain ts where ts: "pgTasks q = drop_task i (pgTasks p) @ ts" "\<forall>t\<in>set ts. fst t \<noteq> Run"
    using assms(2) by (auto simp: ended_def)
  have none: "sum_list (map is_run ts) = 0" "sum_list (map task_cost ts) = 0" using no_run_sum [OF ts(2)] by auto
  show ?thesis
    using sum_drop [OF assms(1), of is_run] sum_drop [OF assms(1), of task_cost]
      is_run_cost [of "pgTasks p ! i"]
    by (simp add: runs_sum run_left_def ts(1) none)
qed

definition hits_run :: "'d event \<Rightarrow> 'd page \<Rightarrow> nat" where
  "hits_run ev p = (case ev of Tick i _ _ \<Rightarrow> (if i < length (pgTasks p) then is_run (pgTasks p ! i) else 0) | _ \<Rightarrow> 0)"

lemma tick_counts:
  "run_left (tick e i now imp p) + hits_run (Tick i now imp) p \<le> run_left p"
  using tick_effect [of i p e now imp] moved_counts [of i p] ended_counts [of i p]
  by (cases "i < length (pgTasks p)") (auto simp: hits_run_def tick_outside)

lemma tick_inv [inv_intros]:
  assumes inv: "page_inv p" shows "page_inv (tick e i now imp p)"
proof (cases "i < length (pgTasks p)")
  case True
  have left: "run_left (tick e i now imp p) \<le> 36" using tick_counts [of e i now imp p] inv by (simp add: page_inv_def)
  from tick_effect [OF True, of e now imp] show ?thesis
  proof
    assume m: "moved i p (tick e i now imp p)"
    then show ?thesis using inv left moved_counts [OF True m] by (auto simp: page_inv_def moved_def)
  next
    assume d: "ended i p (tick e i now imp p)"
    then show ?thesis using inv left ended_counts [OF True d]
      by (auto simp: page_inv_def ended_def is_run_def split: if_splits)
  qed
qed (simp add: inv tick_outside)

lemma same_run_counts: "same_run p q \<Longrightarrow> runs q = runs p \<and> run_left q = run_left p"
  by (simp add: same_run_def runs_def run_left_def)

lemma same_run_inv: "same_run p q \<Longrightarrow> page_inv p \<Longrightarrow> page_inv q"
  by (simp add: same_run_def page_inv_def runs_def run_left_def)

lemma view_events_same_run:
  "same_run p (toggleFailure p)" "same_run p (toggleTheme p)" "same_run p (setTheme t b p)"
  "same_run p (switchDemo demos key p)" "same_run p (updateHighlighting (p\<lparr>pgCode := txt\<rparr>))"
  "same_run p (tab_key x y p)" "same_run p (p\<lparr>pgSqlInput := txt\<rparr>)"
  by (auto simp: same_run_def toggleFailure_def toggleTheme_def setTheme_def switchDemo_def updateHighlighting_def
      tab_key_def log_line_def Let_def split: option.splits)

lemma preset_same_run: "same_run p (executeSql e None (p\<lparr>pgSqlInput := txt\<rparr>))"
  using executeSql_same_run [of "p\<lparr>pgSqlInput := txt\<rparr>" e None] by (simp add: same_run_def)

lemma fold_counts:
  "runs (toggleEditorFold p) = runs p" "run_left (toggleEditorFold p) = run_left p"
  "runs (start_task as p) = runs p" "run_left (start_task as p) = run_left p"
  by (simp_all add: toggleEditorFold_def applyEditorFold_def runs_def run_left_def Let_def start_task_def task_cost_def)

lemma fold_inv [inv_intros]: "page_inv p \<Longrightarrow> page_inv (toggleEditorFold p)"
  by (simp add: page_inv_def fold_counts) (simp add: toggleEditorFold_def applyEditorFold_def Let_def)

lemma start_task_inv [inv_intros]: "page_inv p \<Longrightarrow> page_inv (start_task as p)"
  by (simp add: page_inv_def fold_counts) (simp add: start_task_def)

lemma runWorkflow_inv [inv_intros]: "page_inv p \<Longrightarrow> page_inv (runWorkflow n p)"
proof (cases "pgIsRunning p")
  case False
  assume inv: "page_inv p"
  then have none: "\<forall>t\<in>set (pgTasks p). fst t \<noteq> Run" using False by (auto simp: page_inv_def runs_def filter_empty_conv)
  have "run_left (runWorkflow n p) = 36" "runs (runWorkflow n p) = 1"
    using none no_run_sum [OF none] checkout_cost [of n] False
    by (auto simp: runWorkflow_def run_left_def runs_def log_line_def)
  then show ?thesis using inv False by (simp add: page_inv_def runWorkflow_def log_line_def)
qed (simp add: runWorkflow_def)

definition moves_tasks :: "'d event \<Rightarrow> bool" where
  "moves_tasks ev = (case ev of Tick _ _ _ \<Rightarrow> True | ClickRun _ \<Rightarrow> True | ClickReset \<Rightarrow> True | ClickFold \<Rightarrow> True | _ \<Rightarrow> False)"

lemma event_same_run: "\<not> moves_tasks ev \<Longrightarrow> same_run p (play_event e demos ev p)"
  by (cases ev) (simp_all add: moves_tasks_def play_event_def view_events_same_run executeSql_same_run preset_same_run)

lemma play_event_inv: "page_inv p \<Longrightarrow> page_inv (play_event e demos ev p)"
proof (cases "moves_tasks ev")
  case True
  then show "page_inv p \<Longrightarrow> ?thesis" by (cases ev) (auto simp: moves_tasks_def play_event_def intro: inv_intros)
qed (rule same_run_inv [OF event_same_run])

lemma new_page_inv: "page_inv (new_page stored editor_param sql demos)"
  by (simp add: page_inv_def new_page_def runs_def run_left_def task_cost_def updateHighlighting_def setTheme_def applyEditorFold_def)

lemma reachable_inv: "play_reachable e demos p \<Longrightarrow> page_inv p"
  by (induction rule: play_reachable.induct) (auto intro: new_page_inv play_event_inv)

text \<open>
  C34: In every state of the playground page, whatever the database answers and however the clicks
  are interleaved with the asynchronous methods under way, at most one checkout run is in
  progress, the \<open>isRunning\<close> flag and the disabled Run button say exactly whether there is one,
  that run is at most 36 actions from its end, and the editor pane is folded exactly when
  \<open>editorFolded\<close> is set.
\<close>

theorem one_run_at_a_time:
  "play_reachable e demos p \<Longrightarrow>
   length (filter (\<lambda>t. fst t = Run) (pgTasks p)) = (if pgIsRunning p then 1 else 0)
   \<and> pgRunDisabled p = pgIsRunning p \<and> run_left p \<le> 36 \<and> pgPaneFolded p = pgEditorFolded p"
  by (drule reachable_inv) (simp add: page_inv_def runs_def)

theorem one_run_at_a_time_witness:
  "length (filter (\<lambda>t. fst t = Run) (pgTasks (runWorkflow 10007 (new_page [] None [] [] :: unit page)))) = 1"
proof -
  let ?e = "\<lparr>eng_query = (\<lambda>s d. (Inr [], d)), eng_exec = (\<lambda>ss d. (Inr (), d))\<rparr> :: unit engine"
  have "play_reachable ?e [] (play_event ?e [] (ClickRun 10007) (new_page [] None [] []))"
    by (intro play_reachable.intros)
  then show ?thesis
    using one_run_at_a_time [of ?e "[]" "play_event ?e [] (ClickRun 10007) (new_page [] None [] [])"]
    by (simp add: play_event_def runWorkflow_def new_page_def log_line_def updateHighlighting_def setTheme_def folded_at_start_def)
qed

subsection \<open>Every run ends\<close>

fun run_ticks :: "'d engine \<Rightarrow> (string, string) jsmap \<Rightarrow> 'd event list \<Rightarrow> 'd page \<Rightarrow> nat" where
  "run_ticks e demos [] p = 0"
| "run_ticks e demos (ev # evs) p = hits_run ev p + run_ticks e demos evs (play_event e demos ev p)"

definition is_click_run :: "'d event \<Rightarrow> bool" where
  "is_click_run ev = (case ev of ClickRun _ \<Rightarrow> True | _ \<Rightarrow> False)"

lemma event_lowers:
  assumes "\<not> is_click_run ev"
  shows "run_left (play_event e demos ev p) + hits_run ev p \<le> run_left p"
proof (cases "moves_tasks ev")
  case True
  then show ?thesis using assms by (cases ev) (simp_all add: moves_tasks_def is_click_run_def play_event_def tick_counts fold_counts,
      simp_all add: hits_run_def)
next
  case False
  then show ?thesis using same_run_counts [OF event_same_run [OF False]]
    by (cases ev) (simp_all add: moves_tasks_def hits_run_def)
qed

lemma play_Cons: "play e demos (ev # evs) p = play e demos evs (play_event e demos ev p)"
  by (simp add: play_def)

lemma events_lower:
  "\<forall>ev\<in>set evs. \<not> is_click_run ev \<Longrightarrow> run_left (play e demos evs p) + run_ticks e demos evs p \<le> run_left p"
proof (induction evs arbitrary: p)
  case (Cons ev evs)
  have "run_left (play_event e demos ev p) + hits_run ev p \<le> run_left p" using Cons.prems by (intro event_lowers) simp
  moreover have "run_left (play e demos evs (play_event e demos ev p)) + run_ticks e demos evs (play_event e demos ev p)
      \<le> run_left (play_event e demos ev p)" using Cons.prems by (intro Cons.IH) simp
  ultimately show ?case by (simp add: play_Cons)
qed (simp add: play_def)

interpretation playing: event_machine "play_event e demos" page_inv for e demos
  by unfold_locales (rule play_event_inv)

lemma play_inv: "page_inv p \<Longrightarrow> page_inv (play e demos evs p)"
  unfolding play_def foldl_conv_fold by (rule playing.run_keeps)

lemma idle_if_done: "page_inv p \<Longrightarrow> run_left p = 0 \<Longrightarrow> \<not> pgIsRunning p"
  using runs_left [of p] by (simp add: page_inv_def split: if_splits)

text \<open>Scheduling the run alone: each tick goes to the first task that is a run.\<close>

definition run_index :: "'d page \<Rightarrow> nat" where
  "run_index p = length (takeWhile (\<lambda>t. fst t \<noteq> Run) (pgTasks p))"

definition drive :: "'d engine \<Rightarrow> int list \<Rightarrow> 'd page \<Rightarrow> 'd page" where
  "drive e nows p = foldl (\<lambda>q now. tick e (run_index q) now (Inl []) q) p nows"

lemma first_hit:
  "0 < length (filter P ts) \<Longrightarrow> length (takeWhile (\<lambda>t. \<not> P t) ts) < length ts \<and> P (ts ! length (takeWhile (\<lambda>t. \<not> P t) ts))"
  by (induction ts) auto

lemma run_index_hit: "0 < runs p \<Longrightarrow> run_index p < length (pgTasks p) \<and> fst (pgTasks p ! run_index p) = Run"
  unfolding run_index_def runs_def by (rule first_hit)

lemma drive_step_inv:
  assumes "page_inv p"
  shows "page_inv (tick e (run_index p) now imp p) \<and> run_left (tick e (run_index p) now imp p) \<le> run_left p - 1"
proof (cases "runs p = 0")
  case True
  then have "run_left p = 0"
    using no_run_sum [of "pgTasks p"] by (auto simp: runs_def run_left_def filter_empty_conv)
  then show ?thesis using assms tick_counts [of e "run_index p" now imp p] by (simp add: tick_inv)
next
  case False
  then show ?thesis using assms tick_counts [of e "run_index p" now imp p] run_index_hit [of p]
    by (simp add: tick_inv hits_run_def is_run_def)
qed

lemma drive_left: "page_inv p \<Longrightarrow> page_inv (drive e nows p) \<and> run_left (drive e nows p) \<le> run_left p - length nows"
proof (induction nows arbitrary: p)
  case (Cons now nows)
  have s: "page_inv (tick e (run_index p) now (Inl []) p)"
    "run_left (tick e (run_index p) now (Inl []) p) \<le> run_left p - 1" using drive_step_inv [OF Cons.prems] by auto
  have "drive e (now # nows) p = drive e nows (tick e (run_index p) now (Inl []) p)" by (simp add: drive_def)
  then show ?case using Cons.IH [OF s(1)] s(2) by (auto intro: order_trans)
qed (simp add: drive_def)

text \<open>
  C35: A checkout run always ends. Take any state of the page and any later sequence of events
  other than a further click on Run (the failure toggled, the database reset, queries run by
  hand): while a run is still in progress it has been scheduled fewer than 36 times, and from
  there on 36 turns of the run finish it and enable the Run button, whatever the database
  answers to its statements.
\<close>

theorem run_always_ends:
  assumes "play_reachable e demos p" "\<forall>ev\<in>set evs. \<not> is_click_run ev"
  shows "(pgIsRunning (play e demos evs p) \<longrightarrow> run_ticks e demos evs p < 36)
     \<and> (36 \<le> length nows \<longrightarrow>
          \<not> pgIsRunning (drive e nows (play e demos evs p)) \<and> \<not> pgRunDisabled (drive e nows (play e demos evs p)))"
proof -
  let ?q = "play e demos evs p"
  have inv: "page_inv p" "page_inv ?q" using assms(1) reachable_inv play_inv by blast+
  have d: "page_inv (drive e nows ?q)" "run_left (drive e nows ?q) \<le> run_left ?q - length nows"
    using drive_left [OF inv(2)] by auto
  have "run_left ?q + run_ticks e demos evs p \<le> 36"
    using events_lower [OF assms(2), of e demos p] inv(1) by (simp add: page_inv_def)
  moreover have "run_left ?q \<noteq> 0" if "pgIsRunning ?q" using idle_if_done [OF inv(2)] that by blast
  moreover have "\<not> pgIsRunning (drive e nows ?q)" if "36 \<le> length nows"
    using idle_if_done [OF d(1)] d(2) inv(2) that by (simp add: page_inv_def)
  moreover have "pgRunDisabled (drive e nows ?q) = pgIsRunning (drive e nows ?q)" using d(1) by (simp add: page_inv_def)
  ultimately show ?thesis by fastforce
qed

theorem run_always_ends_witness:
  "\<not> pgIsRunning (drive (\<lparr>eng_query = (\<lambda>s d. (Inr [], d)), eng_exec = (\<lambda>ss d. (Inr (), d))\<rparr> :: unit engine) (replicate 36 0)
      (runWorkflow 10007 (new_page [] None [] [])))"
proof -
  let ?e = "\<lparr>eng_query = (\<lambda>s d. (Inr [], d)), eng_exec = (\<lambda>ss d. (Inr (), d))\<rparr> :: unit engine"
  have "play_reachable ?e [] (play_event ?e [] (ClickRun 10007) (new_page [] None [] []))"
    by (intro play_reachable.intros)
  then show ?thesis
    using run_always_ends [of ?e "[]" "play_event ?e [] (ClickRun 10007) (new_page [] None [] [])" "[]" "replicate 36 0"]
    by (simp add: play_event_def play_def)
qed

section \<open>What a run records\<close>

text \<open>
  What the run relies on in the database: on the two tables, keyed by \<open>workflow_id\<close> and by
  \<open>(workflow_id, function_id)\<close>, an INSERT of rows whose keys are new adds exactly these rows, an
  UPDATE sets its columns in the row with the given key, and the texts in \<open>reads\<close> (queries typed
  by the visitor) leave the tables as they are. \<open>view\<close> gives the tables of a database state.
\<close>

type_synonym tables = "(string \<rightharpoonup> pg_workflow) \<times> (string \<times> nat \<rightharpoonup> pg_step)"

definition step_key :: "pg_step \<Rightarrow> string \<times> nat" where
  "step_key x = (psWorkflow x, psFunction x)"

definition on_row :: "string \<Rightarrow> (pg_workflow \<Rightarrow> pg_workflow) \<Rightarrow> tables \<Rightarrow> tables" where
  "on_row wid f T = ((fst T)(wid := map_option f (fst T wid)), snd T)"

definition sql_effect :: "stmt \<Rightarrow> tables \<Rightarrow> tables option" where
  "sql_effect s T = (case s of
     InsertWorkflow w \<Rightarrow> if fst T (pwId w) = None then Some ((fst T)(pwId w \<mapsto> w), snd T) else None
   | InsertSteps xs \<Rightarrow>
       if distinct (map step_key xs) \<and> list_all (\<lambda>x. snd T (step_key x) = None) xs
       then Some (fst T, snd T ++ map_of (map (\<lambda>x. (step_key x, x)) xs)) else None
   | FailWorkflow wid err dur now \<Rightarrow>
       Some (on_row wid (\<lambda>w. w\<lparr>pwStatus := ''ERROR'', pwError := Some err, pwDurationMs := dur, pwUpdatedAt := Some now\<rparr>) T)
   | CompleteWorkflow wid out dur now \<Rightarrow>
       Some (on_row wid (\<lambda>w. w\<lparr>pwStatus := ''SUCCESS'', pwOutput := Some out, pwDurationMs := dur, pwUpdatedAt := Some now\<rparr>) T)
   | _ \<Rightarrow> None)"

definition implements :: "'d engine \<Rightarrow> ('d \<Rightarrow> tables) \<Rightarrow> string set \<Rightarrow> bool" where
  "implements e view reads \<longleftrightarrow>
     (\<forall>s d T. sql_effect s (view d) = Some T \<longrightarrow> (\<exists>rows d'. eng_query e s d = (Inr rows, d') \<and> view d' = T))
     \<and> (\<forall>txt d. txt \<in> reads \<longrightarrow> view (snd (eng_query e (RawQuery txt []) d)) = view d)"

text \<open>The tables after a list of actions; \<open>None\<close> where a key is taken.\<close>

fun script_effect :: "bool \<Rightarrow> int list \<Rightarrow> action list \<Rightarrow> tables \<Rightarrow> tables option" where
  "script_effect armed nows [] T = Some T"
| "script_effect armed nows (Query f # as) T =
     (case sql_effect (f (hd nows)) T of None \<Rightarrow> None | Some T' \<Rightarrow> script_effect armed (tl nows) as T')"
| "script_effect armed nows (IfFailure bs # as) T =
     (if armed then script_effect armed (tl nows) bs T else script_effect armed (tl nows) as T)"
| "script_effect armed nows (Exec ss # as) T = None"
| "script_effect armed nows (Import # as) T = None"
| "script_effect armed nows (a # as) T = script_effect armed (tl nows) as T"

definition running :: "bool \<Rightarrow> ('d \<Rightarrow> tables) \<Rightarrow> string set \<Rightarrow> task list \<Rightarrow> action list \<Rightarrow> tables \<Rightarrow> 'd page \<Rightarrow> bool" where
  "running armed view reads pre as T p \<longleftrightarrow>
     pgTasks p = pre @ [(Run, as)] \<and> (\<forall>t\<in>set pre. fst t \<noteq> Run)
     \<and> pgInjectFailure p = armed
     \<and> trim (pgSqlInput p) \<in> insert [] reads \<and> (\<exists>d. pgDb p = Pg d \<and> view d = T)"

lemma running_index: "running armed view reads pre as T p \<Longrightarrow> run_index p = length pre \<and> pgTasks p ! length pre = (Run, as) \<and> length pre < length (pgTasks p)"
  by (auto simp: running_def run_index_def takeWhile_append2)

lemma running_tick:
  assumes "running armed view reads pre (a # as) T p" "perform e now imp a p = (Continue, q)"
    "pgSqlInput q = pgSqlInput p" "pgInjectFailure q = pgInjectFailure p" "\<exists>d. pgDb q = Pg d \<and> view d = T'"
  shows "running armed view reads pre as T' (tick e (run_index p) now imp p)"
  using assms running_index [OF assms(1)] by (auto simp: tick_def running_def list_update_append)

lemma executeSql_view:
  assumes "running armed view reads pre as T p" "implements e view reads"
  shows "(\<exists>d. pgDb (executeSql e None p) = Pg d \<and> view d = T) \<and> pgSqlInput (executeSql e None p) = pgSqlInput p
     \<and> pgInjectFailure (executeSql e None p) = pgInjectFailure p"
proof -
  obtain d where d: "pgDb p = Pg d" "view d = T" using assms(1) by (auto simp: running_def)
  obtain r d' where q: "eng_query e (RawQuery (trim (pgSqlInput p)) []) d = (r, d')" by (meson surj_pair)
  have "view d' = T" if "trim (pgSqlInput p) \<noteq> []"
  proof -
    have "trim (pgSqlInput p) \<in> reads" using assms(1) that by (auto simp: running_def)
    then have "view (snd (eng_query e (RawQuery (trim (pgSqlInput p)) []) d)) = view d"
      using assms(2) unfolding implements_def by blast
    then show ?thesis by (simp add: q d(2))
  qed
  then show ?thesis using d q
    by (auto simp: executeSql_def str_or_def opt_str_def Let_def send_query_def split: sum.splits)
qed

lemma drive_Cons: "drive e (now # nows) p = drive e nows (tick e (run_index p) now (Inl []) p)"
  by (simp add: drive_def)

lemma running_query:
  assumes r: "running armed view reads pre (Query f # as) T p" and imp: "implements e view reads"
    and eff: "sql_effect (f now) T = Some T'"
  shows "running armed view reads pre as T' (tick e (run_index p) now (Inl []) p)"
proof -
  obtain d where d: "pgDb p = Pg d" "view d = T" using r by (auto simp: running_def)
  obtain rows d' where q: "eng_query e (f now) d = (Inr rows, d')" "view d' = T'"
    using imp eff d(2) unfolding implements_def by metis
  show ?thesis
    by (rule running_tick [OF r, where q = "p\<lparr>pgDb := Pg d'\<rparr>"]) (simp_all add: perform_def send_query_def d q)
qed

lemma running_if:
  assumes r: "running armed view reads pre (IfFailure bs # as) T p"
  shows "running armed view reads pre (if armed then bs else as) T (tick e (run_index p) now (Inl []) p)"
  using running_index [OF r] r by (auto simp: tick_def perform_def running_def list_update_append)

lemma running_sql:
  assumes r: "running armed view reads pre (ShowSql None # as) T p" and imp: "implements e view reads"
  shows "running armed view reads pre as T (tick e (run_index p) now (Inl []) p)"
  using executeSql_view [OF r imp]
  by (intro running_tick [OF r, where q = "executeSql e None p"]) (simp_all add: perform_def)

lemma running_other:
  assumes r: "running armed view reads pre (a # as) T p"
    and a: "a = Log m t \<or> a = Post ev dat \<or> a = Hash h \<or> a = Sleep k \<or> a = DbStatus x y"
  shows "running armed view reads pre as T (tick e (run_index p) now (Inl []) p)"
proof (rule running_tick [OF r, where q = "snd (perform e now (Inl []) a p)"])
  show "perform e now (Inl []) a p = (Continue, snd (perform e now (Inl []) a p))" using a by (auto simp: perform_def)
qed (use a r in \<open>auto simp: perform_def running_def log_line_def setDbStatus_def\<close>)

text \<open>Refinement: driving a task to its end has the effect of its statements on the tables.\<close>

definition only_default_sql :: "action list \<Rightarrow> bool" where
  "only_default_sql as = list_all (\<lambda>a. case a of ShowSql (Some _) \<Rightarrow> False
     | IfFailure bs \<Rightarrow> list_all (\<lambda>b. case b of ShowSql (Some _) \<Rightarrow> False | IfFailure _ \<Rightarrow> False | _ \<Rightarrow> True) bs
     | _ \<Rightarrow> True) as"

lemma only_default_sqlD:
  "only_default_sql (a # as) \<Longrightarrow> only_default_sql as" "only_default_sql (ShowSql txt # as) \<Longrightarrow> txt = None"
  "only_default_sql (IfFailure bs # as) \<Longrightarrow> only_default_sql bs"
  by (auto simp: only_default_sql_def list_all_iff split: action.splits option.splits)

lemma drive_idle: "\<forall>t\<in>set (pgTasks p). fst t \<noteq> Run \<Longrightarrow> drive e nows p = p"
proof (induction nows)
  case (Cons now nows)
  have "run_index p = length (pgTasks p)" using Cons.prems by (simp add: run_index_def takeWhile_eq_all_conv [THEN iffD2])
  then show ?case using Cons by (simp add: drive_Cons tick_outside)
qed (simp add: drive_def)

lemma drive_done:
  assumes "running armed view reads pre [] T p" "nows \<noteq> []"
  shows "\<exists>d. pgDb (drive e nows p) = Pg d \<and> view d = T"
proof (cases nows)
  case (Cons now rest)
  let ?q = "tick e (run_index p) now (Inl []) p"
  have q: "pgTasks ?q = pre" "pgDb ?q = pgDb p"
    using running_index [OF assms(1)] assms(1)
    by (auto simp: tick_def running_def task_ends_def finish_run_def drop_task_def)
  have "drive e rest ?q = ?q" using assms(1) q(1) by (intro drive_idle) (simp add: running_def)
  then show ?thesis using Cons q(2) assms(1) by (auto simp: drive_Cons running_def)
qed (use assms in simp)

lemma drive_hd: "nows \<noteq> [] \<Longrightarrow> drive e nows p = drive e (tl nows) (tick e (run_index p) (hd nows) (Inl []) p)"
  by (cases nows) (simp_all add: drive_Cons)

lemma drive_step:
  assumes "cost (a # as) < length nows"
    and "running armed view reads pre as T (tick e (run_index p) (hd nows) (Inl []) p)"
    and "\<And>q. running armed view reads pre as T q \<Longrightarrow> cost as < length (tl nows) \<Longrightarrow> \<exists>d. pgDb (drive e (tl nows) q) = Pg d \<and> view d = T'"
  shows "\<exists>d. pgDb (drive e nows p) = Pg d \<and> view d = T'"
proof -
  have "nows \<noteq> []" "cost as < length (tl nows)" using assms(1) cost_tail(1) [of as a] by (cases nows; simp)+
  then show ?thesis using assms(2,3) by (simp add: drive_hd)
qed

lemma drive_effect:
  assumes imp: "implements e view reads"
  shows "script_effect armed nows as T = Some T' \<Longrightarrow> running armed view reads pre as T p \<Longrightarrow> only_default_sql as
     \<Longrightarrow> cost as < length nows \<Longrightarrow> \<exists>d. pgDb (drive e nows p) = Pg d \<and> view d = T'"
proof (induction armed nows as T arbitrary: p rule: script_effect.induct, goal_cases)
  case (1 armed nows T p)
  then show ?case using drive_done [of armed view reads pre T p nows e] by auto
next
  case (2 armed nows f as T p)
  then obtain now rest T1 where n: "nows = now # rest" "sql_effect (f now) T = Some T1"
    by (cases nows) (auto split: option.splits)
  have "running armed view reads pre as T1 (tick e (run_index p) now (Inl []) p)"
    using running_query [OF 2(3) imp n(2)] .
  then show ?case using 2(1) [of T1] 2(2-5) n only_default_sqlD(1) by (auto simp: drive_Cons)
next
  case (3 armed nows bs as T p)
  then obtain now rest where n: "nows = now # rest" by (cases nows) auto
  have "running armed view reads pre (if armed then bs else as) T (tick e (run_index p) now (Inl []) p)"
    using running_if [OF 3(4)] .
  then show ?case using 3(1,2) 3(3-6) n only_default_sqlD(1,3) [of _ as] 
    by (cases armed) (auto simp: drive_Cons)
next
  case (6 armed nows m t as T p)
  show ?case
  proof (rule drive_step [OF 6(5)])
    show "running armed view reads pre as T (tick e (run_index p) (hd nows) (Inl []) p)"
      by (rule running_other [OF 6(3)]) simp
  qed (use 6 only_default_sqlD(1) [OF 6(4)] in simp)
next
  case (7 armed nows ev dat as T p)
  show ?case
  proof (rule drive_step [OF 7(5)])
    show "running armed view reads pre as T (tick e (run_index p) (hd nows) (Inl []) p)"
      by (rule running_other [OF 7(3)]) simp
  qed (use 7 only_default_sqlD(1) [OF 7(4)] in simp)
next
  case (8 armed nows h as T p)
  show ?case
  proof (rule drive_step [OF 8(5)])
    show "running armed view reads pre as T (tick e (run_index p) (hd nows) (Inl []) p)"
      by (rule running_other [OF 8(3)]) simp
  qed (use 8 only_default_sqlD(1) [OF 8(4)] in simp)
next
  case (9 armed nows qry as T p)
  have none: "qry = None" using only_default_sqlD(2) [OF 9(4)] .
  show ?case
  proof (rule drive_step [OF 9(5)])
    show "running armed view reads pre as T (tick e (run_index p) (hd nows) (Inl []) p)"
      by (rule running_sql [OF 9(3) [unfolded none] imp])
  qed (use 9 only_default_sqlD(1) [OF 9(4)] in simp)
next
  case (10 armed nows k as T p)
  show ?case
  proof (rule drive_step [OF 10(5)])
    show "running armed view reads pre as T (tick e (run_index p) (hd nows) (Inl []) p)"
      by (rule running_other [OF 10(3)]) simp
  qed (use 10 only_default_sqlD(1) [OF 10(4)] in simp)
next
  case (11 armed nows x y as T p)
  show ?case
  proof (rule drive_step [OF 11(5)])
    show "running armed view reads pre as T (tick e (run_index p) (hd nows) (Inl []) p)"
      by (rule running_other [OF 11(3)]) simp
  qed (use 11 only_default_sqlD(1) [OF 11(4)] in simp)
qed auto

definition wf_facts :: "tables \<Rightarrow> string \<Rightarrow> (string \<times> int) option" where
  "wf_facts T wid = map_option (\<lambda>w. (pwStatus w, pwDurationMs w)) (fst T wid)"

definition step_facts :: "tables \<Rightarrow> string \<Rightarrow> nat \<Rightarrow> (string \<times> string \<times> int \<times> string option) option" where
  "step_facts T wid k = map_option (\<lambda>s. (psName s, psStatus s, psDurationMs s, psChild s)) (snd T (wid, k))"

text \<open>The contract of a run: what it leaves in the tables, with and without the armed failure.\<close>

definition recorded :: "nat \<Rightarrow> bool \<Rightarrow> tables \<Rightarrow> tables \<Rightarrow> bool" where
  "recorded n armed T T' \<longleftrightarrow>
     wf_facts T' (root_id n) = Some (if armed then (''ERROR'', 1220) else (''SUCCESS'', 2100))
     \<and> map (step_facts T' (root_id n)) [0, 1, 2, 3, 4] =
        Some (''validateCart'', ''SUCCESS'', 450, None)
        # (if armed then [Some (''reserveInventory'', ''ERROR'', 320, None), None, None, None]
           else [Some (''reserveInventory'', ''SUCCESS'', 400, None), Some (''authorizePayment'', ''SUCCESS'', 650, Some (pay_id n)),
                 Some (''scheduleShipping'', ''SUCCESS'', 380, None), Some (''sendReceiptNotification'', ''SUCCESS'', 220, None)])
     \<and> wf_facts T' (pay_id n) = (if armed then None else Some (''SUCCESS'', 0))
     \<and> map (step_facts T' (pay_id n)) [0, 1] =
        (if armed then [None, None]
         else [Some (''checkFraudVelocity'', ''SUCCESS'', 180, None), Some (''chargeCard'', ''SUCCESS'', 470, None)])
     \<and> (\<forall>w. w \<noteq> root_id n \<and> w \<noteq> pay_id n \<longrightarrow> fst T' w = fst T w \<and> (\<forall>k. snd T' (w, k) = snd T (w, k)))"

definition fresh_in :: "tables \<Rightarrow> string \<Rightarrow> bool" where
  "fresh_in T w \<longleftrightarrow> fst T w = None \<and> (\<forall>k. snd T (w, k) = None)"

lemma ids_differ [simp]: "root_id n \<noteq> pay_id m" "pay_id m \<noteq> root_id n"
  by (simp_all add: root_id_def pay_id_def)

lemmas script_defs = checkout_script_def run_start_def run_step1_def run_step2_def failed_branch_def run_step3_def
  run_step4_def run_step5_def run_finish_def broadcastUpdate_def

lemmas row_defs = run_workflow_row_def run_step_row_def sql_effect_def step_key_def on_row_def

lemma script_records:
  assumes "fresh_in T (root_id n)" "fresh_in T (pay_id n)"
  shows "\<exists>T'. script_effect armed nows (checkout_script n) T = Some T' \<and> recorded n armed T T'"
  using assms by (cases armed) (simp_all add: script_defs row_defs fresh_in_def recorded_def wf_facts_def step_facts_def map_add_def)

lemma script_plain: "only_default_sql (checkout_script n)" "cost (checkout_script n) = 35"
  by (simp_all add: script_defs only_default_sql_def)

text \<open>
  C36: A click on Run, followed by enough turns of the run and with nothing else changing the
  database meanwhile, records the whole checkout: without the armed failure the order workflow
  ends in SUCCESS after 2100 ms with its five steps, the third linked to the payment workflow,
  which is recorded as SUCCESS with its two steps; with the failure armed it ends in ERROR after
  1220 ms with two steps, the second failed, and no payment workflow exists. No other workflow's
  rows change. The database accepts rows with new keys and updates rows by key.
\<close>

theorem checkout_records:
  assumes "play_reachable e demos p" "\<not> pgIsRunning p" "pgDb p = Pg d"
    and "implements e view reads" "trim (pgSqlInput p) \<in> insert [] reads"
    and "fresh_in (view d) (root_id n)" "fresh_in (view d) (pay_id n)" "36 \<le> length nows"
  shows "\<exists>d'. pgDb (drive e nows (runWorkflow n p)) = Pg d' \<and> recorded n (pgInjectFailure p) (view d) (view d')"
proof -
  have "\<forall>t\<in>set (pgTasks p). fst t \<noteq> Run"
    using reachable_inv [OF assms(1)] assms(2) by (auto simp: page_inv_def runs_def filter_empty_conv)
  then have "running (pgInjectFailure p) view reads (pgTasks p) (checkout_script n) (view d) (runWorkflow n p)"
    using assms(2,3,5) by (simp add: running_def runWorkflow_def log_line_def)
  then show ?thesis
    using script_records [OF assms(6,7), of "pgInjectFailure p" nows] drive_effect [OF assms(4)] script_plain [of n] assms(8)
    by fastforce
qed

definition table_engine :: "tables engine" where
  "table_engine = \<lparr>eng_query = (\<lambda>s T. case sql_effect s T of Some T' \<Rightarrow> (Inr [], T') | None \<Rightarrow> (Inl ''rejected'', T)),
     eng_exec = (\<lambda>ss T. (Inr (), T))\<rparr>"

lemma table_engine_implements: "implements table_engine id UNIV"
  by (auto simp: implements_def table_engine_def sql_effect_def)

definition opened_page :: "tables page" where
  "opened_page = play table_engine [] [Tick 0 0 (Inl []), Tick 0 0 (Inr (\<lambda>_. None, \<lambda>_. None))] (new_page [] None [] [])"

lemma opened_page:
  "play_reachable table_engine [] opened_page" "\<not> pgIsRunning opened_page" "\<not> pgInjectFailure opened_page"
  "pgDb opened_page = Pg (\<lambda>_. None, \<lambda>_. None)"
  unfolding opened_page_def play_def
  by (simp_all add: play_reachable.intros)
     (simp_all add: play_event_def tick_def new_page_def initDatabase_def perform_def log_line_def updateHighlighting_def
      setTheme_def folded_at_start_def)

theorem checkout_records_witness:
  "\<exists>T. pgDb (drive table_engine (replicate 36 0) (runWorkflow 10007 opened_page)) = Pg T
     \<and> recorded 10007 False (\<lambda>_. None, \<lambda>_. None) T"
  using checkout_records [OF opened_page(1,2,4) table_engine_implements, of 10007 "replicate 36 0"] opened_page(3)
  by (simp add: fresh_in_def)

subsection \<open>The run on the fallback engine, and the console's view of a run\<close>

text \<open>The fallback engine answers every statement without storing anything.\<close>

lemma fallback_stores_nothing:
  "pgDb p = Fallback \<Longrightarrow> send_query e m s p = (Inr [], p) \<and> send_exec e ss p = (Inr (), p)"
  by (auto simp: send_query_def send_exec_def fallback_query_def empty_store_def split: option.splits)

text \<open>
  The rows of a run carry the application \<open>app-ecommerce\<close>; the seeded rows, and the application the
  console lists workflows of, carry \<open>ecommerce-checkout\<close>.
\<close>

lemma run_under_other_app:
  "run_workflow_row wid status name cls req out now = InsertWorkflow w \<Longrightarrow> pwAppId w = ''app-ecommerce''"
  "seed_workflow wid name dur kvs = InsertWorkflow v \<Longrightarrow> pwAppId v = ''ecommerce-checkout''"
  by (auto simp: run_workflow_row_def seed_workflow_def default_workflow_def)

text \<open>A text cell of a result is put into the table's markup as it is.\<close>

lemma cells_not_escaped: "cell_text (JStr s) = s"
  by (simp add: cell_text_def)

end
