(* ===== verification/Embedded_Console.thy ===== *)
theory Embedded_Console
  imports Console_Live
begin

text \<open>
  The console inside the playground's frame. \<open>relay-bridge.js\<close> replaces \<open>window.EventSource\<close> by a
  class of its own, \<open>MockEventSource\<close>, which listens on a broadcast channel, has the three callback
  properties and \<open>close\<close>, but no \<open>addEventListener\<close>; and it redraws the console for every telemetry
  message on the channel. The frame is the console's state together with the mock objects it has made.
\<close>

section \<open>The mock event source\<close>

record mock_source =
  msHandle :: nat
  msUrl :: string
  msReadyState :: nat
  msListening :: bool
  msOnopen :: bool
  msOnmessage :: bool
  msOpenDue :: bool
  msReceived :: nat

definition mock_new :: "nat \<Rightarrow> string \<Rightarrow> mock_source" where
  "mock_new h url = \<lparr>msHandle = h, msUrl = url, msReadyState = 1, msListening = True, msOnopen = False,
     msOnmessage = False, msOpenDue = True, msReceived = 0\<rparr>"

definition mock_close :: "mock_source \<Rightarrow> mock_source" where
  "mock_close m = m\<lparr>msReadyState := 2, msListening := False\<rparr>"

text \<open>The listener on the channel: only telemetry, and only when \<open>onmessage\<close> is set.\<close>

definition mock_handler :: "bool \<Rightarrow> mock_source \<Rightarrow> mock_source" where
  "mock_handler telemetry m =
     (if msListening m \<and> msOnmessage m \<and> telemetry then m\<lparr>msReceived := Suc (msReceived m)\<rparr> else m)"

section \<open>The frame\<close>

record frame =
  fcConsole :: console
  fcMocks :: "mock_source list"

definition new_frame :: "console \<Rightarrow> frame" where
  "new_frame c = \<lparr>fcConsole = c, fcMocks = []\<rparr>"

definition close_held :: "nat option \<Rightarrow> mock_source list \<Rightarrow> mock_source list" where
  "close_held held ms = (case held of None \<Rightarrow> ms | Some h \<Rightarrow> map (\<lambda>m. if msHandle m = h then mock_close m else m) ms)"

definition frame_stop :: "frame \<Rightarrow> frame" where
  "frame_stop f = \<lparr>fcConsole = close_source (clear_timer (fcConsole f)),
     fcMocks = close_held (sseSource (fcConsole f)) (fcMocks f)\<rparr>"

definition frame_poll :: "string \<Rightarrow> frame \<Rightarrow> frame" where
  "frame_poll mode f = (let f1 = frame_stop f in f1\<lparr>fcConsole := poll_every mode (fcConsole f1)\<rparr>)"

text \<open>
  \<open>startSSE\<close> in the frame: the mock is made, kept in \<open>sseSource\<close> and given its \<open>onopen\<close>; the first call
  of \<open>addEventListener\<close> throws a \<open>TypeError\<close>, so that the \<open>catch\<close> runs \<open>setPollInterval("5000")\<close>.
\<close>

definition frame_startSSE :: "frame \<Rightarrow> frame" where
  "frame_startSSE f =
     (let c1 = close_source (fcConsole f);
          m = mock_new (nextHandle c1) (getEventsUrl (clientKey c1) (orgName c1) (appName c1));
          c2 = startSSE True (fcConsole f)
      in frame_poll ''5000'' \<lparr>fcConsole = c2,
           fcMocks = m\<lparr>msOnopen := True\<rparr> # close_held (sseSource (fcConsole f)) (fcMocks f)\<rparr>)"

definition frame_setPollInterval :: "string \<Rightarrow> frame \<Rightarrow> frame" where
  "frame_setPollInterval mode f =
     (if mode = ''stream'' then
        (let f1 = frame_stop f in frame_startSSE (f1\<lparr>fcConsole := (fcConsole f1)\<lparr>pollInterval := PollStream\<rparr>\<rparr>))
      else frame_poll mode f)"

text \<open>The timer of 50 ms each mock starts: it is not stopped by \<open>close\<close>.\<close>

definition open_timer :: "nat \<Rightarrow> frame \<Rightarrow> frame" where
  "open_timer h f =
     (case find (\<lambda>m. msHandle m = h \<and> msOpenDue m) (fcMocks f) of
        None \<Rightarrow> f
      | Some m \<Rightarrow> \<lparr>fcConsole = (if msOnopen m then sse_onopen (fcConsole f) else fcConsole f),
                   fcMocks = map (\<lambda>x. if msHandle x = h then x\<lparr>msOpenDue := False\<rparr> else x) (fcMocks f)\<rparr>)"

text \<open>A message on the channel reaches every mock and \<open>channel.onmessage\<close>, which redraws the console.\<close>

definition bus_message :: "bool \<Rightarrow> frame \<Rightarrow> frame" where
  "bus_message telemetry f =
     \<lparr>fcConsole = (if telemetry then emit RenderContent (fcConsole f) else fcConsole f),
      fcMocks = map (mock_handler telemetry) (fcMocks f)\<rparr>"

datatype frame_event = SelectMode string | OpenTimer nat | BusMessage bool

fun frame_step :: "frame_event \<Rightarrow> frame \<Rightarrow> frame" where
  "frame_step (SelectMode mode) f = frame_setPollInterval mode f"
| "frame_step (OpenTimer h) f = open_timer h f"
| "frame_step (BusMessage telemetry) f = bus_message telemetry f"

section \<open>Invariant\<close>

definition frame_inv :: "frame \<Rightarrow> bool" where
  "frame_inv f \<longleftrightarrow> live_inv (fcConsole f) \<and> sseSource (fcConsole f) = None \<and> pollInterval (fcConsole f) \<noteq> PollStream
     \<and> (\<forall>m\<in>set (fcMocks f). \<not> msListening m \<and> msReadyState m = 2 \<and> msReceived m = 0)"

lemma poll_every_simps [simp]:
  "sseSource (poll_every mode c) = sseSource c" "pollInterval (poll_every mode c) \<noteq> PollStream"
  "effects (poll_every mode c) = effects c" "mounted (poll_every mode c) = mounted c"
  by (simp_all add: poll_every_def Let_def)

lemma frame_poll_inv:
  assumes "live_inv (fcConsole f)"
    and "\<forall>m\<in>set (fcMocks f). msReceived m = 0 \<and> (Some (msHandle m) = sseSource (fcConsole f) \<or> \<not> msListening m \<and> msReadyState m = 2)"
  shows "frame_inv (frame_poll mode f)"
proof -
  have "live_inv (poll_every mode (close_source (clear_timer (fcConsole f))))"
    using live_inv_stopped [OF assms(1)] by (intro poll_every_live_inv) simp_all
  then show ?thesis using assms(2)
    by (auto simp: frame_inv_def frame_poll_def frame_stop_def Let_def close_held_def mock_close_def split: option.splits)
qed

lemma frame_startSSE_inv:
  assumes "liveTimers (fcConsole f) = []" "openSources (fcConsole f) = []" "pollTimer (fcConsole f) = None"
    and "sseSource (fcConsole f) = None" "pollInterval (fcConsole f) = PollStream"
    and "\<forall>m\<in>set (fcMocks f). msReceived m = 0 \<and> \<not> msListening m \<and> msReadyState m = 2"
  shows "frame_inv (frame_startSSE f)"
proof -
  have "close_source (fcConsole f) = fcConsole f" using assms(4) by (simp add: close_source_def)
  then have "live_inv (startSSE True (fcConsole f))" and s: "sseSource (startSSE True (fcConsole f)) = Some (nextHandle (fcConsole f))"
    using assms by (simp_all add: live_inv_def startSSE_def Let_def)
  then show ?thesis unfolding frame_startSSE_def Let_def
    by (intro frame_poll_inv) (use assms(4,6) in \<open>auto simp: s mock_new_def close_held_def\<close>)
qed

lemma frame_setPollInterval_inv:
  assumes "frame_inv f"
  shows "frame_inv (frame_setPollInterval mode f)"
proof (cases "mode = ''stream''")
  case True
  have "live_inv (fcConsole f)" using assms by (simp add: frame_inv_def)
  from live_inv_stopped [OF this] True show ?thesis unfolding frame_setPollInterval_def Let_def
    by simp (rule frame_startSSE_inv, use assms in \<open>auto simp: frame_inv_def frame_stop_def close_held_def\<close>)
next
  case False
  then show ?thesis using assms frame_poll_inv [of f mode] by (simp add: frame_setPollInterval_def frame_inv_def)
qed

lemma frame_step_inv: "frame_inv f \<Longrightarrow> frame_inv (frame_step ev f)"
proof (cases ev)
  case (OpenTimer h)
  assume f: "frame_inv f"
  have "live_inv (sse_onopen c) = live_inv c" for c by (rule live_inv_cong) (simp_all add: sse_onopen_def)
  then show ?thesis using f OpenTimer
    by (auto simp: frame_inv_def open_timer_def sse_onopen_def split: option.splits)
next
  case (BusMessage t)
  assume f: "frame_inv f"
  have "live_inv (emit RenderContent c) = live_inv c" for c by (rule live_inv_cong) (simp_all add: emit_def)
  then show ?thesis using f BusMessage by (auto simp: frame_inv_def bus_message_def mock_handler_def emit_def)
qed (simp add: frame_setPollInterval_inv)

interpretation embedded: event_machine frame_step frame_inv
  by unfold_locales (rule frame_step_inv)

lemma new_frame_inv: "frame_inv (new_frame (new_console local session pd h))"
  using live_inv_new by (auto simp: frame_inv_def new_frame_def new_console_def Let_def)

lemma frame_effects:
  "effects (fcConsole (frame_step ev f)) = effects (fcConsole f) @ (if ev = BusMessage True then [RenderContent] else [])"
  by (cases ev) (simp_all add: frame_setPollInterval_def frame_startSSE_def frame_poll_def frame_stop_def startSSE_def clear_timer_def
      close_source_def open_timer_def sse_onopen_def bus_message_def emit_def Let_def split: option.splits)

lemma frame_run_effects:
  "effects (fcConsole (fold frame_step evs f)) =
     effects (fcConsole f) @ replicate (length (filter (\<lambda>e. e = BusMessage True) evs)) RenderContent"
  by (induction evs arbitrary: f) (simp_all add: frame_effects replicate_app_Cons_same)

lemma poll_5000:
  assumes "liveTimers e = []" "mounted e"
  shows "poll_every ''5000'' e = e\<lparr>pollInterval := PollMs 5000, liveTimers := [(nextHandle e, 5000)],
    pollTimer := Some (nextHandle e), nextHandle := Suc (nextHandle e),
    pollDot := \<lparr>dotActive = True, dotError = False, dotTitle = ''Live polling active (5s)''\<rparr>\<rparr>"
proof -
  have "parse_int ''5000'' = Some 5000" "show_rat (of_int 5000 / 1000) = ''5''" by code_simp+
  then show ?thesis using assms by (simp add: poll_every_def)
qed

section \<open>Properties\<close>

text \<open>
  C39: live data in the embedded console. Whatever modes are selected and however timers and channel
  messages interleave, the console is never left in the streaming mode: no mock is left listening on the
  channel and none delivers a message, the handles are consistent, and the console is redrawn exactly
  once for each telemetry message, by the bridge itself.
\<close>

theorem embedded_console_never_streams:
  "let f = fold frame_step evs (new_frame (new_console local session pd h)) in
     live_inv (fcConsole f) \<and> sseSource (fcConsole f) = None \<and> pollInterval (fcConsole f) \<noteq> PollStream
     \<and> list_all (\<lambda>m. \<not> msListening m \<and> msReceived m = 0) (fcMocks f)
     \<and> effects (fcConsole f) = replicate (length (filter (\<lambda>e. e = BusMessage True) evs)) RenderContent"
  using embedded.run_keeps [OF new_frame_inv, of evs local session pd h]
  by (auto simp: frame_inv_def list_all_iff frame_run_effects Let_def) (simp add: new_frame_def new_console_def Let_def)

text \<open>
  what the operator sees. Selecting the streaming mode in the embedded console starts a poll timer
  of five seconds instead; but 50 ms later the closed mock still reports that it has opened, and the
  status dot then says that a stream is connected while the console is polling.
\<close>

theorem embedded_dot_claims_stream:
  assumes "live_inv c" "mounted c"
  shows "let n = nextHandle c; f = frame_step (SelectMode ''stream'') (new_frame c); g = frame_step (OpenTimer n) f in
     pollInterval (fcConsole g) = PollMs 5000 \<and> liveTimers (fcConsole g) = [(Suc n, 5000)] \<and> openSources (fcConsole g) = []
     \<and> dotTitle (pollDot (fcConsole f)) = ''Live polling active (5s)''
     \<and> dotTitle (pollDot (fcConsole g)) = ''Live streaming (SSE) connected''"
proof -
  let ?d = "close_source (clear_timer c)\<lparr>pollInterval := PollStream\<rparr>"
  let ?e = "close_source (clear_timer (startSSE True ?d))"
  have d: "close_source ?d = ?d" by (simp add: close_source_def split: option.split)
  have e: "liveTimers ?e = []" "openSources ?e = []" "nextHandle ?e = Suc (nextHandle c)" "mounted ?e"
  proof -
    have "live_inv (startSSE True ?d)"
      using live_inv_stopped [OF assms(1)] d by (simp add: startSSE_def live_inv_def Let_def)
    then show "liveTimers ?e = []" "openSources ?e = []" by (rule live_inv_stopped)+
    show "nextHandle ?e = Suc (nextHandle c)" "mounted ?e" using assms(2) d by (simp_all add: startSSE_def Let_def)
  qed
  have f: "frame_step (SelectMode ''stream'') (new_frame c) = \<lparr>fcConsole = poll_every ''5000'' ?e,
      fcMocks = [mock_close ((mock_new (nextHandle c) (getEventsUrl (clientKey c) (orgName c) (appName c)))\<lparr>msOnopen := True\<rparr>)]\<rparr>"
    using d by (simp add: frame_setPollInterval_def frame_startSSE_def frame_poll_def frame_stop_def new_frame_def startSSE_def
        Let_def close_held_def mock_new_def split: option.split)
  show ?thesis unfolding f Let_def using poll_5000 [OF e(1,4)] e(2-4)
    by (simp add: open_timer_def mock_close_def mock_new_def sse_onopen_def)
qed

theorem embedded_dot_claims_stream_witness:
  "let c = (new_console [] [] False [])\<lparr>mounted := True\<rparr>; n = nextHandle c;
       f = frame_step (SelectMode ''stream'') (new_frame c); g = frame_step (OpenTimer n) f in
     pollInterval (fcConsole g) = PollMs 5000 \<and> liveTimers (fcConsole g) = [(Suc n, 5000)] \<and> openSources (fcConsole g) = []
     \<and> dotTitle (pollDot (fcConsole f)) = ''Live polling active (5s)''
     \<and> dotTitle (pollDot (fcConsole g)) = ''Live streaming (SSE) connected''"
proof -
  let ?c = "(new_console [] [] False [])\<lparr>mounted := True\<rparr>"
  have "live_inv ?c" "mounted ?c" by (simp_all add: new_console_def live_inv_def Let_def)
  from embedded_dot_claims_stream [OF this] show ?thesis unfolding Let_def .
qed

end
