(* ===== verification/Build_Assets.thy ===== *)
theory Build_Assets
  imports Prelude
begin

text \<open>
  The console's build script, \<open>console/build.js\<close>: the fingerprinted names of the bundle and the style
  sheet, the removal of earlier generations, the references in \<open>index.html\<close> and the copy kept for the
  playground. A directory is an association list from file names to contents. The bundle that esbuild
  produces, the SHA-256 digest in hexadecimal and the verdict of \<open>node --check\<close> are parameters. The
  replacement strings hold no dollar sign, so \<open>replace\<close> inserts them as they are.
\<close>

section \<open>Names\<close>

type_synonym directory = "(string, string) jsmap"

definition is_hex :: "char \<Rightarrow> bool" where
  "is_hex c \<longleftrightarrow> is_digit c \<or> c \<in> set ''abcdef''"

definition fingerprintedName :: "(string \<Rightarrow> string) \<Rightarrow> string \<Rightarrow> string \<Rightarrow> string \<Rightarrow> string" where
  "fingerprintedName sha base ext content = base @ ''.'' @ take 12 (sha content) @ ''.'' @ ext"

text \<open>\<open>^base\.[0-9a-f]{12}\.(js|css)$\<close>\<close>

definition fingerprinted :: "string \<Rightarrow> string \<Rightarrow> bool" where
  "fingerprinted base file \<longleftrightarrow>
     starts_with file (base @ ''.'') \<and>
     (let h = take 12 (drop (length base + 1) file) in length h = 12 \<and> list_all is_hex h) \<and>
     drop (length base + 13) file \<in> {''.js'', ''.css''}"

definition stale :: "string \<Rightarrow> string \<Rightarrow> bool" where
  "stale base file \<longleftrightarrow> file = base @ ''.js'' \<or> file = base @ ''.css'' \<or> fingerprinted base file"

definition cleanStaleBundles :: "string \<Rightarrow> directory \<Rightarrow> directory" where
  "cleanStaleBundles base dir = filter (\<lambda>f. \<not> stale base (fst f)) dir"

section \<open>References\<close>

text \<open>\<open>s.replace(/pattern/g, r)\<close>: \<open>m\<close> is the length of a match at the head of the text.\<close>

fun replace_all :: "(string \<Rightarrow> nat option) \<Rightarrow> string \<Rightarrow> string \<Rightarrow> string" where
  "replace_all m r [] = []"
| "replace_all m r (c # s) =
     (case m (c # s) of
        Some (Suc n) \<Rightarrow> r @ replace_all m r (drop n s)
      | _ \<Rightarrow> c # replace_all m r s)"

definition plain_ref :: "string \<Rightarrow> string \<Rightarrow> nat option" where
  "plain_ref ext s = (if starts_with s (''assets/app.'' @ ext) then Some (11 + length ext) else None)"

definition hashed_ref :: "string \<Rightarrow> string \<Rightarrow> nat option" where
  "hashed_ref ext s =
     (if starts_with s ''assets/app.'' \<and> (let h = take 12 (drop 11 s) in length h = 12 \<and> list_all is_hex h) \<and>
         starts_with (drop 23 s) (''.'' @ ext)
      then Some (24 + length ext) else None)"

section \<open>The build\<close>

record build_sources =
  srcCss :: string
  srcIndex :: string
  srcAssets :: "directory option"

record build_tree =
  distAssets :: directory
  distIndex :: string
  pgAssets :: "directory option"
  pgConsole :: "string option"

datatype build_error = SyntaxInvalid | NoConsoleHtml

definition copy_files :: "directory \<Rightarrow> directory \<Rightarrow> directory" where
  "copy_files src dst = fold (\<lambda>(f, x). AList.update f x) src dst"

definition css_content :: "build_sources \<Rightarrow> string" where
  "css_content src = trim (srcCss src) @ [CHR 0x0A]"

definition js_name :: "(string \<Rightarrow> string) \<Rightarrow> string \<Rightarrow> string" where
  "js_name sha js = fingerprintedName sha ''app'' ''js'' js"

definition css_name :: "(string \<Rightarrow> string) \<Rightarrow> build_sources \<Rightarrow> string" where
  "css_name sha src = fingerprintedName sha ''app'' ''css'' (css_content src)"

text \<open>Steps 2 to 4: the new bundles, the index page, the static assets.\<close>

definition build_dist :: "(string \<Rightarrow> string) \<Rightarrow> string \<Rightarrow> build_sources \<Rightarrow> build_tree \<Rightarrow> build_tree" where
  "build_dist sha js src t =
     (let jsName = js_name sha js; cssName = css_name sha src;
          a1 = AList.update cssName (css_content src) (AList.update jsName js (cleanStaleBundles ''app'' (distAssets t)));
          html = replace_all (plain_ref ''js'') (''assets/'' @ jsName)
                   (replace_all (plain_ref ''css'') (''assets/'' @ cssName) (srcIndex src))
      in t\<lparr>distAssets := (case srcAssets src of None \<Rightarrow> a1 | Some d \<Rightarrow> copy_files d a1),
           distIndex := trim html @ [CHR 0x0A]\<rparr>)"

definition rewrite_console :: "string \<Rightarrow> string \<Rightarrow> string \<Rightarrow> string" where
  "rewrite_console jsName cssName html =
     replace_all (plain_ref ''css'') (''assets/'' @ cssName)
       (replace_all (plain_ref ''js'') (''assets/'' @ jsName)
         (replace_all (hashed_ref ''css'') (''assets/'' @ cssName)
           (replace_all (hashed_ref ''js'') (''assets/'' @ jsName) html)))"

text \<open>Step 6: the copies for the playground, taken from the new assets, and its \<open>console.html\<close>.\<close>

definition playground_files :: "build_sources \<Rightarrow> directory" where
  "playground_files src =
     (case srcAssets src of None \<Rightarrow> []
      | Some d \<Rightarrow> filter (\<lambda>f. fst f \<in> {''archivo-latin.woff2'', ''OFL.txt''}) d)"

definition sync_playground :: "string \<Rightarrow> string \<Rightarrow> build_sources \<Rightarrow> directory \<Rightarrow> build_tree \<Rightarrow> build_tree \<times> build_error option" where
  "sync_playground jsName cssName src d t =
     (let d1 = cleanStaleBundles ''app'' d;
          d2 = AList.update jsName (opt_str (map_of (distAssets t) jsName)) d1;
          d3 = AList.update cssName (opt_str (map_of (distAssets t) cssName)) d2;
          t1 = t\<lparr>pgAssets := Some (copy_files (playground_files src) d3)\<rparr>
      in case pgConsole t of
           None \<Rightarrow> (t1, Some NoConsoleHtml)
         | Some html \<Rightarrow> (t1\<lparr>pgConsole := Some (rewrite_console jsName cssName html)\<rparr>, None))"

text \<open>The whole script: what is on disk afterwards, and the error it ended with. The syntax check comes after the files were written.\<close>

definition build :: "(string \<Rightarrow> string) \<Rightarrow> (string \<Rightarrow> bool) \<Rightarrow> string \<Rightarrow> build_sources \<Rightarrow> build_tree \<Rightarrow> build_tree \<times> build_error option" where
  "build sha syntax_ok js src t =
     (let t1 = build_dist sha js src t
      in if \<not> syntax_ok (opt_str (map_of (distAssets t1) (js_name sha js))) then (t1, Some SyntaxInvalid)
         else case pgAssets t1 of
                None \<Rightarrow> (t1, None)
              | Some d \<Rightarrow> sync_playground (js_name sha js) (css_name sha src) src d t1)"

section \<open>One generation\<close>

definition hex_digest :: "(string \<Rightarrow> string) \<Rightarrow> bool" where
  "hex_digest sha \<longleftrightarrow> (\<forall>x. 12 \<le> length (sha x) \<and> list_all is_hex (sha x))"

definition no_bundle :: "build_sources \<Rightarrow> bool" where
  "no_bundle src \<longleftrightarrow> list_all (\<lambda>f. \<not> stale ''app'' (fst f)) (case srcAssets src of None \<Rightarrow> [] | Some d \<Rightarrow> d)"

lemma fingerprintedName_stale:
  assumes "hex_digest sha" "ext \<in> {''js'', ''css''}"
  shows "stale ''app'' (fingerprintedName sha ''app'' ext content)"
proof -
  have "length (take 12 (sha content)) = 12" "list_all is_hex (take 12 (sha content))"
    using assms(1) by (auto simp: hex_digest_def list_all_iff dest: in_set_takeD)
  then show ?thesis using assms(2) by (auto simp: stale_def fingerprinted_def fingerprintedName_def starts_with_def)
qed

lemma names_differ: "hex_digest sha \<Longrightarrow> js_name sha js \<noteq> css_name sha src"
  by (auto simp: js_name_def css_name_def fingerprintedName_def hex_digest_def dest!: arg_cong [of _ _ length])

lemma map_of_clean: "map_of (cleanStaleBundles base dir) f = (if stale base f then None else map_of dir f)"
  by (induction dir) (auto simp: cleanStaleBundles_def)

lemma map_of_copy: "f \<notin> fst ` set src \<Longrightarrow> map_of (copy_files src dst) f = map_of dst f"
proof (induction src arbitrary: dst)
  case (Cons p src)
  then show ?case by (cases p) (auto simp: copy_files_def update_conv')
qed (simp add: copy_files_def)

text \<open>What a directory holds under the names of bundles.\<close>

definition bundles :: "directory \<Rightarrow> string \<rightharpoonup> string" where
  "bundles d = map_of d |` {f. stale ''app'' f}"

lemma bundles_written:
  assumes "\<forall>f\<in>fst ` set src. \<not> stale ''app'' f" "stale ''app'' n1" "stale ''app'' n2"
  shows "bundles (copy_files src (AList.update n2 x2 (AList.update n1 x1 (cleanStaleBundles ''app'' d)))) = [n1 \<mapsto> x1, n2 \<mapsto> x2]"
proof
  fix f
  have "stale ''app'' f \<Longrightarrow> f \<notin> fst ` set src" using assms(1) by blast
  then show "bundles (copy_files src (AList.update n2 x2 (AList.update n1 x1 (cleanStaleBundles ''app'' d)))) f = [n1 \<mapsto> x1, n2 \<mapsto> x2] f"
    using assms(2,3) by (cases "stale ''app'' f") (auto simp: bundles_def restrict_map_def map_of_copy update_conv' map_of_clean)
qed

lemma stale_names: "hex_digest sha \<Longrightarrow> stale ''app'' (js_name sha js) \<and> stale ''app'' (css_name sha src)"
  by (simp add: js_name_def css_name_def fingerprintedName_stale)

lemma build_dist_bundles:
  assumes "hex_digest sha" "no_bundle src"
  shows "bundles (distAssets (build_dist sha js src t)) = [js_name sha js \<mapsto> js, css_name sha src \<mapsto> css_content src]"
proof -
  have "\<forall>f\<in>fst ` set (case srcAssets src of None \<Rightarrow> [] | Some d \<Rightarrow> d). \<not> stale ''app'' f"
    using assms(2) by (auto simp: no_bundle_def list_all_iff)
  from bundles_written [OF this, of "js_name sha js" "css_name sha src"] stale_names [OF assms(1)]
  show ?thesis by (auto simp: build_dist_def Let_def copy_files_def split: option.splits)
qed

lemma bundles_lookup: "stale ''app'' f \<Longrightarrow> map_of d f = bundles d f"
  by (simp add: bundles_def)

lemma playground_files_plain: "\<forall>f\<in>fst ` set (playground_files src). \<not> stale ''app'' f"
proof -
  have "\<not> stale ''app'' ''archivo-latin.woff2''" "\<not> stale ''app'' ''OFL.txt''" by code_simp+
  then show ?thesis by (auto simp: playground_files_def split: option.splits)
qed

text \<open>
  C40: one generation of bundles. Whatever earlier builds left behind, after the script the assets
  directory holds exactly two files under the names of bundles, the new bundle and the new style sheet,
  under distinct fingerprinted names, and so does the playground's copy when it exists and the bundle passes the syntax check. The
  script fails exactly when the check fails or the playground's page is missing; the replaced generation is
  gone by then.
\<close>

theorem build_one_generation:
  assumes "hex_digest sha" "no_bundle src"
  shows "let (t', err) = build sha syntax_ok js src t; gen = [js_name sha js \<mapsto> js, css_name sha src \<mapsto> css_content src] in
    bundles (distAssets t') = gen \<and> js_name sha js \<noteq> css_name sha src \<and>
    (if \<not> syntax_ok js then err = Some SyntaxInvalid \<and> pgAssets t' = pgAssets t
     else case pgAssets t of
       None \<Rightarrow> err = None \<and> pgAssets t' = None
     | Some d \<Rightarrow> map_option bundles (pgAssets t') = Some gen \<and> err = (if pgConsole t = None then Some NoConsoleHtml else None))"
proof -
  note b = build_dist_bundles [OF assms, of js t] and s = stale_names [OF assms(1), of js src]
  note nd = names_differ [OF assms(1), of js src]
  have l: "map_of (distAssets (build_dist sha js src t)) (js_name sha js) = Some js"
    "map_of (distAssets (build_dist sha js src t)) (css_name sha src) = Some (css_content src)"
    using bundles_lookup s b nd by auto
  have pg: "pgAssets (build_dist sha js src t) = pgAssets t" "pgConsole (build_dist sha js src t) = pgConsole t"
    by (simp_all add: build_dist_def Let_def)
  show ?thesis
    using b nd s l pg bundles_written [OF playground_files_plain, of "js_name sha js" "css_name sha src"]
    by (auto simp: build_def sync_playground_def Let_def split: option.split)
qed

theorem build_one_generation_witness:
  "let sha = (\<lambda>x. ''0123456789abcdef''); src = \<lparr>srcCss = ''a{}'', srcIndex = ''assets/app.js'', srcAssets = Some [(''logo.svg'', [])]\<rparr>;
       t = \<lparr>distAssets = [(''app.js'', ''old'')], distIndex = [], pgAssets = Some [(''app.000000000000.css'', ''old'')], pgConsole = Some []\<rparr>;
       (t', err) = build sha (\<lambda>js. True) ''run'' src t; gen = [js_name sha ''run'' \<mapsto> ''run'', css_name sha src \<mapsto> css_content src] in
    bundles (distAssets t') = gen \<and> js_name sha ''run'' \<noteq> css_name sha src \<and>
    map_option bundles (pgAssets t') = Some gen \<and> err = None"
proof -
  let ?sha = "\<lambda>x::string. ''0123456789abcdef''"
  let ?src = "\<lparr>srcCss = ''a{}'', srcIndex = ''assets/app.js'', srcAssets = Some [(''logo.svg'', [])]\<rparr>"
  have "hex_digest ?sha" by (simp add: hex_digest_def is_hex_def is_digit_def)
  moreover have "no_bundle ?src" by code_simp
  ultimately show ?thesis
    using build_one_generation [of ?sha ?src "\<lambda>js. True" "''run''" "\<lparr>distAssets = [(''app.js'', ''old'')], distIndex = [],
       pgAssets = Some [(''app.000000000000.css'', ''old'')], pgConsole = Some []\<rparr>"]
    by (simp add: Let_def split_beta)
qed

end
