(* ===== verification/Templates.thy ===== *)
theory Templates
  imports Formatters
begin

text \<open>
  Markup templates. A template string of the code is a list of parts: text the source wrote, a value put through
  \<open>escapeHtml\<close>, and text that is inserted as it is (numbers, formatted times). The line breaks and the indentation
  of a template are left out. \<open>structure_of\<close> is not code of the repository: it divides markup the way a browser does,
  into text, tags and quoted values, and keeps the tags without the values. Where every value
  of a template stands in text or in a quoted value, no data can add, end or change a tag.
\<close>

section \<open>Dividing markup\<close>

datatype hstate = InText | InTag | BeforeValue | InValue char | InBare

fun hnext :: "hstate \<Rightarrow> char \<Rightarrow> hstate" where
  "hnext InText c = (if c = CHR ''<'' then InTag else InText)"
| "hnext InTag c = (if c = CHR ''>'' then InText else if c = CHR ''='' then BeforeValue else InTag)"
| "hnext BeforeValue c =
     (if c = CHR 0x22 \<or> c = CHR 0x27 then InValue c else if c = CHR ''>'' then InText else if c = CHR '' '' then BeforeValue else InBare)"
| "hnext (InValue q) c = (if c = q then InTag else InValue q)"
| "hnext InBare c = (if c = CHR ''>'' then InText else if c = CHR '' '' then InTag else InBare)"

text \<open>The places of data: text and quoted values.\<close>

fun holds_data :: "hstate \<Rightarrow> bool" where
  "holds_data InText = True"
| "holds_data (InValue q) = (q = CHR 0x22 \<or> q = CHR 0x27)"
| "holds_data _ = False"

fun run_html :: "hstate \<Rightarrow> string \<Rightarrow> hstate" where
  "run_html st [] = st"
| "run_html st (c # s) = run_html (hnext st c) s"

fun structure_of :: "hstate \<Rightarrow> string \<Rightarrow> string" where
  "structure_of st [] = []"
| "structure_of st (c # s) = (if holds_data st \<and> hnext st c = st then [] else [c]) @ structure_of (hnext st c) s"

text \<open>
  The attributes of the first tag: their names in lower case and the values a page reads from them. The name of the tag,
  kept with its bracket, is none of them.
\<close>

definition bare_name :: "string \<Rightarrow> (string \<times> string) list" where
  "bare_name nm = (if nm = [] \<or> hd nm = CHR ''<'' then [] else [(to_lower nm, [])])"

fun attrs :: "hstate \<Rightarrow> string \<Rightarrow> string \<Rightarrow> string \<Rightarrow> (string \<times> string) list" where
  "attrs st nm val [] = []"
| "attrs InText nm val (c # s) = (if c = CHR ''<'' then attrs InTag [c] [] s else attrs InText [] [] s)"
| "attrs InTag nm val (c # s) =
     (if c = CHR ''>'' then bare_name nm
      else if c = CHR '' '' then bare_name nm @ attrs InTag [] [] s
      else if c = CHR ''='' then attrs BeforeValue nm [] s
      else attrs InTag (nm @ [c]) [] s)"
| "attrs BeforeValue nm val (c # s) =
     (if c = CHR 0x22 \<or> c = CHR 0x27 then attrs (InValue c) nm [] s
      else if c = CHR ''>'' then bare_name nm
      else if c = CHR '' '' then attrs BeforeValue nm [] s
      else attrs InBare nm [c] s)"
| "attrs (InValue q) nm val (c # s) =
     (if c = q then (to_lower nm, html_decode val) # attrs InTag [] [] s else attrs (InValue q) nm (val @ [c]) s)"
| "attrs InBare nm val (c # s) =
     (if c = CHR ''>'' then [(to_lower nm, html_decode val)]
      else if c = CHR '' '' then (to_lower nm, html_decode val) # attrs InTag [] [] s
      else attrs InBare nm (val @ [c]) s)"

definition tag_attrs :: "string \<Rightarrow> (string \<times> string) list" where
  "tag_attrs s = attrs InText [] [] s"

section \<open>Templates\<close>

datatype part = Lit string | Esc jsval | Txt string

fun part_text :: "part \<Rightarrow> string" where
  "part_text (Lit s) = s"
| "part_text (Esc v) = escapeHtml v"
| "part_text (Txt s) = s"

definition markup :: "part list \<Rightarrow> string" where
  "markup ps = concat (map part_text ps)"

definition harmless :: "string \<Rightarrow> bool" where
  "harmless s = list_all (\<lambda>c. c \<notin> {CHR ''<'', CHR ''>'', CHR 0x22, CHR 0x27}) s"

fun blank :: "part \<Rightarrow> part" where
  "blank (Lit s) = Lit s"
| "blank _ = Lit []"

text \<open>Every value stands in text or in a quoted value, and text inserted as it is holds no character of markup.\<close>

fun placed :: "hstate \<Rightarrow> part list \<Rightarrow> bool" where
  "placed st [] = True"
| "placed st (Lit s # ps) = placed (run_html st s) ps"
| "placed st (Esc v # ps) = (holds_data st \<and> placed st ps)"
| "placed st (Txt s # ps) = (holds_data st \<and> harmless s \<and> placed st ps)"

definition whole :: "part list \<Rightarrow> bool" where
  "whole ps \<longleftrightarrow> placed InText ps \<and> run_html InText (markup (map blank ps)) = InText"

section \<open>Lemmas\<close>

lemma run_html_append [simp]: "run_html st (s @ t) = run_html (run_html st s) t"
  by (induction s arbitrary: st) simp_all

lemma structure_append: "structure_of st (s @ t) = structure_of st s @ structure_of (run_html st s) t"
  by (induction s arbitrary: st) simp_all

lemma markup_simps [simp]: "markup [] = []" "markup (p # ps) = part_text p @ markup ps" "markup (ps @ qs) = markup ps @ markup qs"
  by (simp_all add: markup_def)

lemma harmless_stays:
  assumes "harmless s" "holds_data st"
  shows "run_html st s = st \<and> structure_of st s = []"
  using assms
proof (induction s)
  case (Cons c s)
  then have "hnext st c = st" by (cases st) (auto simp: harmless_def)
  with Cons show ?case by (simp add: harmless_def)
qed simp

lemma attrs_value:
  "attrs (InValue q) nm val (s @ q # t) =
     (let v = takeWhile (\<lambda>c. c \<noteq> q) s
      in (to_lower nm, html_decode (val @ v)) # attrs InTag [] [] (drop (length v + 1) (s @ q # t)))"
  by (induction s arbitrary: val) (simp_all add: Let_def)

lemma attrs_clean_value:
  "q \<notin> set s \<Longrightarrow> attrs (InValue q) nm val (s @ q # t) = (to_lower nm, html_decode (val @ s)) # attrs InTag [] [] t"
  by (induction s arbitrary: val) auto

context markup_escaper
begin

lemma esc_stays: "holds_data st \<Longrightarrow> run_html st (esc v) = st \<and> structure_of st (esc v) = []"
  using esc_safe [of v] by (intro harmless_stays) (auto simp: harmless_def list_all_iff)

end

lemma escapeHtml_stays: "holds_data st \<Longrightarrow> run_html st (escapeHtml v) = st \<and> structure_of st (escapeHtml v) = []"
  using html.esc_stays [of st "js_string v"] by (simp add: escapeHtml_def)

theorem placed_structure:
  "placed st ps \<Longrightarrow>
     run_html st (markup ps) = run_html st (markup (map blank ps)) \<and> structure_of st (markup ps) = structure_of st (markup (map blank ps))"
proof (induction st ps rule: placed.induct)
  case (2 st s ps)
  then show ?case by (simp add: structure_append)
next
  case (3 st v ps)
  then show ?case using escapeHtml_stays [of st v] by (simp add: structure_append)
next
  case (4 st s ps)
  then show ?case using harmless_stays [of s st] by (simp add: structure_append)
qed simp

lemma whole_structure: "whole ps \<Longrightarrow> structure_of InText (markup ps) = structure_of InText (markup (map blank ps))"
  using placed_structure [of InText ps] by (simp add: whole_def)

text \<open>A value that holds the quote around it adds to the tag.\<close>

lemma structure_in_tag: "\<forall>c\<in>set t. c \<noteq> CHR ''>'' \<and> c \<noteq> CHR ''='' \<Longrightarrow> run_html InTag t = InTag \<and> structure_of InTag t = t"
  by (induction t) simp_all

lemma structure_in_value: "q \<notin> set u \<Longrightarrow> holds_data (InValue q) \<Longrightarrow> run_html (InValue q) u = InValue q \<and> structure_of (InValue q) u = []"
  by (induction u) auto

lemma cut_structure:
  assumes pre: "placed InText pre" "run_html InText (markup (map blank pre)) = InValue (CHR 0x27)"
    and t: "CHR 0x27 \<in> set t" "\<forall>c\<in>set t. c \<noteq> CHR ''>'' \<and> c \<noteq> CHR ''=''" and post: "placed InTag post"
  shows "structure_of InText (markup (pre @ Txt t # Lit [CHR 0x27] # post)) \<noteq>
    structure_of InText (markup (map blank (pre @ Txt t # Lit [CHR 0x27] # post)))"
proof -
  obtain u v where uv: "t = u @ CHR 0x27 # v" "CHR 0x27 \<notin> set u" using split_list_first [OF t(1)] by blast
  have v: "run_html InTag v = InTag" "structure_of InTag v = v" using t(2) uv structure_in_tag [of v] by auto
  have u: "run_html (InValue (CHR 0x27)) u = InValue (CHR 0x27)" "structure_of (InValue (CHR 0x27)) u = []"
    using uv(2) structure_in_value by simp_all
  show ?thesis
    using placed_structure [OF pre(1)] placed_structure [OF post] pre(2) u v
    by (simp add: structure_append uv(1))
qed

lemma placed_append: "placed st (ps @ qs) \<longleftrightarrow> placed st ps \<and> placed (run_html st (markup (map blank ps))) qs"
  by (induction st ps rule: placed.induct) auto

lemma whole_Nil [simp]: "whole []"
  by (simp add: whole_def)

lemma whole_append [intro]: "whole ps \<Longrightarrow> whole qs \<Longrightarrow> whole (ps @ qs)"
  by (simp add: whole_def placed_append)

lemma whole_concat: "\<forall>x\<in>set xs. whole (f x) \<Longrightarrow> whole (concat (map f xs))"
  by (induction xs) (auto intro: whole_append)

lemma whole_if: "(b \<Longrightarrow> whole ps) \<Longrightarrow> (\<not> b \<Longrightarrow> whole qs) \<Longrightarrow> whole (if b then ps else qs)"
  by simp

lemmas whole_lit = whole_def [of "Lit s # ps" for s ps]

lemma whole_option: "whole ps \<Longrightarrow> (\<And>x. whole (f x)) \<Longrightarrow> whole (case sel of None \<Rightarrow> ps | Some x \<Rightarrow> f x)"
  by (cases sel) simp_all

text \<open>Text between two tags of a template.\<close>

lemma whole_Txt: "harmless s \<Longrightarrow> whole ps \<Longrightarrow> whole (Txt s # ps)"
  by (simp add: whole_def)

lemma whole_Esc: "whole ps \<Longrightarrow> whole (Esc v # ps)"
  by (simp add: whole_def)

lemma harmless_simps [simp]:
  "harmless []" "harmless (c # s) \<longleftrightarrow> c \<notin> {CHR ''<'', CHR ''>'', CHR 0x22, CHR 0x27} \<and> harmless s"
  "harmless (s @ t) \<longleftrightarrow> harmless s \<and> harmless t"
  by (simp_all add: harmless_def)

lemma harmless_digits: "\<forall>c\<in>set s. is_digit c \<Longrightarrow> harmless s"
  by (auto simp: harmless_def list_all_iff is_digit_def)

lemma harmless_nat [simp]: "harmless (show_nat n)"
  using show_nat_digits by (intro harmless_digits) blast

lemma harmless_int [simp]: "harmless (show_int i)"
  by (simp add: show_int_def)

lemma harmless_part: "harmless s \<Longrightarrow> harmless (take n s)" "harmless s \<Longrightarrow> harmless (drop n s)"
  by (auto simp: harmless_def list_all_iff dest: in_set_takeD in_set_dropD)

lemma harmless_replicate [simp]: "harmless (replicate n (CHR ''0''))"
  by (induction n) simp_all

lemma harmless_show_digits [simp]: "0 \<le> i \<Longrightarrow> harmless (show_digits i)"
  using show_digits_nat [of "nat i"] harmless_nat [of "nat i"] by simp

lemma harmless_layout: "harmless ds \<Longrightarrow> harmless (layout_digits ds n)"
  by (simp add: layout_digits_def Let_def harmless_part)

lemma harmless_strip: "ds \<noteq> [] \<Longrightarrow> harmless ds \<Longrightarrow> harmless (strip_zeros ds)"
proof -
  assume ds: "ds \<noteq> []" "harmless ds"
  have "set (dropWhile P xs) \<subseteq> set xs" for P and xs :: string by (auto dest: set_dropWhileD)
  then have "set (strip_zeros ds) \<subseteq> set ds"
    using ds(1) by (cases ds) (simp_all add: strip_zeros_def, metis set_rev subset_insertI2)
  then show ?thesis using ds(2) unfolding harmless_def list_all_iff by blast
qed

lemma shortest_digits_nonneg: "0 \<le> a \<Longrightarrow> 0 \<le> snd (shortest_digits a n k m)"
proof (induction m arbitrary: k)
  case 0
  then show ?case by (simp add: scale10_def)
next
  case (Suc m)
  have "0 \<le> \<lfloor>scale10 a (int k - n)\<rfloor>" using Suc(2) by (simp add: scale10_def)
  moreover from Suc have "0 \<le> snd (shortest_digits a n (Suc k) m)" by blast
  ultimately show ?case unfolding shortest_digits.simps Let_def by simp
qed

lemma harmless_positive: "0 \<le> a \<Longrightarrow> harmless (show_positive a)"
proof -
  assume a: "0 \<le> a"
  have ne: "show_digits i \<noteq> []" for i by (subst show_digits.simps) simp
  obtain k s where ks: "shortest_digits a (point_position a) 1 17 = (k, s)" by fastforce
  then have "0 \<le> s" using shortest_digits_nonneg [OF a, of "point_position a" 1 17] by (simp only: snd_conv)
  then have "harmless (layout_digits (strip_zeros (show_digits s)) n)" for n
    by (intro harmless_layout harmless_strip ne harmless_show_digits)
  then show ?thesis using a unfolding show_positive_def Let_def ks by simp
qed

lemma harmless_rat [simp]: "harmless (show_rat q)"
  using round_double_nonneg [of "\<bar>q\<bar>"] harmless_positive by (auto simp: show_rat_def)

lemma harmless_num [simp]: "harmless (show_num n)"
  by (simp add: show_num_def split: jsnum.split)

lemma harmless_fixed [simp]: "harmless (to_fixed k q)" "harmless (num_fixed k n)"
proof -
  show f: "harmless (to_fixed k q)" for q by (simp add: to_fixed_def Let_def harmless_part)
  show "harmless (num_fixed k n)" by (simp add: num_fixed_def f split: jsnum.split)
qed

lemma harmless_duration [simp]: "harmless (duration_text ms)"
  by (simp add: duration_text_def)

lemma harmless_calculateDuration [simp]: "harmless (calculateDuration getTime now a b c d)"
  by (simp add: calculateDuration_def Let_def)

lemma harmless_relative [simp]: "harmless (formatRelativeTime getTime now s)"
  by (simp add: formatRelativeTime_def Let_def)

lemma harmless_timestamp: "(\<And>s. harmless (locale s)) \<Longrightarrow> harmless (formatTimestamp locale s)"
  by (simp add: formatTimestamp_def)

end
