(* ===== verification/Fleet_Markup.thy ===== *)
theory Fleet_Markup
  imports Console_Screens Console_Dispatch Templates
begin

text \<open>
  The markup of the fleet screen and of the workflow list (\<open>console/src/app.js\<close>, \<open>renderFleetScreen\<close> and
  \<open>renderWorkflowsScreen\<close>), one definition per template in the order of the code, with the status pill of
  \<open>StatusPill.js\<close> and the error card. The fleet screen is shown to keep its tags whatever the server replies; the workflow list keeps them
  unless a workflow id holds an apostrophe, which ends the attribute the row navigates by.
\<close>

section \<open>Fleet screen\<close>

definition pill_parts :: \<open>string option \<Rightarrow> part list\<close> where
  \<open>pill_parts status =
     (let s = to_upper (str_or (opt_str status) ''UNKNOWN'')
      in [Lit ''<span class="status-pill '', Lit (pill_class s), Lit ''"><span class="dot"></span>'', Esc (JStr s), Lit ''</span>''])\<close>

definition banner_parts :: \<open>string \<Rightarrow> application option \<Rightarrow> part list\<close> where
  \<open>banner_parts app sel =
     [Lit ''<div class="scope-banner"><div class="scope-banner-context">'',
      Lit ''<span class="scope-label">Filtered to application</span><span class="badge">'', Esc (JStr app), Lit ''</span>''] @
     (case sel of None \<Rightarrow> [] | Some a \<Rightarrow> [Lit ''<span class="badge">'', Esc (JStr (str_or (opt_str (aLanguage a)) ''dbos'')), Lit ''</span>'']) @
     (case sel of None \<Rightarrow> [] | Some a \<Rightarrow> pill_parts (aStatus a)) @
     [Lit ''</div>'', Lit ''<button class="btn btn-xs btn-secondary" data-app-change="" aria-label="Reset filter to all'',
      Lit '' applications">Show all applications</button></div>'']\<close>

definition executors_card :: \<open>fleet_kpis \<Rightarrow> part list\<close> where
  \<open>executors_card k =
     [Lit ''<div class="stat-card"><span class="stat-label">Connected Executors</span><span class="stat-value">'',
      Txt (show_nat (fkActive k)), Lit ''</span><div class="kpi-subtext"><span class="kpi-sub-pill kpi-success">'',
      Txt (show_nat (fkActive k)), Lit '' healthy</span>''] @
     (if fkDisconnected k > 0
      then [Lit ''<span class="kpi-sub-pill kpi-error">'', Txt (show_nat (fkDisconnected k)), Lit '' disconnected</span>'']
      else [Lit ''<span class="kpi-sub-pill">0 disconnected</span>'']) @
     [Lit ''</div></div>'']\<close>

definition workflows_card :: \<open>string \<Rightarrow> fleet_kpis \<Rightarrow> part list\<close> where
  \<open>workflows_card label k =
     [Lit ''<div class="stat-card"><span class="stat-label">'', Lit (label), Lit ''</span><span class="stat-value">'',
      Txt (show_nat (fkWorkflows k)), Lit ''</span><div class="kpi-subtext"><span class="kpi-sub-pill kpi-info">'',
      Txt (show_nat (fkInFlight k)), Lit '' in flight</span><span class="kpi-sub-pill '',
      Lit (if fkFailed k > 0 then ''kpi-error'' else ''kpi-success''), Lit ''">'', Txt (show_nat (fkFailed k)),
      Lit '' errors</span></div></div>'']\<close>

definition queues_card :: \<open>fleet_kpis \<Rightarrow> part list\<close> where
  \<open>queues_card k =
     [Lit ''<div class="stat-card"><span class="stat-label">Active Queues & Schedules</span><span class="stat-value">'',
      Txt (show_nat (fkQueues k + fkSchedules k)), Lit ''</span><div class="kpi-subtext"><span class="kpi-sub-pill">'',
      Txt (show_nat (fkQueues k)), Lit '' queues</span><span class="kpi-sub-pill">'', Txt (show_nat (fkSchedules k)),
      Lit '' schedules</span></div></div>'']\<close>

definition timeout_secs :: \<open>application option \<Rightarrow> int\<close> where
  \<open>timeout_secs sel =
     (case sel of None \<Rightarrow> 60 | Some a \<Rightarrow> (case aTimeoutSecs a of None \<Rightarrow> 60 | Some t \<Rightarrow> if t = 0 then 60 else t))\<close>

definition private_app :: \<open>application option \<Rightarrow> bool\<close> where
  \<open>private_app sel = (case sel of None \<Rightarrow> False | Some a \<Rightarrow> aPrivateMode a)\<close>

definition app_status_card :: \<open>application option \<Rightarrow> part list\<close> where
  \<open>app_status_card sel =
     [Lit ''<div class="stat-card"><span class="stat-label">Application Status</span><div style="margin-top:6px;">''] @
     (case sel of None \<Rightarrow> [Lit ''<span class="badge badge-neutral">UNKNOWN</span>''] | Some a \<Rightarrow> pill_parts (aStatus a)) @
     [Lit ''</div><div class="kpi-subtext"><span class="kpi-sub-pill">'',
      Lit (if private_app sel then ''Private mode'' else ''Public mode''), Lit ''</span><span class="kpi-sub-pill">'',
      Txt (show_int (timeout_secs sel)), Lit ''s timeout</span></div></div>'']\<close>

definition applications_card :: \<open>fleet_kpis \<Rightarrow> part list\<close> where
  \<open>applications_card k =
     [Lit ''<div class="stat-card"><span class="stat-label">Applications</span><span class="stat-value">'',
      Txt (show_nat (fkApplications k)), Lit ''</span><div class="kpi-subtext"><span class="kpi-sub-pill kpi-success">'',
      Txt (show_nat (fkAvailable k)), Lit '' active</span></div></div>'']\<close>

definition kpi_parts :: \<open>bool \<Rightarrow> application option \<Rightarrow> fleet_kpis \<Rightarrow> part list\<close> where
  \<open>kpi_parts filtered sel k =
     [Lit ''<div class="stat-grid">''] @ (if filtered then app_status_card sel else applications_card k) @ executors_card k @
     workflows_card (if filtered then ''Workflows'' else ''Fleet Workflows'') k @ queues_card k @ [Lit ''</div>'']\<close>

definition detail_head :: \<open>string \<Rightarrow> part list\<close> where
  \<open>detail_head app =
     [Lit ''<div class="card-header"><div><span class="card-title">Application Details: '', Esc (JStr app),
      Lit ''</span><span class="card-note">Runtime configuration</span></div><div style="display:flex; gap:6px;">'',
      Lit ''<button class="btn btn-xs btn-secondary" data-app-change='', Lit [CHR 0x27], Esc (JStr app), Lit [CHR 0x27],
      Lit '' data-navigate="workflows">Workflows</button><button class="btn btn-xs btn-secondary" data-app-change='',
      Lit [CHR 0x27], Esc (JStr app), Lit [CHR 0x27], Lit '' data-navigate="queues">Queues</button></div></div>'']\<close>

definition detail_grid :: \<open>string \<Rightarrow> application option \<Rightarrow> nat \<Rightarrow> part list\<close> where
  \<open>detail_grid app sel active =
     [Lit ''<div class="stat-grid"><div><span class="stat-label">Application Name</span><div><strong>'', Esc (JStr app),
      Lit ''</strong></div></div><div><span class="stat-label">Runtime Language</span><div>'',
      Lit ''<span class="badge badge-neutral">'',
      Esc (JStr (case sel of None \<Rightarrow> ''-'' | Some a \<Rightarrow> str_or (opt_str (aLanguage a)) ''dbos'')),
      Lit ''</span></div></div><div><span class="stat-label">Executor Timeout</span><div>'', Txt (show_int (timeout_secs sel)),
      Lit '' seconds</div></div><div><span class="stat-label">Network Mode</span><div>'',
      Lit (if private_app sel then ''Private network'' else ''Public access''),
      Lit ''</div></div><div><span class="stat-label">Live Executors</span><div><span class="badge '',
      Lit (if active > 0 then ''badge-success'' else ''badge-neutral''), Lit ''">'', Txt (show_nat active),
      Lit '' live</span></div></div><div><span class="stat-label">Data Access Mode</span><div><span class="badge '',
      Lit (if active > 0 then ''badge-success'' else ''badge-warning''), Lit ''" title="'',
      Lit (if active > 0 then ''Operational telemetry accessible via active executor runtime''
      else ''No live executors connected for application database queries''),
      Lit ''">'', Txt (if active > 0 then ''Executor Hub ('' @ show_nat active @ '' active)'' else ''No Live Executors''),
      Lit ''</span></div></div></div>'']\<close>

definition data_plane_note :: \<open>nat \<Rightarrow> part list\<close> where
  \<open>data_plane_note active =
     [Lit ''<div class="data-plane-note">'',
      Lit ''<svg width="16" height="16" viewBox="0 0 24 24" fill="none" stroke="currentColor" stroke-width="1.8"'',
      Lit '' stroke-linecap="round" stroke-linejoin="round" aria-hidden="true">'',
      Lit ''<ellipse cx="12" cy="5" rx="9" ry="3"></ellipse><path d="M21 12c0 1.66-4 3-9 3s-9-1.34-9-3"></path>'',
      Lit ''<path d="M3 5v14c0 1.66 4 3 9 3s9-1.34 9-3V5"></path></svg><div>'',
      Lit ''<div class="data-plane-note-title">Application data plane</div><div>''] @
     (if active > 0 then
      [Lit ''Operational telemetry and workflow dispatches are serviced via '',
       Txt (show_nat active),
       Lit '' connected '',
       Lit (if active = 1 then ''executor'' else ''executors''),
       Lit '' connecting to the application system database. Relay coordinates executions without storing database'',
       Lit '' credentials.'']
     else
      [Lit ''No executors are currently connected. Live dispatch and queue operations require an active executor'',
       Lit '' connected to the application database (or direct data plane fallback configured in Relay server).'']) @
     [Lit ''</div></div></div>'']\<close>

definition detail_parts :: \<open>string \<Rightarrow> application option \<Rightarrow> nat \<Rightarrow> part list\<close> where
  \<open>detail_parts app sel active =
     [Lit ''<div class="card">''] @ detail_head app @ [Lit ''<div class="card-body">''] @ detail_grid app sel active @
     data_plane_note active @ [Lit ''</div></div>'']\<close>

definition app_row_parts :: \<open>app_metrics \<Rightarrow> application \<Rightarrow> part list\<close> where
  \<open>app_row_parts m a =
     [Lit ''<tr><td><a href="#/fleet" class="clickable-app-name" data-app-change='', Lit [CHR 0x27], Esc (JStr (aName a)),
      Lit [CHR 0x27], Lit '' style="font-weight:600; text-decoration:none; color:inherit;" title="Inspect '', Esc (JStr (aName a)),
      Lit '' details on Fleet view">'', Esc (JStr (aName a)), Lit ''</a></td><td>''] @
     (pill_parts (aStatus a)) @
     [Lit ''</td><td><span class="badge badge-neutral">'', Esc (JStr (str_or (opt_str (aLanguage a)) ''dbos'')),
      Lit ''</span></td><td><span class="badge '', Lit (if amHealthy m > 0 then ''badge-success'' else ''badge-neutral''),
      Lit ''">'', Txt (show_nat (amHealthy m)), Lit '' live</span></td><td><span class="badge '',
      Lit (if amHealthy m > 0 then ''badge-success'' else ''badge-warning''), Lit ''" style="font-size:11px;" title="'',
      Txt (if amHealthy m > 0 then ''Data plane active via '' @ show_nat (amHealthy m) @ '' connected executor(s)''
      else ''No live executors connected''),
      Lit ''">'', Lit (if amHealthy m > 0 then ''Executor Hub'' else ''No Executors''), Lit ''</span></td><td>'',
      Txt (show_nat (amWorkflows m)), Lit '' recorded</td><td>'', Txt (show_nat (amQueues m)), Lit ''q / '',
      Txt (show_nat (amSchedules m)),
      Lit ''s</td><td><div style="display:flex; gap:6px;"><button class="btn btn-xs btn-secondary" data-app-change='',
      Lit [CHR 0x27], Esc (JStr (aName a)), Lit [CHR 0x27],
      Lit '' title="Inspect application details on Fleet view">Details</button>'',
      Lit ''<button class="btn btn-xs btn-secondary" data-app-change='', Lit [CHR 0x27], Esc (JStr (aName a)), Lit [CHR 0x27],
      Lit '' data-navigate="workflows">Workflows</button></div></td></tr>'']\<close>

definition app_metrics_shown :: \<open>fleet_replies \<Rightarrow> console \<Rightarrow> application \<Rightarrow> app_metrics\<close> where
  \<open>app_metrics_shown fr c a =
     (if aName a \<in> aName ` set (fleet_scope c) then app_metrics_of fr (aName a)
      else \<lparr>amHealthy = 0, amWorkflows = 0, amQueues = 0, amSchedules = 0\<rparr>)\<close>

definition empty_row :: \<open>string \<Rightarrow> part list \<Rightarrow> part list\<close> where
  \<open>empty_row cols message =
     [Lit ''<tr><td colspan="'', Lit cols, Lit ''" style="text-align:center; color:var(--faint); padding:24px;">''] @
     message @ [Lit ''</td></tr>'']\<close>

definition rows_or_empty :: \<open>part list \<Rightarrow> ('a \<Rightarrow> part list) \<Rightarrow> 'a list \<Rightarrow> part list\<close> where
  \<open>rows_or_empty none row xs = (if xs \<noteq> [] then concat (map row xs) else none)\<close>

definition app_table_parts :: \<open>fleet_replies \<Rightarrow> console \<Rightarrow> part list\<close> where
  \<open>app_table_parts fr c =
     [Lit ''<div class="card"><div class="card-header"><div><span class="card-title">Applications</span>'',
      Lit ''<span class="card-note">Registered applications in fleet</span></div><span class="badge badge-neutral">'',
      Txt (show_nat (length (apps c))),
      Lit '' total</span></div><div class="table-container"><table class="data-table app-table"><thead><tr>'',
      Lit ''<th>Application</th><th>Status</th><th>Runtime</th><th>Live Executors</th><th>Data Access</th>'',
      Lit ''<th>Workflows</th><th>Queues / Schedules</th><th>Actions</th></tr></thead><tbody>''] @
     (rows_or_empty (empty_row ''8'' [Lit ''No applications registered.'']) (\<lambda>a. app_row_parts (app_metrics_shown fr c a) a) (apps c)) @
     [Lit ''</tbody></table></div></div>'']\<close>

definition recent_row_parts :: \<open>browser_env \<Rightarrow> bool \<Rightarrow> string \<times> workflow \<Rightarrow> part list\<close> where
  \<open>recent_row_parts env filtered p =
     [Lit ''<tr class="clickable" tabindex="0" role="button" aria-label="View workflow '', Esc (JStr (wfId (snd p))),
      Lit ''" data-navigate="workflow/'', Esc (JStr (wfId (snd p))), Lit ''" data-wf-app="'', Esc (JStr (fst p)), Lit ''"><td>''] @
     (pill_parts (wfStatus (snd p))) @
     [Lit ''</td>''] @
     (if filtered then [] else [Lit ''<td><span class="badge badge-info">'', Esc (JStr (fst p)), Lit ''</span></td>'']) @
     [Lit ''<td><code>'', Esc (JStr (truncate_text (wfId (snd p)) 22)), Lit ''</code></td><td><strong>'',
      Esc (JStr (str_or (opt_str (wfName (snd p))) ''unnamed'')), Lit ''</strong></td><td>'',
      Esc (JStr (str_or (opt_str (wfQueue (snd p))) ''default'')), Lit ''</td><td><span class="relative-time" title="'',
      Txt (formatTimestamp (envLocale env) (wfCreatedAt (snd p))), Lit ''">'',
      Txt (formatRelativeTime (envTime env) (envNow env) (wfCreatedAt (snd p))), Lit ''</span></td><td>'',
      Txt (wf_duration env (snd p)), Lit ''</td><td><a href="#/workflow/'', Esc (JStr (wfId (snd p))),
      Lit ''" class="btn btn-xs btn-secondary" data-navigate="workflow/'', Esc (JStr (wfId (snd p))), Lit ''" data-wf-app="'',
      Esc (JStr (fst p)), Lit ''">Inspect</a></td></tr>'']\<close>

definition recent_parts :: \<open>browser_env \<Rightarrow> string \<Rightarrow> (string \<times> workflow) list \<Rightarrow> part list\<close> where
  \<open>recent_parts env app recent =
     [Lit ''<div class="card"><div class="card-header"><div><span class="card-title">''] @
     (if app \<noteq> [] then [Lit ''Recent Workflows ('', Esc (JStr app), Lit '')''] else [Lit ''Recent Fleet Workflows'']) @
     [Lit ''</span><span class="card-note">''] @
     (if app \<noteq> [] then [Lit ''Live operational telemetry for '', Esc (JStr app)]
      else [Lit ''Live operational telemetry across applications'']) @
     [Lit ''</span></div><a href="#/workflows" class="btn btn-xs btn-secondary" data-navigate="workflows">'',
      Lit (if app \<noteq> [] then ''View app workflows'' else ''View all workflows''),
      Lit ''</a></div><div class="table-container"><table class="data-table workflow-table"><thead><tr>'', Lit ''<th>Status</th>'',
      Lit (if app = [] then ''<th>Application</th>'' else []),
      Lit ''<th>Workflow ID</th><th>Name</th><th>Queue</th><th>Started</th><th>Duration</th><th>Action</th></tr>'',
      Lit ''</thead><tbody>''] @
     (rows_or_empty (empty_row (if app \<noteq> [] then ''7'' else ''8'') ([Lit ''No workflow executions recorded''] @
       (if app \<noteq> [] then [Lit '' for '', Esc (JStr app)] else [Lit '' across applications'']) @ [Lit ''.'']))
       (recent_row_parts env (app \<noteq> [])) recent) @
     [Lit ''</tbody></table></div></div>'']\<close>

definition executor_row_parts :: \<open>browser_env \<Rightarrow> bool \<Rightarrow> string \<times> executor \<Rightarrow> part list\<close> where
  \<open>executor_row_parts env filtered p =
     [Lit ''<tr><td><code>'', Esc (JStr (exId (snd p))), Lit ''</code></td>''] @
     (if filtered then [] else [Lit ''<td><span class="badge badge-info">'', Esc (JStr (fst p)), Lit ''</span></td>'']) @
     [Lit ''<td>''] @
     (pill_parts (exStatus (snd p))) @
     [Lit ''</td><td>'', Esc (JStr (str_or (opt_str (exHostname (snd p))) ''localhost'')), Lit ''</td><td><span class="badge">'',
      Esc (JStr (str_or (opt_str (exVersion (snd p))) ''v1.0.0'')), Lit ''</span></td><td>'',
      Esc (JStr (str_or (opt_str (exLanguage (snd p))) ''unknown'')), Lit ''</td><td>'',
      Txt (formatTimestamp (envLocale env) (exUpdatedAt (snd p))), Lit ''</td></tr>'']\<close>

definition executors_parts :: \<open>browser_env \<Rightarrow> string \<Rightarrow> (string \<times> executor) list \<Rightarrow> part list\<close> where
  \<open>executors_parts env app es =
     [Lit ''<div class="card"><div class="card-header"><div><span class="card-title">''] @
     (if app \<noteq> [] then [Lit ''Connected Executors ('', Esc (JStr app), Lit '')''] else [Lit ''Connected Executors'']) @
     [Lit ''</span><span class="card-note">''] @
     (if app \<noteq> [] then [Lit ''Live nodes connected for '', Esc (JStr app)] else [Lit ''Live nodes connected to Relay'']) @
     [Lit ''</span></div><span class="badge badge-neutral">'', Txt (show_nat (length es)),
      Lit '' total</span></div><div class="table-container"><table class="data-table executor-table"><thead><tr>'',
      Lit ''<th>Executor ID</th>'', Lit (if app = [] then ''<th>Application</th>'' else []),
      Lit ''<th>Status</th><th>Hostname</th><th>Version</th><th>Language</th><th>Last Seen</th></tr></thead><tbody>''] @
     (rows_or_empty (empty_row (if app \<noteq> [] then ''6'' else ''7'') ([Lit ''No executors currently connected''] @
       (if app \<noteq> [] then [Lit '' for '', Esc (JStr app)] else []) @ [Lit ''.'']))
       (executor_row_parts env (app \<noteq> [])) es) @
     [Lit ''</tbody></table></div></div>'']\<close>

definition selected_app :: \<open>console \<Rightarrow> application option\<close> where
  \<open>selected_app c = (if appName c \<noteq> [] then find (\<lambda>a. aName a = appName c) (apps c) else None)\<close>

text \<open>The whole screen, from the state after the applications were loaded.\<close>

definition fleet_parts :: \<open>browser_env \<Rightarrow> fleet_replies \<Rightarrow> console \<Rightarrow> part list\<close> where
  \<open>fleet_parts env fr c0 =
     (let c = loadApplications (frApps fr) c0; app = appName c; as = fleet_scope c; k = fleet_kpis_of fr c
      in (if app \<noteq> [] then banner_parts app (selected_app c) else []) @
         kpi_parts (app \<noteq> []) (selected_app c) k @
         (if app \<noteq> [] then detail_parts app (selected_app c) (fkActive k) else app_table_parts fr c) @
         recent_parts env app (recent_workflows env (fleet_workflows fr as)) @
         executors_parts env app (fleet_executors fr as))\<close>

section \<open>Workflow list\<close>

definition list_row_parts :: \<open>browser_env \<Rightarrow> string \<times> workflow \<Rightarrow> part list\<close> where
  \<open>list_row_parts env p =
     [Lit ''<tr class="clickable" tabindex="0" role="button" aria-label="View workflow '', Esc (JStr (wfId (snd p))),
      Lit ''" data-navigate='', Lit [CHR 0x27], Lit ''workflow/'', Txt (encode_uri_component (wfId (snd p))), Lit [CHR 0x27],
      Lit '' data-wf-app="'', Esc (JStr (fst p)), Lit ''"><td><code>'', Esc (JStr (wfId (snd p))),
      Lit ''</code></td><td><span class="badge badge-info">'', Esc (JStr (str_or (fst p) ''default'')), Lit ''</span></td><td>''] @
     (pill_parts (wfStatus (snd p))) @
     [Lit ''</td><td><strong>'', Esc (JStr (str_or (opt_str (wfName (snd p))) ''unnamed'')), Lit ''</strong></td><td>'',
      Esc (JStr (str_or (opt_str (wfQueue (snd p))) ''default'')), Lit ''</td><td>'',
      Esc (JStr (str_or (opt_str (wfVersion (snd p))) ''-'')), Lit ''</td><td>'',
      Txt (formatTimestamp (envLocale env) (wfCreatedAt (snd p))), Lit ''</td><td>'', Txt (wf_duration env (snd p)),
      Lit ''</td></tr>'']\<close>

definition list_toolbar :: \<open>string \<Rightarrow> nat \<Rightarrow> part list\<close> where
  \<open>list_toolbar app n =
     [Lit ''<div class="toolbar"><div class="filter-group">'',
      Lit ''<input type="text" id="filter-id" class="input-text" placeholder="Search workflows... [/]"'',
      Lit '' data-input="wfTable" aria-label="Search workflows by ID or name">'',
      Lit ''<select id="filter-status" class="select-sm" data-change="wfStatus" aria-label="Filter workflows by'',
      Lit '' status"><option value="">All Statuses</option><option value="SUCCESS">SUCCESS</option>'',
      Lit ''<option value="PENDING">PENDING</option><option value="ERROR">ERROR</option>'',
      Lit ''<option value="CANCELLED">CANCELLED</option><option value="ENQUEUED">ENQUEUED</option></select></div>'',
      Lit ''<div><span class="text-secondary" style="font-size:12px;">Showing '', Txt (show_nat n), Lit '' workflows''] @
     (if app \<noteq> [] then [Lit '' ('', Esc (JStr app), Lit '')''] else []) @
     [Lit ''</span></div></div>'']\<close>

definition list_parts :: \<open>browser_env \<Rightarrow> string \<Rightarrow> (string \<times> workflow) list \<Rightarrow> part list\<close> where
  \<open>list_parts env app ws =
     (list_toolbar app (length ws)) @
     [Lit ''<div class="card"><div class="table-container">'',
      Lit ''<table class="data-table workflow-table" id="workflows-table"><thead><tr><th>Workflow ID</th>'',
      Lit ''<th>Application</th><th>Status</th><th>Workflow Name</th><th>Queue</th><th>Version</th>'',
      Lit ''<th>Created At</th><th>Duration</th></tr></thead><tbody>''] @
     (rows_or_empty (empty_row ''8'' [Lit ''No workflows found.'']) (list_row_parts env) ws) @
     [Lit ''</tbody></table></div></div>'']\<close>

section \<open>The error card\<close>

definition error_card_parts :: \<open>string \<Rightarrow> string \<Rightarrow> part list\<close> where
  \<open>error_card_parts title message =
     [Lit ''<div class="card"><div class="card-header"><span class="card-title">'', Esc (JStr title),
      Lit ''</span></div><div class="card-body"><div class="empty-state"><div class="empty-state-icon icon-error">'',
      Lit ''<svg width="24" height="24" viewBox="0 0 24 24" fill="none" stroke="currentColor" stroke-width="2"'',
      Lit '' stroke-linecap="round" stroke-linejoin="round" aria-hidden="true"><circle cx="12" cy="12" r="10">'',
      Lit ''</circle><line x1="12" y1="8" x2="12" y2="12"></line><line x1="12" y1="16" x2="12.01" y2="16"></line>'',
      Lit ''</svg></div><h4 class="empty-state-title">Unable to Load Data</h4><p class="empty-state-desc">'', Esc (JStr message),
      Lit ''</p><div class="empty-state-actions">'',
      Lit ''<button class="btn btn-sm btn-secondary" data-action="refresh">Retry</button></div></div></div></div>'']\<close>

section \<open>Pieces that keep their tags\<close>

lemma pill_markup: "markup (pill_parts s) = renderStatusPill s"
  by (simp add: pill_parts_def renderStatusPill_def Let_def dq_def escapeHtml_def componentEscapeHtml_def nullish_def)

lemma whole_rows: "whole none \<Longrightarrow> (\<And>x. whole (row x)) \<Longrightarrow> whole (rows_or_empty none row xs)"
  by (simp add: rows_or_empty_def whole_concat)

lemma whole_empty_row: "whole message \<Longrightarrow> harmless cols \<Longrightarrow> whole (empty_row cols message)"
  using harmless_stays [of cols "InValue (CHR 0x22)"]
  unfolding empty_row_def append_Cons append_Nil by (simp add: whole_def placed_append)

lemma whole_pill [simp]: "whole (pill_parts s)"
  by (simp add: whole_def pill_parts_def Let_def pill_class_def)

lemma whole_banner [simp]: "whole (banner_parts app sel)"
  unfolding banner_parts_def by (intro whole_append whole_option) (simp_all add: whole_lit)

lemma whole_cards [simp]:
  "whole (executors_card k)" "whole (queues_card k)" "whole (applications_card k)"
  by (simp_all add: whole_def executors_card_def queues_card_def applications_card_def)

lemma whole_workflows_card [simp]: "harmless label \<Longrightarrow> whole (workflows_card label k)"
  using harmless_stays [of label InText] by (simp add: whole_def workflows_card_def)

lemma whole_app_status_card [simp]: "whole (app_status_card sel)"
  unfolding app_status_card_def by (intro whole_append whole_option) (simp_all add: whole_lit)

lemma whole_kpi [simp]: "whole (kpi_parts filtered sel k)"
  unfolding kpi_parts_def by (intro whole_append whole_if) (simp_all add: whole_lit)

lemma whole_detail [simp]: "whole (detail_head app)" "whole (detail_grid app sel active)" "whole (data_plane_note active)"
  by (simp_all add: whole_def detail_head_def detail_grid_def data_plane_note_def)

lemma whole_detail_parts [simp]: "whole (detail_parts app sel active)"
  unfolding detail_parts_def by (intro whole_append) (simp_all add: whole_lit)

lemma whole_error_card: "whole (error_card_parts title message)"
  by (simp add: whole_def error_card_parts_def)

lemma whole_app_row [simp]: "whole (app_row_parts m a)"
  unfolding app_row_parts_def by (intro whole_append) (simp_all add: whole_lit)

lemma whole_app_table [simp]: "whole (app_table_parts fr c)"
  unfolding app_table_parts_def by (intro whole_append whole_rows whole_empty_row) (simp_all add: whole_lit)

definition plain_locale :: "browser_env \<Rightarrow> bool" where
  "plain_locale env \<longleftrightarrow> (\<forall>s. harmless (envLocale env s))"

lemma harmless_env [simp]:
  "plain_locale env \<Longrightarrow> harmless (formatTimestamp (envLocale env) t)" "harmless (wf_duration env w)"
  by (simp_all add: plain_locale_def harmless_timestamp wf_duration_def)

lemma whole_recent_row: "plain_locale env \<Longrightarrow> whole (recent_row_parts env filtered p)"
  unfolding recent_row_parts_def by (intro whole_append whole_if) (simp_all add: whole_lit)

lemma whole_recent: "plain_locale env \<Longrightarrow> whole (recent_parts env app recent)"
  unfolding recent_parts_def
  by (intro whole_append whole_if whole_rows whole_empty_row whole_recent_row) (simp_all add: whole_lit)

lemma whole_executor_row: "plain_locale env \<Longrightarrow> whole (executor_row_parts env filtered p)"
  unfolding executor_row_parts_def by (intro whole_append whole_if) (simp_all add: whole_lit)

lemma whole_executors: "plain_locale env \<Longrightarrow> whole (executors_parts env app es)"
  unfolding executors_parts_def
  by (intro whole_append whole_if whole_rows whole_empty_row whole_executor_row) (simp_all add: whole_lit)

lemma whole_fleet: "plain_locale env \<Longrightarrow> whole (fleet_parts env fr c)"
  unfolding fleet_parts_def Let_def by (intro whole_append whole_if whole_recent whole_executors) simp_all

section \<open>What a row opens\<close>

lemma apostrophe_not_hex: "n < 16 \<Longrightarrow> hex_digit n \<noteq> CHR 0x27"
  using hex_digit_range [of n] by (auto simp: is_digit_def is_alpha_def)

lemma apostrophe_not_encoded: "c \<noteq> CHR 0x27 \<Longrightarrow> CHR 0x27 \<notin> set (encode_char c)"
proof -
  assume "c \<noteq> CHR 0x27"
  moreover have "(of_char c :: nat) < 256" by simp
  moreover have "CHR 0x27 \<notin> set (pct_byte b)" if "b < 256" for b
    using that apostrophe_not_hex [of "b div 16"] apostrophe_not_hex [of "b mod 16"] less_mult_imp_div_less [of b 16 16]
    by (simp add: pct_byte_def)
  moreover have "192 + (of_char c :: nat) div 64 < 256" using calculation(2) by linarith
  moreover have "128 + (of_char c :: nat) mod 64 < 256" by (simp add: less_le_trans [of _ 64])
  ultimately show ?thesis by (simp add: encode_char_def Let_def)
qed

lemma takeWhile_encode:
  "takeWhile (\<lambda>c. c \<noteq> CHR 0x27) (encode_uri_component s) = encode_uri_component (takeWhile (\<lambda>c. c \<noteq> CHR 0x27) s)"
proof (induction s)
  case (Cons c s)
  have "encode_char (CHR 0x27) = [CHR 0x27]" by (simp add: encode_char_def uri_unreserved_def)
  moreover have "takeWhile (\<lambda>c. c \<noteq> CHR 0x27) (encode_char c @ t) = encode_char c @ takeWhile (\<lambda>c. c \<noteq> CHR 0x27) t" if "c \<noteq> CHR 0x27" for t
    using apostrophe_not_encoded [OF that] by (intro takeWhile_append2) auto
  ultimately show ?case using Cons by (simp add: encode_uri_component_def)
qed (simp add: encode_uri_component_def)

lemma encode_no_amp: "CHR ''&'' \<notin> set (encode_uri_component s)"
  using encode_range by (fastforce simp: uri_unreserved_def is_digit_def is_alpha_def)

lemma html_decode_plain: "c \<noteq> CHR ''&'' \<Longrightarrow> html_decode (c # s) = c # html_decode s"
  by (simp add: char_refs_def starts_with_def)

lemma html_decode_id: "CHR ''&'' \<notin> set s \<Longrightarrow> html_decode s = s"
  by (induction s) (auto simp: html_decode_plain simp del: html_decode.simps(2))

lemma escape_no_quote [simp]: "CHR 0x22 \<notin> set (escapeHtml v)" "CHR 0x27 \<notin> set (escapeHtml v)"
  using set_escape_text by (auto simp: escapeHtml_def)

lemma decode_escapeHtml [simp]: "html_decode (escapeHtml (JStr s)) = s"
  by (simp add: escapeHtml_def nullish_def html_decode_escape_text)

lemma list_row_markup:
  \<open>\<exists>rest. markup (list_row_parts env p) =
      ''<tr class="clickable" tabindex="0" role="button" aria-label="View workflow '' @ escapeHtml (JStr (wfId (snd p))) @
      CHR 0x22 # '' data-navigate='' @ CHR 0x27 # ''workflow/'' @ encode_uri_component (wfId (snd p)) @ CHR 0x27 # '' data-wf-app='' @
      CHR 0x22 # escapeHtml (JStr (fst p)) @ CHR 0x22 # rest\<close>
  by (simp add: list_row_parts_def)

definition row_attrs :: "string \<Rightarrow> string \<Rightarrow> element" where
  "row_attrs wid target =
     [(''class'', ''clickable''), (''tabindex'', ''0''), (''role'', ''button''), (''aria-label'', ''View workflow '' @ wid),
      (''data-navigate'', target)]"

lemmas read_attrs = attrs_clean_value bare_name_def html_decode_plain html_decode_id encode_no_amp lower_char_def row_attrs_def

lemma list_row_attrs:
  "\<exists>as. tag_attrs (markup (list_row_parts env p)) =
     row_attrs (wfId (snd p)) (''workflow/'' @ encode_uri_component (takeWhile (\<lambda>c. c \<noteq> CHR 0x27) (wfId (snd p)))) @ as"
proof -
  obtain rest where m: \<open>markup (list_row_parts env p) =
      ''<tr class="clickable" tabindex="0" role="button" aria-label="View workflow '' @ escapeHtml (JStr (wfId (snd p))) @
      CHR 0x22 # '' data-navigate='' @ CHR 0x27 # ''workflow/'' @ encode_uri_component (wfId (snd p)) @ CHR 0x27 # rest\<close>
    using list_row_markup [of env p] by blast
  show ?thesis
    unfolding m tag_attrs_def
    by (simp add: read_attrs attrs_value [of _ _ _ "encode_uri_component (wfId (snd p))"] takeWhile_encode Let_def
        del: html_decode.simps(2))
qed

lemma apostrophe_in_encoding: "CHR 0x27 \<notin> set s \<Longrightarrow> CHR 0x27 \<notin> set (encode_uri_component s)"
proof -
  assume "CHR 0x27 \<notin> set s"
  then have "takeWhile (\<lambda>c. c \<noteq> CHR 0x27) s = s" by (subst takeWhile_eq_all_conv) blast
  then have "takeWhile (\<lambda>c. c \<noteq> CHR 0x27) (encode_uri_component s) = encode_uri_component s" by (simp only: takeWhile_encode)
  then show ?thesis unfolding takeWhile_eq_all_conv by blast
qed

lemma apostrophe_stays: "CHR 0x27 \<in> set s \<Longrightarrow> CHR 0x27 \<in> set (encode_uri_component s)"
  by (induction s) (auto simp: encode_uri_component_def encode_char_def uri_unreserved_def)

lemma clean_list_row_attrs:
  assumes "CHR 0x27 \<notin> set (wfId (snd p))"
  shows "\<exists>as. tag_attrs (markup (list_row_parts env p)) =
     row_attrs (wfId (snd p)) (''workflow/'' @ encode_uri_component (wfId (snd p))) @ (''data-wf-app'', fst p) # as"
proof -
  obtain rest where m: \<open>markup (list_row_parts env p) =
      ''<tr class="clickable" tabindex="0" role="button" aria-label="View workflow '' @ escapeHtml (JStr (wfId (snd p))) @
      CHR 0x22 # '' data-navigate='' @ CHR 0x27 # ''workflow/'' @ encode_uri_component (wfId (snd p)) @ CHR 0x27 # '' data-wf-app='' @
      CHR 0x22 # escapeHtml (JStr (fst p)) @ CHR 0x22 # rest\<close>
    using list_row_markup [of env p] by blast
  show ?thesis
    unfolding m tag_attrs_def
    using assms by (simp add: read_attrs apostrophe_in_encoding del: html_decode.simps(2))
qed

lemma recent_row_attrs:
  "\<exists>as. tag_attrs (markup (recent_row_parts env filtered p)) =
     row_attrs (wfId (snd p)) (''workflow/'' @ wfId (snd p)) @ (''data-wf-app'', fst p) # as"
proof -
  let ?id = "wfId (snd p)"
  obtain rest where m: \<open>markup (recent_row_parts env filtered p) =
      ''<tr class="clickable" tabindex="0" role="button" aria-label="View workflow '' @ escapeHtml (JStr ?id) @
      CHR 0x22 # '' data-navigate='' @ CHR 0x22 # ''workflow/'' @ escapeHtml (JStr ?id) @ CHR 0x22 # '' data-wf-app='' @ CHR 0x22 #
      escapeHtml (JStr (fst p)) @ CHR 0x22 # rest\<close>
    by (simp add: recent_row_parts_def)
  show ?thesis
    unfolding m tag_attrs_def by (simp add: read_attrs del: html_decode.simps(2))
qed

text \<open>A click on a row: the handler's command, the navigation and the routing of the new hash.\<close>

definition open_row :: "string \<Rightarrow> console \<Rightarrow> console" where
  "open_row row c =
     (case on_click [tag_attrs row] of
        [DoNavigate path app] \<Rightarrow> handleRouting (run_navigate path app c)
      | _ \<Rightarrow> c)"

lemma row_click:
  assumes "tag_attrs row = row_attrs wid target @ as" and "target \<noteq> []"
  shows "on_click [tag_attrs row] = [DoNavigate (strip_quotes target) (opt_str (map_of as ''data-wf-app''))]"
  using assms
  by (simp add: on_click_def closest_first has_attr_def click_selector_def matched_click_def data_def Let_def row_attrs_def
      wf_app_of_def str_or_def closest_def)

lemma run_navigate_workflow:
  assumes "wid \<noteq> []"
  shows "selectedWorkflowId (handleRouting (run_navigate (''workflow/'' @ encode_uri_component wid) app c)) = Some wid"
    and "currentRoute (handleRouting (run_navigate (''workflow/'' @ encode_uri_component wid) app c)) = ''workflow-detail''"
proof -
  have "locationHash (run_navigate (''workflow/'' @ encode_uri_component wid) app c) = ''#/workflow/'' @ encode_uri_component wid"
    using assms split_route [of "''workflow''" "encode_uri_component wid"]
    by (simp add: run_navigate_def navigate_def Let_def split_on_no_sep decode_encode)
  from handleRouting_workflow [OF this assms]
  show "selectedWorkflowId (handleRouting (run_navigate (''workflow/'' @ encode_uri_component wid) app c)) = Some wid"
    and "currentRoute (handleRouting (run_navigate (''workflow/'' @ encode_uri_component wid) app c)) = ''workflow-detail''"
    by simp_all
qed

text \<open>Identifiers no encoding changes, such as UUIDs, and the interface of the two kinds of row for them.\<close>

definition plain_id :: "string \<Rightarrow> bool" where
  "plain_id wid \<longleftrightarrow> wid \<noteq> [] \<and> list_all (\<lambda>c. uri_unreserved c \<and> c \<noteq> CHR 0x27) wid"

lemma encode_plain_id: "plain_id wid \<Longrightarrow> encode_uri_component wid = wid \<and> CHR 0x27 \<notin> set wid"
proof -
  have "encode_uri_component s = s \<and> CHR 0x27 \<notin> set s" if "list_all (\<lambda>c. uri_unreserved c \<and> c \<noteq> CHR 0x27) s" for s
    using that by (induction s) (auto simp: encode_uri_component_def encode_char_def)
  then show "plain_id wid \<Longrightarrow> ?thesis" by (simp add: plain_id_def)
qed

locale workflow_opener =
  fixes row :: "string \<times> workflow \<Rightarrow> string"
  assumes row_shape: "plain_id (wfId (snd p)) \<Longrightarrow>
    \<exists>as. tag_attrs (row p) = row_attrs (wfId (snd p)) (''workflow/'' @ wfId (snd p)) @ (''data-wf-app'', fst p) # as"
begin

lemma click_navigates:
  assumes "plain_id (wfId (snd p))"
  shows "on_click [tag_attrs (row p)] = [DoNavigate (''workflow/'' @ wfId (snd p)) (fst p)]"
proof -
  obtain as where "tag_attrs (row p) = row_attrs (wfId (snd p)) (''workflow/'' @ wfId (snd p)) @ (''data-wf-app'', fst p) # as"
    using row_shape [OF assms] by blast
  from row_click [OF this] show ?thesis using encode_plain_id [OF assms] by (simp add: strip_quotes_id)
qed

lemma opens:
  assumes "plain_id (wfId (snd p))"
  shows "selectedWorkflowId (open_row (row p) c) = Some (wfId (snd p)) \<and> currentRoute (open_row (row p) c) = ''workflow-detail''"
  using run_navigate_workflow [of "wfId (snd p)" "fst p" c] encode_plain_id [OF assms] assms
  by (simp add: open_row_def click_navigates plain_id_def)

end

interpretation listed: workflow_opener "\<lambda>p. markup (list_row_parts env p)" for env
  by unfold_locales (use clean_list_row_attrs encode_plain_id in fastforce)

interpretation recent: workflow_opener "\<lambda>p. markup (recent_row_parts env filtered p)" for env filtered
  by unfold_locales (rule recent_row_attrs)

section \<open>The row of the workflow list\<close>

lemma encoded_chars: "\<forall>c\<in>set (encode_uri_component s). c \<noteq> CHR 0x22 \<and> c \<noteq> CHR ''<'' \<and> c \<noteq> CHR ''>'' \<and> c \<noteq> CHR ''=''"
  using encode_range [of "CHR 0x22" s] encode_range [of "CHR ''<''" s] encode_range [of "CHR ''>''" s] encode_range [of "CHR ''=''" s]
  by (auto simp: uri_unreserved_def is_digit_def is_alpha_def)

lemma whole_list_row: "plain_locale env \<Longrightarrow> CHR 0x27 \<notin> set (wfId (snd p)) \<Longrightarrow> whole (list_row_parts env p)"
proof -
  assume a: "plain_locale env" "CHR 0x27 \<notin> set (wfId (snd p))"
  have "harmless (encode_uri_component (wfId (snd p)))"
    using encoded_chars [of "wfId (snd p)"] apostrophe_in_encoding [OF a(2)] by (auto simp: harmless_def list_all_iff)
  with a show ?thesis unfolding list_row_parts_def by (intro whole_append) (simp_all add: whole_lit)
qed

lemma list_row_cut:
  assumes "plain_locale env" "CHR 0x27 \<in> set (wfId (snd p))"
  shows "structure_of InText (markup (list_row_parts env p)) \<noteq> structure_of InText (markup (map blank (list_row_parts env p)))"
proof -
  let ?pre = \<open>[Lit ''<tr class="clickable" tabindex="0" role="button" aria-label="View workflow '', Esc (JStr (wfId (snd p))),
      Lit ''" data-navigate='', Lit [CHR 0x27], Lit ''workflow/'']\<close>
  have eq: "list_row_parts env p = ?pre @ Txt (encode_uri_component (wfId (snd p))) # Lit [CHR 0x27] # drop 7 (list_row_parts env p)"
    by (simp add: list_row_parts_def)
  show ?thesis
  proof (subst (1 2) eq, rule cut_structure)
    show "placed InTag (drop 7 (list_row_parts env p))"
      using assms(1) whole_pill [of "wfStatus (snd p)"] by (simp add: list_row_parts_def placed_append whole_def)
  qed (use apostrophe_stays [OF assms(2)] encoded_chars in auto)
qed

lemma whole_list: "plain_locale env \<Longrightarrow> \<forall>p\<in>set ws. CHR 0x27 \<notin> set (wfId (snd p)) \<Longrightarrow> whole (list_parts env app ws)"
proof -
  assume a: "plain_locale env" "\<forall>p\<in>set ws. CHR 0x27 \<notin> set (wfId (snd p))"
  have "whole (list_toolbar app (length ws))"
    unfolding list_toolbar_def by (intro whole_append whole_if) (simp_all add: whole_lit)
  moreover have "whole (rows_or_empty (empty_row ''8'' [Lit ''No workflows found.'']) (list_row_parts env) ws)"
    using a by (auto simp: rows_or_empty_def whole_lit intro!: whole_concat whole_list_row whole_empty_row)
  ultimately show ?thesis unfolding list_parts_def by (intro whole_append) (simp_all add: whole_lit)
qed

section \<open>Properties\<close>

text \<open>A browser and a workflow for the examples.\<close>

definition sample_env :: browser_env where
  "sample_env = \<lparr>envTime = \<lambda>s. Fin 0, envNow = Fin 0, envLocale = \<lambda>s. ''1/2/2026''\<rparr>"

definition sample_wf :: "string \<Rightarrow> workflow" where
  "sample_wf wid = \<lparr>wfId = wid, wfName = None, wfStatus = None, wfQueue = None, wfVersion = None, wfCreatedAt = None,
     wfCompletedAt = None, wfDurationMs = JUndef, wfDuration_ms = JUndef, wfInput = JUndef, wfOutput = JUndef, wfError = JUndef\<rparr>"



text \<open>
  C16: A row of the workflow list keeps its tags exactly when the workflow's identifier holds no apostrophe: the
  attribute the row navigates by is quoted with apostrophes, and percent-encoding leaves them as they are.
\<close>

theorem list_row_safe_iff:
  assumes "\<forall>s. harmless (envLocale env s)"
  shows "structure_of InText (markup (list_row_parts env p)) = structure_of InText (markup (map blank (list_row_parts env p)))
    \<longleftrightarrow> CHR 0x27 \<notin> set (wfId (snd p))"
  using list_row_cut [of env p] whole_list_row [of env p] whole_structure [of "list_row_parts env p"] assms
  by (auto simp: plain_locale_def)

theorem list_row_safe_iff_witness:
  "structure_of InText (markup (list_row_parts sample_env (''shop'', sample_wf ''wf-1'')))
   = structure_of InText (markup (map blank (list_row_parts sample_env (''shop'', sample_wf ''wf-1''))))"
  using list_row_safe_iff [of sample_env "(''shop'', sample_wf ''wf-1'')"] by (simp add: sample_env_def sample_wf_def)

text \<open>
  A click on a row of the workflow list opens the workflow named by the part of the identifier before its first apostrophe.
\<close>

theorem list_row_cut_at_apostrophe:
  assumes "takeWhile (\<lambda>c. c \<noteq> CHR 0x27) (wfId (snd p)) \<noteq> []"
  shows "selectedWorkflowId (open_row (markup (list_row_parts env p)) c) = Some (takeWhile (\<lambda>c. c \<noteq> CHR 0x27) (wfId (snd p)))"
proof -
  let ?t = "takeWhile (\<lambda>c. c \<noteq> CHR 0x27) (wfId (snd p))"
  have "CHR 0x27 \<notin> set ?t" by (auto dest: set_takeWhileD)
  then have "strip_quotes (''workflow/'' @ encode_uri_component ?t) = ''workflow/'' @ encode_uri_component ?t"
    using apostrophe_in_encoding [of ?t] by (intro strip_quotes_id) simp
  moreover obtain as where "tag_attrs (markup (list_row_parts env p)) = row_attrs (wfId (snd p)) (''workflow/'' @ encode_uri_component ?t) @ as"
    using list_row_attrs [of env p] by blast
  ultimately have "\<exists>a. on_click [tag_attrs (markup (list_row_parts env p))] = [DoNavigate (''workflow/'' @ encode_uri_component ?t) a]"
    using row_click by fastforce
  then show ?thesis using run_navigate_workflow(1) [OF assms] by (auto simp: open_row_def)
qed

theorem list_row_cut_at_apostrophe_witness:
  "selectedWorkflowId (open_row (markup (list_row_parts sample_env (''shop'', sample_wf (''o'' @ CHR 0x27 # ''brien''))))
     (new_console [] [] False [])) = Some ''o''"
  using list_row_cut_at_apostrophe [of "(''shop'', sample_wf (''o'' @ CHR 0x27 # ''brien''))" sample_env "new_console [] [] False []"]
  by (simp add: sample_wf_def)



end
