(* ===== verification/Dag_Markup.thy ===== *)
theory Dag_Markup
  imports Workflow_Dag Templates
begin

text \<open>
  The SVG markup of the step graph, \<open>console/src/lib/components/WorkflowDAG.js\<close>: one definition per template, filled from the layout
  of \<open>Workflow_Dag\<close> in the order the code concatenates them; \<open>json\<close> stands for \<open>JSON.stringify\<close> of a step. The graph keeps its tags
  whatever names, identifiers, statuses and outputs the steps and the child workflows have, as long as step ids
  are numbers: the id is the one value the code does not escape.
\<close>

section \<open>Templates\<close>

definition step_node_parts :: \<open>(dag_step \<Rightarrow> string) \<Rightarrow> dag_node \<Rightarrow> part list\<close> where
  \<open>step_node_parts json nd =
     [Lit ''<g class="dag-node '', Txt (statusClass (ndMeta nd)), Lit ''" transform="translate('', Txt (show_int (ndX nd)),
      Lit '', '', Txt (show_int (ndY nd)), Lit '')" data-step-json="'', Esc (JStr (json (ndStep nd))),
      Lit ''" cursor="pointer" tabindex="0" role="button" aria-label="Step '', Txt (ndId nd), Lit '': '',
      Esc (JStr (step_title (ndStep nd))), Lit '' ('', Txt (statusText (ndMeta nd)), Lit '')"><rect width="'',
      Txt (show_int nodeWidth), Lit ''" height="'', Txt (show_int nodeHeight),
      Lit ''" rx="2" class="node-bg" /><circle cx="18" cy="20" r="4.5" fill="'', Txt (statusColor (ndMeta nd)),
      Lit ''" /><text x="28" y="24" class="node-step-id">#'', Txt (ndId nd),
      Lit ''</text><text x="48" y="24" class="node-name" width="'', Txt (show_int (nodeWidth - 55)), Lit ''">'', Txt (ndName nd),
      Lit ''</text><text x="18" y="48" class="node-status" fill="'', Txt (statusColor (ndMeta nd)), Lit ''">'',
      Txt (statusText (ndMeta nd)), Lit ''</text>''] @
     (if ndDuration nd \<noteq> [] then
      [Lit ''<text x="'', Txt (show_int (nodeWidth - 12)), Lit ''" y="48" class="node-duration" text-anchor="end">'',
       Txt (ndDuration nd), Lit ''</text>'']
      else []) @
     [Lit ''</g>'']\<close>

definition edge_parts :: \<open>dag_edge \<Rightarrow> part list\<close> where
  \<open>edge_parts e =
     [Lit ''<path d="M '', Txt (show_int (fst (egFrom e))), Lit '' '', Txt (show_int (snd (egFrom e))), Lit '' C '',
      Txt (show_rat (egMid e)), Lit '' '', Txt (show_int (snd (egFrom e))), Lit '', '', Txt (show_rat (egMid e)), Lit '' '',
      Txt (show_int (snd (egTo e))), Lit '', '', Txt (show_int (fst (egTo e))), Lit '' '', Txt (show_int (snd (egTo e))),
      Lit ''" class="dag-edge" marker-end="url(#arrowhead-default)" />'']\<close>

definition root_card_parts :: \<open>dag_card \<Rightarrow> part list\<close> where
  \<open>root_card_parts cd =
     [Lit ''<g class="dag-group-card root-group" transform="translate(16, 20)"><rect width="'', Txt (show_int (cdWidth cd)),
      Lit ''" height="'', Txt (show_int (cdHeight cd)), Lit ''" rx="2" class="group-card-bg" /><rect width="'',
      Txt (show_int (cdWidth cd)), Lit ''" height="36" rx="2" class="group-card-header-bg" /><rect y="26" width="'',
      Txt (show_int (cdWidth cd)), Lit ''" height="10" class="group-card-header-fill" /><circle cx="16" cy="18" r="4.5" fill="'',
      Txt (cdColor cd), Lit ''" /><text x="28" y="22" class="group-card-title">'', Txt (cdTitle cd), Lit ''</text><text x="'',
      Txt (show_int (cdWidth cd - 16)), Lit ''" y="22" class="group-card-meta" text-anchor="end">'', Txt (cdMeta cd),
      Lit ''</text></g>'']\<close>

definition child_card_parts :: \<open>dag_card \<Rightarrow> dag_child \<Rightarrow> part list\<close> where
  \<open>child_card_parts cd child =
     [Lit ''<g class="dag-group-card child-group" transform="translate('', Txt (show_int (cdX cd)), Lit '', '',
      Txt (show_int (cdY cd)), Lit '')"><rect width="'', Txt (show_int (cdWidth cd)), Lit ''" height="'',
      Txt (show_int (cdHeight cd)), Lit ''" rx="2" class="group-card-bg child-card-border" /><rect width="'',
      Txt (show_int (cdWidth cd)), Lit ''" height="36" rx="2" class="group-card-header-bg" /><rect y="26" width="'',
      Txt (show_int (cdWidth cd)), Lit ''" height="10" class="group-card-header-fill" /><circle cx="16" cy="18" r="4.5" fill="'',
      Txt (cdColor cd), Lit ''" /><text x="28" y="22" class="group-card-title">'', Txt (cdTitle cd), Lit ''<title>'',
      Esc (JStr (child_title child)),
      Lit ''</title></text><g class="child-card-action" data-action="viewChildWorkflow" data-child-wf-id="'',
      Esc (JStr (dcChildWorkflowId child)),
      Lit ''" cursor="pointer" role="button" tabindex="0" aria-label="Inspect child workflow"><rect x="'',
      Txt (show_int (cdWidth cd - 84)), Lit ''" y="7" width="72" height="22" rx="4" class="action-pill-bg" /><text x="'',
      Txt (show_int (cdWidth cd - 48)), Lit ''" y="21" class="action-pill-text" text-anchor="middle">'', Txt (cdMeta cd),
      Lit ''</text></g></g>''] @
     (if dcSteps child = [] then
      [Lit ''<text x="'', Txt (show_int (cdX cd + 24)), Lit ''" y="'', Txt (show_int (cdY cd + 65)),
       Lit ''" class="child-empty-text">No step executions recorded for child workflow</text>'']
      else [])\<close>

definition family_edge_parts :: \<open>family_edge \<Rightarrow> part list\<close> where
  \<open>family_edge_parts e =
     [Lit ''<path d="M '', Txt (show_int (fst (feFrom e))), Lit '' '', Txt (show_int (snd (feFrom e))), Lit '' C '',
      Txt (show_int (fst (feFrom e))), Lit '' '', Txt (show_rat (of_int (snd (feFrom e) + snd (feTo e)) / 2)), Lit '', '',
      Txt (show_int (fst (feTo e))), Lit '' '', Txt (show_rat (of_int (snd (feFrom e) + snd (feTo e)) / 2)), Lit '', '',
      Txt (show_int (fst (feTo e))), Lit '' '', Txt (show_int (snd (feTo e))), Lit ''" class="dag-family-edge '', Txt (feClass e),
      Lit ''" marker-end="url(#arrowhead-'', Txt (feMarker e), Lit '')" />'']\<close>

definition dag_toolbar :: \<open>bool \<Rightarrow> part list\<close> where
  \<open>dag_toolbar hasChildren =
     [Lit ''<div class="dag-toolbar" role="toolbar" aria-label="DAG Viewport Controls"><div class="dag-legend">'',
      Lit ''<span class="legend-item"><span class="legend-dot status-success"></span> Completed</span>'',
      Lit ''<span class="legend-item"><span class="legend-dot status-running"></span> Running</span>'',
      Lit ''<span class="legend-item"><span class="legend-dot status-error"></span> Error</span>'',
      Lit (if hasChildren then ''<span class="legend-item"><span class="legend-dot status-child"></span> Child WF</span>'' else []),
      Lit ''</div><div class="dag-controls">'',
      Lit ''<button class="dag-btn" data-action="dagZoomIn" title="Zoom in" aria-label="Zoom in">'',
      Lit ''<svg width="12" height="12" viewBox="0 0 24 24" fill="none" stroke="currentColor" stroke-width="2"'',
      Lit '' aria-hidden="true"><circle cx="11" cy="11" r="8"/><line x1="21" y1="21" x2="16.65" y2="16.65"/>'',
      Lit ''<line x1="11" y1="8" x2="11" y2="14"/><line x1="8" y1="11" x2="14" y2="11"/></svg></button>'',
      Lit ''<button class="dag-btn" data-action="dagZoomOut" title="Zoom out" aria-label="Zoom out">'',
      Lit ''<svg width="12" height="12" viewBox="0 0 24 24" fill="none" stroke="currentColor" stroke-width="2"'',
      Lit '' aria-hidden="true"><circle cx="11" cy="11" r="8"/><line x1="21" y1="21" x2="16.65" y2="16.65"/>'',
      Lit ''<line x1="8" y1="11" x2="14" y2="11"/></svg></button>'',
      Lit ''<button class="dag-btn" data-action="dagReset" title="Reset view" aria-label="Reset view">'',
      Lit ''<svg width="12" height="12" viewBox="0 0 24 24" fill="none" stroke="currentColor" stroke-width="2"'',
      Lit '' aria-hidden="true"><path d="M3 12a9 9 0 1 0 9-9 9.75 9.75 0 0 0-6.74 2.74L3 8"/>'',
      Lit ''<polyline points="3 3 3 8 8 8"/></svg><span style="margin-left:4px; font-size:11px;">Reset</span>'',
      Lit ''</button></div></div>'']\<close>

definition arrow_marker :: \<open>string \<times> string \<Rightarrow> part list\<close> where
  \<open>arrow_marker m =
     [Lit ''<marker id="arrowhead-'', Lit (fst m), Lit ''" markerWidth="8" markerHeight="6" refX="7" refY="3" orient="auto">'',
      Lit ''<polygon points="0 0, 8 3, 0 6" fill="var(--'', Lit (snd m), Lit '')" /></marker>'']\<close>

definition arrow_markers :: \<open>part list\<close> where
  \<open>arrow_markers = concat (map arrow_marker
     [(''default'', ''line''), (''success'', ''success''), (''error'', ''error''), (''running'', ''info'')])\<close>

definition dag_cards_parts :: \<open>dag_child list \<Rightarrow> dag_card list \<Rightarrow> part list\<close> where
  \<open>dag_cards_parts children cards =
     (case cards of [] \<Rightarrow> [] | rc # kids \<Rightarrow> root_card_parts rc @ concat (map2 child_card_parts kids children))\<close>

definition dag_canvas :: \<open>(dag_step \<Rightarrow> string) \<Rightarrow> dag_child list \<Rightarrow> dag_layout \<Rightarrow> int \<Rightarrow> int \<Rightarrow> part list\<close> where
  \<open>dag_canvas json children l totalWidth totalHeight =
     [Lit ''<div class="dag-viewport" id="dag-viewport" tabindex="0" role="region" aria-label="Workflow DAG Canvas.'',
      Lit '' Use mouse or buttons to zoom and pan."><svg class="dag-canvas" id="dag-canvas" viewBox="0 0 '',
      Txt (show_int totalWidth), Lit '' '', Txt (show_int totalHeight), Lit ''" xmlns="http://www.w3.org/2000/svg"><defs>''] @
     arrow_markers @
     [Lit ''</defs><g class="dag-zoom-layer" id="dag-zoom-layer"><g class="dag-cards">''] @
     (dag_cards_parts children (dlCards l)) @
     [Lit ''</g><g class="dag-family-edges">''] @
     (concat (map family_edge_parts (dlFamilyEdges l))) @
     [Lit ''</g><g class="dag-edges">''] @
     (concat (map edge_parts (dlEdges l))) @
     [Lit ''</g><g class="dag-nodes">''] @
     (concat (map (step_node_parts json) (dlNodes l))) @
     [Lit ''</g></g></svg></div>'']\<close>

definition empty_dag_parts :: \<open>part list\<close> where
  \<open>empty_dag_parts =
     [Lit ''<div class="dag-empty">'',
      Lit ''<svg class="dag-empty-icon" viewBox="0 0 24 24" fill="none" stroke="currentColor" stroke-width="1.5">'',
      Lit ''<rect x="3" y="3" width="18" height="18" rx="2" stroke-dasharray="4 4" />'',
      Lit ''<circle cx="8.5" cy="8.5" r="1.5" /><polyline points="21 15 16 10 5 21" /></svg>'',
      Lit ''<p>No step executions recorded for this workflow.</p></div>'']\<close>

text \<open>The whole component: the empty message, or the toolbar over the canvas.\<close>

definition dag_parts :: \<open>(dag_step \<Rightarrow> string) \<Rightarrow> dag_child list \<Rightarrow> dag_view \<Rightarrow> part list\<close> where
  \<open>dag_parts json children v =
     (case v of
        EmptyDAG \<Rightarrow> empty_dag_parts
      | Dag l w h \<Rightarrow>
          [Lit ''<div class="dag-container" role="region" aria-label="Workflow Execution Steps DAG" id="dag-container">''] @
          dag_toolbar (children \<noteq> []) @ dag_canvas json children l w h @ [Lit ''</div>''])\<close>

section \<open>Pieces that keep their tags\<close>

lemma harmless_escape [simp]: "harmless (escape_text s)"
  using set_escape_text [of s] by (auto simp: harmless_def list_all_iff)

lemma harmless_ellipsis [simp]: "harmless ellipsis"
  by code_simp

lemma harmless_truncate [simp]: "harmless s \<Longrightarrow> harmless (truncate_text s n)"
  by (simp add: truncate_text_def harmless_part)

lemma harmless_ms [simp]: "harmless (ms_text ms)"
  by (simp add: ms_text_def)

lemma harmless_step_duration [simp]: "harmless (getStepDurationText g s)"
  by (simp add: getStepDurationText_def Let_def)

lemma harmless_meta [simp]:
  "harmless (statusClass (getStepStatusMeta s))" "harmless (statusText (getStepStatusMeta s))" "harmless (statusColor (getStepStatusMeta s))"
  by (simp_all add: getStepStatusMeta_def Let_def)

lemma harmless_status_names [simp]: "harmless (getWorkflowStatusColor st)" "harmless (getOutcomeClass st)" "harmless (getMarkerSuffix st)"
  by (simp_all add: getWorkflowStatusColor_def getOutcomeClass_def getMarkerSuffix_def Let_def)

definition plain_node :: "dag_node \<Rightarrow> bool" where
  "plain_node nd \<longleftrightarrow> harmless (statusClass (ndMeta nd)) \<and> harmless (statusText (ndMeta nd)) \<and> harmless (statusColor (ndMeta nd))
     \<and> harmless (ndId nd) \<and> harmless (ndName nd) \<and> harmless (ndDuration nd)"

definition plain_card :: "dag_card \<Rightarrow> bool" where
  "plain_card cd \<longleftrightarrow> harmless (cdTitle cd) \<and> harmless (cdColor cd) \<and> harmless (cdMeta cd)"

definition plain_layout :: "dag_layout \<Rightarrow> bool" where
  "plain_layout l \<longleftrightarrow> list_all plain_node (dlNodes l) \<and> list_all plain_card (dlCards l)
     \<and> list_all (\<lambda>e. harmless (feClass e) \<and> harmless (feMarker e)) (dlFamilyEdges l)"

lemma whole_node: "plain_node nd \<Longrightarrow> whole (step_node_parts json nd)"
  by (simp add: plain_node_def whole_def step_node_parts_def)

lemma whole_edge: "whole (edge_parts e)"
  by (simp add: whole_def edge_parts_def)

lemma whole_root_card: "plain_card cd \<Longrightarrow> whole (root_card_parts cd)"
  by (simp add: plain_card_def whole_def root_card_parts_def)

lemma whole_child_card: "plain_card cd \<Longrightarrow> whole (child_card_parts cd child)"
  by (simp add: plain_card_def whole_def child_card_parts_def)

lemma whole_family_edge: "harmless (feClass e) \<and> harmless (feMarker e) \<Longrightarrow> whole (family_edge_parts e)"
  by (simp add: whole_def family_edge_parts_def)

lemma whole_chrome: "whole (dag_toolbar b)" "whole arrow_markers" "whole empty_dag_parts"
  by (simp_all add: whole_def dag_toolbar_def arrow_markers_def arrow_marker_def empty_dag_parts_def)

lemma whole_dag_cards: "list_all plain_card cards \<Longrightarrow> whole (dag_cards_parts children cards)"
  by (cases cards) (auto simp: dag_cards_parts_def list_all_iff dest: set_zip_leftD intro!: whole_append whole_concat whole_root_card whole_child_card)

lemma whole_canvas: "plain_layout l \<Longrightarrow> whole (dag_canvas json children l w h)"
  unfolding dag_canvas_def plain_layout_def
  by (intro whole_append whole_concat whole_dag_cards whole_chrome)
    (auto simp: list_all_iff whole_lit intro: whole_node whole_edge whole_family_edge)

section \<open>The layout holds only plain text\<close>

lemma plain_row: "\<forall>s\<in>set steps. harmless (step_label s) \<Longrightarrow> list_all plain_node (row_nodes g x y steps)"
  by (auto simp: list_all_iff row_nodes_def renderStepNodeSvg_def plain_node_def)

lemma set_sort_steps [simp]: "set (sort_steps ss) = set ss"
  by (simp add: sort_steps_def)

lemma plain_add_child:
  "plain_layout (snd acc) \<Longrightarrow> \<forall>s\<in>set (dcSteps c). harmless (step_label s) \<Longrightarrow> plain_layout (snd (add_child g coords y c acc))"
  by (simp add: add_child_def Let_def plain_layout_def plain_row plain_card_def split: option.split)

lemma plain_children:
  "plain_layout (snd acc) \<Longrightarrow> \<forall>c\<in>set cs. \<forall>s\<in>set (dcSteps c). harmless (step_label s) \<Longrightarrow>
     plain_layout (snd (fold (add_child g coords y) cs acc))"
  by (induction cs arbitrary: acc) (simp_all add: plain_add_child)

lemma plain_root: "\<forall>s\<in>set steps. harmless (step_label s) \<Longrightarrow> plain_layout (root_layout g b steps)"
  by (simp add: root_layout_def Let_def plain_layout_def plain_row)

lemma plain_root_card: "plain_layout l \<Longrightarrow> plain_layout (root_card wfi n l)"
  by (simp add: root_card_def Let_def plain_layout_def plain_card_def)

lemma whole_dag:
  assumes "\<forall>s\<in>set steps \<union> (\<Union>c\<in>set children. set (dcSteps c)). harmless (step_label s)"
  shows "whole (dag_parts json children (renderWorkflowDAG g wfi steps children))"
proof (cases "steps = [] \<and> children = []")
  case True
  then show ?thesis by (simp add: renderWorkflowDAG_def dag_parts_def whole_chrome)
next
  case False
  define l0 where "l0 = root_layout g (children \<noteq> []) (sort_steps steps)"
  define l1 where "l1 = (if children \<noteq> [] then root_card wfi (length steps) l0 else l0)"
  define l2 where "l2 = snd (fold (add_child g (parent_coords (start_x (children \<noteq> [])) (sort_steps steps)) (dlMaxY l1 + 60)) children (24, l1))"
  have "plain_layout l1" using assms by (simp add: l0_def l1_def plain_root plain_root_card)
  then have "plain_layout l2" using assms unfolding l2_def by (intro plain_children) auto
  moreover have "renderWorkflowDAG g wfi steps children = Dag l2 (max (dlMaxX l2 + 60) 780) (max (dlMaxY l2 + 60) 180)"
    using False by (auto simp: renderWorkflowDAG_def Let_def l0_def l1_def l2_def)
  ultimately show ?thesis
    unfolding dag_parts_def by (simp only: dag_view.case) (intro whole_append whole_canvas whole_chrome, simp_all add: whole_lit)
qed

section \<open>Properties\<close>

text \<open>
  C17: The step graph keeps its tags: whatever the names, outputs and errors of the steps and the names and identifiers of the child
  workflows are, the tags of its markup are those of the templates with every value left out, and the markup ends outside any tag.
  The ids of the steps, which the code inserts as they are, are taken to be numbers.
\<close>

theorem dag_markup_safe:
  assumes "\<forall>s\<in>set steps \<union> (\<Union>c\<in>set children. set (dcSteps c)). \<exists>n. step_label s = show_num n"
  shows "structure_of InText (markup (dag_parts json children (renderWorkflowDAG g wfi steps children)))
      = structure_of InText (markup (map blank (dag_parts json children (renderWorkflowDAG g wfi steps children))))
    \<and> run_html InText (markup (dag_parts json children (renderWorkflowDAG g wfi steps children))) = InText"
proof -
  have "whole (dag_parts json children (renderWorkflowDAG g wfi steps children))"
    using assms by (intro whole_dag) (metis harmless_num)
  then show ?thesis using placed_structure [of InText "dag_parts json children (renderWorkflowDAG g wfi steps children)"]
    by (simp add: whole_def)
qed

definition sample_step :: "jsval \<Rightarrow> string \<Rightarrow> dag_step" where
  "sample_step i nm = \<lparr>dsStepId = i, dsFunctionId = JUndef, dsFunction_id = JUndef, dsStepName = Some nm, dsName = None,
     dsFunctionName = None, dsStep_name = None, dsStatus = Some ''SUCCESS'', dsError = JUndef, dsStartedAt = None, dsCompletedAt = None,
     dsDurationMs = JUndef, dsDuration_ms = JUndef, dsChildWorkflowId = None, dsChild_workflow_id = None, dsOutput = JUndef\<rparr>"

theorem dag_markup_safe_witness:
  "run_html InText (markup (dag_parts (\<lambda>s. ''{}'') []
     (renderWorkflowDAG (\<lambda>s. Fin 0) \<lparr>wiName = None, wiId = None, wiStatus = None\<rparr> [sample_step (JNum (Fin 1)) ''<b>'']  []))) = InText"
  using dag_markup_safe [of "[sample_step (JNum (Fin 1)) ''<b>'']" "[]"] by (auto simp: sample_step_def step_label_def nullish_def)

text \<open>
  The label of a node is cut after it was escaped, so a name of twenty characters, which would fit, loses its end when one of
  them is escaped, and the cut can fall inside the reference, which is then shown as text.
\<close>

theorem dag_label_cut_in_reference:
  "truncate_text (step_title (sample_step i ''charge & notify user'')) 20 = ''charge & notify user''
   \<and> html_decode (ndName (renderStepNodeSvg g (sample_step i ''charge & notify user'') x y)) = ''charge & notify'' @ ellipsis
   \<and> html_decode (ndName (renderStepNodeSvg g (sample_step i ''reserve a stock & go'') x y)) = ''reserve a stock &am'' @ ellipsis"
  by (simp add: sample_step_def step_title_def renderStepNodeSvg_def truncate_text_def escape_char_def char_refs_def starts_with_def
      ellipsis_def str_or_def)

end
