(* ===== verification/Wiki_Markup.thy ===== *)
theory Wiki_Markup
  imports Wiki_Search Templates
begin

text \<open>
  The markup of the wiki search dialog, \<open>site/internal/sitewiki/search.js\<close>: the initial state, the list of results with
  its highlighted titles and snippets, and the message for no results. Whatever the index and the query hold, the only tags are
  those of the code, the marks around matches included.
\<close>

section \<open>Templates\<close>

definition initial_parts :: \<open>part list\<close> where
  \<open>initial_parts =
     [Lit ''<div class="search-empty-state"><p>Type a search term or browse documentation topics...</p>'',
      Lit ''<div class="search-quick-links"><span>Popular:</span>'', Lit ''<a href="/wiki/usage/quickstart.html">Quickstart</a>'',
      Lit ''<a href="/wiki/protocol/executor-ws.html">Protocol Spec</a>'',
      Lit ''<a href="/wiki/architecture/recovery.html">Lease Fencing</a>'',
      Lit ''<a href="/wiki/adr/0011-dual-engine-storage-architecture.html">Dual Engine</a></div></div>'']\<close>

definition no_results_parts :: \<open>string \<Rightarrow> part list\<close> where
  \<open>no_results_parts query =
     [Lit ''<div class="search-empty-state"><p>No results found for "<b>'', Txt (escapeHTML (Some query)), Lit ''</b>"</p>'',
      Lit ''<p class="search-empty-hint">Try searching for keywords like <code>quickstart</code>,'',
      Lit '' <code>fencing</code>, <code>websocket</code>, or <code>storage</code>.</p></div>'']\<close>

definition mark_parts :: \<open>bool \<times> string \<Rightarrow> part list\<close> where
  \<open>mark_parts t = (if fst t then [Lit ''<mark class="search-match">'', Txt (snd t), Lit ''</mark>''] else [Txt (snd t)])\<close>

definition highlight_parts :: \<open>string \<Rightarrow> string list \<Rightarrow> part list\<close> where
  \<open>highlight_parts txt terms =
     (if txt = [] \<or> terms = [] then [Txt (escapeHTML (Some txt))]
      else concat (map mark_parts (mark_tokens (map (\<lambda>t. escapeHTML (Some t)) terms) (escapeHTML (Some txt)))))\<close>

definition snippet_parts :: \<open>string \<Rightarrow> string list \<Rightarrow> part list\<close> where
  \<open>snippet_parts content terms =
     (if content = [] then []
      else case first_pos (to_lower content) terms of
             None \<Rightarrow> highlight_parts (take 110 content @ (if length content > 110 then ''...'' else [])) terms
           | Some p \<Rightarrow>
               (let start = p - 35; fin = min (length content) (p + 95)
                in [Lit (if start > 0 then ''...'' else [])] @ highlight_parts (js_slice start fin content) terms @
                   [Lit (if fin < length content then ''...'' else [])]))\<close>

definition result_parts :: \<open>string list \<Rightarrow> nat \<Rightarrow> search_entry \<Rightarrow> part list\<close> where
  \<open>result_parts terms i e =
     [Lit ''<a href="'', Txt (escapeHTML (Some (enU e))), Lit ''" class="search-result-item'',
      Lit (if i = 0 then '' selected'' else []), Lit ''" role="option" aria-selected="'',
      Lit (if i = 0 then ''true'' else ''false''), Lit ''" data-index="'', Txt (show_nat i),
      Lit ''"> <div class="search-result-top"> <span class="search-result-section">'', Txt (escapeHTML (Some (enS e))),
      Lit ''</span> <span class="search-result-sep">/</span> <span class="search-result-doc">'', Txt (escapeHTML (Some (enD e))),
      Lit ''</span> </div> <div class="search-result-title"> <svg class="search-result-icon" width="14" height="14"'',
      Lit '' viewBox="0 0 24 24" fill="none" stroke="currentColor" stroke-width="2" aria-hidden="true">'',
      Lit ''<path d="M14 2H6a2 2 0 0 0-2 2v16a2 2 0 0 0 2 2h12a2 2 0 0 0 2-2V8z"/>'',
      Lit ''<polyline points="14 2 14 8 20 8"/></svg> <span>''] @
     (highlight_parts (str_or (enT e) (enD e)) terms) @
     [Lit ''</span> </div>''] @
     (if extractSnippet (enC e) terms \<noteq> [] then[Lit '' <div class="search-result-snippet">''] @ snippet_parts (enC e) terms @ [Lit ''</div>''] else []) @
     [Lit ''</a>'']\<close>

text \<open>What \<open>renderResults\<close> writes for a list of results.\<close>

definition results_parts :: \<open>string list \<Rightarrow> string \<Rightarrow> search_entry list \<Rightarrow> part list\<close> where
  \<open>results_parts terms query results =
     (if results = [] then no_results_parts query
      else [Lit ''<div class="search-results-list" role="listbox">''] @
        concat (map2 (result_parts terms) [0..<length results] results) @ [Lit ''</div>''])\<close>

text \<open>The marking of the selected item: the items of the list with whether each is selected.\<close>

definition updateSelection :: "int \<Rightarrow> bool list \<Rightarrow> bool list" where
  "updateSelection selected items = map (\<lambda>i. int i = selected) [0..<length items]"

section \<open>Pieces that keep their tags\<close>

lemma mark_parts_text: "markup (mark_parts t) = mark t"
  by (simp add: mark_parts_def mark_def dq_def)

lemma highlight_markup: "markup (highlight_parts txt terms) = highlight txt terms"
proof -
  have "markup (concat (map mark_parts ts)) = concat (map mark ts)" for ts
    by (induction ts) (simp_all add: mark_parts_text)
  then show ?thesis by (simp add: highlight_parts_def highlight_def)
qed

lemma snippet_markup: "markup (snippet_parts content terms) = extractSnippet content terms"
  by (simp add: snippet_parts_def extractSnippet_def highlight_markup Let_def split: option.split)

lemma harmless_wiki [simp]: "harmless (escapeHTML (Some s))"
  using set_escape_text [of s] by (auto simp: escapeHTML_def harmless_def list_all_iff)

lemma harmless_tokens: "harmless s \<Longrightarrow> t \<in> set (mark_tokens ts s) \<Longrightarrow> harmless (snd t)"
proof -
  assume "harmless s" "t \<in> set (mark_tokens ts s)"
  moreover have "set (snd t) \<subseteq> set (concat (map snd (mark_tokens ts s)))" using calculation(2) by auto
  ultimately show ?thesis unfolding mark_tokens_text by (auto simp: harmless_def list_all_iff)
qed

lemma whole_mark: "harmless (snd t) \<Longrightarrow> whole (mark_parts t)"
  by (simp add: mark_parts_def whole_def)

lemma whole_highlight [simp]: "whole (highlight_parts txt terms)"
  unfolding highlight_parts_def
  by (intro whole_if whole_concat ballI whole_mark) (auto simp: whole_Txt intro: harmless_tokens [OF harmless_wiki])

lemma whole_snippet [simp]: "whole (snippet_parts content terms)"
  unfolding snippet_parts_def Let_def
  by (intro whole_if whole_option whole_append) (simp_all add: whole_lit)

lemma whole_result: "whole (result_parts terms i e)"
  unfolding result_parts_def by (intro whole_append whole_if) (simp_all add: whole_lit)

lemma whole_messages: "whole initial_parts" "whole (no_results_parts query)"
  by (simp_all add: whole_def initial_parts_def no_results_parts_def)

lemma whole_results: "whole (results_parts terms query results)"
  unfolding results_parts_def
  by (intro whole_if whole_append whole_concat whole_messages) (auto simp: whole_lit intro: whole_result)

section \<open>The selected item\<close>

lemma updateSelection_one:
  "0 \<le> selected \<Longrightarrow> selected < int (length items) \<Longrightarrow> count_list (updateSelection selected items) True = 1"
proof -
  assume a: "0 \<le> selected" "selected < int (length items)"
  have "count_list (map (\<lambda>i. int i = selected) xs) True = count_list xs (nat selected)" for xs
    using a(1) by (induction xs) auto
  moreover have "count_list [0..<n] k = (if k < n then 1 else 0)" for n k :: nat by (induction n) auto
  then have "count_list [0..<length items] (nat selected) = 1" using a by (simp add: nat_less_iff)
  ultimately show ?thesis by (simp add: updateSelection_def)
qed

section \<open>Properties\<close>

text \<open>
  C18: The search dialog keeps its tags: for every query and every index the markup it shows has the tags of the templates and
  the marks around the matches and no others, ends outside any tag, and its titles and snippets are the highlighted texts.
\<close>

theorem search_markup_safe:
  "structure_of InText (markup (results_parts terms query results)) = structure_of InText (markup (map blank (results_parts terms query results)))
   \<and> run_html InText (markup (results_parts terms query results)) = InText
   \<and> markup (highlight_parts txt terms) = highlight txt terms
   \<and> markup (snippet_parts txt terms) = extractSnippet txt terms"
  using whole_results [of terms query results] placed_structure [of InText "results_parts terms query results"]
  by (simp add: whole_def highlight_markup snippet_markup)

end
