(* ===== verification/Spec2Isabelle.thy ===== *)
theory Spec2Isabelle
  imports Console_Dispatch Screen_Loads Api_Types Metrics_Screen Wiki_Search Playground Embedded_Console Build_Assets Sample_App
    Fleet_Markup Dag_Markup Wiki_Markup
begin

text \<open>
  \<^bold>\<open>The JavaScript of DBOS Relay: web console, playground, wiki search and sample application.\<close>

  The program. Relay is a server for durable workflows; its JavaScript part is a single-page console
  (\<open>console/src/app.js\<close> with the components \<open>StatusPill.js\<close>, \<open>JsonViewer.js\<close> and \<open>WorkflowDAG.js\<close>
  and the API client \<open>client.ts\<close>), the script that bundles it (\<open>console/build.js\<close>), an in-browser playground
  (\<open>site/playground/playground.js\<close>) that embeds the console in a frame in front of a mock API
  (\<open>site/playground/relay-bridge.js\<close>), the search dialog of the documentation site
  (\<open>site/internal/sitewiki/search.js\<close>), and a sample application for the server's test cells
  (\<open>examples/typescript/src/index.ts\<close>), which stands apart from the rest. The console calls the API client, the client calls \<open>fetch\<close>;
  in the playground \<open>fetch\<close> and \<open>EventSource\<close> are the bridge's replacements, and the playground's
  checkout run writes the rows the bridge reads and moves the frame to its workflow by the location hash.

  \<^bold>\<open>Theories.\<close>

  \<^item> \<open>Prelude\<close>: JavaScript values, numbers and strings, association lists for \<open>Map\<close>, storage and dictionary
    objects, \<open>encodeURIComponent\<close> with UTF-8, paths; the interfaces \<open>keyed_store\<close> (a dictionary) and
    \<open>event_machine\<close> (a component whose events keep an invariant).
  \<^item> \<open>Html_Text\<close>: \<open>escapeHtml\<close> of the console, its components and the wiki, \<open>truncate\<close>, \<open>renderStatusPill\<close>; the
    interface \<open>markup_escaper\<close>, met by both escapers.
  \<^item> \<open>Console_State\<close>, \<open>Console_Live\<close>, \<open>Console_Nav\<close>, \<open>Console_Actions\<close>, \<open>Console_Dispatch\<close>: the state of
    \<open>DashboardApp\<close> as a record (fields under the names of the code; browser storage, timers, event sources, the dialog root
    and the list of effects are part of it), polling and streaming, routing and selection, every operator action
    with its confirmation and its failure, and the delegated document listeners.
  \<^item> \<open>Formatters\<close>, \<open>Metrics\<close>, \<open>Console_Screens\<close>, \<open>Console_Admin\<close>, \<open>Metrics_Screen\<close>: the
    screens, as functions from the state and the replies of the server to what is drawn, with the outcomes
    error, missing executor and sign-in.
  \<^item> \<open>Workflow_Dag\<close>, \<open>Json_Viewer\<close>, \<open>Wiki_Search\<close>: the graph layout, the highlighter, the search dialog
    with its microtasks.
  \<^item> \<open>Templates\<close>, \<open>Fleet_Markup\<close>, \<open>Dag_Markup\<close>, \<open>Wiki_Markup\<close>: template strings as lists of constant text, escaped values and
    values inserted as they are, with a reader of markup (tags, quoted values, attributes) that stands for the browser; the
    templates of the fleet screen, the workflow list, the step graph and the search dialog. The interface \<open>workflow_opener\<close> is met by the
    two kinds of row that open a workflow.
  \<^item> \<open>Api_Client\<close>: each request of \<open>client.ts\<close> with URL, headers and body, and what becomes of an answer.
  \<^item> \<open>Bridge\<close>, \<open>Bridge_Fetch\<close>: the mock API, one definition for each block of the replaced \<open>fetch\<close>, the
    initial directory and the order of the blocks; \<open>bridge_change\<close> is the abstract specification of what
    a request may do to the directory, and every handler is proved to refine it. \<open>Embedded_Console\<close>: the
    replaced \<open>EventSource\<close> and the channel.
  \<^item> \<open>Playground\<close>: the controller of the playground page; a run is a list of awaited actions, and
    the events of the page interleave with the turns of the pending tasks.
  \<^item> \<open>Client_Bridge\<close>, \<open>Console_Bridge\<close> and this theory: the composition of console, client, bridge and playground.
  \<^item> \<open>Screen_Loads\<close>: the content area of the console while screens load. The effects the operations of the dashboard emit
    are performed on a page with its content element and the loads under way, interleaved with the answers in any order.
  \<^item> \<open>Api_Types\<close>: the declarations of \<open>console/src/lib/api/types.ts\<close> as types of JSON values, the answers of the mock
    API as such values, and a typed directory as an invariant of it.
  \<^item> \<open>Build_Assets\<close>: the build script on directories.
  \<^item> \<open>Sample_App\<close>: the sample application: recording a step with retries against a clock, the order workflow, the HTTP
    endpoints, the launch.

  \<^bold>\<open>What is shown.\<close> For the console: invariants of every reachable state (one credential in memory, client and
    session storage; only the selected timer or stream exists; an open confirmation describes what its button runs), no
    destructive call without its confirmation, no credential carried to another organization, and what each
    button dispatches to. For the screens: conservation of the metric totals, a layout without overlaps that
    shows every step, highlighting that adds no markup, exactness of the fleet and queue screens. For the templates: no data of the server
    changes a tag of the fleet screen, the step graph (with numeric step ids) or the search dialog; a row of the workflow list is safe exactly
    for identifiers without an apostrophe; a click on a row, read from its markup, opens its workflow. For the client:
    a URL read back gives what the operation was called with. For the bridge: an invariant of the directory, an audit entry for
    each change, the life cycles of roles, grants and tokens, complete audit pages, bounds of the recommendation.
    For the playground: one run at a time, which ends within 36 turns of its task, and the records it leaves.
    Across components: settings and policies saved through the console are read back, metric filters are honoured
    end to end, a run is shown where it was recorded, which requests the mock API does not answer, and which of its
    answers have the types the client declares. For the content area: no screen of a route that was left is ever shown, and the page settles
    when answers come in order; a late answer can overwrite a newer one. For the sample application: a step is recorded or an error is
    logged within bounded time, an outage that ends in time is survived, and the launch uses its budget of attempts. A property
    whose name speaks of something wrong (a dead button, a hanging search, a late answer that wins) is a theorem about the code as it is.

  \<^bold>\<open>Parameters and bounds.\<close> Code outside the repository is a parameter: the database (\<open>db\<close> of the bridge, \<open>engine\<close> of the
    playground, with the hypothesis \<open>implements\<close> that rows with new keys are accepted and updates act by key), the locale,
    the clock and date arithmetic, \<open>JSON.parse\<close> and the pretty printer in the viewer, the sort of the audit log, esbuild, SHA-256 and
    the syntax check; and for the sample application the DBOS runtime, the database, the clock and the random source. A reply of the server is an argument, an error or a value, so that every
    \<open>catch\<close> is a branch. No definition uses fuel; the 36 turns of a run are the 35 actions of its longest
    script and the last turn that ends the task; the retry loop of the sample application terminates because a timer
    takes at least a millisecond. Numbers of metrics are rationals together with NaN and the infinities: rounding of
    binary floating point is not modelled. Strings are lists of characters with codes below 256; other
    characters of the Unicode range are not represented.

  \<^bold>\<open>Not modelled.\<close> Constant markup of the other screens, the line breaks and indentation of templates, focus, scrolling and Prism colouring; the durations of the playground's
    pauses; the generated bundles (\<open>dist/assets\<close>, \<open>site/playground/assets\<close>), vendored Prism and Swagger UI; the
    settings of the sample application's connection pool; and the Go server with its store, whose answers are arguments here.
\<close>

section \<open>From a checkout run to the console's detail screen\<close>

lemma root_id_chars: "list_all uri_unreserved (root_id n)"
proof -
  have "is_digit c \<Longrightarrow> uri_unreserved c" for c by (simp add: uri_unreserved_def)
  then have "list_all uri_unreserved (show_nat n)" using show_nat_digits by (auto simp: list_all_iff)
  then show ?thesis by (simp add: root_id_def uri_unreserved_def is_alpha_def)
qed

lemma root_id_encoded: "encode_uri_component (root_id n) = root_id n"
  by (rule fixed_segment [OF root_id_chars])

lemma root_id_slash: "CHR ''/'' \<notin> set (root_id n)"
  using root_id_chars [of n] by (auto simp: list_all_iff uri_unreserved_def is_alpha_def is_digit_def)

lemma root_id_ordinary: "ordinary (root_id n)"
proof -
  have l: "is_digit (last (root_id n))" using show_nat_digits [of "last (show_nat n)" n] by (simp add: root_id_def)
  have "\<not> ends_with (root_id n) w" if "w \<in> {''.js'', ''.css'', ''.svg'', ''.png''}" for w
    using l that by (auto simp: ends_with_iff is_digit_def)
  then show ?thesis using root_id_slash [of n]
    by (simp add: ordinary_def root_id_encoded ordinary_seg_def) (simp add: root_id_def starts_with_def)
qed

text \<open>
  C9: a run is shown where it was recorded. The address a checkout run gives to the console's frame is routed
  to the detail screen of the run's own workflow, and the request the detail screen then makes reaches the mock API's
  query of that identifier: when the database has the row, the answer is that row.
\<close>

theorem run_opens_its_workflow:
  assumes "ordinary org" "ordinary app" "qWorkflow (cxDb cx) (root_id n) = Some (r # rs)"
  shows "\<exists>h. Hash h \<in> set (run_start n) \<and>
    (let c' = handleRouting (c\<lparr>locationHash := h\<rparr>) in
       currentRoute c' = ''workflow-detail'' \<and> selectedWorkflowId c' = Some (root_id n) \<and>
       bridge_fetch cx (delivered (api_getWorkflow org app (the (selectedWorkflowId c')))) st =
         (st, Response 200 (BWorkflow (workflow_of_row cx (r\<lparr>rwAppVersion := None, rwApplicationVersion := None\<rparr>)))))"
proof (intro exI conjI)
  let ?h = "''#/workflow/'' @ root_id n" and ?r = "api_getWorkflow org app (root_id n)"
  show "Hash ?h \<in> set (run_start n)" by (simp add: run_start_def)
  have n: "root_id n \<noteq> []" by (simp add: root_id_def)
  have "selectedWorkflowId (handleRouting (c\<lparr>locationHash := ?h\<rparr>)) = Some (root_id n) \<and>
      currentRoute (handleRouting (c\<lparr>locationHash := ?h\<rparr>)) = ''workflow-detail''"
    using handleRouting_workflow [of "c\<lparr>locationHash := ?h\<rparr>" "root_id n"] n by (simp add: root_id_encoded)
  moreover have s: "cqSegs ?r = map encode_uri_component [''v2'', ''orgs'', org, ''apps'', app, ''workflows'', root_id n]"
    by (simp add: api_getWorkflow_def api_segs)
  have pl: "plain (delivered ?r)" by (rule deliver(1) [OF s]) (use assms(1,2) root_id_ordinary in \<open>simp_all add: api_getWorkflow_def get_of_def\<close>)
  have d: "delivered ?r = \<lparr>rqMethod = cqMethod ?r, rqPath = mk_path (map encode_uri_component [''v2'', ''orgs'', org, ''apps'', app, ''workflows'', root_id n]),
     rqQuery = cqQuery ?r, rqBody = (case cqBody ?r of None \<Rightarrow> JObj [] | Some v \<Rightarrow> v)\<rparr>"
    by (rule deliver(2) [OF s]) (use assms(1,2) root_id_ordinary in \<open>simp_all add: api_getWorkflow_def get_of_def\<close>)
  have "bridge_fetch cx (delivered ?r) st =
      (st, Response 200 (BWorkflow (workflow_of_row cx (r\<lparr>rwAppVersion := None, rwApplicationVersion := None\<rparr>))))"
    using early_plain(1) [OF pl, of cx st] assms n unfolding d
    by (simp add: bridge_fetch_def handlers_def earlier_defs path_defs match_mk_path root_id_encoded root_id_slash ok_def)
  ultimately show "let c' = handleRouting (c\<lparr>locationHash := ?h\<rparr>) in
       currentRoute c' = ''workflow-detail'' \<and> selectedWorkflowId c' = Some (root_id n) \<and>
       bridge_fetch cx (delivered (api_getWorkflow org app (the (selectedWorkflowId c')))) st =
         (st, Response 200 (BWorkflow (workflow_of_row cx (r\<lparr>rwAppVersion := None, rwApplicationVersion := None\<rparr>))))"
    by (simp add: Let_def)
qed

theorem run_opens_its_workflow_witness:
  "let row = \<lparr>rwId = root_id 7, rwStatus = Some ''PENDING'', rwName = ''ProcessCheckoutWorkflow'', rwUser = None, rwOutput = None,
         rwError = None, rwDurationMs = None, rwCreatedAt = None, rwUpdatedAt = None, rwAppVersion = None, rwApplicationVersion = None\<rparr>;
       cx = ctx0\<lparr>cxDb := (cxDb ctx0)\<lparr>qWorkflow := (\<lambda>_. Some [row])\<rparr>\<rparr>; st = init_bridge ctx0
   in \<exists>h. Hash h \<in> set (run_start 7) \<and>
    (let c' = handleRouting ((new_console [] [] False [])\<lparr>locationHash := h\<rparr>) in
       currentRoute c' = ''workflow-detail'' \<and> selectedWorkflowId c' = Some (root_id 7) \<and>
       bridge_fetch cx (delivered (api_getWorkflow ''default'' ''shop'' (the (selectedWorkflowId c')))) st =
         (st, Response 200 (BWorkflow (workflow_of_row cx (row\<lparr>rwAppVersion := None, rwApplicationVersion := None\<rparr>)))))"
proof -
  have o': "ordinary ''default''" "ordinary ''shop''" by code_simp+
  show ?thesis unfolding Let_def by (rule run_opens_its_workflow [OF o', unfolded Let_def, where rs = "[]"]) simp
qed

end
